(* ===== verification/Base.thy ===== *)
theory Base
  imports Main "HOL-Library.State_Monad"
begin

text \<open>
  The prelude of the development: the state monad in which the stateful Go code is modelled, the
  weakest-precondition calculus its proofs use, relational rules for "every run of this program
  relates the state before to the state after", and the list operations that stand for the SQL
  statements \<open>UPDATE \<dots> WHERE\<close> and \<open>SELECT \<dots> WHERE\<close>.
\<close>

named_theorems wp_rules \<open>weakest preconditions of the primitives of the world\<close>
named_theorems rel_rules \<open>relations between the state before and after a program\<close>
named_theorems query_defs \<open>definitions of the SQL queries\<close>

section \<open>State-passing programs\<close>

abbreviation ret :: "'a \<Rightarrow> ('s, 'a) state" where
  "ret \<equiv> State_Monad.return"

text \<open>Reading a component of the state and applying a change to it.\<close>

definition gets :: "('s \<Rightarrow> 'a) \<Rightarrow> ('s, 'a) state" where
  "gets f = State (\<lambda>s. (f s, s))"

definition modify :: "('s \<Rightarrow> 's) \<Rightarrow> ('s, unit) state" where
  "modify f = State (\<lambda>s. ((), f s))"

lemma run_state_gets [simp]: "run_state (gets f) s = (f s, s)"
  by (simp add: gets_def)

lemma run_state_modify [simp]: "run_state (modify f) s = ((), f s)"
  by (simp add: modify_def)

subsection \<open>Weakest preconditions\<close>

definition wp :: "('s, 'a) state \<Rightarrow> ('a \<Rightarrow> 's \<Rightarrow> bool) \<Rightarrow> 's \<Rightarrow> bool" where
  "wp m Q s \<longleftrightarrow> (case run_state m s of (x, s') \<Rightarrow> Q x s')"

lemma wpI: "(\<And>x s'. run_state m s = (x, s') \<Longrightarrow> Q x s') \<Longrightarrow> wp m Q s"
  by (simp add: wp_def split: prod.split)

lemma wpD: "wp m Q s \<Longrightarrow> run_state m s = (x, s') \<Longrightarrow> Q x s'"
  by (simp add: wp_def)

lemma wp_bind [wp_rules, simp]:
  "wp (State_Monad.bind m f) Q s = wp m (\<lambda>x. wp (f x) Q) s"
  by (simp add: wp_def split: prod.split)

lemma wp_ret [wp_rules, simp]: "wp (ret x) Q s = Q x s"
  by (simp add: wp_def)

lemma wp_gets [wp_rules, simp]: "wp (gets f) Q s = Q (f s) s"
  by (simp add: wp_def)

lemma wp_modify [wp_rules, simp]: "wp (modify f) Q s = Q () (f s)"
  by (simp add: wp_def)

lemma wp_State [wp_rules]: "wp (State f) Q s = (case f s of (x, s') \<Rightarrow> Q x s')"
  by (simp add: wp_def)

lemma wp_mono: "wp m P s \<Longrightarrow> (\<And>x s'. P x s' \<Longrightarrow> Q x s') \<Longrightarrow> wp m Q s"
  by (auto simp: wp_def)

lemma wp_conj: "wp m (\<lambda>x s'. P x s' \<and> Q x s') s = (wp m P s \<and> wp m Q s)"
  by (auto simp: wp_def)

lemma wp_run: "wp m Q s = Q (fst (run_state m s)) (snd (run_state m s))"
  by (simp add: wp_def split_beta)

subsection \<open>Relations between the state before and after\<close>

text \<open>
  \<open>rel R m\<close>: every run of \<open>m\<close> takes a state to one that \<open>R\<close> relates to it. For a reflexive and
  transitive \<open>R\<close> (an evolution of the database, say) it composes along the program.
\<close>

definition rel :: "('s \<Rightarrow> 's \<Rightarrow> bool) \<Rightarrow> ('s, 'a) state \<Rightarrow> bool" where
  "rel R m \<longleftrightarrow> (\<forall>s. R s (snd (run_state m s)))"

lemma relI: "(\<And>s. wp m (\<lambda>_. R s) s) \<Longrightarrow> rel R m"
  by (simp add: rel_def wp_def split_beta)

lemma relD: "rel R m \<Longrightarrow> run_state m s = (x, s') \<Longrightarrow> R s s'"
  by (metis rel_def snd_conv)

lemma rel_wp: "rel R m \<Longrightarrow> wp m (\<lambda>_. R s) s"
  by (simp add: rel_def wp_def split_beta)

lemma rel_ret: "reflp R \<Longrightarrow> rel R (ret x)"
  by (simp add: rel_def reflpD)

lemma rel_gets: "reflp R \<Longrightarrow> rel R (gets f)"
  by (simp add: rel_def reflpD)

lemma rel_bind:
  assumes "transp R" "rel R m" "\<And>x. rel R (f x)"
  shows "rel R (State_Monad.bind m f)"
proof (rule relI)
  fix s
  have "wp m (\<lambda>_. R s) s" by (rule rel_wp [OF assms(2)])
  then show "wp (State_Monad.bind m f) (\<lambda>_. R s) s"
    unfolding wp_bind
    by (rule wp_mono) (metis (no_types, lifting) assms(1,3) rel_wp transpD wp_mono)
qed

lemma rel_modify: "(\<And>s. R s (f s)) \<Longrightarrow> rel R (modify f)"
  by (simp add: rel_def)

lemma rel_mono: "rel R m \<Longrightarrow> (\<And>s t. R s t \<Longrightarrow> R' s t) \<Longrightarrow> rel R' m"
  by (simp add: rel_def)

section \<open>Tables as lists of rows\<close>

text \<open>
  \<open>upd_where p f rows\<close> is \<open>UPDATE \<dots> SET f WHERE p\<close>: the number of rows affected and the table
  afterwards. \<open>upd_where\<close> keeps the order and the number of the rows.
\<close>

definition upd_where :: "('r \<Rightarrow> bool) \<Rightarrow> ('r \<Rightarrow> 'r) \<Rightarrow> 'r list \<Rightarrow> 'r list" where
  "upd_where p f rows = map (\<lambda>r. if p r then f r else r) rows"

definition count_where :: "('r \<Rightarrow> bool) \<Rightarrow> 'r list \<Rightarrow> nat" where
  "count_where p rows = length (filter p rows)"

lemma count_where_zero: "count_where p rows = 0 \<longleftrightarrow> (\<forall>r \<in> set rows. \<not> p r)"
  by (auto simp: count_where_def filter_empty_conv)

lemma count_where_pos: "0 < count_where p rows \<longleftrightarrow> (\<exists>r \<in> set rows. p r)"
  using count_where_zero [of p rows] by auto

lemma upd_where_none: "\<forall>r \<in> set rows. \<not> p r \<Longrightarrow> upd_where p f rows = rows"
  by (simp add: upd_where_def map_idI)

lemma set_upd_where: "set (upd_where p f rows) = (\<lambda>r. if p r then f r else r) ` set rows"
  by (simp add: upd_where_def)

lemma all_upd_where:
  "(\<forall>r \<in> set (upd_where p f rows). P r) \<longleftrightarrow> (\<forall>r \<in> set rows. if p r then P (f r) else P r)"
  unfolding upd_where_def set_map ball_simps by (rule ball_cong [OF refl]) simp

lemma map_upd_where: "(\<And>r. p r \<Longrightarrow> g (f r) = g r) \<Longrightarrow> map g (upd_where p f rows) = map g rows"
  by (simp add: upd_where_def)

lemma in_upd_whereE:
  assumes "r' \<in> set (upd_where p f rows)"
  obtains r where "r \<in> set rows" "p r" "r' = f r" | "r' \<in> set rows" "\<not> p r'"
  using assms by (auto simp: set_upd_where split: if_splits)

lemma length_upd_where [simp]: "length (upd_where p f rows) = length rows"
  by (simp add: upd_where_def)

lemma upd_where_append: "upd_where p f (xs @ ys) = upd_where p f xs @ upd_where p f ys"
  by (simp add: upd_where_def)

lemma filter_upd_where_none:
  "(\<And>r. p r \<Longrightarrow> \<not> q (f r)) \<Longrightarrow> filter q (upd_where p f rows) = filter q (filter (\<lambda>r. \<not> p r) rows)"
  by (induction rows) (auto simp: upd_where_def)

text \<open>A table whose key column has no duplicates: at most one row with a given key.\<close>

lemma distinct_map_eq:
  "distinct (map key rows) \<Longrightarrow> r \<in> set rows \<Longrightarrow> r' \<in> set rows \<Longrightarrow> key r = key r' \<Longrightarrow> r = r'"
  by (auto simp: distinct_map inj_on_def)

lemma find_key:
  assumes "distinct (map key rows)" "r \<in> set rows"
  shows "find (\<lambda>x. key x = key r) rows = Some r"
  using assms
proof (induction rows)
  case Nil
  then show ?case by simp
next
  case (Cons a rows)
  then show ?case by (auto simp: image_iff)
qed

lemma find_SomeD: "find p rows = Some r \<Longrightarrow> r \<in> set rows \<and> p r"
  by (auto simp: find_Some_iff)

lemma find_NoneD: "find p rows = None \<Longrightarrow> r \<in> set rows \<Longrightarrow> \<not> p r"
  by (auto simp: find_None_iff)

text \<open>At most one element of a list has a property, counted by position.\<close>

definition at_most_one :: "('r \<Rightarrow> bool) \<Rightarrow> 'r list \<Rightarrow> bool" where
  "at_most_one p rows \<longleftrightarrow> count_where p rows \<le> 1"

lemma count_where_mono:
  "length xs = length ys \<Longrightarrow> (\<And>i. i < length xs \<Longrightarrow> q (ys ! i) \<Longrightarrow> p (xs ! i))
    \<Longrightarrow> count_where q ys \<le> count_where p xs"
proof (induction xs ys rule: list_induct2)
  case Nil
  then show ?case by (simp add: count_where_def)
next
  case (Cons x xs y ys)
  have "count_where q ys \<le> count_where p xs"
    by (rule Cons.IH) (metis Cons.prems Suc_less_eq length_Cons nth_Cons_Suc)
  moreover have "q y \<Longrightarrow> p x" using Cons.prems [of 0] by simp
  ultimately show ?case by (auto simp: count_where_def)
qed

lemma count_upd_where_le:
  assumes "\<And>r. p r \<Longrightarrow> q (f r) \<Longrightarrow> q r"
  shows "count_where q (upd_where p f rows) \<le> count_where q rows"
  by (rule count_where_mono) (auto simp: upd_where_def assms split: if_splits)

lemma count_where_append [simp]: "count_where p (xs @ ys) = count_where p xs + count_where p ys"
  by (simp add: count_where_def)

lemma count_where_single [simp]: "count_where p [x] = (if p x then 1 else 0)"
  by (simp add: count_where_def)

lemma count_upd_where_clear:
  "(\<And>r. q r \<Longrightarrow> p r) \<Longrightarrow> (\<And>r. p r \<Longrightarrow> \<not> q (f r)) \<Longrightarrow> count_where q (upd_where p f rows) = 0"
  by (auto simp: count_where_zero set_upd_where)

text \<open>
  \<open>grows R xs ys\<close>: a table after some inserts and updates in place. The old rows are still there,
  in order, each related by \<open>R\<close> to what it has become.
\<close>

definition grows :: "('r \<Rightarrow> 'r \<Rightarrow> bool) \<Rightarrow> 'r list \<Rightarrow> 'r list \<Rightarrow> bool" where
  "grows R xs ys \<longleftrightarrow> (\<exists>zs ws. ys = zs @ ws \<and> list_all2 R xs zs)"

lemma grows_refl: "reflp R \<Longrightarrow> grows R xs xs"
  unfolding grows_def by (metis append_Nil2 list.rel_refl reflpD)

lemma grows_trans:
  assumes "transp R" "grows R xs ys" "grows R ys zs"
  shows "grows R xs zs"
proof -
  obtain ys1 ys2 where ys: "ys = ys1 @ ys2" "list_all2 R xs ys1"
    using assms(2) by (auto simp: grows_def)
  obtain zs1 zs2 where zs: "zs = zs1 @ zs2" "list_all2 R ys zs1"
    using assms(3) by (auto simp: grows_def)
  obtain u v where uv: "zs1 = u @ v" "list_all2 R ys1 u"
    using zs(2) unfolding ys(1) by (auto simp: list_all2_append1)
  have "list_all2 R xs u"
    using list_all2_trans [of R R R xs ys1 u] ys(2) uv(2) assms(1) by (meson transpD)
  then show ?thesis unfolding grows_def zs(1) uv(1) by auto
qed

lemma grows_upd_where:
  "reflp R \<Longrightarrow> (\<And>r. p r \<Longrightarrow> R r (f r)) \<Longrightarrow> grows R xs (upd_where p f xs)"
  unfolding grows_def upd_where_def
  by (rule exI [of _ "map (\<lambda>r. if p r then f r else r) xs"], rule exI [of _ "[]"])
    (simp add: list_all2_conv_all_nth reflpD)

lemma grows_append: "reflp R \<Longrightarrow> grows R xs (xs @ ws)"
  unfolding grows_def by (metis list.rel_refl reflpD)

lemma grows_memberD:
  assumes "grows R xs ys" "x \<in> set xs"
  obtains y where "y \<in> set ys" "R x y"
  using assms unfolding grows_def
  by (metis in_set_conv_nth list_all2_conv_all_nth nth_append set_append UnCI nth_mem)

lemma grows_length: "grows R xs ys \<Longrightarrow> length xs \<le> length ys"
  by (auto simp: grows_def dest: list_all2_lengthD)

lemma grows_mono: "grows R xs ys \<Longrightarrow> (\<And>x y. R x y \<Longrightarrow> S x y) \<Longrightarrow> grows S xs ys"
  unfolding grows_def by (metis list_all2_mono)

end
