(* ===== verification/GoErrors.thy ===== *)
theory GoErrors
  imports Base "HOL-Library.Sublist"
begin

text \<open>
  Go error values. Every sentinel the repository declares with \<open>errors.New\<close> is a constructor of
  \<open>sentinel\<close> under its own name; the structured errors (\<open>RateLimitedError\<close>, \<open>LockedError\<close>,
  \<open>SessionRevokedError\<close>), the database errors and the wrappers built by \<open>fmt.Errorf\<close> and
  \<open>errors.Join\<close> are constructors of \<open>goerr\<close>. \<open>err_is\<close>, \<open>err_as_\<dots>\<close> and \<open>err_text\<close> are
  \<open>errors.Is\<close>, \<open>errors.As\<close> and \<open>Error()\<close> on them. A Go result \<open>(T, error)\<close> is a value of
  \<open>goerr + 'a\<close>; a bare \<open>error\<close> is \<open>goerr option\<close> or \<open>goerr + unit\<close>.
\<close>

section \<open>Strings\<close>

text \<open>A Go string is a sequence of bytes; \<open>string\<close> is a list of 8-bit characters.\<close>

fun str_contains :: "string \<Rightarrow> string \<Rightarrow> bool" where
  "str_contains [] sub = (sub = [])"
| "str_contains (c # s) sub = (prefix sub (c # s) \<or> str_contains s sub)"

lemma str_contains_sublist: "str_contains s sub = sublist sub s"
proof (induction s)
  case Nil
  then show ?case by simp
next
  case (Cons c s)
  then show ?case by (simp add: sublist_Cons_right)
qed

lemma str_contains_append: "str_contains s sub \<Longrightarrow> str_contains (p @ s @ q) sub"
  unfolding str_contains_sublist by (metis sublist_appendI sublist_order.order.trans)

section \<open>The error values\<close>

datatype sentinel =
    ErrInvalidAdminRole | ErrInvitationTokenNotFound | ErrInvitationTokenConsumeConflict
  | ErrEmailAlreadyRegistered
  | ErrEmailNotVerified | ErrAccountDisabled
  | ErrResetTokenNotFound | ErrResetTokenConsumeConflict
  | ErrInvalidEmail | ErrInvalidPassword
  | ErrTokenNotFound | ErrTokenConsumeConflict
  | ErrInvalidInvitationToken | ErrInvitationTokenExpired
  | ErrPasswordMismatch
  | ErrInvalidResetToken | ErrResetTokenExpired
  | ErrUserNotFound | ErrNotAdminAccount | ErrAlreadyDisabled | ErrLastSuperAdmin
  | ErrRoleAlreadyAssigned
  | ErrAuthenticationFailed
  | ErrRefreshTokenFormatInvalid
  | ErrNotDisabled
  | ErrInvalidRefreshToken | ErrRefreshTokenExpired | ErrRefreshTokenAlreadyUsed
  | ErrRateLimited | ErrMailDeliveryFail
  | ErrInvalidToken | ErrTokenExpired

fun sentinel_text :: "sentinel \<Rightarrow> string" where
  "sentinel_text ErrInvalidAdminRole = ''invalid admin role''"
| "sentinel_text ErrInvitationTokenNotFound = ''invitation token not found''"
| "sentinel_text ErrInvitationTokenConsumeConflict = ''invitation token consume conflict''"
| "sentinel_text ErrEmailAlreadyRegistered = ''email already registered''"
| "sentinel_text ErrEmailNotVerified = ''email not verified''"
| "sentinel_text ErrAccountDisabled = ''account is disabled''"
| "sentinel_text ErrResetTokenNotFound = ''password reset token not found''"
| "sentinel_text ErrResetTokenConsumeConflict = ''password reset token consume conflict''"
| "sentinel_text ErrInvalidEmail = ''invalid email format''"
| "sentinel_text ErrInvalidPassword = ''invalid password length''"
| "sentinel_text ErrTokenNotFound = ''email confirmation token not found''"
| "sentinel_text ErrTokenConsumeConflict = ''email confirmation token consume conflict''"
| "sentinel_text ErrInvalidInvitationToken = ''invalid invitation token''"
| "sentinel_text ErrInvitationTokenExpired = ''invitation token expired''"
| "sentinel_text ErrPasswordMismatch = ''current password mismatch''"
| "sentinel_text ErrInvalidResetToken = ''invalid password reset token''"
| "sentinel_text ErrResetTokenExpired = ''password reset token expired''"
| "sentinel_text ErrUserNotFound = ''target user not found''"
| "sentinel_text ErrNotAdminAccount = ''target is not an admin account''"
| "sentinel_text ErrAlreadyDisabled = ''account already disabled''"
| "sentinel_text ErrLastSuperAdmin = ''cannot disable the last active super_admin''"
| "sentinel_text ErrRoleAlreadyAssigned = ''admin role already assigned''"
| "sentinel_text ErrAuthenticationFailed = ''authentication failed''"
| "sentinel_text ErrRefreshTokenFormatInvalid = ''refresh token format invalid''"
| "sentinel_text ErrNotDisabled = ''account is not disabled''"
| "sentinel_text ErrInvalidRefreshToken = ''invalid refresh token''"
| "sentinel_text ErrRefreshTokenExpired = ''refresh token expired''"
| "sentinel_text ErrRefreshTokenAlreadyUsed = ''refresh token already used''"
| "sentinel_text ErrRateLimited = ''registration rate limit exceeded''"
| "sentinel_text ErrMailDeliveryFail = ''could not send confirmation email''"
| "sentinel_text ErrInvalidToken = ''invalid email confirmation token''"
| "sentinel_text ErrTokenExpired = ''email confirmation token expired''"

text \<open>Durations and times are nanoseconds, as in Go's \<open>time\<close> package.\<close>

type_synonym duration = int
type_synonym time = int

datatype goerr =
    Sentinel sentinel
  | RateLimitedError duration              \<comment> \<open>\<open>RetryAfter\<close>\<close>
  | LockedError duration                   \<comment> \<open>\<open>RetryAfter\<close>\<close>
  | SessionRevokedError string             \<comment> \<open>\<open>Reason\<close>\<close>
  | PgError string string string           \<comment> \<open>SQLSTATE, constraint name, message\<close>
  | NoRows                                 \<comment> \<open>\<open>pgx.ErrNoRows\<close>\<close>
  | DriverError string                     \<comment> \<open>any other error of a driver or a connection\<close>
  | DeadlineExceeded                       \<comment> \<open>\<open>context.DeadlineExceeded\<close>\<close>
  | NewError string                        \<comment> \<open>a local \<open>errors.New\<close>\<close>
  | Wrap string goerr                      \<comment> \<open>\<open>fmt.Errorf("msg: %w", err)\<close>\<close>
  | WrapSuffix goerr string                \<comment> \<open>\<open>fmt.Errorf("%w: %v", err, cause)\<close>\<close>
  | JoinErr goerr goerr                    \<comment> \<open>\<open>errors.Join(a, b)\<close>\<close>

fun err_text :: "goerr \<Rightarrow> string" where
  "err_text (Sentinel s) = sentinel_text s"
| "err_text (RateLimitedError d) = sentinel_text ErrRateLimited"
| "err_text (LockedError d) = ''account locked''"
| "err_text (SessionRevokedError r) = ''session revoked: '' @ r"
| "err_text (PgError code con msg) = ''ERROR: '' @ msg @ '' (SQLSTATE '' @ code @ '')''"
| "err_text NoRows = ''no rows in result set''"
| "err_text (DriverError t) = t"
| "err_text DeadlineExceeded = ''context deadline exceeded''"
| "err_text (NewError t) = t"
| "err_text (Wrap m e) = m @ '': '' @ err_text e"
| "err_text (WrapSuffix e t) = err_text e @ '': '' @ t"
| "err_text (JoinErr a b) = err_text a @ [CHR 0x0A] @ err_text b"

text \<open>\<open>errors.Is(err, sentinel)\<close>: the chain of \<open>Unwrap\<close> is searched. A rate-limit error unwraps
  to \<open>ErrRateLimited\<close>.\<close>

fun err_is :: "goerr \<Rightarrow> sentinel \<Rightarrow> bool" where
  "err_is (Sentinel s') s = (s' = s)"
| "err_is (RateLimitedError d) s = (s = ErrRateLimited)"
| "err_is (Wrap m e) s = err_is e s"
| "err_is (WrapSuffix e t) s = err_is e s"
| "err_is (JoinErr a b) s = (err_is a s \<or> err_is b s)"
| "err_is _ s = False"

fun err_is_deadline :: "goerr \<Rightarrow> bool" where
  "err_is_deadline DeadlineExceeded = True"
| "err_is_deadline (Wrap m e) = err_is_deadline e"
| "err_is_deadline (WrapSuffix e t) = err_is_deadline e"
| "err_is_deadline (JoinErr a b) = (err_is_deadline a \<or> err_is_deadline b)"
| "err_is_deadline _ = False"

text \<open>\<open>errors.As\<close> for the structured errors: the first match along the chain.\<close>

fun err_as_rate_limited :: "goerr \<Rightarrow> duration option" where
  "err_as_rate_limited (RateLimitedError d) = Some d"
| "err_as_rate_limited (Wrap m e) = err_as_rate_limited e"
| "err_as_rate_limited (WrapSuffix e t) = err_as_rate_limited e"
| "err_as_rate_limited (JoinErr a b) =
     (case err_as_rate_limited a of Some d \<Rightarrow> Some d | None \<Rightarrow> err_as_rate_limited b)"
| "err_as_rate_limited _ = None"

fun err_as_locked :: "goerr \<Rightarrow> duration option" where
  "err_as_locked (LockedError d) = Some d"
| "err_as_locked (Wrap m e) = err_as_locked e"
| "err_as_locked (WrapSuffix e t) = err_as_locked e"
| "err_as_locked (JoinErr a b) =
     (case err_as_locked a of Some d \<Rightarrow> Some d | None \<Rightarrow> err_as_locked b)"
| "err_as_locked _ = None"

fun err_as_revoked :: "goerr \<Rightarrow> string option" where
  "err_as_revoked (SessionRevokedError r) = Some r"
| "err_as_revoked (Wrap m e) = err_as_revoked e"
| "err_as_revoked (WrapSuffix e t) = err_as_revoked e"
| "err_as_revoked (JoinErr a b) =
     (case err_as_revoked a of Some d \<Rightarrow> Some d | None \<Rightarrow> err_as_revoked b)"
| "err_as_revoked _ = None"

fun err_as_pg :: "goerr \<Rightarrow> (string \<times> string) option" where
  "err_as_pg (PgError code con msg) = Some (code, con)"
| "err_as_pg (Wrap m e) = err_as_pg e"
| "err_as_pg (WrapSuffix e t) = err_as_pg e"
| "err_as_pg (JoinErr a b) = (case err_as_pg a of Some d \<Rightarrow> Some d | None \<Rightarrow> err_as_pg b)"
| "err_as_pg _ = None"

fun err_is_norows :: "goerr \<Rightarrow> bool" where
  "err_is_norows NoRows = True"
| "err_is_norows (Wrap m e) = err_is_norows e"
| "err_is_norows (WrapSuffix e t) = err_is_norows e"
| "err_is_norows (JoinErr a b) = (err_is_norows a \<or> err_is_norows b)"
| "err_is_norows _ = False"

text \<open>\<open>pgerrcode.UniqueViolation\<close> and its siblings.\<close>

definition UniqueViolation :: string where "UniqueViolation = ''23505''"
definition ForeignKeyViolation :: string where "ForeignKeyViolation = ''23503''"
definition CheckViolation :: string where "CheckViolation = ''23514''"

text \<open>\<open>common.IsUniqueViolationError\<close>.\<close>

definition IsUniqueViolationError :: "goerr option \<Rightarrow> string \<Rightarrow> bool" where
  "IsUniqueViolationError err constraint =
     (case err of
        None \<Rightarrow> False
      | Some e \<Rightarrow>
          (case err_as_pg e of
             Some (code, con) \<Rightarrow> code = UniqueViolation \<and> con = constraint
           | None \<Rightarrow> False))"

lemma err_text_wrap_contains: "str_contains (err_text e) t \<Longrightarrow> str_contains (err_text (Wrap m e)) t"
  using str_contains_append [of "err_text e" t "m @ '': ''" "[]"] by simp

end
