(* ===== verification/GoStrings.thy ===== *)
theory GoStrings
  imports GoErrors "HOL-Library.Word"
begin

text \<open>
  The functions of Go's standard library that the repository's logic depends on: UTF-8 decoding
  (\<open>unicode/utf8\<close>), lower-hexadecimal (\<open>encoding/hex\<close>) and unpadded URL-safe base64
  (\<open>encoding/base64\<close>), \<open>net/mail.ParseAddress\<close> as far as \<open>ValidateEmail\<close> observes it, ASCII
  case folding, and the rounding of a duration up to whole seconds.
\<close>

abbreviation byte :: "char \<Rightarrow> nat" where
  "byte c \<equiv> of_char c"

section \<open>UTF-8\<close>

text \<open>
  \<open>rune_len s\<close> is the size of the first rune of \<open>s\<close> when it is well-formed UTF-8, and
  \<open>None\<close> when \<open>DecodeRuneInString\<close> would return \<open>(RuneError, 1)\<close>: the ranges are those of the
  \<open>first\<close> and \<open>acceptRanges\<close> tables of \<open>unicode/utf8\<close>.
\<close>

definition cont_byte :: "nat \<Rightarrow> nat \<Rightarrow> char \<Rightarrow> bool" where
  "cont_byte lo hi c \<longleftrightarrow> lo \<le> byte c \<and> byte c \<le> hi"

fun rune_len :: "string \<Rightarrow> nat option" where
  "rune_len [] = None"
| "rune_len (c # s) =
     (let b = byte c in
      if b < 0x80 then Some 1
      else if 0xC2 \<le> b \<and> b \<le> 0xDF then
        (case s of c1 # _ \<Rightarrow> if cont_byte 0x80 0xBF c1 then Some 2 else None | _ \<Rightarrow> None)
      else if 0xE0 \<le> b \<and> b \<le> 0xEF then
        (case s of c1 # c2 # _ \<Rightarrow>
           (let lo = (if b = 0xE0 then 0xA0 else 0x80); hi = (if b = 0xED then 0x9F else 0xBF) in
            if cont_byte lo hi c1 \<and> cont_byte 0x80 0xBF c2 then Some 3 else None)
         | _ \<Rightarrow> None)
      else if 0xF0 \<le> b \<and> b \<le> 0xF4 then
        (case s of c1 # c2 # c3 # _ \<Rightarrow>
           (let lo = (if b = 0xF0 then 0x90 else 0x80); hi = (if b = 0xF4 then 0x8F else 0xBF) in
            if cont_byte lo hi c1 \<and> cont_byte 0x80 0xBF c2 \<and> cont_byte 0x80 0xBF c3
            then Some 4 else None)
         | _ \<Rightarrow> None)
      else None)"

declare rune_len.simps(2) [simp del]

lemma rune_len_bounds: "rune_len s = Some n \<Longrightarrow> 1 \<le> n \<and> n \<le> 4 \<and> n \<le> length s"
  by (cases s) (auto simp: rune_len.simps Let_def split: if_splits list.splits)

lemma rune_len_ascii: "byte c < 0x80 \<Longrightarrow> rune_len (c # s) = Some 1"
  by (simp add: rune_len.simps)

text \<open>\<open>utf8.RuneCountInString\<close>: an invalid byte counts as one rune.\<close>

function rune_count :: "string \<Rightarrow> nat" where
  "rune_count [] = 0"
| "rune_count (c # s) =
     Suc (rune_count (drop (case rune_len (c # s) of Some n \<Rightarrow> n | None \<Rightarrow> 1) (c # s)))"
  by pat_completeness auto
termination
  by (relation "measure length") (auto dest: rune_len_bounds split: option.splits)

declare rune_count.simps(2) [simp del]

lemma rune_count_ascii_Cons: "byte c < 0x80 \<Longrightarrow> rune_count (c # s) = Suc (rune_count s)"
  by (simp add: rune_count.simps(2) rune_len_ascii)

lemma rune_count_ascii: "\<forall>c \<in> set s. byte c < 0x80 \<Longrightarrow> rune_count s = length s"
  by (induction s) (simp_all add: rune_count_ascii_Cons)

text \<open>Every rune takes between one and four bytes.\<close>

lemma rune_count_bounds: "rune_count s \<le> length s \<and> length s \<le> 4 * rune_count s"
proof (induction s rule: rune_count.induct)
  case 1
  then show ?case by simp
next
  case (2 c s)
  define n where "n = (case rune_len (c # s) of Some n \<Rightarrow> n | None \<Rightarrow> 1)"
  have n: "1 \<le> n" "n \<le> 4" "n \<le> length (c # s)"
    using rune_len_bounds [of "c # s"] by (auto simp: n_def split: option.split)
  from "2.IH" have "rune_count (drop n (c # s)) \<le> length (c # s) - n"
    and "length (c # s) - n \<le> 4 * rune_count (drop n (c # s))" by (simp_all add: n_def)
  moreover have "rune_count (c # s) = Suc (rune_count (drop n (c # s)))"
    by (simp add: rune_count.simps(2) n_def)
  ultimately show ?case using n by linarith
qed

section \<open>Hexadecimal\<close>

definition hex_digit :: "nat \<Rightarrow> char" where
  "hex_digit n = (if n < 10 then char_of (48 + n) else char_of (87 + n))"

fun hex_encode :: "string \<Rightarrow> string" where
  "hex_encode [] = []"
| "hex_encode (c # s) = hex_digit (byte c div 16) # hex_digit (byte c mod 16) # hex_encode s"

definition hex_value :: "char \<Rightarrow> nat" where
  "hex_value c = (if byte c < 58 then byte c - 48 else byte c - 87)"

fun hex_decode :: "string \<Rightarrow> string" where
  "hex_decode (a # b # s) = char_of (16 * hex_value a + hex_value b) # hex_decode s"
| "hex_decode _ = []"

lemma length_hex_encode: "length (hex_encode s) = 2 * length s"
  by (induction s) simp_all

lemma byte_char_of: "n < 256 \<Longrightarrow> byte (char_of n) = n"
  by simp

lemma hex_value_digit: "n < 16 \<Longrightarrow> hex_value (hex_digit n) = n"
  by (simp add: hex_value_def hex_digit_def)

lemma byte_lt: "byte c < 256"
  by (rule nat_of_char_less_256)

lemma hex_roundtrip: "hex_decode (hex_encode s) = s"
proof (induction s)
  case Nil
  then show ?case by simp
next
  case (Cons c s)
  have "byte c div 16 < 16" using byte_lt [of c] by linarith
  then have "16 * hex_value (hex_digit (byte c div 16)) + hex_value (hex_digit (byte c mod 16)) = byte c"
    by (simp add: hex_value_digit)
  with Cons show ?case by simp
qed

lemma hex_encode_inj: "hex_encode s = hex_encode t \<Longrightarrow> s = t"
  by (metis hex_roundtrip)

section \<open>Base64, URL-safe alphabet, no padding\<close>

definition b64_digit :: "nat \<Rightarrow> char" where
  "b64_digit n =
     (if n < 26 then char_of (65 + n)
      else if n < 52 then char_of (71 + n)
      else if n < 62 then char_of (n - 4)
      else if n = 62 then char_of (45 :: nat)
      else char_of (95 :: nat))"

definition b64_value :: "char \<Rightarrow> nat" where
  "b64_value c =
     (let b = byte c in
      if b = 45 then 62 else if b = 95 then 63
      else if b < 58 then b + 4 else if b < 91 then b - 65 else b - 71)"

fun b64_encode :: "string \<Rightarrow> string" where
  "b64_encode [] = []"
| "b64_encode [a] = [b64_digit (byte a div 4), b64_digit (byte a mod 4 * 16)]"
| "b64_encode [a, b] =
     [b64_digit (byte a div 4), b64_digit (byte a mod 4 * 16 + byte b div 16),
      b64_digit (byte b mod 16 * 4)]"
| "b64_encode (a # b # c # s) =
     b64_digit (byte a div 4) # b64_digit (byte a mod 4 * 16 + byte b div 16) #
     b64_digit (byte b mod 16 * 4 + byte c div 64) # b64_digit (byte c mod 64) # b64_encode s"

fun b64_decode :: "string \<Rightarrow> string" where
  "b64_decode (p # q # r # t # s) =
     char_of (b64_value p * 4 + b64_value q div 16) #
     char_of (b64_value q mod 16 * 16 + b64_value r div 4) #
     char_of (b64_value r mod 4 * 64 + b64_value t) # b64_decode s"
| "b64_decode [p, q, r] =
     [char_of (b64_value p * 4 + b64_value q div 16),
      char_of (b64_value q mod 16 * 16 + b64_value r div 4)]"
| "b64_decode [p, q] = [char_of (b64_value p * 4 + b64_value q div 16)]"
| "b64_decode _ = []"

lemma b64_value_digit: "n < 64 \<Longrightarrow> b64_value (b64_digit n) = n"
  by (auto simp: b64_value_def b64_digit_def Let_def)

lemma b64_roundtrip: "b64_decode (b64_encode s) = s"
proof (induction s rule: b64_encode.induct)
  case 1
  then show ?case by simp
next
  case (2 a)
  have "byte a div 4 < 64" "byte a mod 4 * 16 < 64" using byte_lt [of a] by linarith+
  then show ?case by (simp add: b64_value_digit)
next
  case (3 a b)
  have l: "byte a div 4 < 64" "byte a mod 4 * 16 + byte b div 16 < 64" "byte b mod 16 * 4 < 64"
    using byte_lt [of a] byte_lt [of b] by linarith+
  have "byte a mod 4 * 16 + byte b div 16 = 16 * (byte a mod 4) + byte b div 16"
    and "byte b div 16 < 16" using byte_lt [of b] by linarith+
  then have "(byte a mod 4 * 16 + byte b div 16) div 16 = byte a mod 4"
    and "(byte a mod 4 * 16 + byte b div 16) mod 16 = byte b div 16" by simp_all
  with l show ?case by (simp add: b64_value_digit)
next
  case (4 a b c s)
  have l: "byte a div 4 < 64" "byte a mod 4 * 16 + byte b div 16 < 64"
    "byte b mod 16 * 4 + byte c div 64 < 64" "byte c mod 64 < 64"
    using byte_lt [of a] byte_lt [of b] byte_lt [of c] by linarith+
  have b: "byte b div 16 < 16" and c: "byte c div 64 < 4"
    using byte_lt [of b] byte_lt [of c] by linarith+
  from b have "(byte a mod 4 * 16 + byte b div 16) div 16 = byte a mod 4"
    and "(byte a mod 4 * 16 + byte b div 16) mod 16 = byte b div 16" by simp_all
  moreover from c have "(byte b mod 16 * 4 + byte c div 64) div 4 = byte b mod 16"
    and "(byte b mod 16 * 4 + byte c div 64) mod 4 = byte c div 64" by simp_all
  ultimately show ?case using l "4.IH" by (simp add: b64_value_digit)
qed

lemma b64_encode_inj: "b64_encode s = b64_encode t \<Longrightarrow> s = t"
  by (metis b64_roundtrip)

lemma length_b64_encode: "length (b64_encode s) = (4 * length s + 2) div 3"
  by (induction s rule: b64_encode.induct) auto

section \<open>Decimal texts\<close>

text \<open>\<open>strconv.Itoa\<close> and \<open>%d\<close>.\<close>

fun nat_text :: "nat \<Rightarrow> string" where
  "nat_text n = (if n < 10 then [char_of (48 + n)] else nat_text (n div 10) @ [char_of (48 + n mod 10)])"

declare nat_text.simps [simp del]

definition int_text :: "int \<Rightarrow> string" where
  "int_text i = (if i < 0 then ''-'' @ nat_text (nat (- i)) else nat_text (nat i))"

lemma nat_text_small: "n < 10 \<Longrightarrow> nat_text n = [char_of (48 + n)]"
  by (simp add: nat_text.simps)

text \<open>The text of a number below \<open>10 ^ k\<close> has at most \<open>k\<close> digits; it reads back as the number.\<close>

lemma length_nat_text: "n < 10 ^ Suc k \<Longrightarrow> length (nat_text n) \<le> Suc k"
proof (induction k arbitrary: n)
  case 0
  then show ?case by (simp add: nat_text_small)
next
  case (Suc k)
  show ?case
  proof (cases "n < 10")
    case True
    then show ?thesis by (simp add: nat_text_small)
  next
    case False
    have "n div 10 < 10 ^ Suc k" using Suc.prems by (simp add: less_mult_imp_div_less mult.commute)
    then show ?thesis using Suc.IH [of "n div 10"] False by (subst nat_text.simps) simp
  qed
qed

fun nat_value :: "nat \<Rightarrow> string \<Rightarrow> nat" where
  "nat_value acc [] = acc"
| "nat_value acc (c # s) = nat_value (10 * acc + (byte c - 48)) s"

lemma nat_value_append: "nat_value acc (s @ t) = nat_value (nat_value acc s) t"
  by (induction acc s rule: nat_value.induct) simp_all

lemma nat_text_roundtrip: "nat_value 0 (nat_text n) = n"
proof (induction n rule: nat_text.induct)
  case (1 n)
  show ?case
  proof (cases "n < 10")
    case True
    then show ?thesis by (simp add: nat_text_small byte_char_of)
  next
    case False
    then have "nat_text n = nat_text (n div 10) @ [char_of (48 + n mod 10)]"
      by (subst nat_text.simps) simp
    then show ?thesis using 1 [OF False] by (simp add: nat_value_append byte_char_of)
  qed
qed

end
