(* ===== verification/GoMail.thy ===== *)
theory GoMail
  imports GoStrings
begin

text \<open>
  \<open>net/mail.ParseAddress\<close> as \<open>ValidateEmail\<close> uses it: the question is whether the address parses
  and the parsed \<open>Address\<close> is the input itself. A display name, angle brackets, a comment, white
  space or a quoted local part all make \<open>Address\<close> shorter than the input, so the inputs that
  pass are exactly those of the form dot-atom, at sign, dot-atom or domain literal. Also the
  rounding of \<open>int(math.Ceil(d.Seconds()))\<close>.
\<close>

section \<open>Atoms\<close>

text \<open>
  \<open>take_runes p s\<close> is the scanning loop of \<open>consumeAtom\<close>: it consumes multi-byte runes and the
  ASCII characters that satisfy \<open>p\<close>, and fails on invalid UTF-8.
\<close>

function take_runes :: "(char \<Rightarrow> bool) \<Rightarrow> string \<Rightarrow> (string \<times> string) option" where
  "take_runes p [] = Some ([], [])"
| "take_runes p (c # s) =
     (case rune_len (c # s) of
        None \<Rightarrow> None
      | Some n \<Rightarrow>
          if n = 1 \<and> \<not> p c then Some ([], c # s)
          else (case take_runes p (drop n (c # s)) of
                  None \<Rightarrow> None
                | Some (a, r) \<Rightarrow> Some (take n (c # s) @ a, r)))"
  by pat_completeness auto
termination
  by (relation "measure (\<lambda>(p, s). length s)") (auto dest: rune_len_bounds)

declare take_runes.simps(2) [simp del]

definition specials :: string where
  "specials = [CHR ''('', CHR '')'', CHR ''<'', CHR ''>'', CHR ''['', CHR '']'', CHR '':'',
               CHR '';'', CHR ''@'', CHR 0x5C, CHR '','', CHR 0x22]"

definition is_vchar :: "char \<Rightarrow> bool" where
  "is_vchar c \<longleftrightarrow> 33 \<le> byte c \<and> byte c \<le> 126"

definition is_atext :: "char \<Rightarrow> bool" where
  "is_atext c \<longleftrightarrow> is_vchar c \<and> c \<notin> set specials"

definition consume_dot_atom :: "string \<Rightarrow> (string \<times> string) option" where
  "consume_dot_atom s =
     (case take_runes is_atext s of
        None \<Rightarrow> None
      | Some (a, r) \<Rightarrow>
          if a = [] \<or> hd a = CHR ''.'' \<or> last a = CHR ''.'' \<or> str_contains a ''..''
          then None else Some (a, r))"

section \<open>IP addresses\<close>

definition is_digit :: "char \<Rightarrow> bool" where
  "is_digit c \<longleftrightarrow> 48 \<le> byte c \<and> byte c \<le> 57"

definition is_hexdigit :: "char \<Rightarrow> bool" where
  "is_hexdigit c \<longleftrightarrow> is_digit c \<or> (97 \<le> byte c \<and> byte c \<le> 102) \<or> (65 \<le> byte c \<and> byte c \<le> 70)"

text \<open>The loop of \<open>netip.parseIPv4Fields\<close>: position, value and digit count of the current octet,
  and whether the previous character was a dot (or there is none).\<close>

fun ipv4_loop :: "string \<Rightarrow> nat \<Rightarrow> nat \<Rightarrow> nat \<Rightarrow> bool \<Rightarrow> bool" where
  "ipv4_loop [] pos val digits prev_dot = (3 \<le> pos)"
| "ipv4_loop (c # s) pos val digits prev_dot =
     (if is_digit c then
        (let v = val * 10 + (byte c - 48) in
         if (digits = 1 \<and> val = 0) \<or> 255 < v then False else ipv4_loop s pos v (digits + 1) False)
      else if c = CHR ''.'' then
        (if prev_dot \<or> s = [] \<or> pos = 3 then False else ipv4_loop s (pos + 1) 0 0 True)
      else False)"

definition parse_ipv4 :: "string \<Rightarrow> bool" where
  "parse_ipv4 s = ipv4_loop s 0 0 0 True"

definition ipv6_finish :: "nat \<Rightarrow> bool \<Rightarrow> bool" where
  "ipv6_finish i ellipsis = (if i < 16 then ellipsis else \<not> ellipsis)"

function ipv6_groups :: "string \<Rightarrow> nat \<Rightarrow> bool \<Rightarrow> bool" where
  "ipv6_groups s i ellipsis =
     (if 16 \<le> i then s = [] \<and> ipv6_finish i ellipsis
      else
        (let off = length (takeWhile is_hexdigit s); rest = drop off s in
         if off = 0 \<or> 4 < off then False
         else if rest \<noteq> [] \<and> hd rest = CHR ''.'' then
           (\<not> ellipsis \<longrightarrow> i = 12) \<and> i + 4 \<le> 16 \<and> parse_ipv4 s \<and> ipv6_finish (i + 4) ellipsis
         else
           (case rest of
              [] \<Rightarrow> ipv6_finish (i + 2) ellipsis
            | c # r \<Rightarrow>
                if c \<noteq> CHR '':'' \<or> r = [] then False
                else if hd r = CHR '':'' then
                  (if ellipsis then False
                   else if tl r = [] then ipv6_finish (i + 2) True
                   else ipv6_groups (tl r) (i + 2) True)
                else ipv6_groups r (i + 2) ellipsis)))"
  by pat_completeness auto
termination
  by (relation "measure (\<lambda>(s, i, e). 16 - i)") auto

declare ipv6_groups.simps [simp del]

definition parse_ipv6 :: "string \<Rightarrow> bool" where
  "parse_ipv6 s =
     (if take 2 s = ''::'' then (drop 2 s = [] \<or> ipv6_groups (drop 2 s) 0 True)
      else ipv6_groups s 0 False)"

definition parse_ip :: "string \<Rightarrow> bool" where
  "parse_ip s =
     (case dropWhile (\<lambda>c. c \<noteq> CHR ''.'' \<and> c \<noteq> CHR '':'' \<and> c \<noteq> CHR ''%'') s of
        [] \<Rightarrow> False
      | c # _ \<Rightarrow> if c = CHR ''.'' then parse_ipv4 s else if c = CHR '':'' then parse_ipv6 s else False)"

section \<open>Addresses\<close>

definition is_dtext :: "char \<Rightarrow> bool" where
  "is_dtext c \<longleftrightarrow> is_vchar c \<and> c \<noteq> CHR ''['' \<and> c \<noteq> CHR '']'' \<and> c \<noteq> CHR 0x5C"

definition parse_domain_literal :: "string \<Rightarrow> bool" where
  "parse_domain_literal s =
     (case s of
        [] \<Rightarrow> False
      | c # d \<Rightarrow>
          c = CHR ''['' \<and>
          (case take_runes is_dtext d of
             Some (t, r) \<Rightarrow> r = [CHR '']''] \<and> parse_ip t
           | None \<Rightarrow> False))"

text \<open>\<open>addr, err := mail.ParseAddress(s)\<close> with \<open>err == nil && addr.Address == s\<close>.\<close>

definition parses_to_itself :: "string \<Rightarrow> bool" where
  "parses_to_itself s =
     (case consume_dot_atom s of
        Some (lcl, c # d) \<Rightarrow>
          c = CHR ''@'' \<and>
          (if d \<noteq> [] \<and> hd d = CHR ''['' then parse_domain_literal d
           else (case consume_dot_atom d of Some (host, r) \<Rightarrow> r = [] | None \<Rightarrow> False))
      | _ \<Rightarrow> False)"

subsection \<open>No control characters in an accepted address\<close>

definition printable :: "char \<Rightarrow> bool" where
  "printable c \<longleftrightarrow> 33 \<le> byte c \<and> byte c \<noteq> 127"

lemma rune_len_multibyte:
  assumes "rune_len (c # s) = Some n" "n \<noteq> 1" "x \<in> set (take n (c # s))"
  shows "printable x"
  using assms
  by (auto simp: rune_len.simps printable_def cont_byte_def Let_def numeral_eq_Suc
      split: if_splits list.splits)

lemma take_runes_sound:
  assumes "take_runes p s = Some (a, r)" "\<And>c. p c \<Longrightarrow> is_vchar c"
  shows "s = a @ r \<and> (\<forall>c \<in> set a. printable c)"
  using assms
proof (induction p s arbitrary: a r rule: take_runes.induct)
  case (1 p)
  then show ?case by simp
next
  case (2 p c s)
  obtain n where n: "rune_len (c # s) = Some n"
    using "2.prems"(1) by (auto simp: take_runes.simps(2) split: option.splits)
  show ?case
  proof (cases "n = 1 \<and> \<not> p c")
    case True
    with "2.prems"(1) n show ?thesis by (simp add: take_runes.simps(2))
  next
    case False
    then obtain a' where a': "take_runes p (drop n (c # s)) = Some (a', r)" "a = take n (c # s) @ a'"
      using "2.prems"(1) n by (auto simp: take_runes.simps(2) split: option.splits if_splits)
    with "2.IH" [OF n False _ "2.prems"(2)] have ih: "drop n (c # s) = a' @ r" "\<forall>x \<in> set a'. printable x"
      by blast+
    have "\<forall>x \<in> set (take n (c # s)). printable x"
    proof (cases "n = 1")
      case True
      with False have "is_vchar c" by (blast intro: "2.prems"(2))
      with True show ?thesis by (simp add: is_vchar_def printable_def)
    next
      case False
      with n rune_len_multibyte show ?thesis by blast
    qed
    then have "\<forall>x \<in> set a. printable x"
      using ih(2) by (simp only: a'(2) set_append ball_Un)
    moreover have "c # s = a @ r"
      using ih(1) append_take_drop_id [of n "c # s"] by (simp only: a'(2) append_assoc)
    ultimately show ?thesis by blast
  qed
qed

lemma consume_dot_atom_sound:
  "consume_dot_atom s = Some (a, r) \<Longrightarrow> s = a @ r \<and> a \<noteq> [] \<and> (\<forall>c \<in> set a. printable c)"
  by (auto simp: consume_dot_atom_def is_atext_def split: option.splits if_splits
      dest!: take_runes_sound)

lemma parse_domain_literal_printable:
  assumes "parse_domain_literal s"
  shows "\<forall>c \<in> set s. printable c"
proof -
  from assms obtain d t where s: "s = CHR ''['' # d" and t: "take_runes is_dtext d = Some (t, [CHR '']''])"
  proof (cases s)
    case Nil
    with assms show thesis by (simp add: parse_domain_literal_def)
  next
    case (Cons c d)
    with assms that show thesis
      by (cases "take_runes is_dtext d") (auto simp: parse_domain_literal_def)
  qed
  from t have "d = t @ [CHR '']'']" "\<forall>c \<in> set t. printable c"
    by (auto dest!: take_runes_sound simp: is_dtext_def)
  with s show ?thesis by (auto simp: printable_def)
qed

lemma parses_to_itselfE:
  assumes "parses_to_itself s"
  obtains l d where "consume_dot_atom s = Some (l, CHR ''@'' # d)"
    and "parse_domain_literal d \<or> (\<exists>host. consume_dot_atom d = Some (host, []))"
proof -
  from assms obtain l t where l: "consume_dot_atom s = Some (l, t)" and
    t: "case t of [] \<Rightarrow> False | c # d \<Rightarrow> c = CHR ''@'' \<and>
          (if d \<noteq> [] \<and> hd d = CHR ''['' then parse_domain_literal d
           else (case consume_dot_atom d of Some (host, r) \<Rightarrow> r = [] | None \<Rightarrow> False))"
    unfolding parses_to_itself_def
    by (cases "consume_dot_atom s") (auto split: list.split_asm list.split)
  from t obtain d where "t = CHR ''@'' # d"
    and "parse_domain_literal d \<or> (\<exists>host. consume_dot_atom d = Some (host, []))"
  proof (cases t)
    case Nil
    with t show thesis by simp
  next
    case (Cons c d)
    with t that show thesis
      by (cases "consume_dot_atom d") (auto split: if_splits)
  qed
  with l that show thesis by blast
qed

lemma parses_to_itself_printable:
  assumes "parses_to_itself s"
  shows "\<forall>c \<in> set s. printable c"
  using assms
proof (rule parses_to_itselfE)
  fix l d
  assume l: "consume_dot_atom s = Some (l, CHR ''@'' # d)"
    and d: "parse_domain_literal d \<or> (\<exists>host. consume_dot_atom d = Some (host, []))"
  from d have "\<forall>c \<in> set d. printable c"
    using parse_domain_literal_printable consume_dot_atom_sound by fastforce
  moreover have "printable (CHR ''@'')" by (simp add: printable_def)
  ultimately show ?thesis using consume_dot_atom_sound [OF l] by auto
qed

lemma parses_to_itself_at:
  assumes "parses_to_itself s"
  shows "\<exists>l d. s = l @ CHR ''@'' # d \<and> l \<noteq> [] \<and> d \<noteq> []"
  using assms
proof (rule parses_to_itselfE)
  fix l d
  assume l: "consume_dot_atom s = Some (l, CHR ''@'' # d)"
    and d: "parse_domain_literal d \<or> (\<exists>host. consume_dot_atom d = Some (host, []))"
  from d have "d \<noteq> []"
    by (auto simp: parse_domain_literal_def dest: consume_dot_atom_sound)
  with consume_dot_atom_sound [OF l] show ?thesis by blast
qed

section \<open>Whole seconds\<close>

definition Second :: duration where "Second = 1000000000"
definition Millisecond :: duration where "Millisecond = 1000000"
definition Minute :: duration where "Minute = 60 * Second"
definition Hour :: duration where "Hour = 60 * Minute"

text \<open>
  \<open>int(math.Ceil(d.Seconds()))\<close>. The durations it is applied to come from Redis as whole
  milliseconds below \<open>2 ^ 31\<close>, for which the \<open>float64\<close> quotient rounds to the exact ceiling.
\<close>

definition ceil_seconds :: "duration \<Rightarrow> int" where
  "ceil_seconds d = - ((- d) div Second)"

lemma ceil_seconds_upper: "d \<le> ceil_seconds d * Second"
  unfolding ceil_seconds_def Second_def by linarith

lemma ceil_seconds_least: "d \<le> n * Second \<Longrightarrow> ceil_seconds d \<le> n"
  unfolding ceil_seconds_def Second_def by linarith

end
