(* ===== verification/Externals.thy ===== *)
theory Externals
  imports GoMail
begin

text \<open>
  The code outside the repository, as one record of functions that the definitions take as an
  argument: cryptographic primitives (\<open>crypto/sha256\<close>, \<open>crypto/hmac\<close>, \<open>crypto/rand\<close>), bcrypt,
  JWT signing and parsing, and UUIDs. What the proofs rely on is stated as the named predicates at
  the end: documented behaviour of those packages, required only by the theorems that name them.
\<close>

type_synonym uuid = "128 word"

text \<open>The claims of an access token; times are whole seconds since the epoch.\<close>

record claims =
  c_sub :: string
  c_roles :: "string list"
  c_iat :: int
  c_exp :: int

text \<open>
  What \<open>jwt.Parse\<close> reports for a token that is not accepted (\<open>jwt.ErrTokenExpired\<close>,
  \<open>jwt.ErrTokenMalformed\<close>, anything else), and a JSON value of the claims set of an accepted one.
\<close>

datatype jwt_error = JwtExpired | JwtMalformed | JwtOther

datatype claim_value = CStr string | COther

record raw_claims =
  rc_sub :: "claim_value option"
  rc_roles :: "claim_value list option"   \<comment> \<open>\<open>Some\<close>: the claim is a JSON array\<close>

record ext =
  sha256 :: "string \<Rightarrow> string"
  hmac_sha256 :: "string \<Rightarrow> string \<Rightarrow> string"             \<comment> \<open>key, message\<close>
  rand_read :: "nat \<Rightarrow> nat \<Rightarrow> string option"              \<comment> \<open>draw, number of bytes\<close>
  bcrypt_compare :: "string \<Rightarrow> string \<Rightarrow> bool"             \<comment> \<open>hash, password\<close>
  bcrypt_generate :: "nat \<Rightarrow> string \<Rightarrow> nat \<Rightarrow> goerr + string" \<comment> \<open>draw, password, cost\<close>
  bcrypt_cost :: "string \<Rightarrow> nat option"
  jwt_sign :: "claims \<Rightarrow> goerr + string"
  jwt_parse :: "time \<Rightarrow> string \<Rightarrow> jwt_error + raw_claims"
  uuid_new :: "nat \<Rightarrow> uuid"                              \<comment> \<open>draw\<close>
  uuid_parse :: "string \<Rightarrow> uuid option"
  uuid_str :: "uuid \<Rightarrow> string"

text \<open>\<open>rand.Read(b)\<close> fills the whole slice when it does not fail.\<close>

definition rand_fills :: "ext \<Rightarrow> bool" where
  "rand_fills X \<longleftrightarrow> (\<forall>i n b. rand_read X i n = Some b \<longrightarrow> length b = n)"

text \<open>\<open>uuid.New\<close> does not repeat itself; its text form parses back.\<close>

definition uuid_distinct :: "ext \<Rightarrow> bool" where
  "uuid_distinct X \<longleftrightarrow> inj (uuid_new X)"

definition uuid_text_ok :: "ext \<Rightarrow> bool" where
  "uuid_text_ok X \<longleftrightarrow> (\<forall>u. uuid_parse X (uuid_str X u) = Some u)"

text \<open>A SHA-256 digest has 32 bytes; two different inputs with one digest are not found.\<close>

definition sha256_size :: "ext \<Rightarrow> bool" where
  "sha256_size X \<longleftrightarrow> (\<forall>s. length (sha256 X s) = 32)"

definition sha256_collision_free :: "ext \<Rightarrow> string set \<Rightarrow> bool" where
  "sha256_collision_free X S \<longleftrightarrow> inj_on (sha256 X) S"

text \<open>
  bcrypt: a generated hash verifies its own password and no other one of those considered; input
  up to 72 bytes at a legal cost is hashed, and the cost is recorded in the hash.
\<close>

definition bcrypt_sound :: "ext \<Rightarrow> bool" where
  "bcrypt_sound X \<longleftrightarrow>
     (\<forall>i pw cost h. bcrypt_generate X i pw cost = Inr h \<longrightarrow> bcrypt_compare X h pw \<and> bcrypt_cost X h = Some cost)"

definition bcrypt_total :: "ext \<Rightarrow> bool" where
  "bcrypt_total X \<longleftrightarrow>
     (\<forall>i pw cost. length pw \<le> 72 \<and> 4 \<le> cost \<and> cost \<le> 31 \<longrightarrow> (\<exists>h. bcrypt_generate X i pw cost = Inr h))"

end
