(* ===== verification/AuthDomain.thy ===== *)
theory AuthDomain
  imports Externals
begin

text \<open>
  The package \<open>backend/auth/domain\<close>: account states (STM-01), roles, the validation of e-mail
  addresses and passwords, the one-time tokens and their expiry, the claims of an access token,
  and the constants (\<open>TTL\<close>s, windows, limits) the rest of the service is configured with.
\<close>

section \<open>Account states\<close>

definition StatusMailUnverified :: string where "StatusMailUnverified = ''mail_unverified''"
definition StatusInactive :: string where "StatusInactive = ''inactive''"
definition StatusDisabled :: string where "StatusDisabled = ''disabled''"
definition StatusDeleted :: string where "StatusDeleted = ''deleted''"

lemmas status_defs = StatusMailUnverified_def StatusInactive_def StatusDisabled_def StatusDeleted_def

lemma status_distinct [simp]:
  "StatusMailUnverified \<noteq> StatusInactive" "StatusInactive \<noteq> StatusMailUnverified"
  "StatusMailUnverified \<noteq> StatusDisabled" "StatusDisabled \<noteq> StatusMailUnverified"
  "StatusMailUnverified \<noteq> StatusDeleted" "StatusDeleted \<noteq> StatusMailUnverified"
  "StatusInactive \<noteq> StatusDisabled" "StatusDisabled \<noteq> StatusInactive"
  "StatusInactive \<noteq> StatusDeleted" "StatusDeleted \<noteq> StatusInactive"
  "StatusDisabled \<noteq> StatusDeleted" "StatusDeleted \<noteq> StatusDisabled"
  by (simp_all add: status_defs)

text \<open>\<open>CheckLoginableStatus\<close>: only a confirmed, enabled account may log in.\<close>

definition CheckLoginableStatus :: "string \<Rightarrow> goerr option" where
  "CheckLoginableStatus status =
     (if status = StatusInactive then None
      else if status = StatusDisabled then Some (Sentinel ErrAccountDisabled)
      else Some (Sentinel ErrEmailNotVerified))"

section \<open>Roles\<close>

definition RoleUser :: string where "RoleUser = ''user''"
definition RoleSuperAdmin :: string where "RoleSuperAdmin = ''super_admin''"
definition RoleOperator :: string where "RoleOperator = ''operator''"
definition RoleSystemAdmin :: string where "RoleSystemAdmin = ''system_admin''"

lemmas role_defs = RoleUser_def RoleSuperAdmin_def RoleOperator_def RoleSystemAdmin_def

definition IsAdminRole :: "string \<Rightarrow> bool" where
  "IsAdminRole role \<longleftrightarrow> role = RoleSuperAdmin \<or> role = RoleOperator \<or> role = RoleSystemAdmin"

definition ValidateAdminRole :: "string \<Rightarrow> goerr option" where
  "ValidateAdminRole role =
     (if \<not> IsAdminRole role then Some (Sentinel ErrInvalidAdminRole) else None)"

lemma role_user_not_admin [simp]: "\<not> IsAdminRole RoleUser"
  by (simp add: IsAdminRole_def role_defs)

lemma role_super_admin [simp]: "IsAdminRole RoleSuperAdmin"
  by (simp add: IsAdminRole_def)

section \<open>Constants\<close>

definition InvitationTokenTTL :: duration where "InvitationTokenTTL = 24 * Hour"
definition InvitationRateLimitWindow :: duration where "InvitationRateLimitWindow = 5 * Minute"
definition LoginFailureCountWindow :: duration where "LoginFailureCountWindow = 15 * Minute"
definition LoginLockoutTTL :: duration where "LoginLockoutTTL = 15 * Minute"
definition LoginLockoutThreshold :: int where "LoginLockoutThreshold = 10"
definition PasswordResetTokenTTL :: duration where "PasswordResetTokenTTL = 30 * Minute"
definition PasswordResetRateLimitWindow :: duration where "PasswordResetRateLimitWindow = 5 * Minute"
definition EmailConfirmationTokenTTL :: duration where "EmailConfirmationTokenTTL = 24 * Hour"
definition RegistrationRateLimitWindow :: duration where "RegistrationRateLimitWindow = 5 * Minute"
definition ResendEmailRateLimitWindow :: duration where "ResendEmailRateLimitWindow = 5 * Minute"
definition EmailVerifyRateLimitWindow :: duration where "EmailVerifyRateLimitWindow = Minute"
definition EmailVerifyRateLimitMax :: int where "EmailVerifyRateLimitMax = 10"
definition AccessTokenTTL :: duration where "AccessTokenTTL = 15 * Minute"
definition RefreshTokenTTL :: duration where "RefreshTokenTTL = 30 * 24 * Hour"
definition PasswordBcryptCost :: nat where "PasswordBcryptCost = 12"
definition tokenPlainBytes :: nat where "tokenPlainBytes = 32"
definition refreshTokenBytes :: nat where "refreshTokenBytes = 32"
definition emailMaxLength :: nat where "emailMaxLength = 254"
definition passwordMinLength :: nat where "passwordMinLength = 15"
definition passwordMaxLength :: nat where "passwordMaxLength = 64"
definition passwordMaxBytes :: nat where "passwordMaxBytes = 72"

lemmas time_unit_defs = Second_def Millisecond_def Minute_def Hour_def
lemmas ttl_defs = InvitationTokenTTL_def PasswordResetTokenTTL_def EmailConfirmationTokenTTL_def
  AccessTokenTTL_def RefreshTokenTTL_def
lemmas window_defs = InvitationRateLimitWindow_def PasswordResetRateLimitWindow_def
  RegistrationRateLimitWindow_def ResendEmailRateLimitWindow_def EmailVerifyRateLimitWindow_def
  LoginFailureCountWindow_def LoginLockoutTTL_def
lemmas password_limit_defs = passwordMinLength_def passwordMaxLength_def passwordMaxBytes_def

section \<open>Validation\<close>

definition ValidateEmail :: "string \<Rightarrow> goerr option" where
  "ValidateEmail email =
     (if email = [] \<or> emailMaxLength < length email then Some (Sentinel ErrInvalidEmail)
      else if \<not> parses_to_itself email then Some (Sentinel ErrInvalidEmail)
      else None)"

definition ValidatePassword :: "string \<Rightarrow> goerr option" where
  "ValidatePassword password =
     (let runes = rune_count password in
      if runes < passwordMinLength \<or> passwordMaxLength < runes then Some (Sentinel ErrInvalidPassword)
      else if passwordMaxBytes < length password then Some (Sentinel ErrInvalidPassword)
      else None)"

lemma ValidateEmail_cases: "ValidateEmail e = None \<or> ValidateEmail e = Some (Sentinel ErrInvalidEmail)"
  by (simp add: ValidateEmail_def)

lemma ValidatePassword_cases:
  "ValidatePassword p = None \<or> ValidatePassword p = Some (Sentinel ErrInvalidPassword)"
  by (simp add: ValidatePassword_def Let_def)

section \<open>Tokens\<close>

text \<open>\<open>EmailConfirmationToken\<close>, \<open>PasswordResetToken\<close> and \<open>InvitationToken\<close>: what is stored.\<close>

record one_time_token =
  TokenUUID :: uuid
  Hash :: string
  ExpiresAt :: time

text \<open>The views of the stored rows that the use cases check.\<close>

record EmailConfirmationTokenRecord =
  ec_TokenUUID :: uuid
  ec_UserUUID :: uuid
  ec_TokenHash :: string
  ec_ExpiresAt :: time
  ec_UsedAt :: "time option"

record PasswordResetTokenRecord =
  pr_TokenUUID :: uuid
  pr_UserUUID :: uuid
  pr_TokenHash :: string
  pr_ExpiresAt :: time
  pr_UsedAt :: "time option"

record InvitationTokenRecord =
  in_TokenUUID :: uuid
  in_Email :: string
  in_Role :: string
  in_TokenHash :: string
  in_ExpiresAt :: time
  in_UsedAt :: "time option"

text \<open>\<open>now.After(t)\<close> and \<open>t.Before(now)\<close>.\<close>

definition after :: "time \<Rightarrow> time \<Rightarrow> bool" where "after now t \<longleftrightarrow> t < now"
definition before :: "time \<Rightarrow> time \<Rightarrow> bool" where "before t now \<longleftrightarrow> t < now"

definition ec_Used :: "EmailConfirmationTokenRecord \<Rightarrow> bool" where "ec_Used r \<longleftrightarrow> ec_UsedAt r \<noteq> None"
definition ec_Expired :: "EmailConfirmationTokenRecord \<Rightarrow> time \<Rightarrow> bool" where
  "ec_Expired r now = after now (ec_ExpiresAt r)"
definition pr_Used :: "PasswordResetTokenRecord \<Rightarrow> bool" where "pr_Used r \<longleftrightarrow> pr_UsedAt r \<noteq> None"
definition pr_Expired :: "PasswordResetTokenRecord \<Rightarrow> time \<Rightarrow> bool" where
  "pr_Expired r now = after now (pr_ExpiresAt r)"

lemmas token_check_defs = ec_Used_def ec_Expired_def pr_Used_def pr_Expired_def after_def before_def

text \<open>The stored form of a token: the hexadecimal SHA-256 digest of the plain text.\<close>

definition HashRefreshToken :: "ext \<Rightarrow> string \<Rightarrow> string" where
  "HashRefreshToken X plain = hex_encode (sha256 X plain)"
definition HashEmailConfirmationToken :: "ext \<Rightarrow> string \<Rightarrow> string" where
  "HashEmailConfirmationToken X plain = hex_encode (sha256 X plain)"
definition HashPasswordResetToken :: "ext \<Rightarrow> string \<Rightarrow> string" where
  "HashPasswordResetToken X plain = hex_encode (sha256 X plain)"
definition HashInvitationToken :: "ext \<Rightarrow> string \<Rightarrow> string" where
  "HashInvitationToken X plain = hex_encode (sha256 X plain)"

record Registration =
  reg_UserUUID :: uuid
  reg_Email :: string
  reg_PasswordHash :: string
  reg_Status :: string
  reg_Role :: string

section \<open>Access tokens and password checks\<close>

text \<open>\<open>t.Unix()\<close>: whole seconds, rounded down.\<close>

definition unix :: "time \<Rightarrow> int" where "unix t = t div Second"

definition GenerateAccessToken ::
  "ext \<Rightarrow> time \<Rightarrow> string \<Rightarrow> string list \<Rightarrow> duration \<Rightarrow> goerr + string" where
  "GenerateAccessToken X now userID roles ttl =
     (case jwt_sign X \<lparr>c_sub = userID, c_roles = roles, c_iat = unix now, c_exp = unix (now + ttl)\<rparr> of
        Inl e \<Rightarrow> Inl (Wrap ''could not sign access token'' e)
      | Inr tok \<Rightarrow> Inr tok)"

definition VerifyPassword :: "ext \<Rightarrow> string \<Rightarrow> string \<Rightarrow> bool" where
  "VerifyPassword X hash password = bcrypt_compare X hash password"

definition dummyBcryptHash :: string where
  "dummyBcryptHash = ''$2a$12$/KPcFQoQrZnRME3ehYSpZOEALvYljQpop1F4uYX0oSdYWvaD77YVS''"

definition DummyPasswordVerify :: "ext \<Rightarrow> string \<Rightarrow> bool" where
  "DummyPasswordVerify X password = bcrypt_compare X dummyBcryptHash password"

section \<open>Lemmas\<close>

lemma ValidatePassword_bytes:
  assumes "ValidatePassword p = None"
  shows "15 \<le> length p \<and> length p \<le> 72 \<and> 15 \<le> rune_count p \<and> rune_count p \<le> 64"
  using assms rune_count_bounds [of p]
  by (auto simp: ValidatePassword_def Let_def password_limit_defs split: if_splits)

lemma ValidateEmail_shape:
  assumes "ValidateEmail e = None"
  shows "0 < length e \<and> length e \<le> 254 \<and> (\<forall>c \<in> set e. printable c) \<and>
    (\<exists>l d. e = l @ CHR ''@'' # d \<and> l \<noteq> [] \<and> d \<noteq> [])"
proof -
  from assms have "parses_to_itself e" "e \<noteq> []" "length e \<le> 254"
    by (auto simp: ValidateEmail_def emailMaxLength_def split: if_splits)
  then show ?thesis
    by (simp add: parses_to_itself_printable parses_to_itself_at)
qed

end
