(* ===== verification/Tables.thy ===== *)
theory Tables
  imports AuthDomain "HOL-Library.List_Lexorder" "HOL-Library.Char_ord"
begin

text \<open>
  The PostgreSQL schema (\<open>adapters/db/migrations\<close>) and the statements of
  \<open>adapters/db/dbmodels\<close>. A table is a list of rows, a row is a record with the columns of the
  generated Go struct, and each generated query method is one function. A statement either fails
  and changes nothing (\<open>Inl\<close>), or returns its result and the database after it. Constraint
  violations (primary keys, unique indexes, foreign keys, the status check) are results of the
  insert statements; every other failure of a statement comes from the environment (theory World).
\<close>

section \<open>Rows\<close>

record AuthUser =
  u_UserUuid :: uuid
  u_Email :: string
  u_PasswordHash :: string
  u_Status :: string
  u_CreatedAt :: time
  u_UpdatedAt :: time
  u_DeletedAt :: "time option"

record AuthUserRole =
  ur_UserUuid :: uuid
  ur_Role :: string
  ur_GrantedAt :: time

record AuthEmailConfirmationToken =
  et_TokenUuid :: uuid
  et_UserUuid :: uuid
  et_TokenHash :: string
  et_ExpiresAt :: time
  et_UsedAt :: "time option"
  et_CreatedAt :: time

record AuthPasswordResetToken =
  pt_TokenUuid :: uuid
  pt_UserUuid :: uuid
  pt_TokenHash :: string
  pt_ExpiresAt :: time
  pt_UsedAt :: "time option"
  pt_CreatedAt :: time

record AuthInvitationToken =
  it_TokenUuid :: uuid
  it_Email :: string
  it_Role :: string
  it_TokenHash :: string
  it_ExpiresAt :: time
  it_UsedAt :: "time option"
  it_CreatedAt :: time

record AuthRefreshToken =
  rt_TokenID :: uuid
  rt_UserUuid :: uuid
  rt_FamilyID :: uuid
  rt_ParentTokenID :: "uuid option"
  rt_TokenHash :: string
  rt_ExpiresAt :: time
  rt_UsedAt :: "time option"
  rt_RevokedAt :: "time option"
  rt_RevocationReason :: "string option"
  rt_CreatedAt :: time

record db =
  users :: "AuthUser list"
  user_roles :: "AuthUserRole list"
  email_tokens :: "AuthEmailConfirmationToken list"
  reset_tokens :: "AuthPasswordResetToken list"
  invitation_tokens :: "AuthInvitationToken list"
  refresh_tokens :: "AuthRefreshToken list"

definition empty_db :: db where
  "empty_db = \<lparr>users = [], user_roles = [], email_tokens = [], reset_tokens = [],
     invitation_tokens = [], refresh_tokens = []\<rparr>"

type_synonym 'a reader = "db \<Rightarrow> goerr + 'a"
type_synonym 'a writer = "db \<Rightarrow> goerr + ('a \<times> db)"

text \<open>The errors PostgreSQL reports for a violated constraint.\<close>

definition unique_violation :: "string \<Rightarrow> goerr" where
  "unique_violation con =
     PgError UniqueViolation con (''duplicate key value violates unique constraint '' @ con)"
definition fk_violation :: "string \<Rightarrow> goerr" where
  "fk_violation con =
     PgError ForeignKeyViolation con (''insert violates foreign key constraint '' @ con)"
definition check_violation :: "string \<Rightarrow> goerr" where
  "check_violation con = PgError CheckViolation con (''new row violates check constraint '' @ con)"

lemmas violation_defs = unique_violation_def fk_violation_def check_violation_def

section \<open>users.sql\<close>

definition status_check :: "string \<Rightarrow> bool" where
  "status_check s \<longleftrightarrow> s \<in> {StatusMailUnverified, StatusInactive, StatusDisabled, StatusDeleted}"

definition live :: "AuthUser \<Rightarrow> bool" where
  "live u \<longleftrightarrow> u_DeletedAt u = None"

definition GetUserByEmail :: "string \<Rightarrow> AuthUser reader" where [query_defs]:
  "GetUserByEmail email d =
     (case find (\<lambda>u. u_Email u = email \<and> live u) (users d) of
        None \<Rightarrow> Inl NoRows | Some u \<Rightarrow> Inr u)"

definition GetUserByUuid :: "uuid \<Rightarrow> AuthUser reader" where [query_defs]:
  "GetUserByUuid uid d =
     (case find (\<lambda>u. u_UserUuid u = uid \<and> live u) (users d) of
        None \<Rightarrow> Inl NoRows | Some u \<Rightarrow> Inr u)"

definition roles_of :: "uuid \<Rightarrow> db \<Rightarrow> string list" where
  "roles_of uid d = map ur_Role (filter (\<lambda>r. ur_UserUuid r = uid) (user_roles d))"

definition GetUserRoles :: "uuid \<Rightarrow> string list reader" where [query_defs]:
  "GetUserRoles uid d = Inr (sort (roles_of uid d))"

text \<open>The join of \<open>CountActiveSuperAdmins\<close> and \<open>LockActiveSuperAdmins\<close>.\<close>

definition active_super_admins :: "db \<Rightarrow> uuid list" where
  "active_super_admins d =
     [u_UserUuid u. u \<leftarrow> users d, r \<leftarrow> user_roles d,
        ur_UserUuid r = u_UserUuid u \<and> ur_Role r = ''super_admin'' \<and>
        u_Status u = ''inactive'' \<and> live u]"

definition CountActiveSuperAdmins :: "nat reader" where [query_defs]:
  "CountActiveSuperAdmins d = Inr (length (active_super_admins d))"

definition LockActiveSuperAdmins :: "uuid list reader" where [query_defs]:
  "LockActiveSuperAdmins d = Inr (sort (active_super_admins d))"

definition InsertUser :: "time \<Rightarrow> uuid \<Rightarrow> string \<Rightarrow> string \<Rightarrow> string \<Rightarrow> unit writer" where [query_defs]:
  "InsertUser ts uid email password_hash status d =
     (if \<not> status_check status then Inl (check_violation ''users_status_check'')
      else if \<exists>u \<in> set (users d). u_UserUuid u = uid then Inl (unique_violation ''users_pkey'')
      else if \<exists>u \<in> set (users d). u_Email u = email \<and> live u
        then Inl (unique_violation ''users_email_unique'')
      else Inr ((), d\<lparr>users := users d @ [\<lparr>u_UserUuid = uid, u_Email = email,
        u_PasswordHash = password_hash, u_Status = status, u_CreatedAt = ts, u_UpdatedAt = ts,
        u_DeletedAt = None\<rparr>]\<rparr>))"

definition InsertUserRole :: "time \<Rightarrow> uuid \<Rightarrow> string \<Rightarrow> unit writer" where [query_defs]:
  "InsertUserRole ts uid role d =
     (if \<exists>r \<in> set (user_roles d). ur_UserUuid r = uid \<and> ur_Role r = role
        then Inl (unique_violation ''user_roles_pkey'')
      else if \<forall>u \<in> set (users d). u_UserUuid u \<noteq> uid
        then Inl (fk_violation ''user_roles_user_uuid_fkey'')
      else Inr ((), d\<lparr>user_roles := user_roles d @
        [\<lparr>ur_UserUuid = uid, ur_Role = role, ur_GrantedAt = ts\<rparr>]\<rparr>))"

definition TransitionUserStatus :: "time \<Rightarrow> uuid \<Rightarrow> string \<Rightarrow> string \<Rightarrow> nat writer" where [query_defs]:
  "TransitionUserStatus ts uid new_status old_status d =
     (let sel = (\<lambda>u. u_UserUuid u = uid \<and> u_Status u = old_status \<and> live u) in
      Inr (count_where sel (users d),
           d\<lparr>users := upd_where sel (\<lambda>u. u\<lparr>u_Status := new_status, u_UpdatedAt := ts\<rparr>) (users d)\<rparr>))"

definition UpdateUserPassword :: "time \<Rightarrow> uuid \<Rightarrow> string \<Rightarrow> nat writer" where [query_defs]:
  "UpdateUserPassword ts uid password_hash d =
     (let sel = (\<lambda>u. u_UserUuid u = uid \<and> live u) in
      Inr (count_where sel (users d),
           d\<lparr>users := upd_where sel (\<lambda>u. u\<lparr>u_PasswordHash := password_hash, u_UpdatedAt := ts\<rparr>)
             (users d)\<rparr>))"

section \<open>email_confirmation_tokens.sql\<close>

definition GetEmailConfirmationTokenByHash :: "string \<Rightarrow> AuthEmailConfirmationToken reader" where
  [query_defs]:
  "GetEmailConfirmationTokenByHash h d =
     (case find (\<lambda>t. et_TokenHash t = h) (email_tokens d) of None \<Rightarrow> Inl NoRows | Some t \<Rightarrow> Inr t)"

definition InsertEmailConfirmationToken ::
  "time \<Rightarrow> uuid \<Rightarrow> uuid \<Rightarrow> string \<Rightarrow> time \<Rightarrow> unit writer" where [query_defs]:
  "InsertEmailConfirmationToken ts tok uid h expires d =
     (if \<exists>t \<in> set (email_tokens d). et_TokenUuid t = tok
        then Inl (unique_violation ''email_confirmation_tokens_pkey'')
      else if \<exists>t \<in> set (email_tokens d). et_TokenHash t = h
        then Inl (unique_violation ''email_confirmation_tokens_hash_unique'')
      else if \<forall>u \<in> set (users d). u_UserUuid u \<noteq> uid
        then Inl (fk_violation ''email_confirmation_tokens_user_uuid_fkey'')
      else Inr ((), d\<lparr>email_tokens := email_tokens d @ [\<lparr>et_TokenUuid = tok, et_UserUuid = uid,
        et_TokenHash = h, et_ExpiresAt = expires, et_UsedAt = None, et_CreatedAt = ts\<rparr>]\<rparr>))"

definition InvalidateActiveEmailConfirmationTokensByUser :: "time \<Rightarrow> uuid \<Rightarrow> nat writer" where
  [query_defs]:
  "InvalidateActiveEmailConfirmationTokensByUser ts uid d =
     (let sel = (\<lambda>t. et_UserUuid t = uid \<and> et_UsedAt t = None) in
      Inr (count_where sel (email_tokens d),
           d\<lparr>email_tokens := upd_where sel (\<lambda>t. t\<lparr>et_UsedAt := Some ts\<rparr>) (email_tokens d)\<rparr>))"

definition MarkEmailConfirmationTokenUsed :: "time \<Rightarrow> uuid \<Rightarrow> nat writer" where [query_defs]:
  "MarkEmailConfirmationTokenUsed ts tok d =
     (let sel = (\<lambda>t. et_TokenUuid t = tok \<and> et_UsedAt t = None) in
      Inr (count_where sel (email_tokens d),
           d\<lparr>email_tokens := upd_where sel (\<lambda>t. t\<lparr>et_UsedAt := Some ts\<rparr>) (email_tokens d)\<rparr>))"

section \<open>password_reset_tokens.sql\<close>

definition GetPasswordResetTokenByHash :: "string \<Rightarrow> AuthPasswordResetToken reader" where
  [query_defs]:
  "GetPasswordResetTokenByHash h d =
     (case find (\<lambda>t. pt_TokenHash t = h) (reset_tokens d) of None \<Rightarrow> Inl NoRows | Some t \<Rightarrow> Inr t)"

definition InsertPasswordResetToken ::
  "time \<Rightarrow> uuid \<Rightarrow> uuid \<Rightarrow> string \<Rightarrow> time \<Rightarrow> unit writer" where [query_defs]:
  "InsertPasswordResetToken ts tok uid h expires d =
     (if \<exists>t \<in> set (reset_tokens d). pt_TokenUuid t = tok
        then Inl (unique_violation ''password_reset_tokens_pkey'')
      else if \<exists>t \<in> set (reset_tokens d). pt_TokenHash t = h
        then Inl (unique_violation ''password_reset_tokens_hash_unique'')
      else if \<forall>u \<in> set (users d). u_UserUuid u \<noteq> uid
        then Inl (fk_violation ''password_reset_tokens_user_uuid_fkey'')
      else Inr ((), d\<lparr>reset_tokens := reset_tokens d @ [\<lparr>pt_TokenUuid = tok, pt_UserUuid = uid,
        pt_TokenHash = h, pt_ExpiresAt = expires, pt_UsedAt = None, pt_CreatedAt = ts\<rparr>]\<rparr>))"

definition InvalidateActivePasswordResetTokensByUser :: "time \<Rightarrow> uuid \<Rightarrow> nat writer" where
  [query_defs]:
  "InvalidateActivePasswordResetTokensByUser ts uid d =
     (let sel = (\<lambda>t. pt_UserUuid t = uid \<and> pt_UsedAt t = None) in
      Inr (count_where sel (reset_tokens d),
           d\<lparr>reset_tokens := upd_where sel (\<lambda>t. t\<lparr>pt_UsedAt := Some ts\<rparr>) (reset_tokens d)\<rparr>))"

definition MarkPasswordResetTokenUsed :: "time \<Rightarrow> uuid \<Rightarrow> nat writer" where [query_defs]:
  "MarkPasswordResetTokenUsed ts tok d =
     (let sel = (\<lambda>t. pt_TokenUuid t = tok \<and> pt_UsedAt t = None) in
      Inr (count_where sel (reset_tokens d),
           d\<lparr>reset_tokens := upd_where sel (\<lambda>t. t\<lparr>pt_UsedAt := Some ts\<rparr>) (reset_tokens d)\<rparr>))"

section \<open>invitation_tokens.sql\<close>

definition GetInvitationTokenByHash :: "string \<Rightarrow> AuthInvitationToken reader" where [query_defs]:
  "GetInvitationTokenByHash h d =
     (case find (\<lambda>t. it_TokenHash t = h) (invitation_tokens d) of
        None \<Rightarrow> Inl NoRows | Some t \<Rightarrow> Inr t)"

definition InsertInvitationToken ::
  "time \<Rightarrow> uuid \<Rightarrow> string \<Rightarrow> string \<Rightarrow> string \<Rightarrow> time \<Rightarrow> unit writer" where [query_defs]:
  "InsertInvitationToken ts tok email role h expires d =
     (if \<exists>t \<in> set (invitation_tokens d). it_TokenUuid t = tok
        then Inl (unique_violation ''invitation_tokens_pkey'')
      else if \<exists>t \<in> set (invitation_tokens d). it_TokenHash t = h
        then Inl (unique_violation ''invitation_tokens_hash_unique'')
      else Inr ((), d\<lparr>invitation_tokens := invitation_tokens d @ [\<lparr>it_TokenUuid = tok,
        it_Email = email, it_Role = role, it_TokenHash = h, it_ExpiresAt = expires,
        it_UsedAt = None, it_CreatedAt = ts\<rparr>]\<rparr>))"

definition InvalidateActiveInvitationTokensByEmail :: "time \<Rightarrow> string \<Rightarrow> nat writer" where
  [query_defs]:
  "InvalidateActiveInvitationTokensByEmail ts email d =
     (let sel = (\<lambda>t. it_Email t = email \<and> it_UsedAt t = None) in
      Inr (count_where sel (invitation_tokens d),
           d\<lparr>invitation_tokens :=
             upd_where sel (\<lambda>t. t\<lparr>it_UsedAt := Some ts\<rparr>) (invitation_tokens d)\<rparr>))"

definition MarkInvitationTokenUsed :: "time \<Rightarrow> uuid \<Rightarrow> nat writer" where [query_defs]:
  "MarkInvitationTokenUsed ts tok d =
     (let sel = (\<lambda>t. it_TokenUuid t = tok \<and> it_UsedAt t = None) in
      Inr (count_where sel (invitation_tokens d),
           d\<lparr>invitation_tokens :=
             upd_where sel (\<lambda>t. t\<lparr>it_UsedAt := Some ts\<rparr>) (invitation_tokens d)\<rparr>))"

section \<open>refresh_tokens.sql\<close>

definition GetRefreshTokenByHash :: "string \<Rightarrow> AuthRefreshToken reader" where [query_defs]:
  "GetRefreshTokenByHash h d =
     (case find (\<lambda>t. rt_TokenHash t = h) (refresh_tokens d) of None \<Rightarrow> Inl NoRows | Some t \<Rightarrow> Inr t)"

definition InsertRefreshToken ::
  "time \<Rightarrow> uuid \<Rightarrow> uuid \<Rightarrow> uuid \<Rightarrow> uuid option \<Rightarrow> string \<Rightarrow> time \<Rightarrow> unit writer" where [query_defs]:
  "InsertRefreshToken ts tok uid family parent h expires d =
     (if \<exists>t \<in> set (refresh_tokens d). rt_TokenID t = tok
        then Inl (unique_violation ''refresh_tokens_pkey'')
      else if \<exists>t \<in> set (refresh_tokens d). rt_TokenHash t = h
        then Inl (unique_violation ''refresh_tokens_hash_unique'')
      else if \<forall>u \<in> set (users d). u_UserUuid u \<noteq> uid
        then Inl (fk_violation ''refresh_tokens_user_uuid_fkey'')
      else if (case parent of None \<Rightarrow> False | Some p \<Rightarrow> p \<noteq> tok \<and>
                (\<forall>t \<in> set (refresh_tokens d). rt_TokenID t \<noteq> p))
        then Inl (fk_violation ''refresh_tokens_parent_token_id_fkey'')
      else Inr ((), d\<lparr>refresh_tokens := refresh_tokens d @ [\<lparr>rt_TokenID = tok, rt_UserUuid = uid,
        rt_FamilyID = family, rt_ParentTokenID = parent, rt_TokenHash = h, rt_ExpiresAt = expires,
        rt_UsedAt = None, rt_RevokedAt = None, rt_RevocationReason = None, rt_CreatedAt = ts\<rparr>]\<rparr>))"

definition MarkRefreshTokenUsed :: "time \<Rightarrow> uuid \<Rightarrow> nat writer" where [query_defs]:
  "MarkRefreshTokenUsed ts tok d =
     (let sel = (\<lambda>t. rt_TokenID t = tok \<and> rt_UsedAt t = None) in
      Inr (count_where sel (refresh_tokens d),
           d\<lparr>refresh_tokens := upd_where sel (\<lambda>t. t\<lparr>rt_UsedAt := Some ts\<rparr>) (refresh_tokens d)\<rparr>))"

definition RevokeRefreshToken :: "time \<Rightarrow> uuid \<Rightarrow> string option \<Rightarrow> unit writer" where [query_defs]:
  "RevokeRefreshToken ts tok reason d =
     Inr ((), d\<lparr>refresh_tokens :=
       upd_where (\<lambda>t. rt_TokenID t = tok \<and> rt_RevokedAt t = None)
         (\<lambda>t. t\<lparr>rt_RevokedAt := Some ts, rt_RevocationReason := reason\<rparr>) (refresh_tokens d)\<rparr>)"

definition RevokeRefreshTokenFamily :: "time \<Rightarrow> uuid \<Rightarrow> string option \<Rightarrow> unit writer" where
  [query_defs]:
  "RevokeRefreshTokenFamily ts family reason d =
     Inr ((), d\<lparr>refresh_tokens :=
       upd_where (\<lambda>t. rt_FamilyID t = family \<and> rt_RevokedAt t = None)
         (\<lambda>t. t\<lparr>rt_RevokedAt := Some ts, rt_RevocationReason := reason\<rparr>) (refresh_tokens d)\<rparr>)"

definition RevokeRefreshTokensByUser :: "time \<Rightarrow> uuid \<Rightarrow> string option \<Rightarrow> unit writer" where
  [query_defs]:
  "RevokeRefreshTokensByUser ts uid reason d =
     Inr ((), d\<lparr>refresh_tokens :=
       upd_where (\<lambda>t. rt_UserUuid t = uid \<and> rt_RevokedAt t = None)
         (\<lambda>t. t\<lparr>rt_RevokedAt := Some ts, rt_RevocationReason := reason\<rparr>) (refresh_tokens d)\<rparr>)"

end
