(* ===== verification/Transactions.thy ===== *)
theory Transactions
  imports Tables
begin

text \<open>
  The abstract specification of what the service does to its database: every write of the
  repository (\<open>adapters/db/*_repo.go\<close>) as one atomic operation \<open>db_op\<close>, all or nothing, and the
  step relation of the operations that are admissible in a given database. The repository
  functions (theories UserRepo and TokenRepo) are proved to do nothing to the database but such
  steps, whatever faults and interleavings occur; the invariants of this theory therefore hold of
  every handler.
\<close>

section \<open>Data passed to the repository\<close>

definition RevocationReasonPasswordChanged :: string where
  "RevocationReasonPasswordChanged = ''password_changed''"
definition RevocationReasonTokenReuseDetected :: string where
  "RevocationReasonTokenReuseDetected = ''token_reuse_detected''"
definition RevocationReasonAccountDeleted :: string where
  "RevocationReasonAccountDeleted = ''account_deleted''"
definition RevocationReasonAccountDisabled :: string where
  "RevocationReasonAccountDisabled = ''account_disabled''"

record RefreshTokenRecord =
  rr_TokenID :: uuid
  rr_UserUUID :: uuid
  rr_FamilyID :: uuid
  rr_ParentTokenID :: "uuid option"
  rr_TokenHash :: string
  rr_ExpiresAt :: time

section \<open>Atomic operations\<close>

definition wbind :: "'a writer \<Rightarrow> ('a \<Rightarrow> 'b writer) \<Rightarrow> 'b writer" where
  "wbind m f d = (case m d of Inl e \<Rightarrow> Inl e | Inr (x, d') \<Rightarrow> f x d')"

definition wfail :: "goerr \<Rightarrow> 'a writer" where
  "wfail e d = Inl e"

definition wdone :: "unit writer" where
  "wdone d = Inr ((), d)"

lemma wbind_Inr: "wbind m f d = Inr r \<longleftrightarrow> (\<exists>x d'. m d = Inr (x, d') \<and> f x d' = Inr r)"
  by (auto simp: wbind_def split: sum.splits)

text \<open>Rows affected: an operation that needed exactly one row fails when there was none.\<close>

definition need_row :: "goerr \<Rightarrow> nat writer \<Rightarrow> unit writer" where
  "need_row e m = wbind m (\<lambda>n. if n = 0 then wfail e else wdone)"

lemma need_row_Inr:
  "need_row e m d = Inr ((), d') \<longleftrightarrow> (\<exists>n. n \<noteq> 0 \<and> m d = Inr (n, d'))"
  by (auto simp: need_row_def wbind_def wfail_def wdone_def split: sum.splits if_splits)

text \<open>A statement whose failure is reported as another error.\<close>

definition map_error :: "(goerr \<Rightarrow> goerr) \<Rightarrow> 'a writer \<Rightarrow> 'a writer" where
  "map_error h m d = (case m d of Inl e \<Rightarrow> Inl (h e) | Inr r \<Rightarrow> Inr r)"

lemma map_error_Inr [simp]: "map_error h m d = Inr r \<longleftrightarrow> m d = Inr r"
  by (auto simp: map_error_def split: sum.splits)

definition email_conflict :: "goerr \<Rightarrow> goerr" where
  "email_conflict e = (if IsUniqueViolationError (Some e) ''users_email_unique''
     then Sentinel ErrEmailAlreadyRegistered else e)"

datatype db_op =
    OpCreateUser Registration one_time_token
  | OpReissueEmailToken uuid one_time_token
  | OpConsumeEmailToken uuid uuid                   \<comment> \<open>token, user\<close>
  | OpIssueResetToken uuid one_time_token
  | OpConfirmReset uuid uuid string                 \<comment> \<open>user, token, new password hash\<close>
  | OpChangePassword uuid string
  | OpSaveRefreshToken RefreshTokenRecord
  | OpRotateRefreshToken uuid RefreshTokenRecord    \<comment> \<open>old token, new token\<close>
  | OpRevokeRefreshToken uuid "string option"
  | OpRevokeFamily uuid string
  | OpIssueInvitation string string one_time_token  \<comment> \<open>e-mail, role\<close>
  | OpAcceptInvitation uuid uuid string string string \<comment> \<open>new user, token, e-mail, role, hash\<close>
  | OpDisableAccount uuid bool
  | OpReactivateAccount uuid

fun insert_refresh :: "time \<Rightarrow> RefreshTokenRecord \<Rightarrow> unit writer" where
  "insert_refresh ts r =
     InsertRefreshToken ts (rr_TokenID r) (rr_UserUUID r) (rr_FamilyID r) (rr_ParentTokenID r)
       (rr_TokenHash r) (rr_ExpiresAt r)"

fun tx_op :: "time \<Rightarrow> db_op \<Rightarrow> unit writer" where
  "tx_op ts (OpCreateUser reg tok) =
     wbind (InsertUser ts (reg_UserUUID reg) (reg_Email reg) (reg_PasswordHash reg) (reg_Status reg))
       (\<lambda>_. wbind (InsertUserRole ts (reg_UserUUID reg) (reg_Role reg))
       (\<lambda>_. InsertEmailConfirmationToken ts (TokenUUID tok) (reg_UserUUID reg) (Hash tok) (ExpiresAt tok)))"
| "tx_op ts (OpReissueEmailToken uid tok) =
     wbind (InvalidateActiveEmailConfirmationTokensByUser ts uid)
       (\<lambda>_. InsertEmailConfirmationToken ts (TokenUUID tok) uid (Hash tok) (ExpiresAt tok))"
| "tx_op ts (OpConsumeEmailToken tok uid) =
     wbind (need_row (Sentinel ErrTokenConsumeConflict) (MarkEmailConfirmationTokenUsed ts tok))
       (\<lambda>_. need_row (Sentinel ErrTokenConsumeConflict)
              (TransitionUserStatus ts uid StatusInactive StatusMailUnverified))"
| "tx_op ts (OpIssueResetToken uid tok) =
     wbind (InvalidateActivePasswordResetTokensByUser ts uid)
       (\<lambda>_. InsertPasswordResetToken ts (TokenUUID tok) uid (Hash tok) (ExpiresAt tok))"
| "tx_op ts (OpConfirmReset uid tok h) =
     wbind (need_row (Sentinel ErrResetTokenConsumeConflict) (MarkPasswordResetTokenUsed ts tok))
       (\<lambda>_. wbind (InvalidateActivePasswordResetTokensByUser ts uid)
       (\<lambda>_. wbind (need_row (NewError ''user not found for password reset'') (UpdateUserPassword ts uid h))
       (\<lambda>_. RevokeRefreshTokensByUser ts uid (Some RevocationReasonPasswordChanged))))"
| "tx_op ts (OpChangePassword uid h) =
     wbind (need_row (NewError ''user not found for password update'') (UpdateUserPassword ts uid h))
       (\<lambda>_. RevokeRefreshTokensByUser ts uid (Some RevocationReasonPasswordChanged))"
| "tx_op ts (OpSaveRefreshToken r) = insert_refresh ts r"
| "tx_op ts (OpRotateRefreshToken old r) =
     wbind (need_row (Sentinel ErrRefreshTokenAlreadyUsed) (MarkRefreshTokenUsed ts old))
       (\<lambda>_. insert_refresh ts r)"
| "tx_op ts (OpRevokeRefreshToken tok reason) = RevokeRefreshToken ts tok reason"
| "tx_op ts (OpRevokeFamily family reason) = RevokeRefreshTokenFamily ts family (Some reason)"
| "tx_op ts (OpIssueInvitation email role tok) =
     wbind (InvalidateActiveInvitationTokensByEmail ts email)
       (\<lambda>_. InsertInvitationToken ts (TokenUUID tok) email role (Hash tok) (ExpiresAt tok))"
| "tx_op ts (OpAcceptInvitation uid tok email role h) =
     wbind (need_row (Sentinel ErrInvitationTokenConsumeConflict) (MarkInvitationTokenUsed ts tok))
       (\<lambda>_. wbind (InvalidateActiveInvitationTokensByEmail ts email)
       (\<lambda>_. wbind (map_error email_conflict (InsertUser ts uid email h StatusInactive))
       (\<lambda>_. InsertUserRole ts uid role)))"
| "tx_op ts (OpDisableAccount uid is_super) =
     (\<lambda>d. if is_super \<and> length (active_super_admins d) \<le> 1 then Inl (Sentinel ErrLastSuperAdmin)
          else wbind (need_row (Sentinel ErrAlreadyDisabled)
                        (TransitionUserStatus ts uid StatusDisabled StatusInactive))
                 (\<lambda>_. RevokeRefreshTokensByUser ts uid (Some RevocationReasonAccountDisabled)) d)"
| "tx_op ts (OpReactivateAccount uid) =
     need_row (Sentinel ErrNotDisabled) (TransitionUserStatus ts uid StatusInactive StatusDisabled)"

text \<open>
  What a caller of the operation has established about the database: the new account is an
  unconfirmed user; a consumed token belongs to the given user, an accepted invitation carries the
  given address and role; a login opens a new family; a rotation stays in the family of the token
  it consumes; only admin roles are invited; only administrators are disabled, and the flag passed to
  \<open>DisableAccount\<close> is right.
\<close>

fun admissible :: "db_op \<Rightarrow> db \<Rightarrow> bool" where
  "admissible (OpCreateUser reg tok) d =
     (reg_Status reg = StatusMailUnverified \<and> reg_Role reg = RoleUser)"
| "admissible (OpConsumeEmailToken tok uid) d =
     (\<forall>t \<in> set (email_tokens d). et_TokenUuid t = tok \<longrightarrow> et_UserUuid t = uid)"
| "admissible (OpConfirmReset uid tok h) d =
     (\<forall>t \<in> set (reset_tokens d). pt_TokenUuid t = tok \<longrightarrow> pt_UserUuid t = uid)"
| "admissible (OpSaveRefreshToken r) d =
     (rr_ParentTokenID r = None \<and> (\<forall>t \<in> set (refresh_tokens d). rt_FamilyID t \<noteq> rr_FamilyID r))"
| "admissible (OpRotateRefreshToken old r) d =
     (rr_ParentTokenID r = Some old \<and>
      (\<exists>t \<in> set (refresh_tokens d). rt_TokenID t = old \<and> rt_UserUuid t = rr_UserUUID r \<and>
         rt_FamilyID t = rr_FamilyID r))"
| "admissible (OpIssueInvitation email role tok) d = IsAdminRole role"
| "admissible (OpAcceptInvitation uid tok email role h) d =
     (\<forall>t \<in> set (invitation_tokens d). it_TokenUuid t = tok \<longrightarrow> it_Email t = email \<and> it_Role t = role)"
| "admissible (OpDisableAccount uid is_super) d =
     (is_super = (RoleSuperAdmin \<in> set (roles_of uid d)) \<and> list_ex IsAdminRole (roles_of uid d))"
| "admissible _ d = True"

section \<open>Steps and evolutions\<close>

inductive tx_step :: "db_op \<Rightarrow> db \<Rightarrow> db \<Rightarrow> bool" where
  commit: "admissible act d \<Longrightarrow> tx_op ts act d = Inr (x, d') \<Longrightarrow> tx_step act d d'"

inductive evolves :: "db \<Rightarrow> db \<Rightarrow> bool" where
  stay: "evolves d d"
| step: "evolves d d' \<Longrightarrow> tx_step act d' d'' \<Longrightarrow> evolves d d''"

inductive_cases tx_stepE: "tx_step act d d'"

lemma evolves_trans: "evolves d' d'' \<Longrightarrow> evolves d d' \<Longrightarrow> evolves d d''"
  by (induction rule: evolves.induct) (auto intro: evolves.intros)

lemma evolves_reflp: "reflp evolves"
  by (simp add: reflpI evolves.stay)

lemma evolves_transp: "transp evolves"
  by (meson evolves_trans transpI)

lemma evolves_op:
  "admissible act d \<Longrightarrow> tx_op ts act d = Inr (x, d') \<Longrightarrow> evolves d d'"
  by (meson commit evolves.intros)

text \<open>
  A reflexive, transitive relation that every step keeps holds along every evolution, and so does
  a property that every step preserves.
\<close>

lemma evolves_relation:
  assumes "evolves d d'" "reflp R" "transp R" "\<And>act d d'. tx_step act d d' \<Longrightarrow> R d d'"
  shows "R d d'"
  using assms(1)
  by (induction rule: evolves.induct) (meson assms(2-4) reflpD transpD)+

lemma evolves_invariant:
  assumes "evolves d d'" "I d" "\<And>act d d'. tx_step act d d' \<Longrightarrow> I d \<Longrightarrow> I d'"
  shows "I d'"
  using assms(1,2)
  by (induction rule: evolves.induct) (blast intro: assms(3))+

end
