(* ===== verification/Invariants.thy ===== *)
theory Invariants
  imports Transactions
begin

text \<open>
  The invariants of the database, each proved for every step an admissible operation can take and
  so for every evolution: the integrity of the schema, the monotonicity of the rows (tokens are
  never un-used or un-revoked, accounts move along the edges of STM-01 only), at most one active
  one-time token per account or address (CND-10, CND-18, CND-19), at most one unused refresh
  token per family, one owner per family, and at least one active super administrator (CND-14).
\<close>

section \<open>Relations kept by statements and operations\<close>

definition wkeeps :: "(db \<Rightarrow> db \<Rightarrow> bool) \<Rightarrow> 'a writer \<Rightarrow> bool" where
  "wkeeps R m \<longleftrightarrow> (\<forall>d x d'. m d = Inr (x, d') \<longrightarrow> R d d')"

named_theorems wkeeps_rules \<open>statements that keep a relation\<close>

lemma wkeepsI: "(\<And>d x d'. m d = Inr (x, d') \<Longrightarrow> R d d') \<Longrightarrow> wkeeps R m"
  by (auto simp: wkeeps_def)

lemma wkeepsD: "wkeeps R m \<Longrightarrow> m d = Inr (x, d') \<Longrightarrow> R d d'"
  by (auto simp: wkeeps_def)

lemma wkeeps_wbind:
  "transp R \<Longrightarrow> wkeeps R m \<Longrightarrow> (\<And>x. wkeeps R (f x)) \<Longrightarrow> wkeeps R (wbind m f)"
  unfolding wkeeps_def wbind_Inr by (meson transpD)

lemma wkeeps_wfail: "wkeeps R (wfail e)"
  by (simp add: wkeeps_def wfail_def)

lemma wkeeps_wdone: "reflp R \<Longrightarrow> wkeeps R wdone"
  by (simp add: wkeeps_def wdone_def reflpD)

lemma wkeeps_need_row: "reflp R \<Longrightarrow> transp R \<Longrightarrow> wkeeps R m \<Longrightarrow> wkeeps R (need_row e m)"
  by (simp add: need_row_def wkeeps_wbind wkeeps_wfail wkeeps_wdone)

lemma wkeeps_map_error: "wkeeps R m \<Longrightarrow> wkeeps R (map_error h m)"
  by (simp add: wkeeps_def)

lemmas wkeeps_seq = wkeeps_wbind wkeeps_need_row wkeeps_map_error

section \<open>What never changes back\<close>

text \<open>STM-01: the edges of the account state machine that the service implements.\<close>

definition status_edge :: "string \<Rightarrow> string \<Rightarrow> bool" where
  "status_edge s s' \<longleftrightarrow>
     s = StatusMailUnverified \<and> s' = StatusInactive \<or>
     s = StatusInactive \<and> s' = StatusDisabled \<or>
     s = StatusDisabled \<and> s' = StatusInactive"

definition status_reach :: "string \<Rightarrow> string \<Rightarrow> bool" where
  "status_reach s s' \<longleftrightarrow> status_edge\<^sup>*\<^sup>* s s'"

lemma status_reach_iff:
  "status_reach s s' \<longleftrightarrow> s' = s \<or>
     s \<in> {StatusMailUnverified, StatusInactive, StatusDisabled} \<and> s' \<in> {StatusInactive, StatusDisabled}"
proof
  assume "status_reach s s'"
  then have "status_edge\<^sup>*\<^sup>* s s'" by (simp add: status_reach_def)
  then show "s' = s \<or> s \<in> {StatusMailUnverified, StatusInactive, StatusDisabled}
      \<and> s' \<in> {StatusInactive, StatusDisabled}"
    by (induction rule: rtranclp_induct) (auto simp: status_edge_def)
next
  have "status_edge StatusMailUnverified StatusInactive" "status_edge StatusInactive StatusDisabled"
    "status_edge StatusDisabled StatusInactive" by (simp_all add: status_edge_def)
  moreover assume "s' = s \<or> s \<in> {StatusMailUnverified, StatusInactive, StatusDisabled}
      \<and> s' \<in> {StatusInactive, StatusDisabled}"
  ultimately show "status_reach s s'" unfolding status_reach_def
    by (auto intro: converse_rtranclp_into_rtranclp)
qed

definition used_le :: "time option \<Rightarrow> time option \<Rightarrow> bool" where
  "used_le a b \<longleftrightarrow> a = None \<or> b = a"

definition user_le :: "AuthUser \<Rightarrow> AuthUser \<Rightarrow> bool" where
  "user_le u u' \<longleftrightarrow> u_UserUuid u' = u_UserUuid u \<and> u_Email u' = u_Email u \<and>
     u_CreatedAt u' = u_CreatedAt u \<and> u_DeletedAt u' = u_DeletedAt u \<and>
     status_reach (u_Status u) (u_Status u')"

definition email_token_le :: "AuthEmailConfirmationToken \<Rightarrow> AuthEmailConfirmationToken \<Rightarrow> bool" where
  "email_token_le t t' \<longleftrightarrow>
     et_TokenUuid t' = et_TokenUuid t \<and> et_UserUuid t' = et_UserUuid t \<and>
     et_TokenHash t' = et_TokenHash t \<and> et_ExpiresAt t' = et_ExpiresAt t \<and>
     et_CreatedAt t' = et_CreatedAt t \<and> used_le (et_UsedAt t) (et_UsedAt t')"

definition reset_token_le :: "AuthPasswordResetToken \<Rightarrow> AuthPasswordResetToken \<Rightarrow> bool" where
  "reset_token_le t t' \<longleftrightarrow>
     pt_TokenUuid t' = pt_TokenUuid t \<and> pt_UserUuid t' = pt_UserUuid t \<and>
     pt_TokenHash t' = pt_TokenHash t \<and> pt_ExpiresAt t' = pt_ExpiresAt t \<and>
     pt_CreatedAt t' = pt_CreatedAt t \<and> used_le (pt_UsedAt t) (pt_UsedAt t')"

definition invitation_token_le :: "AuthInvitationToken \<Rightarrow> AuthInvitationToken \<Rightarrow> bool" where
  "invitation_token_le t t' \<longleftrightarrow>
     it_TokenUuid t' = it_TokenUuid t \<and> it_Email t' = it_Email t \<and> it_Role t' = it_Role t \<and>
     it_TokenHash t' = it_TokenHash t \<and> it_ExpiresAt t' = it_ExpiresAt t \<and>
     it_CreatedAt t' = it_CreatedAt t \<and> used_le (it_UsedAt t) (it_UsedAt t')"

definition refresh_token_le :: "AuthRefreshToken \<Rightarrow> AuthRefreshToken \<Rightarrow> bool" where
  "refresh_token_le t t' \<longleftrightarrow>
     rt_TokenID t' = rt_TokenID t \<and> rt_UserUuid t' = rt_UserUuid t \<and>
     rt_FamilyID t' = rt_FamilyID t \<and> rt_ParentTokenID t' = rt_ParentTokenID t \<and>
     rt_TokenHash t' = rt_TokenHash t \<and> rt_ExpiresAt t' = rt_ExpiresAt t \<and>
     rt_CreatedAt t' = rt_CreatedAt t \<and> used_le (rt_UsedAt t) (rt_UsedAt t') \<and>
     (rt_RevokedAt t \<noteq> None \<longrightarrow>
        rt_RevokedAt t' = rt_RevokedAt t \<and> rt_RevocationReason t' = rt_RevocationReason t)"

definition keeps :: "db \<Rightarrow> db \<Rightarrow> bool" where
  "keeps d d' \<longleftrightarrow> grows user_le (users d) (users d') \<and> prefix (user_roles d) (user_roles d') \<and>
     grows email_token_le (email_tokens d) (email_tokens d') \<and>
     grows reset_token_le (reset_tokens d) (reset_tokens d') \<and>
     grows invitation_token_le (invitation_tokens d) (invitation_tokens d') \<and>
     grows refresh_token_le (refresh_tokens d) (refresh_tokens d')"

lemmas row_le_defs = user_le_def email_token_le_def reset_token_le_def invitation_token_le_def
  refresh_token_le_def used_le_def status_reach_def

lemma row_le_reflp [simp]:
  "reflp user_le" "reflp email_token_le" "reflp reset_token_le" "reflp invitation_token_le"
  "reflp refresh_token_le"
  by (auto intro!: reflpI simp: row_le_defs)

lemma row_le_transp [simp]:
  "transp user_le" "transp email_token_le" "transp reset_token_le" "transp invitation_token_le"
  "transp refresh_token_le"
  by (auto intro!: transpI simp: row_le_defs)

lemma keeps_reflp: "reflp keeps"
  by (rule reflpI) (simp add: keeps_def grows_refl)

lemma keeps_transp: "transp keeps"
proof (rule transpI)
  fix a b c
  assume "keeps a b" "keeps b c"
  then show "keeps a c" unfolding keeps_def
    by (auto intro: grows_trans [OF row_le_transp(1)] grows_trans [OF row_le_transp(2)]
      grows_trans [OF row_le_transp(3)] grows_trans [OF row_le_transp(4)]
      grows_trans [OF row_le_transp(5)] prefix_order.trans)
qed

text \<open>Statement by statement: every insert and update of the repository keeps the rows.\<close>

lemmas insert_defs = InsertUser_def InsertUserRole_def InsertEmailConfirmationToken_def
  InsertPasswordResetToken_def InsertInvitationToken_def InsertRefreshToken_def
lemmas update_defs = TransitionUserStatus_def UpdateUserPassword_def
  InvalidateActiveEmailConfirmationTokensByUser_def MarkEmailConfirmationTokenUsed_def
  InvalidateActivePasswordResetTokensByUser_def MarkPasswordResetTokenUsed_def
  InvalidateActiveInvitationTokensByEmail_def MarkInvitationTokenUsed_def
  MarkRefreshTokenUsed_def RevokeRefreshToken_def RevokeRefreshTokenFamily_def
  RevokeRefreshTokensByUser_def Let_def

lemma keeps_insert [wkeeps_rules]:
  "wkeeps keeps (InsertUser ts uid email h st)"
  "wkeeps keeps (InsertUserRole ts uid role)"
  "wkeeps keeps (InsertEmailConfirmationToken ts tok uid h ex)"
  "wkeeps keeps (InsertPasswordResetToken ts tok uid h ex)"
  "wkeeps keeps (InsertInvitationToken ts tok email role h ex)"
  "wkeeps keeps (InsertRefreshToken ts tok uid fam par h ex)"
  by (rule wkeepsI; auto simp: keeps_def insert_defs grows_refl grows_append split: if_splits)+

lemma keeps_update [wkeeps_rules]:
  "wkeeps keeps (UpdateUserPassword ts uid h)"
  "wkeeps keeps (InvalidateActiveEmailConfirmationTokensByUser ts uid)"
  "wkeeps keeps (MarkEmailConfirmationTokenUsed ts tok)"
  "wkeeps keeps (InvalidateActivePasswordResetTokensByUser ts uid)"
  "wkeeps keeps (MarkPasswordResetTokenUsed ts tok)"
  "wkeeps keeps (InvalidateActiveInvitationTokensByEmail ts email)"
  "wkeeps keeps (MarkInvitationTokenUsed ts tok)"
  "wkeeps keeps (MarkRefreshTokenUsed ts tok)"
  "wkeeps keeps (RevokeRefreshToken ts tok reason)"
  "wkeeps keeps (RevokeRefreshTokenFamily ts fam reason)"
  "wkeeps keeps (RevokeRefreshTokensByUser ts uid reason)"
  by (rule wkeepsI; auto simp: keeps_def update_defs grows_refl row_le_defs intro!: grows_upd_where)+

lemma keeps_transition [wkeeps_rules]:
  "status_edge old new \<Longrightarrow> wkeeps keeps (TransitionUserStatus ts uid new old)"
  by (rule wkeepsI) (auto simp: keeps_def update_defs grows_refl row_le_defs intro!: grows_upd_where)

lemma keeps_tx_op: "wkeeps keeps (tx_op ts act)"
proof (cases act)
  case (OpDisableAccount uid is_super)
  have "wkeeps keeps (tx_op ts (OpDisableAccount uid False))"
    by (auto intro!: wkeeps_seq wkeeps_rules keeps_transp keeps_reflp simp: status_edge_def)
  then show ?thesis unfolding OpDisableAccount wkeeps_def by (auto split: if_splits)
qed (auto intro!: wkeeps_seq wkeeps_rules keeps_transp keeps_reflp simp: status_edge_def)

lemma evolves_keeps: "evolves d d' \<Longrightarrow> keeps d d'"
  by (erule evolves_relation [OF _ keeps_reflp keeps_transp])
    (auto elim!: tx_stepE intro: wkeepsD [OF keeps_tx_op])

section \<open>Integrity of the schema\<close>

definition user_ids :: "db \<Rightarrow> uuid set" where
  "user_ids d = u_UserUuid ` set (users d)"

definition users_ok :: "db \<Rightarrow> bool" where
  "users_ok d \<longleftrightarrow> distinct (map u_UserUuid (users d)) \<and>
     distinct (map u_Email (filter live (users d))) \<and> (\<forall>u \<in> set (users d). status_check (u_Status u))"

definition roles_ok :: "db \<Rightarrow> bool" where
  "roles_ok d \<longleftrightarrow> distinct (map (\<lambda>r. (ur_UserUuid r, ur_Role r)) (user_roles d)) \<and>
     ur_UserUuid ` set (user_roles d) \<subseteq> user_ids d"

definition email_tokens_ok :: "db \<Rightarrow> bool" where
  "email_tokens_ok d \<longleftrightarrow> distinct (map et_TokenUuid (email_tokens d)) \<and>
     distinct (map et_TokenHash (email_tokens d)) \<and> et_UserUuid ` set (email_tokens d) \<subseteq> user_ids d"

definition reset_tokens_ok :: "db \<Rightarrow> bool" where
  "reset_tokens_ok d \<longleftrightarrow> distinct (map pt_TokenUuid (reset_tokens d)) \<and>
     distinct (map pt_TokenHash (reset_tokens d)) \<and> pt_UserUuid ` set (reset_tokens d) \<subseteq> user_ids d"

definition invitation_tokens_ok :: "db \<Rightarrow> bool" where
  "invitation_tokens_ok d \<longleftrightarrow> distinct (map it_TokenUuid (invitation_tokens d)) \<and>
     distinct (map it_TokenHash (invitation_tokens d))"

definition refresh_tokens_ok :: "db \<Rightarrow> bool" where
  "refresh_tokens_ok d \<longleftrightarrow> distinct (map rt_TokenID (refresh_tokens d)) \<and>
     distinct (map rt_TokenHash (refresh_tokens d)) \<and>
     rt_UserUuid ` set (refresh_tokens d) \<subseteq> user_ids d"

definition schema_ok :: "db \<Rightarrow> bool" where
  "schema_ok d \<longleftrightarrow> users_ok d \<and> roles_ok d \<and> email_tokens_ok d \<and> reset_tokens_ok d \<and>
     invitation_tokens_ok d \<and> refresh_tokens_ok d"

definition keeps_schema :: "db \<Rightarrow> db \<Rightarrow> bool" where
  "keeps_schema d d' \<longleftrightarrow> (schema_ok d \<longrightarrow> schema_ok d')"

lemmas table_ok_defs = users_ok_def roles_ok_def email_tokens_ok_def reset_tokens_ok_def
  invitation_tokens_ok_def refresh_tokens_ok_def

lemma keeps_schema_reflp: "reflp keeps_schema" and keeps_schema_transp: "transp keeps_schema"
  by (auto intro: reflpI transpI simp: keeps_schema_def)

lemma live_upd_where:
  "(\<And>u. u_Email (f u) = u_Email u) \<Longrightarrow> (\<And>u. u_DeletedAt (f u) = u_DeletedAt u) \<Longrightarrow>
   map u_Email (filter live (upd_where p f us)) = map u_Email (filter live us)"
  by (induction us) (simp_all add: upd_where_def live_def)

lemma image_upd_where:
  "(\<And>r. g (f r) = g r) \<Longrightarrow> g ` set (upd_where p f rs) = g ` set rs"
  by (metis list.set_map map_upd_where)

lemma status_upd_where:
  "(\<And>u. p u \<Longrightarrow> status_check (u_Status u) \<Longrightarrow> status_check (u_Status (f u))) \<Longrightarrow>
   \<forall>u \<in> set us. status_check (u_Status u) \<Longrightarrow>
   \<forall>u \<in> set (upd_where p f us). status_check (u_Status u)"
  by (auto elim!: in_upd_whereE)

lemmas schema_simps = table_ok_defs schema_ok_def user_ids_def map_upd_where live_upd_where
  image_upd_where

lemma schema_insert_user [wkeeps_rules]: "wkeeps keeps_schema (InsertUser ts uid email h st)"
proof (rule wkeepsI)
  fix d x d'
  assume ins: "InsertUser ts uid email h st d = Inr (x, d')"
  then have new: "status_check st" "uid \<notin> user_ids d" "email \<notin> u_Email ` set (filter live (users d))"
    by (auto simp: InsertUser_def user_ids_def split: if_splits)
  have "user_ids d' = insert uid (user_ids d)"
    using ins by (auto simp: InsertUser_def user_ids_def split: if_splits)
  moreover have "users_ok d \<Longrightarrow> users_ok d'"
    using ins new by (auto simp: InsertUser_def users_ok_def user_ids_def split: if_splits)
  ultimately show "keeps_schema d d'"
    using ins by (clarsimp simp: keeps_schema_def schema_ok_def InsertUser_def roles_ok_def
        email_tokens_ok_def reset_tokens_ok_def invitation_tokens_ok_def refresh_tokens_ok_def
        subset_insertI2 split: if_splits)
qed

lemma schema_insert [wkeeps_rules]:
  "wkeeps keeps_schema (InsertUserRole ts uid role)"
  "wkeeps keeps_schema (InsertEmailConfirmationToken ts tok uid h ex)"
  "wkeeps keeps_schema (InsertPasswordResetToken ts tok uid h ex)"
  "wkeeps keeps_schema (InsertInvitationToken ts tok email role h ex)"
  "wkeeps keeps_schema (InsertRefreshToken ts tok uid fam par h ex)"
  by (rule wkeepsI, clarsimp simp: keeps_schema_def insert_defs split: if_splits,
      clarsimp simp: schema_simps, blast)+

lemma schema_update [wkeeps_rules]:
  "wkeeps keeps_schema (InvalidateActiveEmailConfirmationTokensByUser ts uid)"
  "wkeeps keeps_schema (MarkEmailConfirmationTokenUsed ts tok)"
  "wkeeps keeps_schema (InvalidateActivePasswordResetTokensByUser ts uid)"
  "wkeeps keeps_schema (MarkPasswordResetTokenUsed ts tok)"
  "wkeeps keeps_schema (InvalidateActiveInvitationTokensByEmail ts em)"
  "wkeeps keeps_schema (MarkInvitationTokenUsed ts tok)"
  "wkeeps keeps_schema (MarkRefreshTokenUsed ts tok)"
  "wkeeps keeps_schema (RevokeRefreshToken ts tok reason)"
  "wkeeps keeps_schema (RevokeRefreshTokenFamily ts fam reason)"
  "wkeeps keeps_schema (RevokeRefreshTokensByUser ts uid reason)"
  by (rule wkeepsI, clarsimp simp: keeps_schema_def update_defs, simp add: schema_simps)+

lemma schema_users_update:
  assumes "\<And>u. u_UserUuid (f u) = u_UserUuid u" "\<And>u. u_Email (f u) = u_Email u"
    "\<And>u. u_DeletedAt (f u) = u_DeletedAt u"
    "\<And>u. status_check (u_Status u) \<Longrightarrow> status_check (u_Status (f u))"
  shows "keeps_schema d (d\<lparr>users := upd_where p f (users d)\<rparr>)"
  unfolding keeps_schema_def using status_upd_where [of p f "users d"]
  by (clarsimp simp: schema_simps assms)

lemma schema_users_writers [wkeeps_rules]:
  "wkeeps keeps_schema (UpdateUserPassword ts uid h)"
  "status_check new \<Longrightarrow> wkeeps keeps_schema (TransitionUserStatus ts uid new old)"
  by (rule wkeepsI; clarsimp simp: update_defs schema_users_update)+

lemma schema_tx_op: "wkeeps keeps_schema (tx_op ts act)"
proof (cases act)
  case (OpDisableAccount uid is_super)
  have "wkeeps keeps_schema (tx_op ts (OpDisableAccount uid False))"
    by (auto intro!: wkeeps_seq wkeeps_rules keeps_schema_transp keeps_schema_reflp
        simp: status_check_def)
  then show ?thesis unfolding OpDisableAccount wkeeps_def by (auto split: if_splits)
qed (auto intro!: wkeeps_seq wkeeps_rules keeps_schema_transp keeps_schema_reflp simp: status_check_def)

lemma evolves_schema: "evolves d d' \<Longrightarrow> schema_ok d \<Longrightarrow> schema_ok d'"
  by (erule evolves_invariant) (auto elim!: tx_stepE simp: keeps_schema_def
      dest!: wkeepsD [OF schema_tx_op])

lemma schema_ok_empty: "schema_ok empty_db"
  by (simp add: schema_simps empty_db_def)

section \<open>At most one active token per owner\<close>

text \<open>
  The contract the three tables of one-time tokens share with the table of refresh tokens: rows
  have an owner (an account, an address, a token family) and a mark that is set once. Marking rows
  and inserting a row for an owner without an active row keep "at most one active row per owner";
  the ways the repository ensures the latter are the lemmas of the locale.
\<close>

definition active_rows :: "('r \<Rightarrow> 'k) \<Rightarrow> ('r \<Rightarrow> time option) \<Rightarrow> 'k \<Rightarrow> 'r list \<Rightarrow> nat" where
  "active_rows owner used k rows = count_where (\<lambda>r. owner r = k \<and> used r = None) rows"

definition one_active :: "('r \<Rightarrow> 'k) \<Rightarrow> ('r \<Rightarrow> time option) \<Rightarrow> 'r list \<Rightarrow> bool" where
  "one_active owner used rows \<longleftrightarrow> (\<forall>k. active_rows owner used k rows \<le> 1)"

locale mark_once =
  fixes owner :: "'r \<Rightarrow> 'k" and used :: "'r \<Rightarrow> time option" and mark :: "time \<Rightarrow> 'r \<Rightarrow> 'r"
  assumes owner_mark: "owner (mark ts r) = owner r"
    and used_mark: "used (mark ts r) = Some ts"
begin

lemma mark_le: "active_rows owner used k (upd_where p (mark ts) rows) \<le> active_rows owner used k rows"
  unfolding active_rows_def by (rule count_upd_where_le) (simp add: used_mark)

lemma mark_one_active:
  "one_active owner used rows \<Longrightarrow> one_active owner used (upd_where p (mark ts) rows)"
  unfolding one_active_def using mark_le le_trans by blast

lemma insert_one_active:
  assumes "one_active owner used rows" "active_rows owner used (owner r) rows = 0"
  shows "one_active owner used (rows @ [r])"
  using assms by (auto simp: one_active_def active_rows_def)

lemma invalidate_none_active:
  "active_rows owner used k (upd_where (\<lambda>r. owner r = k \<and> used r = None) (mark ts) rows) = 0"
  unfolding active_rows_def by (rule count_upd_where_clear) (auto simp: used_mark)

text \<open>Invalidate the owner's rows, then insert: issuing and re-issuing a one-time token.\<close>

lemma reissue_one_active:
  assumes "one_active owner used rows" "owner r = k"
  shows "one_active owner used
    (upd_where (\<lambda>r. owner r = k \<and> used r = None) (mark ts) rows @ [r])"
  by (rule insert_one_active) (simp_all add: assms mark_one_active invalidate_none_active)

text \<open>Insert for an owner without rows: a new account, a new session.\<close>

lemma fresh_one_active:
  assumes "one_active owner used rows" "owner r \<notin> owner ` set rows"
  shows "one_active owner used (rows @ [r])"
proof (rule insert_one_active [OF assms(1)])
  have "\<forall>x \<in> set rows. owner x \<noteq> owner r" using assms(2) by (metis image_eqI)
  then show "active_rows owner used (owner r) rows = 0"
    by (simp add: active_rows_def count_where_zero)
qed

text \<open>Consume the active row of the owner, then insert its successor: token rotation.\<close>

lemma rotate_one_active:
  assumes "one_active owner used rows" "x \<in> set rows" "p x" "used x = None" "owner r = owner x"
  shows "one_active owner used (upd_where p (mark ts) rows @ [r])"
proof (rule insert_one_active)
  let ?act = "\<lambda>r. owner r = owner x \<and> used r = None"
  obtain as bs where rows: "rows = as @ x # bs" using assms(2) by (meson split_list)
  have "count_where ?act rows \<le> 1"
    using assms(1) by (simp add: one_active_def active_rows_def)
  then have "count_where ?act as = 0" "count_where ?act bs = 0"
    using assms(4) by (simp_all add: rows count_where_def)
  moreover have "count_where ?act (upd_where p (mark ts) zs) = 0" if "count_where ?act zs = 0" for zs
    using count_upd_where_le [of p ?act "mark ts" zs] that by (simp add: used_mark)
  moreover have "upd_where p (mark ts) rows =
      upd_where p (mark ts) as @ mark ts x # upd_where p (mark ts) bs"
    using assms(3) by (simp add: rows upd_where_def)
  ultimately show "active_rows owner used (owner r) (upd_where p (mark ts) rows) = 0"
    by (simp add: active_rows_def assms(5) count_where_def used_mark)
qed (simp add: assms mark_one_active)

end

interpretation email_store: mark_once et_UserUuid et_UsedAt "\<lambda>ts t. t\<lparr>et_UsedAt := Some ts\<rparr>"
  by unfold_locales simp_all

interpretation reset_store: mark_once pt_UserUuid pt_UsedAt "\<lambda>ts t. t\<lparr>pt_UsedAt := Some ts\<rparr>"
  by unfold_locales simp_all

interpretation invitation_store: mark_once it_Email it_UsedAt "\<lambda>ts t. t\<lparr>it_UsedAt := Some ts\<rparr>"
  by unfold_locales simp_all

interpretation refresh_store: mark_once rt_FamilyID rt_UsedAt "\<lambda>ts t. t\<lparr>rt_UsedAt := Some ts\<rparr>"
  by unfold_locales simp_all

definition one_active_tokens :: "db \<Rightarrow> bool" where
  "one_active_tokens d \<longleftrightarrow> one_active et_UserUuid et_UsedAt (email_tokens d) \<and>
     one_active pt_UserUuid pt_UsedAt (reset_tokens d) \<and>
     one_active it_Email it_UsedAt (invitation_tokens d)"

definition one_active_family :: "db \<Rightarrow> bool" where
  "one_active_family d \<longleftrightarrow> one_active rt_FamilyID rt_UsedAt (refresh_tokens d)"

lemmas tx_simps = wbind_Inr need_row_Inr wdone_def wfail_def count_where_pos

text \<open>An operation on the token tables either marks rows, reissues, or inserts for a new owner.\<close>

lemma one_active_email_tx:
  assumes "tx_op ts act d = Inr (x, d')" "schema_ok d" "one_active et_UserUuid et_UsedAt (email_tokens d)"
  shows "one_active et_UserUuid et_UsedAt (email_tokens d')"
proof (cases act)
  case (OpCreateUser reg tok)
  have "reg_UserUUID reg \<notin> et_UserUuid ` set (email_tokens d)"
    using assms(1,2) by (auto simp: OpCreateUser tx_simps InsertUser_def schema_ok_def
        email_tokens_ok_def user_ids_def subset_iff split: if_splits)
  then show ?thesis using assms(1,3)
    by (auto simp: OpCreateUser tx_simps insert_defs split: if_splits
        intro!: email_store.fresh_one_active)
next
  case (OpReissueEmailToken uid tok)
  then show ?thesis using assms(1,3)
    by (auto simp: tx_simps insert_defs update_defs split: if_splits
        intro!: email_store.reissue_one_active)
next
  case (OpConsumeEmailToken tok uid)
  then show ?thesis using assms(1,3)
    by (auto simp: tx_simps update_defs intro!: email_store.mark_one_active)
qed (use assms(1,3) in \<open>auto simp: tx_simps insert_defs update_defs split: if_splits\<close>)

lemma one_active_reset_tx:
  assumes "tx_op ts act d = Inr (x, d')" "one_active pt_UserUuid pt_UsedAt (reset_tokens d)"
  shows "one_active pt_UserUuid pt_UsedAt (reset_tokens d')"
proof (cases act)
  case (OpIssueResetToken uid tok)
  then show ?thesis using assms
    by (auto simp: tx_simps insert_defs update_defs split: if_splits
        intro!: reset_store.reissue_one_active)
next
  case (OpConfirmReset uid tok h)
  then show ?thesis using assms
    by (auto simp: tx_simps update_defs intro!: reset_store.mark_one_active)
qed (use assms in \<open>auto simp: tx_simps insert_defs update_defs split: if_splits\<close>)

lemma one_active_invitation_tx:
  assumes "tx_op ts act d = Inr (x, d')" "one_active it_Email it_UsedAt (invitation_tokens d)"
  shows "one_active it_Email it_UsedAt (invitation_tokens d')"
proof (cases act)
  case (OpIssueInvitation email role tok)
  then show ?thesis using assms
    by (auto simp: tx_simps insert_defs update_defs split: if_splits
        intro!: invitation_store.reissue_one_active)
next
  case (OpAcceptInvitation uid tok email role h)
  then show ?thesis using assms
    by (auto simp: tx_simps insert_defs update_defs split: if_splits
        intro!: invitation_store.mark_one_active)
qed (use assms in \<open>auto simp: tx_simps insert_defs update_defs split: if_splits\<close>)

lemma evolves_one_active_tokens:
  "evolves d d' \<Longrightarrow> schema_ok d \<Longrightarrow> one_active_tokens d \<Longrightarrow> schema_ok d' \<and> one_active_tokens d'"
  by (erule evolves_invariant [where I = "\<lambda>d. schema_ok d \<and> one_active_tokens d"])
    (auto elim!: tx_stepE simp: one_active_tokens_def keeps_schema_def
      dest: wkeepsD [OF schema_tx_op] one_active_email_tx one_active_reset_tx one_active_invitation_tx)

section \<open>Refresh-token families\<close>

text \<open>A token family (a login session and its rotations) belongs to one account.\<close>

definition family_owner :: "db \<Rightarrow> bool" where
  "family_owner d \<longleftrightarrow> (\<forall>t \<in> set (refresh_tokens d). \<forall>t' \<in> set (refresh_tokens d).
     rt_FamilyID t = rt_FamilyID t' \<longrightarrow> rt_UserUuid t = rt_UserUuid t')"

definition family_inv :: "db \<Rightarrow> bool" where
  "family_inv d \<longleftrightarrow> schema_ok d \<and> one_active_family d \<and> family_owner d"

text \<open>The columns of the refresh tokens that no statement updates.\<close>

definition token_heads :: "db \<Rightarrow> (uuid \<times> uuid) set" where
  "token_heads d = (\<lambda>t. (rt_FamilyID t, rt_UserUuid t)) ` set (refresh_tokens d)"

lemma family_owner_heads:
  "family_owner d \<longleftrightarrow> (\<forall>f u u'. (f, u) \<in> token_heads d \<longrightarrow> (f, u') \<in> token_heads d \<longrightarrow> u = u')"
  unfolding family_owner_def token_heads_def ball_simps image_iff bex_simps by fast

definition same_sessions :: "db \<Rightarrow> db \<Rightarrow> bool" where
  "same_sessions d d' \<longleftrightarrow> token_heads d' = token_heads d \<and>
     (one_active_family d \<longrightarrow> one_active_family d')"

lemma same_sessions_rel: "reflp same_sessions" "transp same_sessions"
  by (auto intro: reflpI transpI simp: same_sessions_def)

lemma revoke_one_active:
  "one_active rt_FamilyID rt_UsedAt (upd_where p (\<lambda>t. t\<lparr>rt_RevokedAt := a, rt_RevocationReason := b\<rparr>) rows)
   = one_active rt_FamilyID rt_UsedAt rows"
proof -
  have "active_rows rt_FamilyID rt_UsedAt k
      (upd_where p (\<lambda>t. t\<lparr>rt_RevokedAt := a, rt_RevocationReason := b\<rparr>) rows)
      = active_rows rt_FamilyID rt_UsedAt k rows" for k
    by (induction rows) (auto simp: active_rows_def upd_where_def count_where_def)
  then show ?thesis by (simp add: one_active_def)
qed

lemmas session_simps = same_sessions_def token_heads_def one_active_family_def image_upd_where
  revoke_one_active refresh_store.mark_one_active

lemma sessions_insert [wkeeps_rules]:
  "wkeeps same_sessions (InsertUser ts uid email h st)"
  "wkeeps same_sessions (InsertUserRole ts uid role)"
  "wkeeps same_sessions (InsertEmailConfirmationToken ts tok uid h ex)"
  "wkeeps same_sessions (InsertPasswordResetToken ts tok uid h ex)"
  "wkeeps same_sessions (InsertInvitationToken ts tok email role h ex)"
  by (rule wkeepsI, clarsimp simp: insert_defs session_simps split: if_splits)+

lemma sessions_update [wkeeps_rules]:
  "wkeeps same_sessions (UpdateUserPassword ts uid h)"
  "wkeeps same_sessions (TransitionUserStatus ts uid new old)"
  "wkeeps same_sessions (InvalidateActiveEmailConfirmationTokensByUser ts uid)"
  "wkeeps same_sessions (MarkEmailConfirmationTokenUsed ts tok)"
  "wkeeps same_sessions (InvalidateActivePasswordResetTokensByUser ts uid)"
  "wkeeps same_sessions (MarkPasswordResetTokenUsed ts tok)"
  "wkeeps same_sessions (InvalidateActiveInvitationTokensByEmail ts em)"
  "wkeeps same_sessions (MarkInvitationTokenUsed ts tok)"
  "wkeeps same_sessions (MarkRefreshTokenUsed ts tok)"
  "wkeeps same_sessions (RevokeRefreshToken ts tok reason)"
  "wkeeps same_sessions (RevokeRefreshTokenFamily ts fam reason)"
  "wkeeps same_sessions (RevokeRefreshTokensByUser ts uid reason)"
  by (rule wkeepsI, clarsimp simp: update_defs session_simps)+

lemma sessions_other:
  assumes "\<And>r. act \<noteq> OpSaveRefreshToken r" "\<And>old r. act \<noteq> OpRotateRefreshToken old r"
  shows "wkeeps same_sessions (tx_op ts act)"
proof (cases act)
  case (OpDisableAccount uid is_super)
  have "wkeeps same_sessions (tx_op ts (OpDisableAccount uid False))"
    by (auto intro!: wkeeps_seq wkeeps_rules same_sessions_rel)
  then show ?thesis unfolding OpDisableAccount wkeeps_def by (auto split: if_splits)
qed (use assms in \<open>auto intro!: wkeeps_seq wkeeps_rules same_sessions_rel\<close>)

text \<open>Only a login opens a family.\<close>

definition families :: "db \<Rightarrow> uuid set" where
  "families d = rt_FamilyID ` set (refresh_tokens d)"

fun opened_families :: "db_op \<Rightarrow> uuid set" where
  "opened_families (OpSaveRefreshToken r) = {rr_FamilyID r}"
| "opened_families (OpRotateRefreshToken old r) = {rr_FamilyID r}"
| "opened_families _ = {}"

lemma families_heads: "families d = fst ` token_heads d"
  by (simp add: families_def token_heads_def image_image)

lemma families_tx:
  assumes "tx_op ts act d = Inr (x, d')"
  shows "families d' \<subseteq> families d \<union> opened_families act"
proof (cases "(\<exists>r. act = OpSaveRefreshToken r) \<or> (\<exists>old r. act = OpRotateRefreshToken old r)")
  case True
  then show ?thesis using assms
    by (auto simp: families_def tx_simps InsertRefreshToken_def MarkRefreshTokenUsed_def Let_def
        set_upd_where split: if_splits)
next
  case False
  then have "same_sessions d d'" using assms wkeepsD [OF sessions_other] by metis
  then show ?thesis by (simp add: families_heads same_sessions_def)
qed

lemma family_save:
  assumes "tx_op ts (OpSaveRefreshToken r) d = Inr (x, d')" "admissible (OpSaveRefreshToken r) d"
    "one_active_family d" "family_owner d"
  shows "one_active_family d' \<and> family_owner d'"
proof -
  obtain new where new: "refresh_tokens d' = refresh_tokens d @ [new]"
      "rt_FamilyID new = rr_FamilyID r" "rt_UserUuid new = rr_UserUUID r"
    using assms(1) by (auto simp: InsertRefreshToken_def split: if_splits)
  have fresh: "rr_FamilyID r \<notin> rt_FamilyID ` set (refresh_tokens d)" using assms(2) by auto
  then have "one_active_family d'"
    using assms(3) new by (simp add: one_active_family_def refresh_store.fresh_one_active)
  moreover have "token_heads d' = insert (rr_FamilyID r, rr_UserUUID r) (token_heads d)"
    using new by (simp add: token_heads_def)
  moreover have "(rr_FamilyID r, u) \<notin> token_heads d" for u
    using fresh unfolding token_heads_def by blast
  ultimately have "family_owner d'"
    using assms(4) unfolding family_owner_heads by simp
  with \<open>one_active_family d'\<close> show ?thesis ..
qed

lemma family_rotate:
  assumes tx: "tx_op ts (OpRotateRefreshToken old r) d = Inr (x, d')"
    and adm: "admissible (OpRotateRefreshToken old r) d" and inv: "family_inv d"
  shows "one_active_family d' \<and> family_owner d'"
proof -
  let ?sel = "\<lambda>t. rt_TokenID t = old \<and> rt_UsedAt t = None"
  let ?marked = "upd_where ?sel (\<lambda>t. t\<lparr>rt_UsedAt := Some ts\<rparr>) (refresh_tokens d)"
  obtain new where new: "refresh_tokens d' = ?marked @ [new]" "rt_FamilyID new = rr_FamilyID r"
      "rt_UserUuid new = rr_UserUUID r"
    and ex: "\<exists>t \<in> set (refresh_tokens d). ?sel t"
    using tx by (auto simp: tx_simps InsertRefreshToken_def MarkRefreshTokenUsed_def Let_def
        split: if_splits)
  then obtain t where t: "t \<in> set (refresh_tokens d)" "?sel t" by blast
  have "distinct (map rt_TokenID (refresh_tokens d))"
    using inv by (simp add: family_inv_def schema_ok_def refresh_tokens_ok_def)
  then have t2: "rt_UserUuid t = rr_UserUUID r" "rt_FamilyID t = rr_FamilyID r"
    using adm t by (auto dest: distinct_map_eq)
  have "one_active_family d'"
    unfolding one_active_family_def new(1)
    by (rule refresh_store.rotate_one_active [where p = ?sel, OF _ t(1)])
      (use inv t t2 new in \<open>auto simp: family_inv_def one_active_family_def\<close>)
  have "token_heads d' = insert (rr_FamilyID r, rr_UserUUID r) (token_heads d)"
    using new by (simp add: token_heads_def image_upd_where)
  moreover have "(rr_FamilyID r, rr_UserUUID r) \<in> token_heads d"
    unfolding token_heads_def by (rule image_eqI [OF _ t(1)]) (simp add: t2)
  ultimately have "token_heads d' = token_heads d" by (simp add: insert_absorb)
  with \<open>one_active_family d'\<close> show ?thesis using inv by (simp add: family_inv_def family_owner_heads)
qed

lemma family_tx:
  assumes "tx_op ts act d = Inr (x, d')" "admissible act d" "family_inv d"
  shows "family_inv d'"
proof -
  have "schema_ok d'" using assms wkeepsD [OF schema_tx_op] by (auto simp: family_inv_def keeps_schema_def)
  moreover have "one_active_family d' \<and> family_owner d'"
  proof (cases "(\<exists>r. act = OpSaveRefreshToken r) \<or> (\<exists>old r. act = OpRotateRefreshToken old r)")
    case True
    then show ?thesis using assms family_save family_rotate by (auto simp: family_inv_def)
  next
    case False
    then have "same_sessions d d'" using assms(1) wkeepsD [OF sessions_other] by metis
    then show ?thesis using assms(3) by (simp add: family_inv_def same_sessions_def family_owner_heads)
  qed
  ultimately show ?thesis by (simp add: family_inv_def)
qed

lemma evolves_family: "evolves d d' \<Longrightarrow> family_inv d \<Longrightarrow> family_inv d'"
  by (erule evolves_invariant) (auto elim!: tx_stepE intro: family_tx)

section \<open>The last super administrator\<close>

definition is_active_super :: "db \<Rightarrow> AuthUser \<Rightarrow> bool" where
  "is_active_super d u \<longleftrightarrow> u_Status u = StatusInactive \<and> live u \<and>
     (\<exists>r \<in> set (user_roles d). ur_UserUuid r = u_UserUuid u \<and> ur_Role r = RoleSuperAdmin)"

definition supers :: "db \<Rightarrow> uuid set" where
  "supers d = u_UserUuid ` {u \<in> set (users d). is_active_super d u}"

lemma set_active_super_admins: "set (active_super_admins d) = supers d"
  by (auto simp: active_super_admins_def supers_def is_active_super_def status_defs role_defs)

lemma concat_if_single:
  "distinct (map k xs) \<Longrightarrow> (\<And>x. P x \<longleftrightarrow> Q \<and> k x = v) \<Longrightarrow>
   concat (map (\<lambda>x. if P x then [c] else []) xs) = (if Q \<and> v \<in> k ` set xs then [c] else [])"
  by (induction xs) (auto simp: image_iff)

text \<open>With distinct roles the join yields every active super administrator once.\<close>

lemma active_super_admins_filter:
  assumes "roles_ok d"
  shows "active_super_admins d = map u_UserUuid (filter (is_active_super d) (users d))"
proof -
  have one: "concat (map (\<lambda>r. if ur_UserUuid r = u_UserUuid u \<and> ur_Role r = ''super_admin'' \<and>
      u_Status u = ''inactive'' \<and> live u then [u_UserUuid u] else []) (user_roles d)) =
      (if is_active_super d u then [u_UserUuid u] else [])" for u
    by (subst concat_if_single [where k = "\<lambda>r. (ur_UserUuid r, ur_Role r)"
          and Q = "u_Status u = ''inactive'' \<and> live u" and v = "(u_UserUuid u, ''super_admin'')"])
      (use assms in \<open>auto simp: roles_ok_def is_active_super_def status_defs role_defs image_iff\<close>)
  have "concat (map (\<lambda>u. if is_active_super d u then [u_UserUuid u] else []) us) =
      map u_UserUuid (filter (is_active_super d) us)" for us
    by (induction us) simp_all
  then show ?thesis unfolding active_super_admins_def one .
qed

lemma card_supers:
  assumes "schema_ok d"
  shows "card (supers d) = length (active_super_admins d)"
proof -
  have "distinct (active_super_admins d)"
    using assms by (simp add: schema_ok_def active_super_admins_filter users_ok_def distinct_map_filter)
  then show ?thesis by (metis distinct_card set_active_super_admins)
qed

text \<open>Only disabling an account makes a super administrator inactive.\<close>

definition keeps_supers :: "db \<Rightarrow> db \<Rightarrow> bool" where
  "keeps_supers d d' \<longleftrightarrow> supers d \<subseteq> supers d'"

lemma keeps_supers_rel: "reflp keeps_supers" "transp keeps_supers"
  by (auto intro: reflpI transpI simp: keeps_supers_def)

lemma supersI:
  "u \<in> set (users d) \<Longrightarrow> is_active_super d u \<Longrightarrow> u_UserUuid u \<in> supers d"
  by (auto simp: supers_def)

lemma keeps_supersI:
  assumes "\<And>u. u \<in> set (users d) \<Longrightarrow> is_active_super d u \<Longrightarrow>
    \<exists>u' \<in> set (users d'). u_UserUuid u' = u_UserUuid u \<and> is_active_super d' u'"
  shows "keeps_supers d d'"
  using assms unfolding keeps_supers_def supers_def by (auto simp: image_iff) metis

lemma supers_upd_users:
  assumes "\<And>u. p u \<Longrightarrow> is_active_super d u \<Longrightarrow> is_active_super d (f u) \<and> u_UserUuid (f u) = u_UserUuid u"
  shows "keeps_supers d (d\<lparr>users := upd_where p f (users d)\<rparr>)"
proof (rule keeps_supersI)
  fix u assume "u \<in> set (users d)" "is_active_super d u"
  then show "\<exists>u' \<in> set (users (d\<lparr>users := upd_where p f (users d)\<rparr>)). u_UserUuid u' = u_UserUuid u
      \<and> is_active_super (d\<lparr>users := upd_where p f (users d)\<rparr>) u'"
    using assms [of u] by (intro bexI [of _ "if p u then f u else u"])
      (auto simp: set_upd_where is_active_super_def)
qed

lemma supers_insert [wkeeps_rules]:
  "wkeeps keeps_supers (InsertUser ts uid email h st)"
  "wkeeps keeps_supers (InsertUserRole ts uid role)"
  "wkeeps keeps_supers (InsertEmailConfirmationToken ts tok uid h ex)"
  "wkeeps keeps_supers (InsertPasswordResetToken ts tok uid h ex)"
  "wkeeps keeps_supers (InsertInvitationToken ts tok email role h ex)"
  "wkeeps keeps_supers (InsertRefreshToken ts tok uid fam par h ex)"
  by (rule wkeepsI, rule keeps_supersI, fastforce simp: insert_defs is_active_super_def split: if_splits)+

lemma supers_update [wkeeps_rules]:
  "wkeeps keeps_supers (InvalidateActiveEmailConfirmationTokensByUser ts uid)"
  "wkeeps keeps_supers (MarkEmailConfirmationTokenUsed ts tok)"
  "wkeeps keeps_supers (InvalidateActivePasswordResetTokensByUser ts uid)"
  "wkeeps keeps_supers (MarkPasswordResetTokenUsed ts tok)"
  "wkeeps keeps_supers (InvalidateActiveInvitationTokensByEmail ts em)"
  "wkeeps keeps_supers (MarkInvitationTokenUsed ts tok)"
  "wkeeps keeps_supers (MarkRefreshTokenUsed ts tok)"
  "wkeeps keeps_supers (RevokeRefreshToken ts tok reason)"
  "wkeeps keeps_supers (RevokeRefreshTokenFamily ts fam reason)"
  "wkeeps keeps_supers (RevokeRefreshTokensByUser ts uid reason)"
  by (rule wkeepsI, rule keeps_supersI, force simp: update_defs is_active_super_def)+

lemma supers_users_update [wkeeps_rules]:
  "wkeeps keeps_supers (UpdateUserPassword ts uid h)"
  "old \<noteq> StatusInactive \<Longrightarrow> wkeeps keeps_supers (TransitionUserStatus ts uid new old)"
  by (rule wkeepsI, clarsimp simp: update_defs, rule supers_upd_users,
      clarsimp simp: is_active_super_def live_def)+

lemma supers_other:
  assumes "\<And>uid is_super. act \<noteq> OpDisableAccount uid is_super"
  shows "wkeeps keeps_supers (tx_op ts act)"
  using assms by (cases act) (auto intro!: wkeeps_seq wkeeps_rules keeps_supers_rel)

lemma supers_disable:
  assumes tx: "tx_op ts (OpDisableAccount uid is_super) d = Inr (x, d')"
  shows "supers d - {uid} \<subseteq> supers d'"
proof -
  let ?sel = "\<lambda>u. u_UserUuid u = uid \<and> u_Status u = StatusInactive \<and> live u"
  have d': "users d' = upd_where ?sel (\<lambda>u. u\<lparr>u_Status := StatusDisabled, u_UpdatedAt := ts\<rparr>) (users d)"
    "user_roles d' = user_roles d"
    using tx by (auto simp: tx_simps update_defs split: if_splits)
  have same: "is_active_super d' u = is_active_super d u" for u
    by (simp add: is_active_super_def d'(2))
  show ?thesis
  proof
    fix v assume "v \<in> supers d - {uid}"
    then obtain u where u: "u \<in> set (users d)" "is_active_super d u" "u_UserUuid u = v" "v \<noteq> uid"
      by (auto simp: supers_def)
    then have "u \<in> set (users d')" by (auto simp: d' set_upd_where)
    with u show "v \<in> supers d'" using supersI same by metis
  qed
qed

lemma super_admin_remains:
  assumes tx: "tx_op ts act d = Inr (x, d')" and adm: "admissible act d" and ok: "schema_ok d"
    and ne: "supers d \<noteq> {}"
  shows "supers d' \<noteq> {}"
proof (cases "\<exists>uid is_super. act = OpDisableAccount uid is_super")
  case True
  then obtain uid is_super where act: "act = OpDisableAccount uid is_super" by blast
  have "\<exists>v \<in> supers d. v \<noteq> uid"
  proof (cases is_super)
    case True
    then have "1 < card (supers d)" using tx ok by (auto simp: act card_supers split: if_splits)
    then have "\<not> supers d \<subseteq> {uid}"
      using card_mono [of "{uid}" "supers d"] by auto
    then show ?thesis by blast
  next
    case False
    then have "RoleSuperAdmin \<notin> set (roles_of uid d)" using adm by (simp add: act)
    then have "uid \<notin> supers d" by (force simp: supers_def is_active_super_def roles_of_def)
    then show ?thesis using ne by (metis all_not_in_conv)
  qed
  then show ?thesis using supers_disable tx unfolding act by blast
next
  case False
  then show ?thesis using wkeepsD [OF supers_other tx] ne by (auto simp: keeps_supers_def)
qed

lemma evolves_super:
  "evolves d d' \<Longrightarrow> schema_ok d \<Longrightarrow> supers d \<noteq> {} \<Longrightarrow> schema_ok d' \<and> supers d' \<noteq> {}"
  by (erule evolves_invariant [where I = "\<lambda>d. schema_ok d \<and> supers d \<noteq> {}"])
    (auto elim!: tx_stepE simp: keeps_schema_def dest: wkeepsD [OF schema_tx_op] super_admin_remains)

section \<open>Roles\<close>

text \<open>Roles are granted when an account is created and never afterwards.\<close>

definition same_roles :: "db \<Rightarrow> db \<Rightarrow> bool" where
  "same_roles d d' \<longleftrightarrow> user_ids d \<subseteq> user_ids d' \<and> (\<forall>uid \<in> user_ids d. roles_of uid d' = roles_of uid d)"

lemma same_roles_rel: "reflp same_roles" "transp same_roles"
  by (auto intro!: reflpI transpI simp: same_roles_def subset_iff)

lemma same_roles_users:
  "user_roles d' = user_roles d \<Longrightarrow> user_ids d \<subseteq> user_ids d' \<Longrightarrow> same_roles d d'"
  by (simp add: same_roles_def roles_of_def)

lemma roles_writers [wkeeps_rules]:
  "wkeeps same_roles (InsertEmailConfirmationToken ts tok uid h ex)"
  "wkeeps same_roles (InsertPasswordResetToken ts tok uid h ex)"
  "wkeeps same_roles (InsertInvitationToken ts tok email role h ex)"
  "wkeeps same_roles (InsertRefreshToken ts tok uid fam par h ex)"
  "wkeeps same_roles (InvalidateActiveEmailConfirmationTokensByUser ts uid)"
  "wkeeps same_roles (MarkEmailConfirmationTokenUsed ts tok)"
  "wkeeps same_roles (InvalidateActivePasswordResetTokensByUser ts uid)"
  "wkeeps same_roles (MarkPasswordResetTokenUsed ts tok)"
  "wkeeps same_roles (InvalidateActiveInvitationTokensByEmail ts em)"
  "wkeeps same_roles (MarkInvitationTokenUsed ts tok)"
  "wkeeps same_roles (MarkRefreshTokenUsed ts tok)"
  "wkeeps same_roles (RevokeRefreshToken ts tok reason)"
  "wkeeps same_roles (RevokeRefreshTokenFamily ts fam reason)"
  "wkeeps same_roles (RevokeRefreshTokensByUser ts uid reason)"
  "wkeeps same_roles (UpdateUserPassword ts uid h)"
  "wkeeps same_roles (TransitionUserStatus ts uid new old)"
  by (rule wkeepsI, rule same_roles_users,
      force simp: insert_defs update_defs user_ids_def image_upd_where split: if_splits,
      force simp: insert_defs update_defs user_ids_def image_upd_where split: if_splits)+

text \<open>A new account and its role, in one transaction.\<close>

lemma roles_new_account:
  assumes "InsertUser ts uid email h st d = Inr (x, d1)" "InsertUserRole ts' uid role d1 = Inr (y, d2)"
  shows "same_roles d d2"
proof -
  have "uid \<notin> user_ids d" "user_roles d1 = user_roles d" "user_ids d1 = insert uid (user_ids d)"
    using assms(1) by (auto simp: InsertUser_def user_ids_def split: if_splits)
  moreover have "user_roles d2 = user_roles d1 @ [\<lparr>ur_UserUuid = uid, ur_Role = role, ur_GrantedAt = ts'\<rparr>]"
    "user_ids d2 = user_ids d1"
    using assms(2) by (auto simp: InsertUserRole_def user_ids_def split: if_splits)
  ultimately show ?thesis by (auto simp: same_roles_def roles_of_def)
qed

lemma roles_tx_op: "wkeeps same_roles (tx_op ts act)"
proof (cases act)
  case (OpCreateUser reg tok)
  show ?thesis
  proof (rule wkeepsI)
    fix d d' :: db and x assume "tx_op ts act d = Inr (x, d')"
    then obtain d1 d2 where new: "InsertUser ts (reg_UserUUID reg) (reg_Email reg) (reg_PasswordHash reg)
        (reg_Status reg) d = Inr ((), d1)"
      "InsertUserRole ts (reg_UserUUID reg) (reg_Role reg) d1 = Inr ((), d2)"
      and ins: "InsertEmailConfirmationToken ts (TokenUUID tok) (reg_UserUUID reg) (Hash tok)
        (ExpiresAt tok) d2 = Inr (x, d')"
      by (auto simp: OpCreateUser wbind_Inr)
    from roles_new_account [OF new] have "same_roles d d2" .
    moreover have "same_roles d2 d'" using ins by (rule wkeepsD [rotated]) (rule roles_writers)
    ultimately show "same_roles d d'" using same_roles_rel(2) by (meson transpD)
  qed
next
  case (OpAcceptInvitation uid tok email role h)
  show ?thesis
  proof (rule wkeepsI)
    fix d d' :: db and x assume "tx_op ts act d = Inr (x, d')"
    then obtain d1 d2 d3 n m where marked: "MarkInvitationTokenUsed ts tok d = Inr (n, d1)"
        "InvalidateActiveInvitationTokensByEmail ts email d1 = Inr (m, d2)"
      and new: "InsertUser ts uid email h StatusInactive d2 = Inr ((), d3)"
        "InsertUserRole ts uid role d3 = Inr (x, d')"
      by (auto simp: OpAcceptInvitation wbind_Inr need_row_Inr)
    have "same_roles d d1" "same_roles d1 d2"
      using marked by (auto intro: wkeepsD [OF roles_writers(10)] wkeepsD [OF roles_writers(9)])
    with roles_new_account [OF new] show "same_roles d d'"
      using same_roles_rel(2) by (meson transpD)
  qed
next
  case (OpDisableAccount uid is_super)
  have "wkeeps same_roles (tx_op ts (OpDisableAccount uid False))"
    by (auto intro!: wkeeps_seq wkeeps_rules same_roles_rel)
  then show ?thesis unfolding OpDisableAccount wkeeps_def by (auto split: if_splits)
qed (auto intro!: wkeeps_seq wkeeps_rules same_roles_rel)

lemma evolves_roles: "evolves d d' \<Longrightarrow> same_roles d d'"
  by (erule evolves_relation [OF _ same_roles_rel])
    (auto elim!: tx_stepE intro: wkeepsD [OF roles_tx_op])

end
