(* ===== verification/AccountTypes.thy ===== *)
theory AccountTypes
  imports Invariants
begin

text \<open>
  The types of the rows beyond the constraints of the schema: every account has exactly one role, of
  the roles the service knows; only users wait for the confirmation of their address, only
  administrators are disabled, and only administrators are invited.
\<close>

definition account_typed :: "db \<Rightarrow> AuthUser \<Rightarrow> bool" where
  "account_typed d u \<longleftrightarrow> (\<exists>role. roles_of (u_UserUuid u) d = [role] \<and> (role = RoleUser \<or> IsAdminRole role) \<and>
     (u_Status u = StatusMailUnverified \<longrightarrow> role = RoleUser) \<and> (u_Status u = StatusDisabled \<longrightarrow> IsAdminRole role))"

definition rows_typed :: "db \<Rightarrow> bool" where
  "rows_typed d \<longleftrightarrow> (\<forall>u \<in> set (users d). account_typed d u) \<and> (\<forall>t \<in> set (invitation_tokens d). IsAdminRole (it_Role t))"

definition keeps_types :: "db \<Rightarrow> db \<Rightarrow> bool" where
  "keeps_types d d' \<longleftrightarrow> (rows_typed d \<longrightarrow> rows_typed d')"

lemma keeps_types_rel: "reflp keeps_types" "transp keeps_types"
  by (auto intro!: reflpI transpI simp: keeps_types_def)

text \<open>Rows may be added for others, and an account may change its status to one its role allows.\<close>

definition same_account :: "db \<Rightarrow> AuthUser \<Rightarrow> AuthUser \<Rightarrow> bool" where
  "same_account d u u' \<longleftrightarrow> u_UserUuid u' = u_UserUuid u \<and>
     (u_Status u' = u_Status u \<or> u_Status u' = StatusInactive \<or>
      u_Status u' = StatusDisabled \<and> list_ex IsAdminRole (roles_of (u_UserUuid u) d))"

lemma rows_typed_step:
  assumes "rows_typed d" "user_roles d' = user_roles d"
    and "\<forall>u' \<in> set (users d'). \<exists>u \<in> set (users d). same_account d u u'"
    and "\<forall>t' \<in> set (invitation_tokens d'). IsAdminRole (it_Role t') \<or> (\<exists>t \<in> set (invitation_tokens d). it_Role t' = it_Role t)"
  shows "rows_typed d'"
  unfolding rows_typed_def
proof (intro conjI ballI)
  fix u' assume "u' \<in> set (users d')"
  then obtain u where "u \<in> set (users d)" "same_account d u u'" using assms(3) by blast
  moreover have "roles_of v d' = roles_of v d" for v by (simp add: assms(2) roles_of_def)
  ultimately show "account_typed d' u'"
    using assms(1) by (fastforce simp: rows_typed_def account_typed_def same_account_def status_defs)
next
  fix t' assume "t' \<in> set (invitation_tokens d')"
  then show "IsAdminRole (it_Role t')" using assms(1,4) by (auto simp: rows_typed_def)
qed

lemma types_statements [wkeeps_rules]:
  "wkeeps keeps_types (InsertEmailConfirmationToken ts tok uid h ex)"
  "wkeeps keeps_types (InsertPasswordResetToken ts tok uid h ex)"
  "wkeeps keeps_types (InsertRefreshToken ts tok uid fam par h ex)"
  "IsAdminRole role \<Longrightarrow> wkeeps keeps_types (InsertInvitationToken ts tok email role h ex)"
  "wkeeps keeps_types (InvalidateActiveEmailConfirmationTokensByUser ts uid)"
  "wkeeps keeps_types (MarkEmailConfirmationTokenUsed ts tok)"
  "wkeeps keeps_types (InvalidateActivePasswordResetTokensByUser ts uid)"
  "wkeeps keeps_types (MarkPasswordResetTokenUsed ts tok)"
  "wkeeps keeps_types (InvalidateActiveInvitationTokensByEmail ts em)"
  "wkeeps keeps_types (MarkInvitationTokenUsed ts tok)"
  "wkeeps keeps_types (MarkRefreshTokenUsed ts tok)"
  "wkeeps keeps_types (RevokeRefreshToken ts tok reason)"
  "wkeeps keeps_types (RevokeRefreshTokenFamily ts fam reason)"
  "wkeeps keeps_types (RevokeRefreshTokensByUser ts uid reason)"
  "wkeeps keeps_types (UpdateUserPassword ts uid h)"
  "wkeeps keeps_types (TransitionUserStatus ts uid StatusInactive old)"
  by (rule wkeepsI, unfold keeps_types_def, rule impI, erule rows_typed_step;
      force simp: insert_defs update_defs same_account_def elim!: in_upd_whereE split: if_splits)+

lemma types_disable:
  assumes "TransitionUserStatus ts uid StatusDisabled old d = Inr (n, d')" "rows_typed d"
    and "list_ex IsAdminRole (roles_of uid d)"
  shows "rows_typed d'"
  using assms(2)
  by (rule rows_typed_step)
    (use assms(1,3) in \<open>force simp: update_defs same_account_def elim!: in_upd_whereE\<close>)+

lemma types_new_account:
  assumes "InsertUser ts uid email h st d = Inr (x, d1)" "InsertUserRole ts' uid role d1 = Inr (y, d2)"
    and "rows_typed d" "schema_ok d" "role = RoleUser \<and> st = StatusMailUnverified \<or> IsAdminRole role \<and> st = StatusInactive"
  shows "rows_typed d2"
proof -
  obtain u where u: "users d1 = users d @ [u]" "u_UserUuid u = uid" "u_Status u = st" "uid \<notin> user_ids d"
    and d1: "user_roles d1 = user_roles d" "invitation_tokens d1 = invitation_tokens d"
    using assms(1) by (force simp: InsertUser_def user_ids_def split: if_splits)
  have d2: "users d2 = users d1" "invitation_tokens d2 = invitation_tokens d1"
    "\<And>v. roles_of v d2 = roles_of v d1 @ (if v = uid then [role] else [])"
    using assms(2) by (auto simp: InsertUserRole_def roles_of_def split: if_splits)
  have "roles_of uid d1 = []"
    using assms(4) u(4) d1(1) by (auto simp: schema_ok_def roles_ok_def roles_of_def filter_empty_conv)
  then have "account_typed d2 u"
    using d2(3) u(2,3) assms(5) by (auto simp: account_typed_def status_defs)
  moreover have "account_typed d2 v" if "v \<in> set (users d)" for v
  proof -
    have "u_UserUuid v \<noteq> uid" using that u(4) by (auto simp: user_ids_def)
    then have "roles_of (u_UserUuid v) d2 = roles_of (u_UserUuid v) d" using d2(3) d1(1) by (simp add: roles_of_def)
    then show ?thesis using assms(3) that by (simp add: rows_typed_def account_typed_def)
  qed
  ultimately show ?thesis using assms(3) u(1) d1(2) d2(1,2) by (simp add: rows_typed_def)
qed

lemma types_other:
  assumes "\<forall>reg tok. act \<noteq> OpCreateUser reg tok" "\<forall>uid tok email role h. act \<noteq> OpAcceptInvitation uid tok email role h"
    and "\<forall>uid is_super. act \<noteq> OpDisableAccount uid is_super"
    and "\<forall>email role tok. act = OpIssueInvitation email role tok \<longrightarrow> IsAdminRole role"
  shows "wkeeps keeps_types (tx_op ts act)"
  using assms by (cases act) (auto intro!: wkeeps_seq wkeeps_rules keeps_types_rel)

lemma types_tx:
  assumes tx: "tx_op ts act d = Inr (x, d')" and adm: "admissible act d" and ok: "schema_ok d" "rows_typed d"
  shows "rows_typed d'"
proof (cases act)
  case (OpCreateUser reg tok)
  obtain d1 d2 where new: "InsertUser ts (reg_UserUUID reg) (reg_Email reg) (reg_PasswordHash reg) (reg_Status reg) d = Inr ((), d1)"
      "InsertUserRole ts (reg_UserUUID reg) (reg_Role reg) d1 = Inr ((), d2)"
    and ins: "InsertEmailConfirmationToken ts (TokenUUID tok) (reg_UserUUID reg) (Hash tok) (ExpiresAt tok) d2 = Inr (x, d')"
    using tx by (auto simp: OpCreateUser wbind_Inr)
  have "rows_typed d2" using types_new_account [OF new ok(2,1)] adm by (simp add: OpCreateUser)
  then show ?thesis using wkeepsD [OF types_statements(1) ins] by (simp add: keeps_types_def)
next
  case (OpAcceptInvitation uid tok email role h)
  obtain d1 d2 d3 n m where marked: "MarkInvitationTokenUsed ts tok d = Inr (n, d1)" "n \<noteq> 0"
      "InvalidateActiveInvitationTokensByEmail ts email d1 = Inr (m, d2)"
    and new: "InsertUser ts uid email h StatusInactive d2 = Inr ((), d3)" "InsertUserRole ts uid role d3 = Inr (x, d')"
    using tx by (auto simp: OpAcceptInvitation wbind_Inr need_row_Inr)
  have "\<exists>t \<in> set (invitation_tokens d). it_TokenUuid t = tok"
    using marked(1,2) by (auto simp: MarkInvitationTokenUsed_def Let_def count_where_pos split: if_splits)
  then have "IsAdminRole role" using adm ok(2) by (auto simp: OpAcceptInvitation rows_typed_def)
  moreover have "rows_typed d2" "schema_ok d2"
    using ok wkeepsD [OF types_statements(10) marked(1)] wkeepsD [OF types_statements(9) marked(3)]
      wkeepsD [OF schema_update(6) marked(1)] wkeepsD [OF schema_update(5) marked(3)]
    by (simp_all add: keeps_types_def keeps_schema_def)
  ultimately show ?thesis using types_new_account [OF new] by blast
next
  case (OpDisableAccount uid is_super)
  obtain n d1 where disable: "TransitionUserStatus ts uid StatusDisabled StatusInactive d = Inr (n, d1)"
    and revoke: "RevokeRefreshTokensByUser ts uid (Some RevocationReasonAccountDisabled) d1 = Inr (x, d')"
    using tx by (auto simp: OpDisableAccount wbind_Inr need_row_Inr split: if_splits)
  have "rows_typed d1" using types_disable [OF disable ok(2)] adm by (simp add: OpDisableAccount)
  then show ?thesis using wkeepsD [OF types_statements(14) revoke] by (simp add: keeps_types_def)
qed (use wkeepsD [OF types_other [of act ts] tx] adm ok(2) in \<open>auto simp: keeps_types_def\<close>)

lemma evolves_types: "evolves d d' \<Longrightarrow> schema_ok d \<Longrightarrow> rows_typed d \<Longrightarrow> schema_ok d' \<and> rows_typed d'"
  by (erule evolves_invariant [where I = "\<lambda>d. schema_ok d \<and> rows_typed d"])
    (auto elim!: tx_stepE simp: keeps_schema_def dest: wkeepsD [OF schema_tx_op] types_tx)

end
