(* ===== verification/Isolation.thy ===== *)
theory Isolation
  imports AccountTypes
begin

text \<open>
  The isolation level of the transactions. \<open>UpdateInTx\<close> (\<open>common/db.go\<close>) asks for \<open>REPEATABLE READ\<close>:
  a transaction reads the database as of its first statement, its own writes included, may write or
  lock a row only when no other transaction has changed it since, and is otherwise aborted and tried
  again. The operations of theory Transactions are atomic steps on the current database; this theory
  says what they do when they run concurrently on such a snapshot, shows that a transaction that
  commits is its operation on the current database up to the rows it could not see, and which of the
  invariants survive that.
\<close>

section \<open>Operations that see the rows of a snapshot only\<close>

definition visible :: "('r \<Rightarrow> 'k) \<Rightarrow> 'r list \<Rightarrow> 'r \<Rightarrow> bool" where
  "visible key seen r \<longleftrightarrow> key r \<in> key ` set seen"

text \<open>The statements that update all rows of an account, an address or a family.\<close>

definition InvalidateSeenEmailTokens :: "db \<Rightarrow> time \<Rightarrow> uuid \<Rightarrow> nat writer" where
  "InvalidateSeenEmailTokens b ts uid d =
     (let sel = (\<lambda>t. (et_UserUuid t = uid \<and> et_UsedAt t = None) \<and> visible et_TokenUuid (email_tokens b) t) in
      Inr (count_where sel (email_tokens d),
           d\<lparr>email_tokens := upd_where sel (\<lambda>t. t\<lparr>et_UsedAt := Some ts\<rparr>) (email_tokens d)\<rparr>))"

definition InvalidateSeenResetTokens :: "db \<Rightarrow> time \<Rightarrow> uuid \<Rightarrow> nat writer" where
  "InvalidateSeenResetTokens b ts uid d =
     (let sel = (\<lambda>t. (pt_UserUuid t = uid \<and> pt_UsedAt t = None) \<and> visible pt_TokenUuid (reset_tokens b) t) in
      Inr (count_where sel (reset_tokens d),
           d\<lparr>reset_tokens := upd_where sel (\<lambda>t. t\<lparr>pt_UsedAt := Some ts\<rparr>) (reset_tokens d)\<rparr>))"

definition InvalidateSeenInvitations :: "db \<Rightarrow> time \<Rightarrow> string \<Rightarrow> nat writer" where
  "InvalidateSeenInvitations b ts email d =
     (let sel = (\<lambda>t. (it_Email t = email \<and> it_UsedAt t = None) \<and> visible it_TokenUuid (invitation_tokens b) t) in
      Inr (count_where sel (invitation_tokens d),
           d\<lparr>invitation_tokens := upd_where sel (\<lambda>t. t\<lparr>it_UsedAt := Some ts\<rparr>) (invitation_tokens d)\<rparr>))"

definition RevokeSeenTokens :: "db \<Rightarrow> time \<Rightarrow> uuid \<Rightarrow> string option \<Rightarrow> unit writer" where
  "RevokeSeenTokens b ts uid reason d =
     Inr ((), d\<lparr>refresh_tokens :=
       upd_where (\<lambda>t. (rt_UserUuid t = uid \<and> rt_RevokedAt t = None) \<and> visible rt_TokenID (refresh_tokens b) t)
         (\<lambda>t. t\<lparr>rt_RevokedAt := Some ts, rt_RevocationReason := reason\<rparr>) (refresh_tokens d)\<rparr>)"

definition RevokeSeenFamily :: "db \<Rightarrow> time \<Rightarrow> uuid \<Rightarrow> string option \<Rightarrow> unit writer" where
  "RevokeSeenFamily b ts family reason d =
     Inr ((), d\<lparr>refresh_tokens :=
       upd_where (\<lambda>t. (rt_FamilyID t = family \<and> rt_RevokedAt t = None) \<and> visible rt_TokenID (refresh_tokens b) t)
         (\<lambda>t. t\<lparr>rt_RevokedAt := Some ts, rt_RevocationReason := reason\<rparr>) (refresh_tokens d)\<rparr>)"

lemmas seen_defs = InvalidateSeenEmailTokens_def InvalidateSeenResetTokens_def
  InvalidateSeenInvitations_def RevokeSeenTokens_def RevokeSeenFamily_def

text \<open>\<open>tx_op_seeing b ts act\<close>: the operation on the current database when the snapshot is \<open>b\<close>.\<close>

fun tx_op_seeing :: "db \<Rightarrow> time \<Rightarrow> db_op \<Rightarrow> unit writer" where
  "tx_op_seeing b ts (OpReissueEmailToken uid tok) =
     wbind (InvalidateSeenEmailTokens b ts uid)
       (\<lambda>_. InsertEmailConfirmationToken ts (TokenUUID tok) uid (Hash tok) (ExpiresAt tok))"
| "tx_op_seeing b ts (OpIssueResetToken uid tok) =
     wbind (InvalidateSeenResetTokens b ts uid)
       (\<lambda>_. InsertPasswordResetToken ts (TokenUUID tok) uid (Hash tok) (ExpiresAt tok))"
| "tx_op_seeing b ts (OpConfirmReset uid tok h) =
     wbind (need_row (Sentinel ErrResetTokenConsumeConflict) (MarkPasswordResetTokenUsed ts tok))
       (\<lambda>_. wbind (InvalidateSeenResetTokens b ts uid)
       (\<lambda>_. wbind (need_row (NewError ''user not found for password reset'') (UpdateUserPassword ts uid h))
       (\<lambda>_. RevokeSeenTokens b ts uid (Some RevocationReasonPasswordChanged))))"
| "tx_op_seeing b ts (OpChangePassword uid h) =
     wbind (need_row (NewError ''user not found for password update'') (UpdateUserPassword ts uid h))
       (\<lambda>_. RevokeSeenTokens b ts uid (Some RevocationReasonPasswordChanged))"
| "tx_op_seeing b ts (OpRevokeFamily family reason) = RevokeSeenFamily b ts family (Some reason)"
| "tx_op_seeing b ts (OpIssueInvitation email role tok) =
     wbind (InvalidateSeenInvitations b ts email)
       (\<lambda>_. InsertInvitationToken ts (TokenUUID tok) email role (Hash tok) (ExpiresAt tok))"
| "tx_op_seeing b ts (OpAcceptInvitation uid tok email role h) =
     wbind (need_row (Sentinel ErrInvitationTokenConsumeConflict) (MarkInvitationTokenUsed ts tok))
       (\<lambda>_. wbind (InvalidateSeenInvitations b ts email)
       (\<lambda>_. wbind (map_error email_conflict (InsertUser ts uid email h StatusInactive))
       (\<lambda>_. InsertUserRole ts uid role)))"
| "tx_op_seeing b ts (OpDisableAccount uid is_super) =
     (\<lambda>d. if is_super \<and> length (active_super_admins d) \<le> 1 then Inl (Sentinel ErrLastSuperAdmin)
          else wbind (need_row (Sentinel ErrAlreadyDisabled)
                        (TransitionUserStatus ts uid StatusDisabled StatusInactive))
                 (\<lambda>_. RevokeSeenTokens b ts uid (Some RevocationReasonAccountDisabled)) d)"
| "tx_op_seeing b ts act = tx_op ts act"

section \<open>Committing a transaction\<close>

text \<open>The operations that run in a transaction; the others are single statements.\<close>

fun in_transaction :: "db_op \<Rightarrow> bool" where
  "in_transaction (OpSaveRefreshToken r) = False"
| "in_transaction (OpRevokeRefreshToken tok reason) = False"
| "in_transaction (OpRevokeFamily family reason) = False"
| "in_transaction (OpReactivateAccount uid) = False"
| "in_transaction _ = True"

text \<open>
  The rows of users that a transaction locks whatever it writes to them: those whose password it
  sets, and the active super administrators counted before one of them is disabled
  (\<open>LockActiveSuperAdmins\<close>, \<open>SELECT \<dots> FOR UPDATE OF u\<close>).
\<close>

definition LockActiveSuperAdmins_rows :: "db \<Rightarrow> AuthUser \<Rightarrow> bool" where
  "LockActiveSuperAdmins_rows b u \<longleftrightarrow> is_active_super b u"

fun locked_users :: "db_op \<Rightarrow> db \<Rightarrow> AuthUser \<Rightarrow> bool" where
  "locked_users (OpConfirmReset uid tok h) b u \<longleftrightarrow> u_UserUuid u = uid \<and> live u"
| "locked_users (OpChangePassword uid h) b u \<longleftrightarrow> u_UserUuid u = uid \<and> live u"
| "locked_users (OpDisableAccount uid is_super) b u \<longleftrightarrow> is_super \<and> LockActiveSuperAdmins_rows b u"
| "locked_users _ b u \<longleftrightarrow> False"

text \<open>
  A table of the snapshot \<open>seen\<close>, as the transaction leaves it (\<open>mine\<close>), and as it is in the
  database now (\<open>current\<close>): rows are added at the end and never removed, so a row keeps its place.
  \<open>overwritten\<close>: a row the transaction has written or locked was changed by another one.
\<close>

definition overwritten :: "('r \<Rightarrow> bool) \<Rightarrow> 'r list \<Rightarrow> 'r list \<Rightarrow> 'r list \<Rightarrow> bool" where
  "overwritten locked seen mine current \<longleftrightarrow>
     (\<exists>i < length seen. (mine ! i \<noteq> seen ! i \<or> locked (seen ! i)) \<and> current ! i \<noteq> seen ! i)"

definition combined :: "'r list \<Rightarrow> 'r list \<Rightarrow> 'r list \<Rightarrow> 'r list" where
  "combined seen mine current =
     map (\<lambda>i. if mine ! i \<noteq> seen ! i then mine ! i else current ! i) [0..<length seen]
       @ drop (length seen) current @ drop (length seen) mine"

definition conflict :: "db_op \<Rightarrow> db \<Rightarrow> db \<Rightarrow> db \<Rightarrow> bool" where
  "conflict act b m t \<longleftrightarrow> overwritten (locked_users act b) (users b) (users m) (users t) \<or>
     overwritten (\<lambda>_. False) (email_tokens b) (email_tokens m) (email_tokens t) \<or>
     overwritten (\<lambda>_. False) (reset_tokens b) (reset_tokens m) (reset_tokens t) \<or>
     overwritten (\<lambda>_. False) (invitation_tokens b) (invitation_tokens m) (invitation_tokens t) \<or>
     overwritten (\<lambda>_. False) (refresh_tokens b) (refresh_tokens m) (refresh_tokens t)"

definition combined_db :: "db \<Rightarrow> db \<Rightarrow> db \<Rightarrow> db" where
  "combined_db b m t =
     \<lparr>users = combined (users b) (users m) (users t),
      user_roles = combined (user_roles b) (user_roles m) (user_roles t),
      email_tokens = combined (email_tokens b) (email_tokens m) (email_tokens t),
      reset_tokens = combined (reset_tokens b) (reset_tokens m) (reset_tokens t),
      invitation_tokens = combined (invitation_tokens b) (invitation_tokens m) (invitation_tokens t),
      refresh_tokens = combined (refresh_tokens b) (refresh_tokens m) (refresh_tokens t)\<rparr>"

text \<open>
  The transaction of \<open>act\<close> with snapshot \<open>b\<close>, at the current database \<open>t\<close>: it fails where its operation
  fails on the snapshot, where it meets a row that was changed meanwhile, and where the result would
  violate a constraint, which PostgreSQL checks against all committed rows.
\<close>

definition snapshot_commit :: "time \<Rightarrow> db_op \<Rightarrow> db \<Rightarrow> db \<Rightarrow> db option" where
  "snapshot_commit ts act b t =
     (case tx_op ts act b of
        Inl e \<Rightarrow> None
      | Inr (_, m) \<Rightarrow>
          if conflict act b m t then None
          else if schema_ok (combined_db b m t) then Some (combined_db b m t) else None)"

lemma snapshot_commitE:
  assumes "snapshot_commit ts act b t = Some t'"
  obtains m where "tx_op ts act b = Inr ((), m)" "\<not> conflict act b m t" "t' = combined_db b m t" "schema_ok t'"
  using assms by (auto simp: snapshot_commit_def split: sum.splits if_splits)

section \<open>Rows and their versions\<close>

lemma upd_where_cong: "(\<And>r. r \<in> set rows \<Longrightarrow> p r = q r) \<Longrightarrow> upd_where p f rows = upd_where q f rows"
  by (simp add: upd_where_def)

lemma upd_where_twice:
  "(\<And>r. p r \<Longrightarrow> \<not> q (f r)) \<Longrightarrow> upd_where q f (upd_where p f rows) = upd_where (\<lambda>r. p r \<or> q r) f rows"
  by (simp add: upd_where_def)

lemma combined_same [simp]:
  assumes "length b \<le> length t"
  shows "combined b b t = t"
  by (rule nth_equalityI) (use assms in \<open>auto simp: combined_def nth_append\<close>)

lemma combined_insert [simp]:
  assumes "length b \<le> length t"
  shows "combined b (b @ ws) t = t @ ws"
  by (rule nth_equalityI) (use assms in \<open>auto simp: combined_def nth_append\<close>)

text \<open>
  What the tables have in common: a key, and a relation of a version of a row to the later ones
  that keeps the key.
\<close>

locale row_versions =
  fixes key :: "'r \<Rightarrow> 'k" and le :: "'r \<Rightarrow> 'r \<Rightarrow> bool"
  assumes key_le: "le x y \<Longrightarrow> key y = key x"
begin

lemma version_at:
  assumes "grows le b t" "i < length b"
  shows "le (b ! i) (t ! i)" "key (t ! i) = key (b ! i)" "i < length t"
  using assms grows_length [OF assms(1)]
  by (auto simp: grows_def nth_append list_all2_conv_all_nth key_le dest: list_all2_lengthD)

lemma unseen_new:
  assumes "grows le b t" "distinct (map key t)" "length b \<le> i" "i < length t"
  shows "\<not> visible key b (t ! i)"
proof
  assume "visible key b (t ! i)"
  then obtain j where j: "j < length b" "key (t ! i) = key (b ! j)"
    by (auto simp: visible_def in_set_conv_nth)
  then have "key (t ! i) = key (t ! j)" "j < length t" using version_at [OF assms(1) j(1)] by auto
  then show False using assms(2-4) j(1) by (auto simp: distinct_conv_nth)
qed

text \<open>An update of rows nobody has changed since is the update of the visible rows, now.\<close>

lemma combined_upd:
  assumes g: "grows le b t" and d: "distinct (map key t)"
    and clash: "\<not> overwritten locked b (upd_where p f b @ ws) t"
    and wr: "\<And>x. x \<in> set b \<Longrightarrow> p x \<Longrightarrow> f x \<noteq> x \<or> locked x"
    and mono: "\<And>x y. x \<in> set b \<Longrightarrow> le x y \<Longrightarrow> p y \<Longrightarrow> p x"
  shows "combined b (upd_where p f b @ ws) t = upd_where (\<lambda>r. p r \<and> visible key b r) f t @ ws"
proof (rule nth_equalityI)
  have len: "length b \<le> length t" by (rule grows_length [OF g])
  show "length (combined b (upd_where p f b @ ws) t) = length (upd_where (\<lambda>r. p r \<and> visible key b r) f t @ ws)"
    using len by (simp add: combined_def)
  fix i assume i: "i < length (combined b (upd_where p f b @ ws) t)"
  show "combined b (upd_where p f b @ ws) t ! i = (upd_where (\<lambda>r. p r \<and> visible key b r) f t @ ws) ! i"
  proof (cases "i < length b")
    case True
    note v = version_at [OF g True]
    have vis: "visible key b (t ! i)" using True v by (auto simp: visible_def)
    have same: "t ! i = b ! i" if "p (b ! i)"
      using clash wr [of "b ! i"] that True by (auto simp: overwritten_def upd_where_def nth_append)
    have "p (t ! i) = p (b ! i)" using mono [of "b ! i" "t ! i"] v True same by (metis nth_mem)
    then show ?thesis using True v vis same by (auto simp: combined_def nth_append upd_where_def)
  next
    case False
    then show ?thesis using i len unseen_new [OF g d]
      by (auto simp: combined_def nth_append upd_where_def)
  qed
qed

lemma untouched_row:
  assumes "grows le b t" "\<not> overwritten locked b (upd_where p f b @ ws) t" "x \<in> set b" "p x" "f x \<noteq> x \<or> locked x"
  shows "x \<in> set t"
proof -
  obtain i where i: "i < length b" "b ! i = x" using assms(3) by (auto simp: in_set_conv_nth)
  then have "t ! i = x"
    using assms(2,4,5) by (auto simp: overwritten_def upd_where_def nth_append)
  then show ?thesis using version_at(3) [OF assms(1) i(1)] by (metis nth_mem)
qed

text \<open>The same for an update of one row by its key, which was found.\<close>

lemma combined_upd_key:
  assumes g: "grows le b t" and d: "distinct (map key b)" "distinct (map key t)"
    and clash: "\<not> overwritten locked b (upd_where p f b @ ws) t"
    and wr: "\<And>x. p x \<Longrightarrow> f x \<noteq> x \<or> locked x"
    and key: "\<And>r. p r \<Longrightarrow> key r = k" and ex: "\<exists>x \<in> set b. p x"
  shows "combined b (upd_where p f b @ ws) t = upd_where p f t @ ws" "\<exists>x \<in> set t. p x"
proof -
  obtain x where x: "x \<in> set b" "p x" using ex by blast
  have mono: "p z" if "z \<in> set b" "le z y" "p y" for y z
    using that x key [of x] key [of y] key_le [OF that(2)] d(1) by (metis distinct_map_eq)
  have "visible key b r" if "p r" for r using that x key [of x] key [of r] by (auto simp: visible_def)
  then have "upd_where (\<lambda>r. p r \<and> visible key b r) f t = upd_where p f t"
    by (intro upd_where_cong) auto
  then show "combined b (upd_where p f b @ ws) t = upd_where p f t @ ws"
    using combined_upd [OF g d(2) clash] wr mono by metis
  show "\<exists>x \<in> set t. p x"
    using untouched_row [OF g clash x(1)] x(2) wr by blast
qed

text \<open>Consume a row by its key, then mark further visible rows in the same way.\<close>

lemma combined_consume:
  assumes g: "grows le b t" and d: "distinct (map key b)" "distinct (map key t)"
    and clash: "\<not> overwritten locked b (upd_where q f (upd_where p f b)) t"
    and wr: "\<And>x. p x \<or> q x \<Longrightarrow> f x \<noteq> x" and once: "\<And>x. p x \<Longrightarrow> \<not> q (f x)"
    and key: "\<And>r. p r \<Longrightarrow> key r = k" and ex: "\<exists>x \<in> set b. p x"
    and mono: "\<And>x y. le x y \<Longrightarrow> p y \<or> q y \<Longrightarrow> p x \<or> q x"
  shows "combined b (upd_where q f (upd_where p f b)) t = upd_where (\<lambda>r. q r \<and> visible key b r) f (upd_where p f t)"
    "\<exists>x \<in> set t. p x"
proof -
  obtain x where x: "x \<in> set b" "p x" using ex by blast
  have two: "upd_where q f (upd_where p f b) = upd_where (\<lambda>r. p r \<or> q r) f b @ []"
    by (simp add: upd_where_twice once)
  have clash2: "\<not> overwritten locked b (upd_where (\<lambda>r. p r \<or> q r) f b @ []) t" using clash unfolding two .
  have vis: "visible key b r" if "p r" for r using that x key [of x] key [of r] by (auto simp: visible_def)
  have "combined b (upd_where q f (upd_where p f b)) t = upd_where (\<lambda>r. (p r \<or> q r) \<and> visible key b r) f t"
    unfolding two by (subst combined_upd [OF g d(2) clash2]) (use wr mono in blast)+
  also have "\<dots> = upd_where (\<lambda>r. p r \<or> q r \<and> visible key b r) f t"
    by (rule upd_where_cong) (use vis in blast)
  finally show "combined b (upd_where q f (upd_where p f b)) t = upd_where (\<lambda>r. q r \<and> visible key b r) f (upd_where p f t)"
    by (simp add: upd_where_twice once)
  show "\<exists>x \<in> set t. p x"
    using untouched_row [OF g clash2 x(1)] x(2) wr by blast
qed

lemmas combined_upd0 = combined_upd [where ws = "[]", unfolded append_Nil2]
lemmas combined_upd_key0 = combined_upd_key [where ws = "[]", unfolded append_Nil2]

end

interpretation user_rows: row_versions u_UserUuid user_le
  by unfold_locales (simp add: user_le_def)

interpretation email_rows: row_versions et_TokenUuid email_token_le
  by unfold_locales (simp add: email_token_le_def)

interpretation reset_rows: row_versions pt_TokenUuid reset_token_le
  by unfold_locales (simp add: reset_token_le_def)

interpretation invitation_rows: row_versions it_TokenUuid invitation_token_le
  by unfold_locales (simp add: invitation_token_le_def)

interpretation refresh_rows: row_versions rt_TokenID refresh_token_le
  by unfold_locales (simp add: refresh_token_le_def)

section \<open>A transaction that commits is its operation, now\<close>

text \<open>The current database as seen from a snapshot of it.\<close>

definition later :: "db \<Rightarrow> db \<Rightarrow> bool" where
  "later b t \<longleftrightarrow> keeps b t \<and> schema_ok b \<and> schema_ok t"

lemma later_rows:
  assumes "later b t"
  shows "grows user_le (users b) (users t)" "grows email_token_le (email_tokens b) (email_tokens t)"
    "grows reset_token_le (reset_tokens b) (reset_tokens t)"
    "grows invitation_token_le (invitation_tokens b) (invitation_tokens t)"
    "grows refresh_token_le (refresh_tokens b) (refresh_tokens t)"
  using assms by (auto simp: later_def keeps_def)

lemma later_length [simp]:
  assumes "later b t"
  shows "length (users b) \<le> length (users t)" "length (user_roles b) \<le> length (user_roles t)"
    "length (email_tokens b) \<le> length (email_tokens t)" "length (reset_tokens b) \<le> length (reset_tokens t)"
    "length (invitation_tokens b) \<le> length (invitation_tokens t)"
    "length (refresh_tokens b) \<le> length (refresh_tokens t)"
  using assms by (auto simp: later_def keeps_def intro: grows_length prefix_length_le)

lemma later_keys:
  assumes "later b t"
  shows "distinct (map u_UserUuid (users b))" "distinct (map u_UserUuid (users t))"
    "distinct (map et_TokenUuid (email_tokens b))" "distinct (map et_TokenUuid (email_tokens t))"
    "distinct (map pt_TokenUuid (reset_tokens b))" "distinct (map pt_TokenUuid (reset_tokens t))"
    "distinct (map it_TokenUuid (invitation_tokens b))" "distinct (map it_TokenUuid (invitation_tokens t))"
    "distinct (map rt_TokenID (refresh_tokens b))" "distinct (map rt_TokenID (refresh_tokens t))"
  using assms by (auto simp: later_def schema_ok_def table_ok_defs)

text \<open>
  An insert that succeeded on the snapshot succeeds on the current database when the row fits there.
\<close>

lemma insert_user:
  assumes "InsertUser ts uid email h st b = Inr (x, b')"
  obtains u where "b' = b\<lparr>users := users b @ [u]\<rparr>"
    "\<And>d. users_ok (d\<lparr>users := users d @ [u]\<rparr>) \<Longrightarrow> InsertUser ts uid email h st d = Inr ((), d\<lparr>users := users d @ [u]\<rparr>)"
proof
  let ?u = "\<lparr>u_UserUuid = uid, u_Email = email, u_PasswordHash = h, u_Status = st, u_CreatedAt = ts,
     u_UpdatedAt = ts, u_DeletedAt = None\<rparr>"
  show "b' = b\<lparr>users := users b @ [?u]\<rparr>" using assms by (auto simp: InsertUser_def split: if_splits)
  fix d :: db assume "users_ok (d\<lparr>users := users d @ [?u]\<rparr>)"
  then show "InsertUser ts uid email h st d = Inr ((), d\<lparr>users := users d @ [?u]\<rparr>)"
    by (auto simp: InsertUser_def users_ok_def live_def image_iff)
qed

lemma insert_role:
  assumes "InsertUserRole ts uid role b = Inr (x, b')"
  obtains r where "b' = b\<lparr>user_roles := user_roles b @ [r]\<rparr>"
    "\<And>d. roles_ok (d\<lparr>user_roles := user_roles d @ [r]\<rparr>) \<Longrightarrow>
       InsertUserRole ts uid role d = Inr ((), d\<lparr>user_roles := user_roles d @ [r]\<rparr>)"
proof
  let ?r = "\<lparr>ur_UserUuid = uid, ur_Role = role, ur_GrantedAt = ts\<rparr>"
  show "b' = b\<lparr>user_roles := user_roles b @ [?r]\<rparr>" using assms by (auto simp: InsertUserRole_def split: if_splits)
  fix d :: db assume "roles_ok (d\<lparr>user_roles := user_roles d @ [?r]\<rparr>)"
  then show "InsertUserRole ts uid role d = Inr ((), d\<lparr>user_roles := user_roles d @ [?r]\<rparr>)"
    by (auto simp: InsertUserRole_def roles_ok_def user_ids_def image_iff)
qed

lemma insert_email_token:
  assumes "InsertEmailConfirmationToken ts tok uid h ex b = Inr (x, b')"
  obtains r where "b' = b\<lparr>email_tokens := email_tokens b @ [r]\<rparr>"
    "\<And>d. email_tokens_ok (d\<lparr>email_tokens := email_tokens d @ [r]\<rparr>) \<Longrightarrow>
       InsertEmailConfirmationToken ts tok uid h ex d = Inr ((), d\<lparr>email_tokens := email_tokens d @ [r]\<rparr>)"
proof
  let ?r = "\<lparr>et_TokenUuid = tok, et_UserUuid = uid, et_TokenHash = h, et_ExpiresAt = ex, et_UsedAt = None, et_CreatedAt = ts\<rparr>"
  show "b' = b\<lparr>email_tokens := email_tokens b @ [?r]\<rparr>"
    using assms by (auto simp: InsertEmailConfirmationToken_def split: if_splits)
  fix d :: db assume "email_tokens_ok (d\<lparr>email_tokens := email_tokens d @ [?r]\<rparr>)"
  then show "InsertEmailConfirmationToken ts tok uid h ex d = Inr ((), d\<lparr>email_tokens := email_tokens d @ [?r]\<rparr>)"
    by (auto simp: InsertEmailConfirmationToken_def email_tokens_ok_def user_ids_def)
qed

lemma insert_reset_token:
  assumes "InsertPasswordResetToken ts tok uid h ex b = Inr (x, b')"
  obtains r where "b' = b\<lparr>reset_tokens := reset_tokens b @ [r]\<rparr>"
    "\<And>d. reset_tokens_ok (d\<lparr>reset_tokens := reset_tokens d @ [r]\<rparr>) \<Longrightarrow>
       InsertPasswordResetToken ts tok uid h ex d = Inr ((), d\<lparr>reset_tokens := reset_tokens d @ [r]\<rparr>)"
proof
  let ?r = "\<lparr>pt_TokenUuid = tok, pt_UserUuid = uid, pt_TokenHash = h, pt_ExpiresAt = ex, pt_UsedAt = None, pt_CreatedAt = ts\<rparr>"
  show "b' = b\<lparr>reset_tokens := reset_tokens b @ [?r]\<rparr>"
    using assms by (auto simp: InsertPasswordResetToken_def split: if_splits)
  fix d :: db assume "reset_tokens_ok (d\<lparr>reset_tokens := reset_tokens d @ [?r]\<rparr>)"
  then show "InsertPasswordResetToken ts tok uid h ex d = Inr ((), d\<lparr>reset_tokens := reset_tokens d @ [?r]\<rparr>)"
    by (auto simp: InsertPasswordResetToken_def reset_tokens_ok_def user_ids_def)
qed

lemma insert_invitation:
  assumes "InsertInvitationToken ts tok email role h ex b = Inr (x, b')"
  obtains r where "b' = b\<lparr>invitation_tokens := invitation_tokens b @ [r]\<rparr>"
    "\<And>d. invitation_tokens_ok (d\<lparr>invitation_tokens := invitation_tokens d @ [r]\<rparr>) \<Longrightarrow>
       InsertInvitationToken ts tok email role h ex d = Inr ((), d\<lparr>invitation_tokens := invitation_tokens d @ [r]\<rparr>)"
proof
  let ?r = "\<lparr>it_TokenUuid = tok, it_Email = email, it_Role = role, it_TokenHash = h, it_ExpiresAt = ex, it_UsedAt = None, it_CreatedAt = ts\<rparr>"
  show "b' = b\<lparr>invitation_tokens := invitation_tokens b @ [?r]\<rparr>"
    using assms by (auto simp: InsertInvitationToken_def split: if_splits)
  fix d :: db assume "invitation_tokens_ok (d\<lparr>invitation_tokens := invitation_tokens d @ [?r]\<rparr>)"
  then show "InsertInvitationToken ts tok email role h ex d = Inr ((), d\<lparr>invitation_tokens := invitation_tokens d @ [?r]\<rparr>)"
    by (auto simp: InsertInvitationToken_def invitation_tokens_ok_def)
qed

lemma insert_refresh_token:
  assumes "InsertRefreshToken ts tok uid fam par h ex b = Inr (x, b')"
  obtains r where "b' = b\<lparr>refresh_tokens := refresh_tokens b @ [r]\<rparr>"
    "\<And>d. refresh_tokens_ok (d\<lparr>refresh_tokens := refresh_tokens d @ [r]\<rparr>) \<Longrightarrow>
       (\<forall>p. par = Some p \<longrightarrow> (\<exists>t \<in> set (refresh_tokens d). rt_TokenID t = p)) \<Longrightarrow>
       InsertRefreshToken ts tok uid fam par h ex d = Inr ((), d\<lparr>refresh_tokens := refresh_tokens d @ [r]\<rparr>)"
proof
  let ?r = "\<lparr>rt_TokenID = tok, rt_UserUuid = uid, rt_FamilyID = fam, rt_ParentTokenID = par, rt_TokenHash = h,
     rt_ExpiresAt = ex, rt_UsedAt = None, rt_RevokedAt = None, rt_RevocationReason = None, rt_CreatedAt = ts\<rparr>"
  show "b' = b\<lparr>refresh_tokens := refresh_tokens b @ [?r]\<rparr>"
    using assms by (auto simp: InsertRefreshToken_def split: if_splits)
  fix d :: db assume "refresh_tokens_ok (d\<lparr>refresh_tokens := refresh_tokens d @ [?r]\<rparr>)"
    "\<forall>p. par = Some p \<longrightarrow> (\<exists>t \<in> set (refresh_tokens d). rt_TokenID t = p)"
  then show "InsertRefreshToken ts tok uid fam par h ex d = Inr ((), d\<lparr>refresh_tokens := refresh_tokens d @ [?r]\<rparr>)"
    by (auto simp: InsertRefreshToken_def refresh_tokens_ok_def user_ids_def split: option.splits)
qed

lemma create_commits:
  assumes l: "later b t" and c: "snapshot_commit ts (OpCreateUser reg tok) b t = Some t'"
  shows "tx_op ts (OpCreateUser reg tok) t = Inr ((), t')"
proof -
  obtain m where m: "tx_op ts (OpCreateUser reg tok) b = Inr ((), m)" and t': "t' = combined_db b m t" and ok: "schema_ok t'"
    by (rule snapshot_commitE [OF c])
  obtain u r e where b: "m = b\<lparr>users := users b @ [u], user_roles := user_roles b @ [r], email_tokens := email_tokens b @ [e]\<rparr>"
    and ins: "\<And>d. users_ok (d\<lparr>users := users d @ [u]\<rparr>) \<Longrightarrow>
       InsertUser ts (reg_UserUUID reg) (reg_Email reg) (reg_PasswordHash reg) (reg_Status reg) d = Inr ((), d\<lparr>users := users d @ [u]\<rparr>)"
     "\<And>d. roles_ok (d\<lparr>user_roles := user_roles d @ [r]\<rparr>) \<Longrightarrow>
       InsertUserRole ts (reg_UserUUID reg) (reg_Role reg) d = Inr ((), d\<lparr>user_roles := user_roles d @ [r]\<rparr>)"
     "\<And>d. email_tokens_ok (d\<lparr>email_tokens := email_tokens d @ [e]\<rparr>) \<Longrightarrow>
       InsertEmailConfirmationToken ts (TokenUUID tok) (reg_UserUUID reg) (Hash tok) (ExpiresAt tok) d = Inr ((), d\<lparr>email_tokens := email_tokens d @ [e]\<rparr>)"
    using m by (auto simp: wbind_Inr elim!: insert_user insert_role insert_email_token)
  have "t' = t\<lparr>users := users t @ [u], user_roles := user_roles t @ [r], email_tokens := email_tokens t @ [e]\<rparr>"
    using l by (simp add: t' b combined_db_def)
  then show ?thesis using ok
    by (simp add: wbind_def ins schema_ok_def table_ok_defs user_ids_def)
qed


text \<open>Updates of the tokens and accounts that a transaction saw.\<close>

lemma reissue_commits:
  assumes l: "later b t" and c: "snapshot_commit ts (OpReissueEmailToken uid tok) b t = Some t'"
  shows "tx_op_seeing b ts (OpReissueEmailToken uid tok) t = Inr ((), t')"
proof -
  let ?p = "\<lambda>t. et_UserUuid t = uid \<and> et_UsedAt t = None" and ?f = "\<lambda>t. t\<lparr>et_UsedAt := Some ts\<rparr>"
  obtain m where m: "tx_op ts (OpReissueEmailToken uid tok) b = Inr ((), m)" and n: "\<not> conflict (OpReissueEmailToken uid tok) b m t"
    and t': "t' = combined_db b m t" and ok: "schema_ok t'"
    by (rule snapshot_commitE [OF c])
  obtain e where b: "m = b\<lparr>email_tokens := upd_where ?p ?f (email_tokens b) @ [e]\<rparr>"
    and ins: "\<And>d. email_tokens_ok (d\<lparr>email_tokens := email_tokens d @ [e]\<rparr>) \<Longrightarrow>
       InsertEmailConfirmationToken ts (TokenUUID tok) uid (Hash tok) (ExpiresAt tok) d = Inr ((), d\<lparr>email_tokens := email_tokens d @ [e]\<rparr>)"
    using m by (auto simp: wbind_Inr update_defs elim!: insert_email_token)
  have "combined (email_tokens b) (upd_where ?p ?f (email_tokens b) @ [e]) (email_tokens t)
      = upd_where (\<lambda>x. ?p x \<and> visible et_TokenUuid (email_tokens b) x) ?f (email_tokens t) @ [e]"
    by (rule email_rows.combined_upd [where locked = "\<lambda>_. False"])
      (use l n in \<open>auto simp: b conflict_def later_rows later_keys email_token_le_def used_le_def
        dest!: arg_cong [where f = et_UsedAt]\<close>)
  then have "t' = t\<lparr>email_tokens := upd_where (\<lambda>x. ?p x \<and> visible et_TokenUuid (email_tokens b) x) ?f (email_tokens t) @ [e]\<rparr>"
    using l by (simp add: t' b combined_db_def)
  then show ?thesis using ok
    by (simp add: wbind_def ins schema_ok_def table_ok_defs user_ids_def InvalidateSeenEmailTokens_def Let_def)
qed


lemma issue_reset_commits:
  assumes l: "later b t" and c: "snapshot_commit ts (OpIssueResetToken uid tok) b t = Some t'"
  shows "tx_op_seeing b ts (OpIssueResetToken uid tok) t = Inr ((), t')"
proof -
  let ?p = "\<lambda>t. pt_UserUuid t = uid \<and> pt_UsedAt t = None" and ?f = "\<lambda>t. t\<lparr>pt_UsedAt := Some ts\<rparr>"
  obtain m where m: "tx_op ts (OpIssueResetToken uid tok) b = Inr ((), m)" and n: "\<not> conflict (OpIssueResetToken uid tok) b m t"
    and t': "t' = combined_db b m t" and ok: "schema_ok t'"
    by (rule snapshot_commitE [OF c])
  obtain e where b: "m = b\<lparr>reset_tokens := upd_where ?p ?f (reset_tokens b) @ [e]\<rparr>"
    and ins: "\<And>d. reset_tokens_ok (d\<lparr>reset_tokens := reset_tokens d @ [e]\<rparr>) \<Longrightarrow>
       InsertPasswordResetToken ts (TokenUUID tok) uid (Hash tok) (ExpiresAt tok) d = Inr ((), d\<lparr>reset_tokens := reset_tokens d @ [e]\<rparr>)"
    using m by (auto simp: wbind_Inr update_defs elim!: insert_reset_token)
  have "combined (reset_tokens b) (upd_where ?p ?f (reset_tokens b) @ [e]) (reset_tokens t)
      = upd_where (\<lambda>x. ?p x \<and> visible pt_TokenUuid (reset_tokens b) x) ?f (reset_tokens t) @ [e]"
    by (rule reset_rows.combined_upd [where locked = "\<lambda>_. False"])
      (use l n in \<open>auto simp: b conflict_def later_rows later_keys reset_token_le_def used_le_def
        dest!: arg_cong [where f = pt_UsedAt]\<close>)
  then have "t' = t\<lparr>reset_tokens := upd_where (\<lambda>x. ?p x \<and> visible pt_TokenUuid (reset_tokens b) x) ?f (reset_tokens t) @ [e]\<rparr>"
    using l by (simp add: t' b combined_db_def)
  then show ?thesis using ok
    by (simp add: wbind_def ins schema_ok_def table_ok_defs user_ids_def InvalidateSeenResetTokens_def Let_def)
qed

lemma invite_commits:
  assumes l: "later b t" and c: "snapshot_commit ts (OpIssueInvitation email role tok) b t = Some t'"
  shows "tx_op_seeing b ts (OpIssueInvitation email role tok) t = Inr ((), t')"
proof -
  let ?p = "\<lambda>t. it_Email t = email \<and> it_UsedAt t = None" and ?f = "\<lambda>t. t\<lparr>it_UsedAt := Some ts\<rparr>"
  obtain m where m: "tx_op ts (OpIssueInvitation email role tok) b = Inr ((), m)" and n: "\<not> conflict (OpIssueInvitation email role tok) b m t"
    and t': "t' = combined_db b m t" and ok: "schema_ok t'"
    by (rule snapshot_commitE [OF c])
  obtain e where b: "m = b\<lparr>invitation_tokens := upd_where ?p ?f (invitation_tokens b) @ [e]\<rparr>"
    and ins: "\<And>d. invitation_tokens_ok (d\<lparr>invitation_tokens := invitation_tokens d @ [e]\<rparr>) \<Longrightarrow>
       InsertInvitationToken ts (TokenUUID tok) email role (Hash tok) (ExpiresAt tok) d = Inr ((), d\<lparr>invitation_tokens := invitation_tokens d @ [e]\<rparr>)"
    using m by (auto simp: wbind_Inr update_defs elim!: insert_invitation)
  have "combined (invitation_tokens b) (upd_where ?p ?f (invitation_tokens b) @ [e]) (invitation_tokens t)
      = upd_where (\<lambda>x. ?p x \<and> visible it_TokenUuid (invitation_tokens b) x) ?f (invitation_tokens t) @ [e]"
    by (rule invitation_rows.combined_upd [where locked = "\<lambda>_. False"])
      (use l n in \<open>auto simp: b conflict_def later_rows later_keys invitation_token_le_def used_le_def
        dest!: arg_cong [where f = it_UsedAt]\<close>)
  then have "t' = t\<lparr>invitation_tokens := upd_where (\<lambda>x. ?p x \<and> visible it_TokenUuid (invitation_tokens b) x) ?f (invitation_tokens t) @ [e]\<rparr>"
    using l by (simp add: t' b combined_db_def)
  then show ?thesis using ok
    by (simp add: wbind_def ins schema_ok_def table_ok_defs user_ids_def InvalidateSeenInvitations_def Let_def)
qed

text \<open>Revocations, and the updates of the row of an account.\<close>

lemma revoke_commits:
  assumes "later b t"
    and "\<not> overwritten (\<lambda>_. False) (refresh_tokens b)
      (upd_where (\<lambda>t. rt_UserUuid t = uid \<and> rt_RevokedAt t = None)
         (\<lambda>t. t\<lparr>rt_RevokedAt := Some ts, rt_RevocationReason := reason\<rparr>) (refresh_tokens b)) (refresh_tokens t)"
  shows "combined (refresh_tokens b)
      (upd_where (\<lambda>t. rt_UserUuid t = uid \<and> rt_RevokedAt t = None)
         (\<lambda>t. t\<lparr>rt_RevokedAt := Some ts, rt_RevocationReason := reason\<rparr>) (refresh_tokens b)) (refresh_tokens t)
    = upd_where (\<lambda>t. (rt_UserUuid t = uid \<and> rt_RevokedAt t = None) \<and> visible rt_TokenID (refresh_tokens b) t)
         (\<lambda>t. t\<lparr>rt_RevokedAt := Some ts, rt_RevocationReason := reason\<rparr>) (refresh_tokens t)"
  by (rule refresh_rows.combined_upd0 [where locked = "\<lambda>_. False"])
    (use assms in \<open>auto simp: later_rows later_keys refresh_token_le_def dest!: arg_cong [where f = rt_RevokedAt]\<close>)

lemma password_commits:
  assumes "later b t" and "\<exists>u \<in> set (users b). u_UserUuid u = uid \<and> live u"
    and "\<not> overwritten (\<lambda>u. u_UserUuid u = uid \<and> live u) (users b) 
      (upd_where (\<lambda>u. u_UserUuid u = uid \<and> live u) f (users b)) (users t)"
  shows "combined (users b) (upd_where (\<lambda>u. u_UserUuid u = uid \<and> live u) f (users b)) (users t)
    = upd_where (\<lambda>u. u_UserUuid u = uid \<and> live u) f (users t) \<and> (\<exists>u \<in> set (users t). u_UserUuid u = uid \<and> live u)"
  by (rule conjI; rule user_rows.combined_upd_key0 [where k = uid])
    (use assms in \<open>auto simp: later_rows later_keys\<close>)

lemma transition_commits:
  assumes "later b t" and "\<exists>u \<in> set (users b). u_UserUuid u = uid \<and> u_Status u = old \<and> live u"
    and "\<not> overwritten L (users b)
      (upd_where (\<lambda>u. u_UserUuid u = uid \<and> u_Status u = old \<and> live u) (\<lambda>u. u\<lparr>u_Status := new, u_UpdatedAt := ts\<rparr>) (users b)) (users t)"
    and "new \<noteq> old"
  shows "combined (users b) (upd_where (\<lambda>u. u_UserUuid u = uid \<and> u_Status u = old \<and> live u) (\<lambda>u. u\<lparr>u_Status := new, u_UpdatedAt := ts\<rparr>) (users b)) (users t)
    = upd_where (\<lambda>u. u_UserUuid u = uid \<and> u_Status u = old \<and> live u) (\<lambda>u. u\<lparr>u_Status := new, u_UpdatedAt := ts\<rparr>) (users t) \<and>
      (\<exists>u \<in> set (users t). u_UserUuid u = uid \<and> u_Status u = old \<and> live u)"
  by (rule conjI; rule user_rows.combined_upd_key0 [where k = uid and locked = L])
    (use assms in \<open>auto simp: later_rows later_keys dest!: arg_cong [where f = u_Status]\<close>)


lemma consume_commits:
  assumes l: "later b t" and c: "snapshot_commit ts (OpConsumeEmailToken tok uid) b t = Some t'"
  shows "tx_op ts (OpConsumeEmailToken tok uid) t = Inr ((), t')"
proof -
  let ?p = "\<lambda>t. et_TokenUuid t = tok \<and> et_UsedAt t = None" and ?f = "\<lambda>t. t\<lparr>et_UsedAt := Some ts\<rparr>"
  let ?q = "\<lambda>u. u_UserUuid u = uid \<and> u_Status u = StatusMailUnverified \<and> live u"
    and ?g = "\<lambda>u. u\<lparr>u_Status := StatusInactive, u_UpdatedAt := ts\<rparr>"
  obtain m where m: "tx_op ts (OpConsumeEmailToken tok uid) b = Inr ((), m)" and n: "\<not> conflict (OpConsumeEmailToken tok uid) b m t"
    and t': "t' = combined_db b m t"
    by (rule snapshot_commitE [OF c])
  have b: "m = b\<lparr>email_tokens := upd_where ?p ?f (email_tokens b), users := upd_where ?q ?g (users b)\<rparr>"
    and ex: "\<exists>x \<in> set (email_tokens b). ?p x" "\<exists>x \<in> set (users b). ?q x"
    using m by (auto simp: tx_simps update_defs)
  have toks: "combined (email_tokens b) (upd_where ?p ?f (email_tokens b)) (email_tokens t) = upd_where ?p ?f (email_tokens t) \<and>
      (\<exists>x \<in> set (email_tokens t). ?p x)"
    by (rule conjI; rule email_rows.combined_upd_key0 [where k = tok and locked = "\<lambda>_. False"])
      (use l n ex in \<open>auto simp: b conflict_def later_rows later_keys dest!: arg_cong [where f = et_UsedAt]\<close>)
  have accounts: "combined (users b) (upd_where ?q ?g (users b)) (users t) = upd_where ?q ?g (users t) \<and> (\<exists>x \<in> set (users t). ?q x)"
    by (rule transition_commits [OF l ex(2)]) (use n in \<open>auto simp: b conflict_def status_defs\<close>)
  have "t' = t\<lparr>email_tokens := upd_where ?p ?f (email_tokens t), users := upd_where ?q ?g (users t)\<rparr>"
    using l toks accounts by (simp add: t' b combined_db_def)
  then show ?thesis using toks accounts by (auto simp: tx_simps update_defs)
qed

lemma confirm_reset_commits:
  assumes l: "later b t" and c: "snapshot_commit ts (OpConfirmReset uid tok h) b t = Some t'"
  shows "tx_op_seeing b ts (OpConfirmReset uid tok h) t = Inr ((), t')"
proof -
  let ?p = "\<lambda>t. pt_TokenUuid t = tok \<and> pt_UsedAt t = None" and ?q = "\<lambda>t. pt_UserUuid t = uid \<and> pt_UsedAt t = None"
    and ?f = "\<lambda>t. t\<lparr>pt_UsedAt := Some ts\<rparr>"
  let ?u = "\<lambda>u. u_UserUuid u = uid \<and> live u" and ?g = "\<lambda>u. u\<lparr>u_PasswordHash := h, u_UpdatedAt := ts\<rparr>"
  let ?r = "\<lambda>t. rt_UserUuid t = uid \<and> rt_RevokedAt t = None"
    and ?k = "\<lambda>t. t\<lparr>rt_RevokedAt := Some ts, rt_RevocationReason := Some RevocationReasonPasswordChanged\<rparr>"
  obtain m where m: "tx_op ts (OpConfirmReset uid tok h) b = Inr ((), m)" and n: "\<not> conflict (OpConfirmReset uid tok h) b m t"
    and t': "t' = combined_db b m t"
    by (rule snapshot_commitE [OF c])
  have b: "m = b\<lparr>reset_tokens := upd_where ?q ?f (upd_where ?p ?f (reset_tokens b)), users := upd_where ?u ?g (users b),
      refresh_tokens := upd_where ?r ?k (refresh_tokens b)\<rparr>"
    and ex: "\<exists>x \<in> set (reset_tokens b). ?p x" "\<exists>x \<in> set (users b). ?u x"
    using m by (auto simp: tx_simps update_defs RevokeRefreshTokensByUser_def)
  have toks: "combined (reset_tokens b) (upd_where ?q ?f (upd_where ?p ?f (reset_tokens b))) (reset_tokens t)
        = upd_where (\<lambda>x. ?q x \<and> visible pt_TokenUuid (reset_tokens b) x) ?f (upd_where ?p ?f (reset_tokens t)) \<and>
      (\<exists>x \<in> set (reset_tokens t). ?p x)"
    by (rule conjI; rule reset_rows.combined_consume [where k = tok and locked = "\<lambda>_. False" and p = ?p and q = ?q and f = ?f])
      (use l n ex in \<open>auto simp: b conflict_def later_rows later_keys reset_token_le_def used_le_def dest!: arg_cong [where f = pt_UsedAt]\<close>)
  have accounts: "combined (users b) (upd_where ?u ?g (users b)) (users t) = upd_where ?u ?g (users t) \<and> (\<exists>x \<in> set (users t). ?u x)"
    by (rule password_commits [OF l ex(2)]) (use n in \<open>simp add: b conflict_def overwritten_def\<close>)
  have "combined (refresh_tokens b) (upd_where ?r ?k (refresh_tokens b)) (refresh_tokens t)
      = upd_where (\<lambda>t. ?r t \<and> visible rt_TokenID (refresh_tokens b) t) ?k (refresh_tokens t)"
    by (rule revoke_commits [OF l]) (use n in \<open>simp add: b conflict_def\<close>)
  then have "t' = t\<lparr>reset_tokens := upd_where (\<lambda>x. ?q x \<and> visible pt_TokenUuid (reset_tokens b) x) ?f (upd_where ?p ?f (reset_tokens t)),
      users := upd_where ?u ?g (users t),
      refresh_tokens := upd_where (\<lambda>t. ?r t \<and> visible rt_TokenID (refresh_tokens b) t) ?k (refresh_tokens t)\<rparr>"
    using l toks accounts by (simp add: t' b combined_db_def)
  then show ?thesis using toks accounts by (auto simp: tx_simps update_defs seen_defs)
qed

lemma change_password_commits:
  assumes l: "later b t" and c: "snapshot_commit ts (OpChangePassword uid h) b t = Some t'"
  shows "tx_op_seeing b ts (OpChangePassword uid h) t = Inr ((), t')"
proof -
  let ?u = "\<lambda>u. u_UserUuid u = uid \<and> live u" and ?g = "\<lambda>u. u\<lparr>u_PasswordHash := h, u_UpdatedAt := ts\<rparr>"
  let ?r = "\<lambda>t. rt_UserUuid t = uid \<and> rt_RevokedAt t = None"
    and ?k = "\<lambda>t. t\<lparr>rt_RevokedAt := Some ts, rt_RevocationReason := Some RevocationReasonPasswordChanged\<rparr>"
  obtain m where m: "tx_op ts (OpChangePassword uid h) b = Inr ((), m)" and n: "\<not> conflict (OpChangePassword uid h) b m t"
    and t': "t' = combined_db b m t"
    by (rule snapshot_commitE [OF c])
  have b: "m = b\<lparr>users := upd_where ?u ?g (users b), refresh_tokens := upd_where ?r ?k (refresh_tokens b)\<rparr>"
    and ex: "\<exists>x \<in> set (users b). ?u x"
    using m by (auto simp: tx_simps update_defs)
  have accounts: "combined (users b) (upd_where ?u ?g (users b)) (users t) = upd_where ?u ?g (users t) \<and> (\<exists>x \<in> set (users t). ?u x)"
    by (rule password_commits [OF l ex]) (use n in \<open>simp add: b conflict_def overwritten_def\<close>)
  have "combined (refresh_tokens b) (upd_where ?r ?k (refresh_tokens b)) (refresh_tokens t)
      = upd_where (\<lambda>t. ?r t \<and> visible rt_TokenID (refresh_tokens b) t) ?k (refresh_tokens t)"
    by (rule revoke_commits [OF l]) (use n in \<open>simp add: b conflict_def\<close>)
  then have "t' = t\<lparr>users := upd_where ?u ?g (users t),
      refresh_tokens := upd_where (\<lambda>t. ?r t \<and> visible rt_TokenID (refresh_tokens b) t) ?k (refresh_tokens t)\<rparr>"
    using l accounts by (simp add: t' b combined_db_def)
  then show ?thesis using accounts by (auto simp: tx_simps update_defs seen_defs)
qed

lemma rotate_commits:
  assumes l: "later b t" and c: "snapshot_commit ts (OpRotateRefreshToken old r) b t = Some t'"
    and par: "rr_ParentTokenID r = Some old"
  shows "tx_op ts (OpRotateRefreshToken old r) t = Inr ((), t')"
proof -
  let ?p = "\<lambda>t. rt_TokenID t = old \<and> rt_UsedAt t = None" and ?f = "\<lambda>t. t\<lparr>rt_UsedAt := Some ts\<rparr>"
  obtain m where m: "tx_op ts (OpRotateRefreshToken old r) b = Inr ((), m)" and n: "\<not> conflict (OpRotateRefreshToken old r) b m t"
    and t': "t' = combined_db b m t" and ok: "schema_ok t'"
    by (rule snapshot_commitE [OF c])
  have ex: "\<exists>x \<in> set (refresh_tokens b). ?p x"
    using m by (auto simp: tx_simps update_defs)
  obtain e where b: "m = b\<lparr>refresh_tokens := upd_where ?p ?f (refresh_tokens b) @ [e]\<rparr>"
    and ins: "\<And>d. refresh_tokens_ok (d\<lparr>refresh_tokens := refresh_tokens d @ [e]\<rparr>) \<Longrightarrow>
       (\<exists>t \<in> set (refresh_tokens d). rt_TokenID t = old) \<Longrightarrow>
       InsertRefreshToken ts (rr_TokenID r) (rr_UserUUID r) (rr_FamilyID r) (Some old)
         (rr_TokenHash r) (rr_ExpiresAt r) d = Inr ((), d\<lparr>refresh_tokens := refresh_tokens d @ [e]\<rparr>)"
    using m by (auto simp: tx_simps update_defs par elim!: insert_refresh_token)
  have toks: "combined (refresh_tokens b) (upd_where ?p ?f (refresh_tokens b) @ [e]) (refresh_tokens t) = upd_where ?p ?f (refresh_tokens t) @ [e] \<and>
      (\<exists>x \<in> set (refresh_tokens t). ?p x)"
    by (rule conjI; rule refresh_rows.combined_upd_key [where k = old and locked = "\<lambda>_. False" and p = ?p and f = ?f and ws = "[e]"])
      (use l n ex in \<open>auto simp: b conflict_def later_rows later_keys dest!: arg_cong [where f = rt_UsedAt]\<close>)
  have "t' = t\<lparr>refresh_tokens := upd_where ?p ?f (refresh_tokens t) @ [e]\<rparr>"
    using l toks by (simp add: t' b combined_db_def)
  moreover have "\<exists>x \<in> set (upd_where ?p ?f (refresh_tokens t)). rt_TokenID x = old"
  proof -
    have "old \<in> rt_TokenID ` set (upd_where ?p ?f (refresh_tokens t))"
      using toks by (subst image_upd_where) (simp, force)
    then show ?thesis by blast
  qed
  ultimately show ?thesis using ok toks
    by (auto simp: tx_simps update_defs par ins schema_ok_def refresh_tokens_ok_def user_ids_def)
qed

lemma accept_commits:
  assumes l: "later b t" and c: "snapshot_commit ts (OpAcceptInvitation uid tok email role h) b t = Some t'"
  shows "tx_op_seeing b ts (OpAcceptInvitation uid tok email role h) t = Inr ((), t')"
proof -
  let ?p = "\<lambda>t. it_TokenUuid t = tok \<and> it_UsedAt t = None" and ?q = "\<lambda>t. it_Email t = email \<and> it_UsedAt t = None"
    and ?f = "\<lambda>t. t\<lparr>it_UsedAt := Some ts\<rparr>"
  obtain m where m: "tx_op ts (OpAcceptInvitation uid tok email role h) b = Inr ((), m)"
    and n: "\<not> conflict (OpAcceptInvitation uid tok email role h) b m t"
    and t': "t' = combined_db b m t" and ok: "schema_ok t'"
    by (rule snapshot_commitE [OF c])
  have ex: "\<exists>x \<in> set (invitation_tokens b). ?p x"
    using m by (auto simp: tx_simps update_defs)
  obtain u r where b: "m = b\<lparr>invitation_tokens := upd_where ?q ?f (upd_where ?p ?f (invitation_tokens b)),
      users := users b @ [u], user_roles := user_roles b @ [r]\<rparr>"
    and ins: "\<And>d. users_ok (d\<lparr>users := users d @ [u]\<rparr>) \<Longrightarrow>
       InsertUser ts uid email h StatusInactive d = Inr ((), d\<lparr>users := users d @ [u]\<rparr>)"
     "\<And>d. roles_ok (d\<lparr>user_roles := user_roles d @ [r]\<rparr>) \<Longrightarrow>
       InsertUserRole ts uid role d = Inr ((), d\<lparr>user_roles := user_roles d @ [r]\<rparr>)"
    using m by (auto simp: tx_simps update_defs elim!: insert_user insert_role)
  have toks: "combined (invitation_tokens b) (upd_where ?q ?f (upd_where ?p ?f (invitation_tokens b))) (invitation_tokens t)
        = upd_where (\<lambda>x. ?q x \<and> visible it_TokenUuid (invitation_tokens b) x) ?f (upd_where ?p ?f (invitation_tokens t)) \<and>
      (\<exists>x \<in> set (invitation_tokens t). ?p x)"
    by (rule conjI; rule invitation_rows.combined_consume [where k = tok and locked = "\<lambda>_. False" and p = ?p and q = ?q and f = ?f])
      (use l n ex in \<open>auto simp: b conflict_def later_rows later_keys invitation_token_le_def used_le_def dest!: arg_cong [where f = it_UsedAt]\<close>)
  have "t' = t\<lparr>invitation_tokens := upd_where (\<lambda>x. ?q x \<and> visible it_TokenUuid (invitation_tokens b) x) ?f (upd_where ?p ?f (invitation_tokens t)),
      users := users t @ [u], user_roles := user_roles t @ [r]\<rparr>"
    using l toks by (simp add: t' b combined_db_def)
  then show ?thesis using ok toks
    by (auto simp: tx_simps update_defs seen_defs ins schema_ok_def users_ok_def roles_ok_def user_ids_def)
qed

text \<open>
  The lock on the active super administrators: none of those the transaction counted was changed, so
  there are at least as many when it commits.
\<close>

lemma locked_supers_remain:
  assumes "later b t" "\<not> overwritten (is_active_super b) (users b) (upd_where p f (users b)) (users t)"
  shows "supers b \<subseteq> supers t"
proof
  fix v assume "v \<in> supers b"
  then obtain x where x: "x \<in> set (users b)" "is_active_super b x" "v = u_UserUuid x" by (auto simp: supers_def)
  have "x \<in> set (users t)"
    by (rule user_rows.untouched_row [where b = "users b" and p = "is_active_super b" and locked = "is_active_super b" and f = "\<lambda>x. x" and ws = "[]"])
      (use assms x in \<open>auto simp: later_rows overwritten_def upd_where_def nth_append\<close>)
  moreover have "set (user_roles b) \<subseteq> set (user_roles t)"
    using assms(1) by (auto simp: later_def keeps_def set_mono_prefix)
  ultimately show "v \<in> supers t" using x by (auto simp: supers_def is_active_super_def)
qed

lemma disable_commits:
  assumes l: "later b t" and c: "snapshot_commit ts (OpDisableAccount uid is_super) b t = Some t'"
  shows "tx_op_seeing b ts (OpDisableAccount uid is_super) t = Inr ((), t')"
proof -
  let ?u = "\<lambda>u. u_UserUuid u = uid \<and> u_Status u = StatusInactive \<and> live u"
    and ?g = "\<lambda>u. u\<lparr>u_Status := StatusDisabled, u_UpdatedAt := ts\<rparr>"
  let ?r = "\<lambda>t. rt_UserUuid t = uid \<and> rt_RevokedAt t = None"
    and ?k = "\<lambda>t. t\<lparr>rt_RevokedAt := Some ts, rt_RevocationReason := Some RevocationReasonAccountDisabled\<rparr>"
  obtain m where m: "tx_op ts (OpDisableAccount uid is_super) b = Inr ((), m)" and n: "\<not> conflict (OpDisableAccount uid is_super) b m t"
    and t': "t' = combined_db b m t"
    by (rule snapshot_commitE [OF c])
  have b: "m = b\<lparr>users := upd_where ?u ?g (users b), refresh_tokens := upd_where ?r ?k (refresh_tokens b)\<rparr>"
    and ex: "\<exists>x \<in> set (users b). ?u x" and many: "is_super \<longrightarrow> 1 < length (active_super_admins b)"
    using m by (auto simp: tx_simps update_defs split: if_splits)
  have accounts: "combined (users b) (upd_where ?u ?g (users b)) (users t) = upd_where ?u ?g (users t) \<and> (\<exists>x \<in> set (users t). ?u x)"
    by (rule transition_commits [OF l ex]) (use n in \<open>auto simp: b conflict_def status_defs\<close>)
  have "combined (refresh_tokens b) (upd_where ?r ?k (refresh_tokens b)) (refresh_tokens t)
      = upd_where (\<lambda>t. ?r t \<and> visible rt_TokenID (refresh_tokens b) t) ?k (refresh_tokens t)"
    by (rule revoke_commits [OF l]) (use n in \<open>simp add: b conflict_def\<close>)
  then have "t' = t\<lparr>users := upd_where ?u ?g (users t),
      refresh_tokens := upd_where (\<lambda>t. ?r t \<and> visible rt_TokenID (refresh_tokens b) t) ?k (refresh_tokens t)\<rparr>"
    using l accounts by (simp add: t' b combined_db_def)
  moreover have "is_super \<longrightarrow> 1 < length (active_super_admins t)"
  proof
    assume s: is_super
    have "supers b \<subseteq> supers t"
      by (rule locked_supers_remain [OF l, where p = ?u and f = ?g]) (use n s in \<open>simp add: b conflict_def overwritten_def LockActiveSuperAdmins_rows_def\<close>)
    moreover have "finite (supers t)" by (simp add: supers_def)
    ultimately have "card (supers b) \<le> card (supers t)" by (meson card_mono)
    then show "1 < length (active_super_admins t)"
      using l many s by (simp add: later_def card_supers)
  qed
  ultimately show ?thesis using accounts by (auto simp: tx_simps update_defs seen_defs)
qed

text \<open>
  A transaction that commits is its operation on the database at the commit, up to the rows it
  could not see.
\<close>

lemma snapshot_commit_op:
  assumes "later b t" "in_transaction act" "admissible act t" "snapshot_commit ts act b t = Some t'"
  shows "tx_op_seeing b ts act t = Inr ((), t')"
proof -
  have same: "tx_op_seeing b ts (OpCreateUser reg tok) = tx_op ts (OpCreateUser reg tok)"
    "tx_op_seeing b ts (OpConsumeEmailToken tk uid) = tx_op ts (OpConsumeEmailToken tk uid)"
    "tx_op_seeing b ts (OpRotateRefreshToken old r) = tx_op ts (OpRotateRefreshToken old r)" for reg tok tk uid old r
    by simp_all
  show ?thesis
    using assms create_commits reissue_commits consume_commits issue_reset_commits confirm_reset_commits
      change_password_commits rotate_commits invite_commits accept_commits disable_commits
    by (cases act) (auto simp: same simp del: tx_op.simps tx_op_seeing.simps)
qed

end
