(* ===== verification/Histories.thy ===== *)
theory Histories
  imports Isolation
begin

text \<open>
  Histories of committed database states in which every transaction may have read an earlier state,
  and the invariants that hold in all of them.
\<close>

section \<open>Marks\<close>

text \<open>
  Two databases that differ only in which one-time tokens are marked used and which refresh tokens
  are marked revoked.
\<close>

definition up_to_marks :: "db \<Rightarrow> db \<Rightarrow> bool" where
  "up_to_marks d d' \<longleftrightarrow> users d' = users d \<and> user_roles d' = user_roles d \<and>
     map (et_UsedAt_update (\<lambda>_. None)) (email_tokens d') = map (et_UsedAt_update (\<lambda>_. None)) (email_tokens d) \<and>
     map (pt_UsedAt_update (\<lambda>_. None)) (reset_tokens d') = map (pt_UsedAt_update (\<lambda>_. None)) (reset_tokens d) \<and>
     map (it_UsedAt_update (\<lambda>_. None)) (invitation_tokens d') = map (it_UsedAt_update (\<lambda>_. None)) (invitation_tokens d) \<and>
     map (\<lambda>t. t\<lparr>rt_RevokedAt := None, rt_RevocationReason := None\<rparr>) (refresh_tokens d')
       = map (\<lambda>t. t\<lparr>rt_RevokedAt := None, rt_RevocationReason := None\<rparr>) (refresh_tokens d)"

lemma ex_key_upd: "(\<And>r. key (f r) = key r) \<Longrightarrow> (\<exists>t \<in> set (upd_where p f rows). key t = k) = (\<exists>t \<in> set rows. key t = k)"
  by (auto simp: set_upd_where)

text \<open>The operation on a snapshot misses marks only.\<close>

lemma seeing_serial:
  assumes "tx_op_seeing b ts act d = Inr (x, d')"
  shows "\<exists>d''. tx_op ts act d = Inr (x, d'') \<and> up_to_marks d'' d'"
proof (cases act)
  case (OpConfirmReset uid tok h)
  then show ?thesis using assms by (auto simp: tx_simps update_defs seen_defs up_to_marks_def map_upd_where)
next
  case (OpAcceptInvitation uid tok email role h)
  then show ?thesis using assms by (auto simp: tx_simps insert_defs update_defs seen_defs up_to_marks_def map_upd_where split: if_splits)
next
  case (OpDisableAccount uid is_super)
  then show ?thesis using assms by (auto simp: tx_simps update_defs seen_defs up_to_marks_def map_upd_where split: if_splits)
next
  case (OpReissueEmailToken uid tok)
  then show ?thesis using assms by (auto simp: tx_simps insert_defs update_defs seen_defs up_to_marks_def map_upd_where ex_key_upd split: if_splits)
next
  case (OpIssueResetToken uid tok)
  then show ?thesis using assms by (auto simp: tx_simps insert_defs update_defs seen_defs up_to_marks_def map_upd_where ex_key_upd split: if_splits)
next
  case (OpIssueInvitation email role tok)
  then show ?thesis using assms by (auto simp: tx_simps insert_defs update_defs seen_defs up_to_marks_def map_upd_where ex_key_upd split: if_splits)
qed (use assms in \<open>auto simp: tx_simps update_defs seen_defs up_to_marks_def map_upd_where\<close>)

text \<open>What does not depend on the marks.\<close>

lemma map_via: "map h xs = map h ys \<Longrightarrow> (\<And>x. k (h x) = k x) \<Longrightarrow> map k xs = map k ys"
proof -
  assume eq: "map h xs = map h ys" and k: "\<And>x. k (h x) = k x"
  have "map k zs = map k (map h zs)" for zs by (simp add: k)
  then show "map k xs = map k ys" using eq by metis
qed

lemma up_to_marks_columns:
  assumes "up_to_marks d d'"
  shows "map et_TokenUuid (email_tokens d') = map et_TokenUuid (email_tokens d)"
    "map et_TokenHash (email_tokens d') = map et_TokenHash (email_tokens d)"
    "map et_UserUuid (email_tokens d') = map et_UserUuid (email_tokens d)"
    "map pt_TokenUuid (reset_tokens d') = map pt_TokenUuid (reset_tokens d)"
    "map pt_TokenHash (reset_tokens d') = map pt_TokenHash (reset_tokens d)"
    "map pt_UserUuid (reset_tokens d') = map pt_UserUuid (reset_tokens d)"
    "map it_TokenUuid (invitation_tokens d') = map it_TokenUuid (invitation_tokens d)"
    "map it_TokenHash (invitation_tokens d') = map it_TokenHash (invitation_tokens d)"
    "map it_Role (invitation_tokens d') = map it_Role (invitation_tokens d)"
    "map rt_TokenID (refresh_tokens d') = map rt_TokenID (refresh_tokens d)"
    "map rt_TokenHash (refresh_tokens d') = map rt_TokenHash (refresh_tokens d)"
    "map rt_UserUuid (refresh_tokens d') = map rt_UserUuid (refresh_tokens d)"
    "map (\<lambda>t. (rt_FamilyID t, rt_UserUuid t)) (refresh_tokens d') = map (\<lambda>t. (rt_FamilyID t, rt_UserUuid t)) (refresh_tokens d)"
    "map (\<lambda>t. (rt_FamilyID t, rt_UsedAt t)) (refresh_tokens d') = map (\<lambda>t. (rt_FamilyID t, rt_UsedAt t)) (refresh_tokens d)"
  using assms by (auto simp: up_to_marks_def elim!: map_via)

lemma up_to_marks_schema:
  assumes "up_to_marks d d'"
  shows "schema_ok d' = schema_ok d"
proof -
  note c = up_to_marks_columns [OF assms]
  have "et_UserUuid ` set (email_tokens d') = et_UserUuid ` set (email_tokens d)"
    "pt_UserUuid ` set (reset_tokens d') = pt_UserUuid ` set (reset_tokens d)"
    "rt_UserUuid ` set (refresh_tokens d') = rt_UserUuid ` set (refresh_tokens d)"
    using c(3,6,12) by (metis list.set_map)+
  then show ?thesis using assms c by (simp add: schema_ok_def table_ok_defs user_ids_def up_to_marks_def)
qed

lemma up_to_marks_supers: "up_to_marks d d' \<Longrightarrow> supers d' = supers d"
  by (simp add: up_to_marks_def supers_def is_active_super_def)

lemma up_to_marks_roles: "up_to_marks d d' \<Longrightarrow> same_roles c d \<Longrightarrow> same_roles c d'"
  by (simp add: up_to_marks_def same_roles_def roles_of_def user_ids_def)

lemma up_to_marks_types:
  assumes "up_to_marks d d'"
  shows "rows_typed d' = rows_typed d"
proof -
  have "(\<forall>t \<in> set (invitation_tokens e). IsAdminRole (it_Role t)) = list_all IsAdminRole (map it_Role (invitation_tokens e))" for e
    by (simp add: list_all_iff)
  then have "(\<forall>t \<in> set (invitation_tokens d'). IsAdminRole (it_Role t)) = (\<forall>t \<in> set (invitation_tokens d). IsAdminRole (it_Role t))"
    using up_to_marks_columns(9) [OF assms] by metis
  then show ?thesis using assms by (simp add: rows_typed_def account_typed_def roles_of_def up_to_marks_def)
qed

lemma count_where_map: "count_where (\<lambda>x. p (h x)) xs = count_where p (map h xs)"
  by (simp add: count_where_def filter_map comp_def)

lemma up_to_marks_family:
  assumes "up_to_marks d d'"
  shows "family_inv d' = family_inv d"
proof -
  have act: "active_rows rt_FamilyID rt_UsedAt k (refresh_tokens e)
      = count_where (\<lambda>(f, u). f = k \<and> u = None) (map (\<lambda>t. (rt_FamilyID t, rt_UsedAt t)) (refresh_tokens e))" for k e
    by (simp add: active_rows_def flip: count_where_map)
  have "active_rows rt_FamilyID rt_UsedAt k (refresh_tokens d') = active_rows rt_FamilyID rt_UsedAt k (refresh_tokens d)" for k
    by (simp only: act up_to_marks_columns(14) [OF assms])
  then have "one_active_family d' = one_active_family d"
    by (simp add: one_active_family_def one_active_def)
  moreover have "token_heads d' = token_heads d"
    using arg_cong [OF up_to_marks_columns(13) [OF assms], of set] by (simp add: token_heads_def)
  ultimately show ?thesis using up_to_marks_schema [OF assms] by (simp add: family_inv_def family_owner_heads)
qed

section \<open>Histories\<close>

lemma keeps_seen [wkeeps_rules]:
  "wkeeps keeps (InvalidateSeenEmailTokens b ts uid)"
  "wkeeps keeps (InvalidateSeenResetTokens b ts uid)"
  "wkeeps keeps (InvalidateSeenInvitations b ts email)"
  "wkeeps keeps (RevokeSeenTokens b ts uid reason)"
  "wkeeps keeps (RevokeSeenFamily b ts fam reason)"
  by (rule wkeepsI; auto simp: keeps_def seen_defs Let_def grows_refl row_le_defs intro!: grows_upd_where)+

lemma keeps_seeing: "wkeeps keeps (tx_op_seeing b ts act)"
proof (cases act)
  case (OpDisableAccount uid is_super)
  have "wkeeps keeps (tx_op_seeing b ts (OpDisableAccount uid False))"
    by (auto intro!: wkeeps_seq wkeeps_rules keeps_transp keeps_reflp simp: status_edge_def)
  then show ?thesis unfolding OpDisableAccount wkeeps_def by (auto split: if_splits)
qed (auto intro!: wkeeps_seq wkeeps_rules keeps_transp keeps_reflp simp: status_edge_def)

text \<open>
  The committed states in their order. Each transaction may have taken any earlier state as its
  snapshot, and a single statement (\<open>READ COMMITTED\<close>) may have started in any; what their callers have
  established about the rows still holds when they commit.
\<close>

inductive history :: "db \<Rightarrow> db list \<Rightarrow> bool" for d where
  start: "history d [d]"
| transaction: "history d hs \<Longrightarrow> b \<in> set hs \<Longrightarrow> in_transaction act \<Longrightarrow> admissible act (last hs) \<Longrightarrow>
    snapshot_commit ts act b (last hs) = Some t \<Longrightarrow> history d (hs @ [t])"
| statement: "history d hs \<Longrightarrow> b \<in> set hs \<Longrightarrow> \<not> in_transaction act \<Longrightarrow> admissible act (last hs) \<Longrightarrow>
    tx_op_seeing b ts act (last hs) = Inr (x, t) \<Longrightarrow> history d (hs @ [t])"

lemma history_last: "history d hs \<Longrightarrow> last hs \<in> set hs \<and> d \<in> set hs"
  by (induction rule: history.induct) auto

text \<open>Each state is reached from the one before by the operation on some snapshot.\<close>

lemma history_grows:
  assumes "history d hs" "schema_ok d"
  shows "\<forall>b \<in> set hs. schema_ok b \<and> keeps b (last hs)"
  using assms
proof (induction rule: history.induct)
  case start
  then show ?case using keeps_reflp by (simp add: reflpD)
next
  case (transaction hs b act ts t)
  then have l: "later b (last hs)" using history_last by (auto simp: later_def)
  have "tx_op_seeing b ts act (last hs) = Inr ((), t)"
    by (rule snapshot_commit_op [OF l]) (use transaction in auto)
  then have "keeps (last hs) t" by (rule wkeepsD [OF keeps_seeing])
  moreover have "schema_ok t" using transaction.hyps(5) by (auto elim!: snapshot_commitE)
  ultimately show ?case using transaction keeps_reflp keeps_transp by (auto simp: reflpD dest: transpD)
next
  case (statement hs b act ts x t)
  have "keeps (last hs) t" using statement.hyps(5) by (rule wkeepsD [OF keeps_seeing])
  moreover have "schema_ok t"
    using seeing_serial [OF statement.hyps(5)] statement history_last wkeepsD [OF schema_tx_op]
    by (auto simp: keeps_schema_def up_to_marks_schema)
  ultimately show ?case using statement keeps_reflp keeps_transp by (auto simp: reflpD dest: transpD)
qed

lemma history_later: "history d hs \<Longrightarrow> schema_ok d \<Longrightarrow> b \<in> set hs \<Longrightarrow> later b (last hs)"
  using history_grows history_last by (auto simp: later_def)

text \<open>What every serial step keeps, whatever the marks, holds in every state of a history.\<close>

lemma history_invariant:
  assumes "history d hs" "schema_ok d" "P d"
    and step: "\<And>act ts d d' t. schema_ok d \<Longrightarrow> P d \<Longrightarrow> admissible act d \<Longrightarrow> tx_op ts act d = Inr ((), d') \<Longrightarrow>
      up_to_marks d' t \<Longrightarrow> P t"
  shows "\<forall>e \<in> set hs. P e"
  using assms(1-3)
proof (induction rule: history.induct)
  case start
  then show ?case by simp
next
  case (transaction hs b act ts t)
  have "tx_op_seeing b ts act (last hs) = Inr ((), t)"
    by (rule snapshot_commit_op [OF history_later]) (use transaction in auto)
  then obtain d' where "tx_op ts act (last hs) = Inr ((), d')" "up_to_marks d' t" using seeing_serial by blast
  moreover have "schema_ok (last hs)" "P (last hs)"
    using transaction history_last history_grows by auto
  ultimately show ?case using transaction step by auto
next
  case (statement hs b act ts x t)
  obtain d' where "tx_op ts act (last hs) = Inr ((), d')" "up_to_marks d' t"
    using seeing_serial [OF statement.hyps(5)] by auto
  moreover have "schema_ok (last hs)" "P (last hs)"
    using statement history_last history_grows by auto
  ultimately show ?case using statement step by auto
qed

lemma history_family: "history d hs \<Longrightarrow> family_inv d \<Longrightarrow> \<forall>e \<in> set hs. family_inv e"
  by (rule history_invariant) (auto simp: family_inv_def [of d] up_to_marks_family dest: family_tx)

lemma history_types: "history d hs \<Longrightarrow> schema_ok d \<Longrightarrow> rows_typed d \<Longrightarrow> \<forall>e \<in> set hs. rows_typed e"
  by (rule history_invariant) (auto simp: up_to_marks_types dest: types_tx)

lemma history_supers: "history d hs \<Longrightarrow> schema_ok d \<Longrightarrow> supers d \<noteq> {} \<Longrightarrow> \<forall>e \<in> set hs. supers e \<noteq> {}"
  by (rule history_invariant) (auto simp: up_to_marks_supers dest: super_admin_remains)

lemma history_roles:
  assumes "history d hs" "schema_ok d"
  shows "\<forall>e \<in> set hs. same_roles d e"
proof (rule history_invariant [OF assms])
  show "same_roles d d" using same_roles_rel(1) by (rule reflpD)
  fix act ts c c' t assume "same_roles d c" "tx_op ts act c = Inr ((), c')" "up_to_marks c' t"
  then show "same_roles d t"
    using wkeepsD [OF roles_tx_op] same_roles_rel(2) up_to_marks_roles by (metis transpD)
qed

text \<open>Executed one after the other, the operations have a history too.\<close>

lemma combined_serial:
  assumes "length xs \<le> length ys"
  shows "combined xs ys xs = ys"
  by (rule nth_equalityI) (use assms in \<open>auto simp: combined_def nth_append\<close>)

lemma serial_commit:
  assumes "schema_ok d" "tx_op ts act d = Inr ((), d')"
  shows "snapshot_commit ts act d d = Some d'"
proof -
  have ok: "schema_ok d'" "keeps d d'"
    using assms wkeepsD [OF schema_tx_op assms(2)] wkeepsD [OF keeps_tx_op assms(2)] by (auto simp: keeps_schema_def)
  have "later d d'" using assms(1) ok by (simp add: later_def)
  then have "combined_db d d' d = d'" by (simp add: combined_db_def combined_serial)
  then show ?thesis using assms(2) ok(1) by (simp add: snapshot_commit_def conflict_def overwritten_def)
qed

lemma seen_all [simp]: "r \<in> set rows \<Longrightarrow> visible key rows r"
  by (simp add: visible_def)

text \<open>Rows the bulk updates of an operation would have to change but cannot see.\<close>

fun missed :: "db_op \<Rightarrow> db \<Rightarrow> db \<Rightarrow> bool" where
  "missed (OpReissueEmailToken uid tok) b d =
     (\<exists>t \<in> set (email_tokens d). et_UserUuid t = uid \<and> et_UsedAt t = None \<and> \<not> visible et_TokenUuid (email_tokens b) t)"
| "missed (OpIssueResetToken uid tok) b d =
     (\<exists>t \<in> set (reset_tokens d). pt_UserUuid t = uid \<and> pt_UsedAt t = None \<and> \<not> visible pt_TokenUuid (reset_tokens b) t)"
| "missed (OpConfirmReset uid tok h) b d =
     ((\<exists>t \<in> set (reset_tokens d). pt_UserUuid t = uid \<and> pt_UsedAt t = None \<and> \<not> visible pt_TokenUuid (reset_tokens b) t) \<or>
      (\<exists>t \<in> set (refresh_tokens d). rt_UserUuid t = uid \<and> rt_RevokedAt t = None \<and> \<not> visible rt_TokenID (refresh_tokens b) t))"
| "missed (OpChangePassword uid h) b d =
     (\<exists>t \<in> set (refresh_tokens d). rt_UserUuid t = uid \<and> rt_RevokedAt t = None \<and> \<not> visible rt_TokenID (refresh_tokens b) t)"
| "missed (OpRevokeFamily family reason) b d =
     (\<exists>t \<in> set (refresh_tokens d). rt_FamilyID t = family \<and> rt_RevokedAt t = None \<and> \<not> visible rt_TokenID (refresh_tokens b) t)"
| "missed (OpIssueInvitation email role tok) b d =
     (\<exists>t \<in> set (invitation_tokens d). it_Email t = email \<and> it_UsedAt t = None \<and> \<not> visible it_TokenUuid (invitation_tokens b) t)"
| "missed (OpAcceptInvitation uid tok email role h) b d =
     (\<exists>t \<in> set (invitation_tokens d). it_Email t = email \<and> it_UsedAt t = None \<and> \<not> visible it_TokenUuid (invitation_tokens b) t)"
| "missed (OpDisableAccount uid is_super) b d =
     (\<exists>t \<in> set (refresh_tokens d). rt_UserUuid t = uid \<and> rt_RevokedAt t = None \<and> \<not> visible rt_TokenID (refresh_tokens b) t)"
| "missed act b d = False"

lemma upd_where_all: "\<forall>t \<in> set rows. p t \<longrightarrow> v t \<Longrightarrow> upd_where (\<lambda>t. p t \<and> v t) f rows = upd_where p f rows"
  by (rule upd_where_cong) blast

lemma count_where_all: "\<forall>t \<in> set rows. p t \<longrightarrow> v t \<Longrightarrow> count_where (\<lambda>t. p t \<and> v t) rows = count_where p rows"
  by (simp add: count_where_def cong: filter_cong) (metis (mono_tags, lifting) filter_cong)

lemma seen_is_all:
  "\<forall>t \<in> set (email_tokens d). et_UserUuid t = uid \<and> et_UsedAt t = None \<longrightarrow> visible et_TokenUuid (email_tokens b) t \<Longrightarrow>
     InvalidateSeenEmailTokens b ts uid d = InvalidateActiveEmailConfirmationTokensByUser ts uid d"
  "\<forall>t \<in> set (reset_tokens d). pt_UserUuid t = uid \<and> pt_UsedAt t = None \<longrightarrow> visible pt_TokenUuid (reset_tokens b) t \<Longrightarrow>
     InvalidateSeenResetTokens b ts uid d = InvalidateActivePasswordResetTokensByUser ts uid d"
  "\<forall>t \<in> set (invitation_tokens d). it_Email t = email \<and> it_UsedAt t = None \<longrightarrow> visible it_TokenUuid (invitation_tokens b) t \<Longrightarrow>
     InvalidateSeenInvitations b ts email d = InvalidateActiveInvitationTokensByEmail ts email d"
  "\<forall>t \<in> set (refresh_tokens d). rt_UserUuid t = uid \<and> rt_RevokedAt t = None \<longrightarrow> visible rt_TokenID (refresh_tokens b) t \<Longrightarrow>
     RevokeSeenTokens b ts uid reason d = RevokeRefreshTokensByUser ts uid reason d"
  "\<forall>t \<in> set (refresh_tokens d). rt_FamilyID t = fam \<and> rt_RevokedAt t = None \<longrightarrow> visible rt_TokenID (refresh_tokens b) t \<Longrightarrow>
     RevokeSeenFamily b ts fam reason d = RevokeRefreshTokenFamily ts fam reason d"
  by (simp_all only: seen_defs update_defs upd_where_all count_where_all)

lemma wbind_cong: "(\<And>x d1. m d = Inr (x, d1) \<Longrightarrow> f x d1 = g x d1) \<Longrightarrow> wbind m f d = wbind m g d"
  by (auto simp: wbind_def split: sum.split)

text \<open>What the statements before a bulk update leave of the tokens it is about.\<close>

lemma before_bulk:
  "need_row e (UpdateUserPassword ts uid h) d = Inr (x, d1) \<Longrightarrow> refresh_tokens d1 = refresh_tokens d"
  "need_row e (TransitionUserStatus ts uid new old) d = Inr (x, d1) \<Longrightarrow> refresh_tokens d1 = refresh_tokens d"
  "need_row e (MarkPasswordResetTokenUsed ts tok) d = Inr (x, d1) \<Longrightarrow> refresh_tokens d1 = refresh_tokens d \<and>
     (\<forall>t \<in> set (reset_tokens d1). pt_UsedAt t = None \<longrightarrow> t \<in> set (reset_tokens d))"
  "need_row e (MarkInvitationTokenUsed ts tok) d = Inr (x, d1) \<Longrightarrow>
     (\<forall>t \<in> set (invitation_tokens d1). it_UsedAt t = None \<longrightarrow> t \<in> set (invitation_tokens d))"
  "InvalidateActivePasswordResetTokensByUser ts uid d = Inr (n, d1) \<Longrightarrow> refresh_tokens d1 = refresh_tokens d"
  by (auto simp: need_row_Inr update_defs set_upd_where)

lemma nothing_missed:
  assumes "\<not> missed act b d"
  shows "tx_op_seeing b ts act d = tx_op ts act d"
proof (cases act)
  case (OpConfirmReset uid tok h)
  show ?thesis unfolding OpConfirmReset tx_op.simps tx_op_seeing.simps
  proof (rule wbind_cong)
    fix x d1 assume d1: "need_row (Sentinel ErrResetTokenConsumeConflict) (MarkPasswordResetTokenUsed ts tok) d = Inr (x, d1)"
    have "InvalidateSeenResetTokens b ts uid d1 = InvalidateActivePasswordResetTokensByUser ts uid d1"
      by (rule seen_is_all) (use before_bulk(3) [OF d1] assms in \<open>auto simp: OpConfirmReset\<close>)
    moreover have "RevokeSeenTokens b ts uid r d3 = RevokeRefreshTokensByUser ts uid r d3"
      if "InvalidateActivePasswordResetTokensByUser ts uid d1 = Inr (n, d2)" "need_row e (UpdateUserPassword ts uid h) d2 = Inr (y, d3)"
      for r n d2 y d3 e
      by (rule seen_is_all)
        (use before_bulk(3) [OF d1] before_bulk(5) [OF that(1)] before_bulk(1) [OF that(2)] assms in \<open>auto simp: OpConfirmReset\<close>)
    ultimately show "wbind (InvalidateSeenResetTokens b ts uid)
         (\<lambda>_. wbind (need_row (NewError ''user not found for password reset'') (UpdateUserPassword ts uid h))
         (\<lambda>_. RevokeSeenTokens b ts uid (Some RevocationReasonPasswordChanged))) d1 =
       wbind (InvalidateActivePasswordResetTokensByUser ts uid)
         (\<lambda>_. wbind (need_row (NewError ''user not found for password reset'') (UpdateUserPassword ts uid h))
         (\<lambda>_. RevokeRefreshTokensByUser ts uid (Some RevocationReasonPasswordChanged))) d1"
      by (auto simp: wbind_def split: sum.split)
  qed
next
  case (OpChangePassword uid h)
  show ?thesis unfolding OpChangePassword tx_op.simps tx_op_seeing.simps
    by (rule wbind_cong, rule seen_is_all, drule before_bulk) (use assms in \<open>auto simp: OpChangePassword\<close>)
next
  case (OpAcceptInvitation uid tok email role h)
  have "InvalidateSeenInvitations b ts email d1 = InvalidateActiveInvitationTokensByEmail ts email d1"
    if "need_row e (MarkInvitationTokenUsed ts tok) d = Inr (x, d1)" for e x d1
    by (rule seen_is_all) (use before_bulk(4) [OF that] assms in \<open>auto simp: OpAcceptInvitation\<close>)
  then show ?thesis unfolding OpAcceptInvitation tx_op.simps tx_op_seeing.simps
    by (intro wbind_cong) (simp add: wbind_def)
next
  case (OpDisableAccount uid is_super)
  have "wbind (need_row e (TransitionUserStatus ts uid new old)) (\<lambda>_. RevokeSeenTokens b ts uid r) d =
      wbind (need_row e (TransitionUserStatus ts uid new old)) (\<lambda>_. RevokeRefreshTokensByUser ts uid r) d" for e new old r
    by (rule wbind_cong, rule seen_is_all, drule before_bulk) (use assms in \<open>auto simp: OpDisableAccount\<close>)
  then show ?thesis unfolding OpDisableAccount tx_op.simps tx_op_seeing.simps by simp
qed (use assms in \<open>auto simp: wbind_def seen_is_all simp del: not_None_eq\<close>)

text \<open>
  Histories in which transactions overlap, but none misses a row: what a transaction changes in bulk was all
  committed before its snapshot was taken. Each step then is its operation on the state before, exactly.
\<close>

inductive complete_history :: "db \<Rightarrow> db list \<Rightarrow> bool" for d where
  start: "complete_history d [d]"
| transaction: "complete_history d hs \<Longrightarrow> b \<in> set hs \<Longrightarrow> in_transaction act \<Longrightarrow> admissible act (last hs) \<Longrightarrow>
    \<not> missed act b (last hs) \<Longrightarrow> snapshot_commit ts act b (last hs) = Some t \<Longrightarrow> complete_history d (hs @ [t])"
| statement: "complete_history d hs \<Longrightarrow> b \<in> set hs \<Longrightarrow> \<not> in_transaction act \<Longrightarrow> admissible act (last hs) \<Longrightarrow>
    \<not> missed act b (last hs) \<Longrightarrow> tx_op_seeing b ts act (last hs) = Inr (x, t) \<Longrightarrow> complete_history d (hs @ [t])"

lemma complete_is_history: "complete_history d hs \<Longrightarrow> history d hs"
  by (induction rule: complete_history.induct) (auto intro: history.intros)

lemma complete_history_evolves: "complete_history d hs \<Longrightarrow> schema_ok d \<Longrightarrow> \<forall>e \<in> set hs. evolves d e"
proof (induction rule: complete_history.induct)
  case start
  then show ?case by (simp add: evolves.stay)
next
  case (transaction hs b act ts t)
  note hist = complete_is_history [OF transaction.hyps(1)]
  have "tx_op_seeing b ts act (last hs) = Inr ((), t)"
    by (rule snapshot_commit_op [OF history_later [OF hist transaction.prems transaction.hyps(2)]]) (use transaction in auto)
  then have "tx_op ts act (last hs) = Inr ((), t)" by (simp only: nothing_missed [OF transaction.hyps(5)])
  then have "evolves (last hs) t" by (rule evolves_op [OF transaction.hyps(4)])
  then show ?case using transaction.IH [OF transaction.prems] history_last [OF hist] evolves_trans by auto
next
  case (statement hs b act ts x t)
  note hist = complete_is_history [OF statement.hyps(1)]
  have "tx_op ts act (last hs) = Inr ((), t)"
    using statement.hyps(6) by (simp add: nothing_missed [OF statement.hyps(5)])
  then have "evolves (last hs) t" by (rule evolves_op [OF statement.hyps(4)])
  then show ?case using statement.IH [OF statement.prems] history_last [OF hist] evolves_trans by auto
qed

text \<open>
  Serial transactions are a special case: each takes the last state as its snapshot and commits, and
  every evolution of theory Transactions is a history.
\<close>

lemma missed_nothing_new: "\<not> missed act d d"
  by (cases act) auto

lemma history_serial:
  assumes "history d hs" "schema_ok d" "admissible act (last hs)" "tx_op ts act (last hs) = Inr ((), d')"
  shows "history d (hs @ [d'])"
proof (cases "in_transaction act")
  case True
  show ?thesis
  proof (rule history.transaction [OF assms(1) _ True assms(3)])
    show "last hs \<in> set hs" using history_last [OF assms(1)] by simp
    show "snapshot_commit ts act (last hs) (last hs) = Some d'"
      using serial_commit [OF _ assms(4)] history_grows [OF assms(1,2)] history_last [OF assms(1)] by blast
  qed
next
  case False
  show ?thesis
  proof (rule history.statement [OF assms(1) _ False assms(3)])
    show "last hs \<in> set hs" using history_last [OF assms(1)] by simp
    show "tx_op_seeing (last hs) ts act (last hs) = Inr ((), d')"
      using nothing_missed [OF missed_nothing_new] assms(4) by simp
  qed
qed

lemma evolves_history: "evolves d d' \<Longrightarrow> schema_ok d \<Longrightarrow> \<exists>hs. history d hs \<and> last hs = d'"
proof (induction rule: evolves.induct)
  case (stay d)
  show ?case by (rule exI [of _ "[d]"]) (simp add: history.start)
next
  case (step d d' act d'')
  then obtain hs where hs: "history d hs" "last hs = d'" by blast
  have "\<exists>ts. admissible act d' \<and> tx_op ts act d' = Inr ((), d'')" using step.hyps(2) by (auto elim!: tx_stepE)
  then have "history d (hs @ [d''])" using history_serial [OF hs(1) step.prems] hs(2) by auto
  then show ?case by (intro exI [of _ "hs @ [d'']"]) simp
qed

section \<open>Two requests at the same time\<close>

text \<open>
  Issuing a one-time token invalidates the earlier ones with an \<open>UPDATE\<close>, and nothing else keeps two of
  them apart: no unique index covers the unused tokens of an account. Two transactions on one snapshot
  conflict when there is a row to invalidate; when there is none, both commit.
\<close>

lemma issue_resetE:
  assumes "tx_op ts (OpIssueResetToken uid tok) d = Inr ((), d')"
  obtains r where "d' = d\<lparr>reset_tokens := upd_where (\<lambda>t. pt_UserUuid t = uid \<and> pt_UsedAt t = None)
       (\<lambda>t. t\<lparr>pt_UsedAt := Some ts\<rparr>) (reset_tokens d) @ [r]\<rparr>"
    "pt_UserUuid r = uid" "pt_UsedAt r = None" "pt_TokenUuid r = TokenUUID tok" "pt_TokenHash r = Hash tok" "uid \<in> user_ids d"
  using assms by (auto simp: tx_simps insert_defs update_defs user_ids_def split: if_splits)

lemma issue_resetI:
  assumes "TokenUUID tok \<notin> pt_TokenUuid ` set (reset_tokens d)" "Hash tok \<notin> pt_TokenHash ` set (reset_tokens d)" "uid \<in> user_ids d"
  shows "\<exists>d'. tx_op ts (OpIssueResetToken uid tok) d = Inr ((), d')"
  using assms by (auto simp: wbind_def insert_defs update_defs user_ids_def set_upd_where image_iff)

lemma concurrent_issue:
  assumes ok: "schema_ok d" and first: "tx_op ts (OpIssueResetToken uid a) d = Inr ((), d1)"
    and new: "TokenUUID c \<notin> pt_TokenUuid ` set (reset_tokens d1)" "Hash c \<notin> pt_TokenHash ` set (reset_tokens d1)"
  shows "if active_rows pt_UserUuid pt_UsedAt uid (reset_tokens d) = 0
    then \<exists>d2. snapshot_commit ts' (OpIssueResetToken uid c) d d1 = Some d2 \<and> active_rows pt_UserUuid pt_UsedAt uid (reset_tokens d2) = 2
    else snapshot_commit ts' (OpIssueResetToken uid c) d d1 = None"
proof -
  let ?p = "\<lambda>t. pt_UserUuid t = uid \<and> pt_UsedAt t = None"
  obtain ra where ra: "d1 = d\<lparr>reset_tokens := upd_where ?p (\<lambda>t. t\<lparr>pt_UsedAt := Some ts\<rparr>) (reset_tokens d) @ [ra]\<rparr>"
      "pt_UserUuid ra = uid" "pt_UsedAt ra = None" "pt_TokenUuid ra = TokenUUID a" "pt_TokenHash ra = Hash a" "uid \<in> user_ids d"
    by (rule issue_resetE [OF first])
  have keys: "pt_TokenUuid ` set (reset_tokens d) \<subseteq> pt_TokenUuid ` set (reset_tokens d1)"
    "pt_TokenHash ` set (reset_tokens d) \<subseteq> pt_TokenHash ` set (reset_tokens d1)"
    by (auto simp: ra(1) image_upd_where)
  obtain m where m: "tx_op ts' (OpIssueResetToken uid c) d = Inr ((), m)"
    using issue_resetI [of c d uid ts'] new keys ra(6) by blast
  then obtain rc where rc: "m = d\<lparr>reset_tokens := upd_where ?p (\<lambda>t. t\<lparr>pt_UsedAt := Some ts'\<rparr>) (reset_tokens d) @ [rc]\<rparr>"
      "pt_UserUuid rc = uid" "pt_UsedAt rc = None" "pt_TokenUuid rc = TokenUUID c" "pt_TokenHash rc = Hash c"
    by (rule issue_resetE)
  show ?thesis
  proof (cases "active_rows pt_UserUuid pt_UsedAt uid (reset_tokens d) = 0")
    case True
    then have none: "upd_where ?p f (reset_tokens d) = reset_tokens d" for f
      by (intro upd_where_none) (simp add: active_rows_def count_where_zero)
    let ?d2 = "d1\<lparr>reset_tokens := reset_tokens d1 @ [rc]\<rparr>"
    have "combined_db d m d1 = ?d2" by (simp add: combined_db_def ra(1) rc(1) none)
    moreover have "schema_ok d1" using wkeepsD [OF schema_tx_op first] ok by (simp add: keeps_schema_def)
    then have "schema_ok ?d2"
      using new rc(2-5) ra(2-6) by (auto simp: schema_ok_def table_ok_defs user_ids_def ra(1) none)
    moreover have "\<not> conflict (OpIssueResetToken uid c) d m d1"
      by (auto simp: conflict_def overwritten_def ra(1) rc(1) none nth_append)
    ultimately have "snapshot_commit ts' (OpIssueResetToken uid c) d d1 = Some ?d2"
      by (simp add: snapshot_commit_def m del: tx_op.simps)
    moreover have "active_rows pt_UserUuid pt_UsedAt uid (reset_tokens ?d2) = 2"
      using True by (simp add: active_rows_def ra none rc count_where_def)
    ultimately show ?thesis using True by auto
  next
    case False
    then obtain x where "x \<in> set (reset_tokens d)" "?p x"
      by (auto simp: active_rows_def count_where_zero)
    then obtain i where i: "i < length (reset_tokens d)" "?p (reset_tokens d ! i)" by (metis in_set_conv_nth)
    have "(upd_where ?p (\<lambda>t. t\<lparr>pt_UsedAt := Some s\<rparr>) (reset_tokens d) @ [r]) ! i \<noteq> reset_tokens d ! i" for s r
      using i by (auto simp: nth_append upd_where_def dest!: arg_cong [where f = pt_UsedAt])
    then have "conflict (OpIssueResetToken uid c) d m d1"
      using i(1) unfolding conflict_def overwritten_def ra(1) rc(1) by (intro disjI2 disjI1 exI [of _ i]) simp
    then show ?thesis using False by (simp add: snapshot_commit_def m del: tx_op.simps)
  qed
qed

text \<open>The next request that sees both invalidates them: the update is for the account, not for a token.\<close>

lemma issue_leaves_one:
  assumes "tx_op ts (OpIssueResetToken uid tok) d = Inr ((), d')"
  shows "active_rows pt_UserUuid pt_UsedAt uid (reset_tokens d') = 1"
proof -
  obtain r where "d' = d\<lparr>reset_tokens := upd_where (\<lambda>t. pt_UserUuid t = uid \<and> pt_UsedAt t = None)
       (\<lambda>t. t\<lparr>pt_UsedAt := Some ts\<rparr>) (reset_tokens d) @ [r]\<rparr>" "pt_UserUuid r = uid" "pt_UsedAt r = None"
    by (rule issue_resetE [OF assms])
  then show ?thesis using reset_store.invalidate_none_active [of uid ts "reset_tokens d"]
    by (simp add: active_rows_def)
qed

text \<open>The history of the two requests.\<close>

lemma history_two_tokens:
  assumes ok: "schema_ok d" and first: "tx_op ts (OpIssueResetToken uid a) d = Inr ((), d1)"
    and new: "TokenUUID c \<notin> pt_TokenUuid ` set (reset_tokens d1)" "Hash c \<notin> pt_TokenHash ` set (reset_tokens d1)"
  shows "if active_rows pt_UserUuid pt_UsedAt uid (reset_tokens d) = 0
    then \<exists>d2. history d [d, d1, d2] \<and> active_rows pt_UserUuid pt_UsedAt uid (reset_tokens d2) = 2
    else snapshot_commit ts' (OpIssueResetToken uid c) d d1 = None"
proof (cases "active_rows pt_UserUuid pt_UsedAt uid (reset_tokens d) = 0")
  case True
  then obtain d2 where d2: "snapshot_commit ts' (OpIssueResetToken uid c) d d1 = Some d2" "active_rows pt_UserUuid pt_UsedAt uid (reset_tokens d2) = 2"
    using concurrent_issue [OF assms, of ts'] by auto
  have "history d ([d] @ [d1])"
    by (rule history_serial [where act = "OpIssueResetToken uid a" and ts = ts]) (simp_all add: history.start ok first del: tx_op.simps)
  then have "history d (([d] @ [d1]) @ [d2])"
    by (rule history.transaction [where b = d and act = "OpIssueResetToken uid c" and ts = ts']) (simp_all add: d2)
  then show ?thesis using True d2(2) by auto
next
  case False
  then show ?thesis using concurrent_issue [OF assms, of ts'] by auto
qed

section \<open>Revoked tokens\<close>

text \<open>
  \<open>MarkRefreshTokenUsed\<close> asks whether the token was used, not whether it was revoked: a rotation whose
  caller read the token before it was revoked still succeeds, also when the conflict made it start again,
  and stores a successor that is not revoked.
\<close>

lemma not_in_images: "a \<notin> f ` A \<Longrightarrow> b \<notin> g ` A \<Longrightarrow> \<forall>x \<in> A. f x \<noteq> a \<and> g x \<noteq> b"
  by auto

lemma revoked_token_rotates:
  assumes "t \<in> set (refresh_tokens d)" "rt_UsedAt t = None" "rt_RevokedAt t = Some at"
    and "rr_TokenID r \<notin> rt_TokenID ` set (refresh_tokens d)" "rr_TokenHash r \<notin> rt_TokenHash ` set (refresh_tokens d)"
    and "rr_UserUUID r \<in> user_ids d" "rr_ParentTokenID r = Some (rt_TokenID t)"
  shows "\<exists>d' s. tx_op ts (OpRotateRefreshToken (rt_TokenID t) r) d = Inr ((), d') \<and>
    s \<in> set (refresh_tokens d') \<and> rt_TokenID s = rr_TokenID r \<and> rt_UsedAt s = None \<and> rt_RevokedAt s = None"
proof -
  let ?p = "\<lambda>x. rt_TokenID x = rt_TokenID t \<and> rt_UsedAt x = None" and ?f = "\<lambda>x. x\<lparr>rt_UsedAt := Some ts\<rparr>"
  let ?d = "d\<lparr>refresh_tokens := upd_where ?p ?f (refresh_tokens d)\<rparr>"
  have "count_where ?p (refresh_tokens d) \<noteq> 0" using assms(1,2) by (auto simp: count_where_zero)
  then have mark: "need_row e (MarkRefreshTokenUsed ts (rt_TokenID t)) d = Inr ((), ?d)" for e
    by (auto simp: need_row_Inr update_defs)
  have key: "rt_TokenID ` set (refresh_tokens ?d) = rt_TokenID ` set (refresh_tokens d)"
    "rt_TokenHash ` set (refresh_tokens ?d) = rt_TokenHash ` set (refresh_tokens d)"
    by (simp_all add: image_upd_where)
  have "rt_TokenID t \<in> rt_TokenID ` set (refresh_tokens ?d)" unfolding key using assms(1) by simp
  then obtain x where x: "x \<in> set (refresh_tokens ?d)" "rt_TokenID x = rt_TokenID t" by auto
  have new: "\<forall>x \<in> set (refresh_tokens ?d). rt_TokenID x \<noteq> rr_TokenID r \<and> rt_TokenHash x \<noteq> rr_TokenHash r"
    by (rule not_in_images) (use assms(4,5) key in \<open>simp_all only: not_False_eq_True\<close>)
  obtain u where u: "u \<in> set (users ?d)" "u_UserUuid u = rr_UserUUID r" using assms(6) by (auto simp: user_ids_def)
  let ?s = "\<lparr>rt_TokenID = rr_TokenID r, rt_UserUuid = rr_UserUUID r, rt_FamilyID = rr_FamilyID r, rt_ParentTokenID = rr_ParentTokenID r,
     rt_TokenHash = rr_TokenHash r, rt_ExpiresAt = rr_ExpiresAt r, rt_UsedAt = None, rt_RevokedAt = None, rt_RevocationReason = None, rt_CreatedAt = ts\<rparr>"
  have "insert_refresh ts r e = Inr ((), e\<lparr>refresh_tokens := refresh_tokens e @ [?s]\<rparr>)"
    if "\<forall>x \<in> set (refresh_tokens e). rt_TokenID x \<noteq> rr_TokenID r \<and> rt_TokenHash x \<noteq> rr_TokenHash r"
      "u \<in> set (users e)" "x \<in> set (refresh_tokens e)" for e
    using that x(2) u(2) assms(7) by (auto simp: InsertRefreshToken_def)
  from this [OF new u(1) x(1)]
  have "tx_op ts (OpRotateRefreshToken (rt_TokenID t) r) d = Inr ((), ?d\<lparr>refresh_tokens := refresh_tokens ?d @ [?s]\<rparr>)"
    by (simp add: wbind_def mark del: insert_refresh.simps)
  moreover have "?s \<in> set (refresh_tokens (?d\<lparr>refresh_tokens := refresh_tokens ?d @ [?s]\<rparr>))" by simp
  ultimately show ?thesis by (intro exI conjI) (assumption, assumption, simp_all)
qed

end
