(* ===== verification/Redis.thy ===== *)
theory Redis
  imports GoErrors
begin

text \<open>
  The part of a Redis server the rate limiters use: keys with an integer value and an optional
  expiry, and the commands and Lua scripts of \<open>common/ratelimit\<close>, each of which the server executes
  atomically at a millisecond of its clock. The scripts are written over the primitives they call
  (\<open>GET\<close>, \<open>INCR\<close>, \<open>SET\<close>, \<open>PEXPIRE\<close>, \<open>PTTL\<close>, \<open>DEL\<close>).
\<close>

section \<open>The key space\<close>

record redis_entry =
  re_val :: int
  re_exp :: "int option"    \<comment> \<open>absolute, in milliseconds; \<open>None\<close>: no TTL\<close>

type_synonym redis = "string \<Rightarrow> redis_entry option"

text \<open>A key is gone once the clock has passed its expiry.\<close>

definition r_get :: "int \<Rightarrow> string \<Rightarrow> redis \<Rightarrow> redis_entry option" where
  "r_get now k r =
     (case r k of
        None \<Rightarrow> None
      | Some e \<Rightarrow> (case re_exp e of None \<Rightarrow> Some e | Some t \<Rightarrow> if now \<le> t then Some e else None))"

definition r_pttl :: "int \<Rightarrow> string \<Rightarrow> redis \<Rightarrow> int" where
  "r_pttl now k r =
     (case r_get now k r of
        None \<Rightarrow> -2
      | Some e \<Rightarrow> (case re_exp e of None \<Rightarrow> -1 | Some t \<Rightarrow> t - now))"

definition r_pexpire :: "int \<Rightarrow> string \<Rightarrow> int \<Rightarrow> redis \<Rightarrow> redis" where
  "r_pexpire now k ms r =
     (case r_get now k r of
        None \<Rightarrow> r
      | Some e \<Rightarrow> if ms \<le> 0 then r(k := None) else r(k \<mapsto> e\<lparr>re_exp := Some (now + ms)\<rparr>))"

definition r_incr :: "int \<Rightarrow> string \<Rightarrow> redis \<Rightarrow> int \<times> redis" where
  "r_incr now k r =
     (case r_get now k r of
        None \<Rightarrow> (1, r(k \<mapsto> \<lparr>re_val = 1, re_exp = None\<rparr>))
      | Some e \<Rightarrow> (re_val e + 1, r(k \<mapsto> e\<lparr>re_val := re_val e + 1\<rparr>)))"

definition r_set_px :: "int \<Rightarrow> string \<Rightarrow> int \<Rightarrow> int \<Rightarrow> redis \<Rightarrow> redis" where
  "r_set_px now k v ms r = r(k \<mapsto> \<lparr>re_val = v, re_exp = Some (now + ms)\<rparr>)"

section \<open>Commands and scripts\<close>

datatype redis_cmd =
    FixedWindowScript string int                   \<comment> \<open>key, window (ms)\<close>
  | CountingWindowScript string int int            \<comment> \<open>key, window (ms), limit\<close>
  | LockoutFailureScript string string int int int \<comment> \<open>count key, lock key, window, threshold, lock TTL\<close>
  | PTTL string
  | PEXPIRE string int
  | DEL string

text \<open>\<open>SET \<dots> PX ms\<close> with a time that is not positive aborts a script with this error.\<close>

definition bad_px :: goerr where
  "bad_px = DriverError ''ERR invalid expire time in 'set' command''"

text \<open>\<open>fixedWindowScript\<close>: \<open>SET key 1 NX PX window\<close>, then \<open>PTTL\<close>.\<close>

definition fixedWindowScript :: "int \<Rightarrow> string \<Rightarrow> int \<Rightarrow> redis \<Rightarrow> (goerr + int list) \<times> redis" where
  "fixedWindowScript now k window r =
     (if window \<le> 0 then (Inl bad_px, r)
      else case r_get now k r of
        None \<Rightarrow> let r' = r_set_px now k 1 window r in (Inr [1, r_pttl now k r'], r')
      | Some _ \<Rightarrow> (Inr [0, r_pttl now k r], r))"

text \<open>\<open>countingWindowScript\<close>: count while below the limit; give a key without TTL the window.\<close>

definition countingWindowScript ::
  "int \<Rightarrow> string \<Rightarrow> int \<Rightarrow> int \<Rightarrow> redis \<Rightarrow> (goerr + int list) \<times> redis" where
  "countingWindowScript now k window lim r =
     (let count = (case r_get now k r of None \<Rightarrow> 0 | Some e \<Rightarrow> re_val e);
          (count, r) =
            (if count < lim
             then let (c, r) = r_incr now k r in
                  (c, if c = 1 then r_pexpire now k window r else r)
             else (count + 1, r));
          pttl = r_pttl now k r
      in if pttl < 0 then (Inr [count, window], r_pexpire now k window r)
         else (Inr [count, pttl], r))"

text \<open>\<open>lockoutFailureScript\<close>: count a failure; at exactly the threshold, set the lock.\<close>

definition lockoutFailureScript ::
  "int \<Rightarrow> string \<Rightarrow> string \<Rightarrow> int \<Rightarrow> int \<Rightarrow> int \<Rightarrow> redis \<Rightarrow> (goerr + int list) \<times> redis" where
  "lockoutFailureScript now ck lk window threshold lock_ttl r =
     (let (count, r) = r_incr now ck r;
          r = (if count = 1 then r_pexpire now ck window r
               else if r_pttl now ck r < 0 then r_pexpire now ck window r else r)
      in if count = threshold
         then if lock_ttl \<le> 0 then (Inl bad_px, r) else (Inr [1], r_set_px now lk 1 lock_ttl r)
         else (Inr [0], r))"

fun redis_exec :: "int \<Rightarrow> redis_cmd \<Rightarrow> redis \<Rightarrow> (goerr + int list) \<times> redis" where
  "redis_exec now (FixedWindowScript k window) r = fixedWindowScript now k window r"
| "redis_exec now (CountingWindowScript k window lim) r = countingWindowScript now k window lim r"
| "redis_exec now (LockoutFailureScript ck lk window threshold lock_ttl) r =
     lockoutFailureScript now ck lk window threshold lock_ttl r"
| "redis_exec now (PTTL k) r = (Inr [r_pttl now k r], r)"
| "redis_exec now (PEXPIRE k ms) r =
     (Inr [case r_get now k r of None \<Rightarrow> 0 | Some _ \<Rightarrow> 1], r_pexpire now k ms r)"
| "redis_exec now (DEL k) r = (Inr [case r_get now k r of None \<Rightarrow> 0 | Some _ \<Rightarrow> 1], r(k := None))"

text \<open>The keys a command writes.\<close>

fun written_keys :: "redis_cmd \<Rightarrow> string set" where
  "written_keys (FixedWindowScript k _) = {k}"
| "written_keys (CountingWindowScript k _ _) = {k}"
| "written_keys (LockoutFailureScript ck lk _ _ _) = {ck, lk}"
| "written_keys (PTTL k) = {}"
| "written_keys (PEXPIRE k _) = {k}"
| "written_keys (DEL k) = {k}"

lemmas r_defs = r_get_def r_pttl_def r_pexpire_def r_incr_def r_set_px_def

lemma redis_exec_frame:
  "k \<notin> written_keys c \<Longrightarrow> snd (redis_exec now c r) k = r k"
  by (cases c) (auto simp: fixedWindowScript_def countingWindowScript_def lockoutFailureScript_def
      r_pexpire_def r_incr_def r_set_px_def Let_def split: option.splits prod.splits)

lemma r_pttl_nonneg_iff: "0 \<le> r_pttl now k r \<longleftrightarrow> (\<exists>e t. r k = Some e \<and> re_exp e = Some t \<and> now \<le> t)"
  by (auto simp: r_defs split: option.splits)

end
