(* ===== verification/LogMessages.thy ===== *)
theory LogMessages
  imports Main
begin

text \<open>
  The log messages of the use cases and of the rate limiters that are not ASCII, as the UTF-8
  bytes of the source's string literals (one definition per literal).
\<close>

definition bytes :: "nat list \<Rightarrow> string" where
  "bytes bs = map char_of bs"

definition MsgRegistrationRateLimited :: string where
  "MsgRegistrationRateLimited = bytes [231, 153, 187, 233, 140, 178, 227, 131, 172, 227, 131, 188, 227, 131, 136, 227, 131,
     170, 227, 131, 159, 227, 131, 131, 227, 131, 136, 232, 182, 133, 233, 129, 142]"

definition MsgResendRateLimited :: string where
  "MsgResendRateLimited = bytes [229, 134, 141, 233, 128, 129, 227, 131, 172, 227, 131, 188, 227, 131, 136, 227, 131,
     170, 227, 131, 159, 227, 131, 131, 227, 131, 136, 232, 182, 133, 233, 129, 142]"

definition MsgVerifyRateLimited :: string where
  "MsgVerifyRateLimited = bytes [227, 131, 161, 227, 131, 188, 227, 131, 171, 231, 162, 186, 232, 170, 141, 227, 131,
     172, 227, 131, 188, 227, 131, 136, 227, 131, 170, 227, 131, 159, 227, 131, 131, 227,
     131, 136, 232, 182, 133, 233, 129, 142]"

definition MsgResetRateLimited :: string where
  "MsgResetRateLimited = bytes [227, 131, 145, 227, 130, 185, 227, 131, 175, 227, 131, 188, 227, 131, 137, 227, 131,
     170, 227, 130, 187, 227, 131, 131, 227, 131, 136, 232, 166, 129, 230, 177, 130, 227,
     131, 172, 227, 131, 188, 227, 131, 136, 227, 131, 170, 227, 131, 159, 227, 131, 131,
     227, 131, 136, 232, 182, 133, 233, 129, 142]"

definition MsgInvitationRateLimited :: string where
  "MsgInvitationRateLimited = bytes [230, 139, 155, 229, 190, 133, 227, 131, 170, 227, 130, 175, 227, 130, 168, 227, 130,
     185, 227, 131, 136, 227, 131, 172, 227, 131, 188, 227, 131, 136, 227, 131, 170, 227,
     131, 159, 227, 131, 131, 227, 131, 136, 232, 182, 133, 233, 129, 142]"

definition MsgInvalidEmail :: string where
  "MsgInvalidEmail = bytes [227, 131, 161, 227, 131, 188, 227, 131, 171, 227, 130, 162, 227, 131, 137, 227, 131,
     172, 227, 130, 185, 229, 189, 162, 229, 188, 143, 228, 184, 141, 230, 173, 163]"

definition MsgWeakPassword :: string where
  "MsgWeakPassword = bytes [227, 131, 145, 227, 130, 185, 227, 131, 175, 227, 131, 188, 227, 131, 137, 229, 188,
     183, 229, 186, 166, 228, 184, 141, 232, 182, 179]"

definition MsgMailFailed :: string where
  "MsgMailFailed = bytes [227, 131, 161, 227, 131, 188, 227, 131, 171, 233, 128, 129, 228, 191, 161, 229, 164,
     177, 230, 149, 151]"

definition MsgResetMailFailed :: string where
  "MsgResetMailFailed = bytes [227, 131, 170, 227, 130, 187, 227, 131, 131, 227, 131, 136, 227, 131, 161, 227, 131,
     188, 227, 131, 171, 233, 128, 129, 228, 191, 161, 229, 164, 177, 230, 149, 151]"

definition MsgInvitationMailFailed :: string where
  "MsgInvitationMailFailed = bytes [230, 139, 155, 229, 190, 133, 227, 131, 161, 227, 131, 188, 227, 131, 171, 233, 128,
     129, 228, 191, 161, 229, 164, 177, 230, 149, 151]"

definition MsgInvalidConfirmationToken :: string where
  "MsgInvalidConfirmationToken = bytes [231, 132, 161, 229, 138, 185, 227, 129, 170, 227, 131, 161, 227, 131, 188, 227, 131,
     171, 231, 162, 186, 232, 170, 141, 227, 131, 136, 227, 131, 188, 227, 130, 175, 227,
     131, 179]"

definition MsgConfirmationTokenExpired :: string where
  "MsgConfirmationTokenExpired = bytes [227, 131, 161, 227, 131, 188, 227, 131, 171, 231, 162, 186, 232, 170, 141, 227, 131,
     136, 227, 131, 188, 227, 130, 175, 227, 131, 179, 230, 156, 159, 233, 153, 144, 229,
     136, 135, 227, 130, 140]"

definition MsgLockedOut :: string where
  "MsgLockedOut = bytes [227, 131, 173, 227, 131, 131, 227, 130, 175, 227, 130, 162, 227, 130, 166, 227, 131,
     136, 228, 184, 173, 227, 129, 174, 227, 131, 173, 227, 130, 176, 227, 130, 164, 227,
     131, 179, 232, 169, 166, 232, 161, 140]"

definition MsgLoginFailed :: string where
  "MsgLoginFailed = bytes [227, 131, 173, 227, 130, 176, 227, 130, 164, 227, 131, 179, 229, 164, 177, 230, 149, 151]"

definition MsgLoginUnverified :: string where
  "MsgLoginUnverified = bytes [227, 131, 161, 227, 131, 188, 227, 131, 171, 230, 156, 170, 231, 162, 186, 232, 170,
     141, 227, 130, 162, 227, 130, 171, 227, 130, 166, 227, 131, 179, 227, 131, 136, 227,
     129, 184, 227, 129, 174, 227, 131, 173, 227, 130, 176, 227, 130, 164, 227, 131, 179,
     232, 169, 166, 232, 161, 140]"

definition MsgLoginDisabled :: string where
  "MsgLoginDisabled = bytes [231, 132, 161, 229, 138, 185, 229, 140, 150, 230, 184, 136, 227, 129, 191, 227, 130,
     162, 227, 130, 171, 227, 130, 166, 227, 131, 179, 227, 131, 136, 227, 129, 184, 227,
     129, 174, 227, 131, 173, 227, 130, 176, 227, 130, 164, 227, 131, 179, 232, 169, 166,
     232, 161, 140]"

definition MsgRefreshFormat :: string where
  "MsgRefreshFormat = bytes [227, 131, 170, 227, 131, 149, 227, 131, 172, 227, 131, 131, 227, 130, 183, 227, 131,
     165, 227, 131, 136, 227, 131, 188, 227, 130, 175, 227, 131, 179, 229, 189, 162, 229,
     188, 143, 228, 184, 141, 230, 173, 163]"

definition MsgUnknownToken :: string where
  "MsgUnknownToken = bytes [228, 184, 141, 230, 173, 163, 227, 131, 136, 227, 131, 188, 227, 130, 175, 227, 131,
     179, 227, 129, 167, 227, 129, 174, 227, 130, 162, 227, 130, 175, 227, 130, 187, 227,
     130, 185, 232, 169, 166, 232, 161, 140]"

definition MsgRefreshExpired :: string where
  "MsgRefreshExpired = bytes [227, 131, 170, 227, 131, 149, 227, 131, 172, 227, 131, 131, 227, 130, 183, 227, 131,
     165, 227, 131, 136, 227, 131, 188, 227, 130, 175, 227, 131, 179, 230, 156, 137, 229,
     138, 185, 230, 156, 159, 233, 153, 144, 229, 136, 135, 227, 130, 140]"

definition MsgReuseDetected :: string where
  "MsgReuseDetected = bytes [227, 131, 170, 227, 131, 149, 227, 131, 172, 227, 131, 131, 227, 130, 183, 227, 131,
     165, 227, 131, 136, 227, 131, 188, 227, 130, 175, 227, 131, 179, 229, 134, 141, 229,
     136, 169, 231, 148, 168, 230, 164, 156, 231, 159, 165, 227, 131, 187, 229, 189, 147,
     232, 169, 178, 102, 97, 109, 105, 108, 121, 239, 188, 136, 227, 131, 129, 227, 130,
     167, 227, 131, 188, 227, 131, 179, 239, 188, 137, 227, 129, 174, 227, 130, 187, 227,
     131, 131, 227, 130, 183, 227, 131, 167, 227, 131, 179, 231, 132, 161, 229, 138, 185,
     229, 140, 150]"

definition MsgRefreshDeletedAccount :: string where
  "MsgRefreshDeletedAccount = bytes [229, 137, 138, 233, 153, 164, 230, 184, 136, 227, 129, 191, 227, 130, 162, 227, 130,
     171, 227, 130, 166, 227, 131, 179, 227, 131, 136, 227, 129, 174, 227, 131, 136, 227,
     131, 188, 227, 130, 175, 227, 131, 179, 229, 134, 141, 231, 153, 186, 232, 161, 140,
     232, 169, 166, 232, 161, 140]"

definition MsgRefreshDisabledAccount :: string where
  "MsgRefreshDisabledAccount = bytes [231, 132, 161, 229, 138, 185, 229, 140, 150, 230, 184, 136, 227, 129, 191, 227, 130,
     162, 227, 130, 171, 227, 130, 166, 227, 131, 179, 227, 131, 136, 227, 129, 174, 227,
     131, 136, 227, 131, 188, 227, 130, 175, 227, 131, 179, 229, 134, 141, 231, 153, 186,
     232, 161, 140, 232, 169, 166, 232, 161, 140]"

definition MsgForeignLogout :: string where
  "MsgForeignLogout = bytes [228, 187, 150, 227, 131, 166, 227, 131, 188, 227, 130, 182, 227, 131, 188, 227, 129,
     174, 227, 131, 170, 227, 131, 149, 227, 131, 172, 227, 131, 131, 227, 130, 183, 227,
     131, 165, 227, 131, 136, 227, 131, 188, 227, 130, 175, 227, 131, 179, 227, 129, 171,
     227, 130, 136, 227, 130, 139, 227, 131, 173, 227, 130, 176, 227, 130, 162, 227, 130,
     166, 227, 131, 136, 232, 169, 166, 232, 161, 140]"

definition MsgBadSubject :: string where
  "MsgBadSubject = bytes [228, 184, 141, 230, 173, 163, 227, 129, 170, 232, 170, 141, 232, 168, 188, 227, 130,
     181, 227, 131, 150, 227, 130, 184, 227, 130, 167, 227, 130, 175, 227, 131, 136, 227,
     129, 167, 227, 129, 174, 230, 147, 141, 228, 189, 156, 232, 169, 166, 232, 161, 140]"

definition MsgDeletedAccount :: string where
  "MsgDeletedAccount = bytes [229, 137, 138, 233, 153, 164, 230, 184, 136, 227, 129, 191, 227, 130, 162, 227, 130,
     171, 227, 130, 166, 227, 131, 179, 227, 131, 136, 227, 129, 174, 230, 147, 141, 228,
     189, 156, 232, 169, 166, 232, 161, 140]"

definition MsgDisabledAccount :: string where
  "MsgDisabledAccount = bytes [231, 132, 161, 229, 138, 185, 229, 140, 150, 230, 184, 136, 227, 129, 191, 227, 130,
     162, 227, 130, 171, 227, 130, 166, 227, 131, 179, 227, 131, 136, 227, 129, 174, 230,
     147, 141, 228, 189, 156, 232, 169, 166, 232, 161, 140]"

definition MsgPasswordMismatch :: string where
  "MsgPasswordMismatch = bytes [231, 143, 190, 229, 156, 168, 227, 129, 174, 227, 131, 145, 227, 130, 185, 227, 131,
     175, 227, 131, 188, 227, 131, 137, 228, 184, 141, 228, 184, 128, 232, 135, 180]"

definition MsgPasswordChangeFailed :: string where
  "MsgPasswordChangeFailed = bytes [227, 131, 145, 227, 130, 185, 227, 131, 175, 227, 131, 188, 227, 131, 137, 229, 164,
     137, 230, 155, 180, 227, 131, 136, 227, 131, 169, 227, 131, 179, 227, 130, 182, 227,
     130, 175, 227, 130, 183, 227, 131, 167, 227, 131, 179, 229, 164, 177, 230, 149, 151]"

definition MsgPasswordChanged :: string where
  "MsgPasswordChanged = bytes [227, 131, 145, 227, 130, 185, 227, 131, 175, 227, 131, 188, 227, 131, 137, 229, 164,
     137, 230, 155, 180]"

definition MsgInvalidResetToken :: string where
  "MsgInvalidResetToken = bytes [231, 132, 161, 229, 138, 185, 227, 129, 170, 227, 131, 170, 227, 130, 187, 227, 131,
     131, 227, 131, 136, 227, 131, 136, 227, 131, 188, 227, 130, 175, 227, 131, 179]"

definition MsgResetTokenExpired :: string where
  "MsgResetTokenExpired = bytes [227, 131, 170, 227, 130, 187, 227, 131, 131, 227, 131, 136, 227, 131, 136, 227, 131,
     188, 227, 130, 175, 227, 131, 179, 230, 156, 137, 229, 138, 185, 230, 156, 159, 233,
     153, 144, 229, 136, 135, 227, 130, 140]"

definition MsgPasswordResetFailed :: string where
  "MsgPasswordResetFailed = bytes [227, 131, 145, 227, 130, 185, 227, 131, 175, 227, 131, 188, 227, 131, 137, 227, 131,
     170, 227, 130, 187, 227, 131, 131, 227, 131, 136, 227, 131, 136, 227, 131, 169, 227,
     131, 179, 227, 130, 182, 227, 130, 175, 227, 130, 183, 227, 131, 167, 227, 131, 179,
     229, 164, 177, 230, 149, 151]"

definition MsgPasswordReset :: string where
  "MsgPasswordReset = bytes [227, 131, 145, 227, 130, 185, 227, 131, 175, 227, 131, 188, 227, 131, 137, 227, 131,
     170, 227, 130, 187, 227, 131, 131, 227, 131, 136]"

definition MsgInvalidRole :: string where
  "MsgInvalidRole = bytes [231, 132, 161, 229, 138, 185, 227, 129, 170, 227, 131, 173, 227, 131, 188, 227, 131,
     171, 230, 140, 135, 229, 174, 154]"

definition MsgRoleAlreadyAssigned :: string where
  "MsgRoleAlreadyAssigned = bytes [231, 174, 161, 231, 144, 134, 232, 128, 133, 227, 131, 173, 227, 131, 188, 227, 131,
     171, 228, 187, 152, 228, 184, 142, 230, 184, 136, 227, 129, 191]"

definition MsgInviteExisting :: string where
  "MsgInviteExisting = bytes [230, 151, 162, 229, 173, 152, 227, 130, 162, 227, 130, 171, 227, 130, 166, 227, 131,
     179, 227, 131, 136, 227, 129, 184, 227, 129, 174, 230, 139, 155, 229, 190, 133]"

definition MsgAdminInvited :: string where
  "MsgAdminInvited = bytes [231, 174, 161, 231, 144, 134, 232, 128, 133, 230, 139, 155, 229, 190, 133]"

definition MsgInvalidInvitation :: string where
  "MsgInvalidInvitation = bytes [231, 132, 161, 229, 138, 185, 227, 129, 170, 230, 139, 155, 229, 190, 133, 227, 131,
     136, 227, 131, 188, 227, 130, 175, 227, 131, 179]"

definition MsgInvitationExpired :: string where
  "MsgInvitationExpired = bytes [230, 139, 155, 229, 190, 133, 227, 131, 136, 227, 131, 188, 227, 130, 175, 227, 131,
     179, 230, 156, 137, 229, 138, 185, 230, 156, 159, 233, 153, 144, 229, 136, 135, 227,
     130, 140]"

definition MsgAccountConflict :: string where
  "MsgAccountConflict = bytes [230, 151, 162, 229, 173, 152, 227, 130, 162, 227, 130, 171, 227, 130, 166, 227, 131,
     179, 227, 131, 136, 227, 129, 168, 227, 129, 174, 231, 171, 182, 229, 144, 136]"

definition MsgAcceptFailed :: string where
  "MsgAcceptFailed = bytes [230, 139, 155, 229, 190, 133, 229, 143, 151, 228, 187, 152, 227, 131, 136, 227, 131,
     169, 227, 131, 179, 227, 130, 182, 227, 130, 175, 227, 130, 183, 227, 131, 167, 227,
     131, 179, 229, 164, 177, 230, 149, 151]"

definition MsgTargetMissing :: string where
  "MsgTargetMissing = bytes [229, 175, 190, 232, 177, 161, 227, 131, 166, 227, 131, 188, 227, 130, 182, 227, 131,
     188, 227, 129, 140, 229, 173, 152, 229, 156, 168, 227, 129, 151, 227, 129, 170, 227,
     129, 132]"

definition MsgDisableNotAdmin :: string where
  "MsgDisableNotAdmin = bytes [231, 174, 161, 231, 144, 134, 232, 128, 133, 227, 131, 173, 227, 131, 188, 227, 131,
     171, 230, 156, 170, 228, 191, 157, 230, 140, 129, 227, 129, 174, 227, 130, 162, 227,
     130, 171, 227, 130, 166, 227, 131, 179, 227, 131, 136, 227, 129, 184, 227, 129, 174,
     231, 132, 161, 229, 138, 185, 229, 140, 150, 232, 169, 166, 232, 161, 140]"

definition MsgAlreadyDisabled :: string where
  "MsgAlreadyDisabled = bytes [230, 151, 162, 227, 129, 171, 231, 132, 161, 229, 138, 185, 229, 140, 150, 230, 184,
     136, 227, 129, 191, 227, 129, 174, 227, 130, 162, 227, 130, 171, 227, 130, 166, 227,
     131, 179, 227, 131, 136]"

definition MsgLastSuperAdmin :: string where
  "MsgLastSuperAdmin = bytes [230, 156, 128, 229, 190, 140, 227, 129, 174, 115, 117, 112, 101, 114, 95, 97, 100, 109,
     105, 110, 227, 129, 174, 231, 132, 161, 229, 138, 185, 229, 140, 150, 232, 169, 166,
     232, 161, 140]"

definition MsgDisableLookupFailed :: string where
  "MsgDisableLookupFailed = bytes [227, 130, 162, 227, 130, 171, 227, 130, 166, 227, 131, 179, 227, 131, 136, 231, 132,
     161, 229, 138, 185, 229, 140, 150, 227, 129, 174, 229, 175, 190, 232, 177, 161, 232,
     170, 173, 229, 143, 150, 227, 129, 171, 229, 164, 177, 230, 149, 151]"

definition MsgDisableFailed :: string where
  "MsgDisableFailed = bytes [227, 130, 162, 227, 130, 171, 227, 130, 166, 227, 131, 179, 227, 131, 136, 231, 132,
     161, 229, 138, 185, 229, 140, 150, 227, 131, 136, 227, 131, 169, 227, 131, 179, 227,
     130, 182, 227, 130, 175, 227, 130, 183, 227, 131, 167, 227, 131, 179, 229, 164, 177,
     230, 149, 151]"

definition MsgAccountDisabled :: string where
  "MsgAccountDisabled = bytes [227, 130, 162, 227, 130, 171, 227, 130, 166, 227, 131, 179, 227, 131, 136, 231, 132,
     161, 229, 138, 185, 229, 140, 150]"

definition MsgReactivateNotAdmin :: string where
  "MsgReactivateNotAdmin = bytes [231, 174, 161, 231, 144, 134, 232, 128, 133, 227, 131, 173, 227, 131, 188, 227, 131,
     171, 230, 156, 170, 228, 191, 157, 230, 140, 129, 227, 129, 174, 227, 130, 162, 227,
     130, 171, 227, 130, 166, 227, 131, 179, 227, 131, 136, 227, 129, 184, 227, 129, 174,
     229, 134, 141, 230, 156, 137, 229, 138, 185, 229, 140, 150, 232, 169, 166, 232, 161, 140]"

definition MsgNotDisabled :: string where
  "MsgNotDisabled = bytes [231, 132, 161, 229, 138, 185, 229, 140, 150, 227, 129, 149, 227, 130, 140, 227, 129,
     166, 227, 129, 132, 227, 129, 170, 227, 129, 132, 227, 130, 162, 227, 130, 171, 227,
     130, 166, 227, 131, 179, 227, 131, 136, 227, 129, 184, 227, 129, 174, 229, 134, 141,
     230, 156, 137, 229, 138, 185, 229, 140, 150, 232, 169, 166, 232, 161, 140]"

definition MsgReactivateLookupFailed :: string where
  "MsgReactivateLookupFailed = bytes [227, 130, 162, 227, 130, 171, 227, 130, 166, 227, 131, 179, 227, 131, 136, 229, 134,
     141, 230, 156, 137, 229, 138, 185, 229, 140, 150, 227, 129, 174, 229, 175, 190, 232,
     177, 161, 232, 170, 173, 229, 143, 150, 227, 129, 171, 229, 164, 177, 230, 149, 151]"

definition MsgReactivateFailed :: string where
  "MsgReactivateFailed = bytes [227, 130, 162, 227, 130, 171, 227, 130, 166, 227, 131, 179, 227, 131, 136, 229, 134,
     141, 230, 156, 137, 229, 138, 185, 229, 140, 150, 227, 129, 171, 229, 164, 177, 230,
     149, 151]"

definition MsgAccountReactivated :: string where
  "MsgAccountReactivated = bytes [227, 130, 162, 227, 130, 171, 227, 130, 166, 227, 131, 179, 227, 131, 136, 229, 134,
     141, 230, 156, 137, 229, 138, 185, 229, 140, 150]"

definition MsgFailOpen :: string where
  "MsgFailOpen = bytes [227, 131, 172, 227, 131, 188, 227, 131, 136, 229, 136, 182, 233, 153, 144, 227, 129,
     174, 229, 136, 164, 229, 174, 154, 227, 129, 171, 229, 164, 177, 230, 149, 151, 227,
     129, 151, 227, 129, 159, 227, 129, 159, 227, 130, 129, 233, 128, 154, 233, 129, 142,
     227, 129, 149, 227, 129, 155, 227, 129, 190, 227, 129, 153, 239, 188, 136, 102, 97,
     105, 108, 45, 111, 112, 101, 110, 239, 188, 137]"

definition MsgFailClosed :: string where
  "MsgFailClosed = bytes [227, 131, 172, 227, 131, 188, 227, 131, 136, 229, 136, 182, 233, 153, 144, 227, 129,
     174, 229, 136, 164, 229, 174, 154, 227, 129, 171, 229, 164, 177, 230, 149, 151, 227,
     129, 151, 227, 129, 159, 227, 129, 159, 227, 130, 129, 230, 139, 146, 229, 144, 166,
     227, 129, 151, 227, 129, 190, 227, 129, 153, 239, 188, 136, 102, 97, 105, 108, 45, 99,
     108, 111, 115, 101, 100, 239, 188, 137]"

definition MsgBadTTL :: string where
  "MsgBadTTL = bytes [227, 131, 172, 227, 131, 188, 227, 131, 136, 229, 136, 182, 233, 153, 144, 227, 130,
     173, 227, 131, 188, 227, 129, 174, 84, 84, 76, 227, 129, 140, 231, 149, 176, 229, 184,
     184, 227, 129, 167, 227, 129, 153]"

end
