(* ===== verification/World.thy ===== *)
theory World
  imports Invariants Redis LogMessages
begin

text \<open>
  The state a request handler runs in, and what may happen to it from outside. The world holds the
  database, the Redis key space, the clock, the mails sent, the log, the number of random draws,
  and the schedule of the environment: before every call to PostgreSQL, Redis or SMTP some time
  passes, other requests may have committed transactions and run Redis commands of their own, and
  the call itself may fail, with or without having taken effect. Every theorem that quantifies
  over worlds quantifies over all such schedules.
\<close>

section \<open>Failures of the infrastructure\<close>

datatype infra =
    ConnectionError string     \<comment> \<open>the driver's message\<close>
  | Timeout                    \<comment> \<open>the context's deadline\<close>
  | SerializationFailure       \<comment> \<open>SQLSTATE 40001\<close>

definition serialization_message :: string where
  "serialization_message = ''could not serialize access''"

fun infra_err :: "infra \<Rightarrow> goerr" where
  "infra_err (ConnectionError t) = DriverError t"
| "infra_err Timeout = DeadlineExceeded"
| "infra_err SerializationFailure =
     PgError ''40001'' '''' (serialization_message @ '' due to concurrent update'')"

text \<open>
  A refused call had no effect; an unacknowledged one took effect, but its reply was lost. An error
  that carries PostgreSQL's message about serialization is a reply, and PostgreSQL gives it for a
  transaction that it has rolled back: such an error never stands for a lost reply.
\<close>

definition reply_lost :: "infra \<Rightarrow> bool" where
  "reply_lost i \<longleftrightarrow> \<not> str_contains (err_text (infra_err i)) serialization_message"

datatype fault = Refused infra | Unacked infra

fun fault_err :: "fault \<Rightarrow> goerr" where
  "fault_err (Refused i) = infra_err i"
| "fault_err (Unacked i) = infra_err i"

record env_step =
  es_dt :: nat                 \<comment> \<open>nanoseconds that pass\<close>
  es_fault :: "fault option"
  es_others :: "db_op list"    \<comment> \<open>transactions other requests commit\<close>
  es_redis :: "redis_cmd list" \<comment> \<open>Redis commands of other requests\<close>

section \<open>Observable effects\<close>

datatype mail_kind = ConfirmationMail | PasswordResetMail | InvitationMail

record sent_mail =
  m_kind :: mail_kind
  m_to :: string
  m_token :: string

datatype log_level = Debug | Info | Warn | Error | Critical

datatype log_value = LStr string | LUuid uuid | LErr goerr | LInt int

record log_entry =
  l_usecase :: string          \<comment> \<open>the \<open>usecase\<close> the logger was created with\<close>
  l_level :: log_level
  l_msg :: string
  l_attrs :: "(string \<times> log_value) list"

section \<open>The world\<close>

record world =
  w_db :: db
  w_tx :: "(time \<times> db) option"   \<comment> \<open>the open transaction: its start and its working copy\<close>
  w_redis :: redis
  w_now :: time
  w_draws :: nat
  w_mail :: "sent_mail list"
  w_log :: "log_entry list"
  w_env :: "env_step list"

type_synonym 'a action = "(world, 'a) state"
type_synonym 'a result = "(world, goerr + 'a) state"

text \<open>\<open>r, err := m; if err != nil { h } ; f\<close>.\<close>

definition attempt :: "'a result \<Rightarrow> (goerr \<Rightarrow> 'b action) \<Rightarrow> ('a \<Rightarrow> 'b action) \<Rightarrow> 'b action" where
  "attempt m h f = do { r \<leftarrow> m; case r of Inl e \<Rightarrow> h e | Inr x \<Rightarrow> f x }"

definition fail :: "goerr \<Rightarrow> 'a result" where "fail e = ret (Inl e)"
definition succeed :: "'a \<Rightarrow> 'a result" where "succeed x = ret (Inr x)"

lemma wp_attempt [simp, wp_rules]:
  "wp (attempt m h f) Q w = wp m (\<lambda>r w'. case r of Inl e \<Rightarrow> wp (h e) Q w' | Inr x \<Rightarrow> wp (f x) Q w') w"
  unfolding attempt_def wp_bind by (rule arg_cong2 [where f = "\<lambda>a b. wp a b w"])
    (auto split: sum.split)

lemma wp_fail [simp]: "wp (fail e) Q w = Q (Inl e) w"
  by (simp add: fail_def)

lemma wp_succeed [simp]: "wp (succeed x) Q w = Q (Inr x) w"
  by (simp add: succeed_def)

subsection \<open>The environment\<close>

definition apply_op :: "time \<Rightarrow> db \<Rightarrow> db_op \<Rightarrow> db" where
  "apply_op ts d act =
     (if admissible act d then case tx_op ts act d of Inl _ \<Rightarrow> d | Inr (_, d') \<Rightarrow> d' else d)"

definition ms_of :: "time \<Rightarrow> int" where "ms_of t = t div Millisecond"

definition env_advance :: "bool \<Rightarrow> env_step \<Rightarrow> world \<Rightarrow> world" where
  "env_advance outside e w =
     (let now = w_now w + int (es_dt e) in
      w\<lparr>w_now := now,
        w_redis := fold (\<lambda>c r. snd (redis_exec (ms_of now) c r)) (es_redis e) (w_redis w),
        w_db := if outside then fold (\<lambda>act d. apply_op now d act) (es_others e) (w_db w) else w_db w\<rparr>)"

text \<open>
  \<open>poll outside\<close> is what happens before a call: the next step of the schedule. Inside a
  transaction no other transaction commits (transactions are atomic in the model).
\<close>

definition poll :: "bool \<Rightarrow> fault option action" where
  "poll outside = State (\<lambda>w. case w_env w of
       [] \<Rightarrow> (None, w)
     | e # es \<Rightarrow> (es_fault e, (env_advance outside e w)\<lparr>w_env := es\<rparr>))"

lemma apply_op_evolves: "evolves d (apply_op ts d act)"
  by (auto simp: apply_op_def evolves.stay split: sum.split intro: evolves_op)

lemma fold_apply_op_evolves: "evolves d (fold (\<lambda>act d. apply_op now d act) acts d)"
proof (induction acts arbitrary: d)
  case Nil
  then show ?case by (simp add: evolves.stay)
next
  case (Cons a acts)
  then show ?case using apply_op_evolves evolves_trans by (metis fold_simps(2))
qed

text \<open>
  How the schedule moves the clock and the database. \<open>commits t es d\<close>: the database after the steps
  \<open>es\<close>, if all of them are taken outside transactions; \<open>weaves t es d d'\<close>: if any of them may be taken
  inside a transaction, where nobody else commits.
\<close>

fun clock :: "time \<Rightarrow> env_step list \<Rightarrow> time" where
  "clock t [] = t"
| "clock t (e # es) = clock (t + int (es_dt e)) es"

definition others_commit :: "time \<Rightarrow> env_step \<Rightarrow> db \<Rightarrow> db" where
  "others_commit t e d = fold (\<lambda>act d. apply_op t d act) (es_others e) d"

fun commits :: "time \<Rightarrow> env_step list \<Rightarrow> db \<Rightarrow> db" where
  "commits t [] d = d"
| "commits t (e # es) d = commits (t + int (es_dt e)) es (others_commit (t + int (es_dt e)) e d)"

inductive weaves :: "time \<Rightarrow> env_step list \<Rightarrow> db \<Rightarrow> db \<Rightarrow> bool" where
  none: "weaves t [] d d"
| inside: "weaves (t + int (es_dt e)) es d d' \<Longrightarrow> weaves t (e # es) d d'"
| outside: "weaves (t + int (es_dt e)) es (others_commit (t + int (es_dt e)) e d) d' \<Longrightarrow> weaves t (e # es) d d'"

lemma clock_append [simp]: "clock t (es @ fs) = clock (clock t es) fs"
  by (induction es arbitrary: t) simp_all

lemma clock_mono: "t \<le> clock t es"
  by (induction es arbitrary: t) (simp, simp, meson le_add_same_cancel1 of_nat_0_le_iff order_trans)

lemma commits_append [simp]: "commits t (es @ fs) d = commits (clock t es) fs (commits t es d)"
  by (induction es arbitrary: t d) simp_all

lemma commits_weaves: "weaves t es d (commits t es d)"
  by (induction es arbitrary: t d) (auto intro: weaves.intros)

lemma no_commits: "weaves t es d d"
  by (induction es arbitrary: t) (auto intro: weaves.intros)

lemma weaves_append: "weaves t es d d' \<Longrightarrow> weaves (clock t es) fs d' d'' \<Longrightarrow> weaves t (es @ fs) d d''"
  by (induction rule: weaves.induct) (auto intro: weaves.intros)

lemma weaves_evolves: "weaves t es d d' \<Longrightarrow> evolves d d'"
  by (induction rule: weaves.induct)
    (auto simp: others_commit_def intro: evolves.stay evolves_trans [OF _ fold_apply_op_evolves])

lemma weaves_Nil [simp]: "weaves t [] d d' \<longleftrightarrow> d' = d"
  by (auto intro: weaves.intros elim: weaves.cases)

text \<open>
  From one world to a later one: some steps of the schedule were taken (\<open>elapsed\<close>); they were all that
  happened to the database (\<open>follows\<close>, and \<open>unaffected\<close> when transactions of the handler were open
  meanwhile and have left nothing behind); or they and, once, the statements \<open>q\<close> (\<open>applied\<close>).
\<close>

definition elapsed :: "world \<Rightarrow> world \<Rightarrow> bool" where
  "elapsed w w' \<longleftrightarrow> (\<exists>es. w_env w = es @ w_env w' \<and> w_now w' = clock (w_now w) es)"

definition follows :: "world \<Rightarrow> world \<Rightarrow> bool" where
  "follows w w' \<longleftrightarrow> (\<exists>es. w_env w = es @ w_env w' \<and> w_now w' = clock (w_now w) es \<and>
     w_db w' = commits (w_now w) es (w_db w))"

definition unaffected :: "world \<Rightarrow> world \<Rightarrow> bool" where
  "unaffected w w' \<longleftrightarrow> (\<exists>es. w_env w = es @ w_env w' \<and> w_now w' = clock (w_now w) es \<and>
     weaves (w_now w) es (w_db w) (w_db w'))"

definition applied :: "(time \<Rightarrow> 'a writer) \<Rightarrow> 'a \<Rightarrow> world \<Rightarrow> world \<Rightarrow> bool" where
  "applied q x w w' \<longleftrightarrow> (\<exists>es fs d. w_env w = es @ fs @ w_env w' \<and> w_now w' = clock (w_now w) (es @ fs) \<and>
     weaves (w_now w) es (w_db w) d \<and> q (clock (w_now w) es) d = Inr (x, w_db w'))"

text \<open>The statements \<open>q\<close> were refused at some moment.\<close>

definition refused :: "(time \<Rightarrow> 'a writer) \<Rightarrow> goerr \<Rightarrow> world \<Rightarrow> world \<Rightarrow> bool" where
  "refused q e w w' \<longleftrightarrow> (\<exists>es fs d. w_env w = es @ fs @ w_env w' \<and> w_now w' = clock (w_now w) (es @ fs) \<and>
     weaves (w_now w) es (w_db w) d \<and> q (clock (w_now w) es) d = Inl e)"

text \<open>\<open>P\<close> held of the database at some moment between two worlds.\<close>

definition meanwhile :: "(db \<Rightarrow> bool) \<Rightarrow> world \<Rightarrow> world \<Rightarrow> bool" where
  "meanwhile P w w' \<longleftrightarrow> (\<exists>es fs. w_env w = es @ fs \<and> clock (w_now w) es \<le> w_now w' \<and>
     P (commits (w_now w) es (w_db w)))"

lemmas passage_defs = elapsed_def follows_def unaffected_def applied_def refused_def

lemma follows_refl [simp]: "follows w w" and elapsed_refl [simp]: "elapsed w w"
  by (simp_all add: follows_def elapsed_def)

lemma follows_elapsed: "follows w w' \<Longrightarrow> elapsed w w'"
  by (auto simp: passage_defs)

lemma follows_unaffected: "follows w w' \<Longrightarrow> unaffected w w'"
  using commits_weaves by (fastforce simp: passage_defs)

lemma elapsed_unaffected: "elapsed w w' \<Longrightarrow> w_db w' = w_db w \<Longrightarrow> unaffected w w'"
  using no_commits by (fastforce simp: passage_defs)

lemma elapsed_now: "elapsed w w' \<Longrightarrow> w_now w \<le> w_now w'"
  by (auto simp: elapsed_def clock_mono)

lemma unaffected_elapsed: "unaffected w w' \<Longrightarrow> elapsed w w'"
  by (auto simp: passage_defs)

lemma applied_elapsed: "applied q x w w' \<Longrightarrow> elapsed w w'"
  by (force simp: passage_defs)

lemma elapsed_trans: "elapsed w w' \<Longrightarrow> elapsed w' w'' \<Longrightarrow> elapsed w w''"
  by (force simp: elapsed_def)

lemma follows_trans: "follows w w' \<Longrightarrow> follows w' w'' \<Longrightarrow> follows w w''"
  unfolding follows_def by (elim exE conjE, rule_tac x = "es @ esa" in exI) simp

lemma unaffected_trans: "unaffected w w' \<Longrightarrow> unaffected w' w'' \<Longrightarrow> unaffected w w''"
  unfolding unaffected_def by (elim exE conjE, rule_tac x = "es @ esa" in exI) (auto intro: weaves_append)

lemma unaffected_evolves: "unaffected w w' \<Longrightarrow> evolves (w_db w) (w_db w')"
  by (auto simp: unaffected_def dest: weaves_evolves)

lemma follows_evolves: "follows w w' \<Longrightarrow> evolves (w_db w) (w_db w')"
  by (simp add: follows_unaffected unaffected_evolves)

lemma applied_at: "applied q x w w' \<Longrightarrow> \<exists>ts d. evolves (w_db w) d \<and> q ts d = Inr (x, w_db w')"
  by (auto simp: applied_def dest: weaves_evolves)

lemma refused_at: "refused q e w w' \<Longrightarrow> \<exists>ts d. evolves (w_db w) d \<and> q ts d = Inl e"
  by (auto simp: refused_def dest: weaves_evolves)

lemma applied_now:
  assumes "q (w_now w) (w_db w) = Inr (x, w_db w')" "elapsed w w'"
  shows "applied q x w w'"
  using assms unfolding elapsed_def applied_def by (elim exE conjE) (rule exI [of _ "[]"], auto)

lemma refused_now:
  assumes "q (w_now w) (w_db w) = Inl e" "elapsed w w'"
  shows "refused q e w w'"
  using assms unfolding elapsed_def refused_def by (elim exE conjE) (rule exI [of _ "[]"], auto)

lemma unaffected_applied: "unaffected w w' \<Longrightarrow> applied q x w' w'' \<Longrightarrow> applied q x w w''"
  unfolding unaffected_def applied_def
  by (elim exE conjE, rule_tac x = "es @ esa" in exI, rule_tac x = fs in exI, rule_tac x = d in exI)
    (auto intro: weaves_append)

lemma unaffected_refused: "unaffected w w' \<Longrightarrow> refused q e w' w'' \<Longrightarrow> refused q e w w''"
  unfolding unaffected_def refused_def
  by (elim exE conjE, rule_tac x = "es @ esa" in exI, rule_tac x = fs in exI, rule_tac x = d in exI)
    (auto intro: weaves_append)

lemma applied_elapsed_trans: "applied q x w w' \<Longrightarrow> elapsed w' w'' \<Longrightarrow> w_db w'' = w_db w' \<Longrightarrow> applied q x w w''"
  unfolding applied_def elapsed_def
  by (elim exE conjE, rule_tac x = es in exI, rule_tac x = "fs @ esa" in exI, rule_tac x = d in exI) simp

lemma refused_elapsed_trans: "refused q e w w' \<Longrightarrow> elapsed w' w'' \<Longrightarrow> refused q e w w''"
  unfolding refused_def elapsed_def
  by (elim exE conjE, rule_tac x = es in exI, rule_tac x = "fs @ esa" in exI, rule_tac x = d in exI) simp

lemma applied_mono:
  assumes "applied q x w w'" "\<And>ts d d'. q ts d = Inr (x, d') \<Longrightarrow> q' ts d = Inr (y, d')"
  shows "applied q' y w w'"
  using assms unfolding applied_def by blast

lemma applied_refused:
  assumes "applied q x w w'" "\<And>ts d d'. q ts d = Inr (x, d') \<Longrightarrow> q' ts d = Inl e"
  shows "refused q' e w w'"
  using assms unfolding applied_def refused_def by blast

lemma applied_unchanged:
  assumes "applied q x w w'" "\<And>ts d d'. q ts d = Inr (x, d') \<Longrightarrow> d' = d"
  shows "unaffected w w'"
proof -
  obtain es fs d where *: "w_env w = es @ fs @ w_env w'" "w_now w' = clock (w_now w) (es @ fs)"
      "weaves (w_now w) es (w_db w) d" "q (clock (w_now w) es) d = Inr (x, w_db w')"
    using assms(1) unfolding applied_def by blast
  have "w_db w' = d" by (rule assms(2) [OF *(4)])
  then have "weaves (w_now w) (es @ fs) (w_db w) (w_db w')"
    using weaves_append [OF *(3) no_commits] by simp
  then show ?thesis unfolding unaffected_def using * by (intro exI [of _ "es @ fs"]) simp
qed

lemma meanwhileI: "follows w w1 \<Longrightarrow> P (w_db w1) \<Longrightarrow> w_now w1 \<le> w_now w' \<Longrightarrow> meanwhile P w w'"
  by (auto simp: follows_def meanwhile_def)

lemma meanwhile_mono: "meanwhile P w w' \<Longrightarrow> (\<And>d. P d \<Longrightarrow> Q d) \<Longrightarrow> meanwhile Q w w'"
  by (auto simp: meanwhile_def)

lemma meanwhile_quiet: "w_env w = [] \<Longrightarrow> meanwhile P w w' \<longleftrightarrow> w_now w \<le> w_now w' \<and> P (w_db w)"
  by (auto simp: meanwhile_def)

lemma applied_quiet:
  "w_env w = [] \<Longrightarrow> applied q x w w' \<Longrightarrow> q (w_now w) (w_db w) = Inr (x, w_db w')"
  by (auto simp: applied_def)

text \<open>They do not depend on the rest of the world.\<close>

lemma passage_simps [simp]:
  "elapsed w (w'\<lparr>w_log := l\<rparr>) = elapsed w w'" "elapsed w (w'\<lparr>w_draws := n\<rparr>) = elapsed w w'"
  "elapsed w (w'\<lparr>w_tx := t\<rparr>) = elapsed w w'" "elapsed (w\<lparr>w_log := l\<rparr>) w' = elapsed w w'"
  "elapsed w (w'\<lparr>w_redis := r\<rparr>) = elapsed w w'" "elapsed w (w'\<lparr>w_mail := m\<rparr>) = elapsed w w'"
  "elapsed (w\<lparr>w_draws := n\<rparr>) w' = elapsed w w'" "elapsed w (w'\<lparr>w_db := d\<rparr>) = elapsed w w'"
  "follows w (w'\<lparr>w_log := l\<rparr>) = follows w w'" "follows w (w'\<lparr>w_draws := n\<rparr>) = follows w w'"
  "follows w (w'\<lparr>w_tx := t\<rparr>) = follows w w'" "follows w (w'\<lparr>w_redis := r\<rparr>) = follows w w'"
  "follows (w\<lparr>w_log := l\<rparr>) w' = follows w w'" "follows (w\<lparr>w_draws := n\<rparr>) w' = follows w w'"
  "unaffected w (w'\<lparr>w_log := l\<rparr>) = unaffected w w'" "unaffected w (w'\<lparr>w_draws := n\<rparr>) = unaffected w w'"
  "unaffected (w\<lparr>w_log := l\<rparr>) w' = unaffected w w'" "unaffected (w\<lparr>w_draws := n\<rparr>) w' = unaffected w w'"
  "applied q x w (w'\<lparr>w_log := l\<rparr>) = applied q x w w'" "applied q x w (w'\<lparr>w_draws := n\<rparr>) = applied q x w w'"
  "applied q x (w\<lparr>w_log := l\<rparr>) w' = applied q x w w'" "applied q x (w\<lparr>w_draws := n\<rparr>) w' = applied q x w w'"
  "refused q e w (w'\<lparr>w_log := l\<rparr>) = refused q e w w'" "refused q e w (w'\<lparr>w_draws := n\<rparr>) = refused q e w w'"
  "refused q e (w\<lparr>w_log := l\<rparr>) w' = refused q e w w'" "refused q e (w\<lparr>w_draws := n\<rparr>) w' = refused q e w w'"
  "meanwhile P w (w'\<lparr>w_log := l\<rparr>) = meanwhile P w w'" "meanwhile P w (w'\<lparr>w_draws := n\<rparr>) = meanwhile P w w'"
  by (simp_all add: passage_defs meanwhile_def)

text \<open>The token families in the database, and those other requests open while this one runs.\<close>

definition env_families :: "world \<Rightarrow> uuid set" where
  "env_families w = (\<Union>e \<in> set (w_env w). \<Union>act \<in> set (es_others e). opened_families act)"

definition family_frame :: "world \<Rightarrow> world \<Rightarrow> bool" where
  "family_frame w w' \<longleftrightarrow> env_families w' \<subseteq> env_families w \<and>
     families (w_db w') \<subseteq> families (w_db w) \<union> env_families w \<and> follows w w'"

lemma apply_op_families: "families (apply_op ts d act) \<subseteq> families d \<union> opened_families act"
  by (auto simp: apply_op_def split: sum.split dest!: families_tx)

lemma fold_apply_op_families:
  "families (fold (\<lambda>act d. apply_op now d act) acts d) \<subseteq>
     families d \<union> (\<Union>act \<in> set acts. opened_families act)"
proof (induction acts arbitrary: d)
  case Nil
  then show ?case by simp
next
  case (Cons a acts)
  show ?case using Cons.IH [of "apply_op now d a"] apply_op_families [of now d a] by auto
qed

lemma family_frame_refl [simp]: "family_frame w w"
  by (simp add: family_frame_def)

lemma env_families_simps [simp]:
  "env_families (w\<lparr>w_log := l\<rparr>) = env_families w" "env_families (w\<lparr>w_draws := n\<rparr>) = env_families w"
  by (simp_all add: env_families_def)

lemma family_frame_trans: "family_frame w w' \<Longrightarrow> family_frame w' w'' \<Longrightarrow> family_frame w w''"
  unfolding family_frame_def using follows_trans by blast

lemma family_frame_simps [simp]:
  "family_frame w (w'\<lparr>w_log := l\<rparr>) = family_frame w w'"
  "family_frame w (w'\<lparr>w_draws := n\<rparr>) = family_frame w w'"
  "family_frame w (w'\<lparr>w_redis := r\<rparr>) = family_frame w w'"
  "family_frame (w\<lparr>w_log := l\<rparr>) w' = family_frame w w'"
  "family_frame (w\<lparr>w_draws := n\<rparr>) w' = family_frame w w'"
  by (simp_all add: family_frame_def env_families_def)

text \<open>
  What a poll leaves alone. A world whose schedule is empty is quiet: nothing happens in it but
  what the handler does, and no call fails.
\<close>

definition env_frame :: "world \<Rightarrow> world \<Rightarrow> bool" where
  "env_frame w w' \<longleftrightarrow> w_tx w' = w_tx w \<and> w_draws w' = w_draws w \<and> w_mail w' = w_mail w \<and>
     w_log w' = w_log w \<and> w_now w \<le> w_now w' \<and> elapsed w w' \<and>
     (w_env w = [] \<longrightarrow> w_env w' = [] \<and> w_now w' = w_now w)"

lemma env_frame_refl [simp]: "env_frame w w"
  by (simp add: env_frame_def)

lemma env_frame_trans: "env_frame w w' \<Longrightarrow> env_frame w' w'' \<Longrightarrow> env_frame w w''"
  using elapsed_trans [of w w' w''] by (auto simp: env_frame_def)

lemma wp_poll_outside:
  assumes "\<And>f w'. env_frame w w' \<Longrightarrow> evolves (w_db w) (w_db w') \<Longrightarrow>
    (w_env w = [] \<Longrightarrow> f = None \<and> w' = w) \<Longrightarrow> family_frame w w' \<Longrightarrow> Q f w'"
  shows "wp (poll True) Q w"
proof (cases "w_env w")
  case Nil
  then show ?thesis using assms by (simp add: wp_def poll_def evolves.stay)
next
  case (Cons e es)
  then show ?thesis
    by (simp add: wp_def poll_def env_advance_def Let_def)
      (rule assms, auto simp: env_frame_def fold_apply_op_evolves family_frame_def env_families_def Cons
          elapsed_def follows_def others_commit_def intro!: exI [of _ "[e]"]
        dest!: subsetD [OF fold_apply_op_families])
qed

lemma wp_poll_inside:
  assumes "\<And>f w'. env_frame w w' \<Longrightarrow> w_db w' = w_db w \<Longrightarrow>
    (w_env w = [] \<Longrightarrow> f = None \<and> w' = w) \<Longrightarrow> Q f w'"
  shows "wp (poll False) Q w"
proof (cases "w_env w")
  case Nil
  then show ?thesis using assms by (simp add: wp_def poll_def)
next
  case (Cons e es)
  then show ?thesis
    by (simp add: wp_def poll_def env_advance_def Let_def)
      (rule assms, auto simp: env_frame_def Cons elapsed_def intro!: exI [of _ "[e]"])
qed

lemma poll_quiet [simp]: "w_env w = [] \<Longrightarrow> wp (poll outside) Q w = Q None w"
  by (simp add: wp_def poll_def)

section \<open>Calls to the outside\<close>

text \<open>A single statement outside a transaction, committed by itself.\<close>

definition db_read :: "'a reader \<Rightarrow> 'a result" where
  "db_read q = do {
     f \<leftarrow> poll True;
     case f of Some x \<Rightarrow> fail (fault_err x) | None \<Rightarrow> gets (\<lambda>w. q (w_db w)) }"

definition db_write :: "(time \<Rightarrow> 'a writer) \<Rightarrow> 'a result" where
  "db_write q = do {
     f \<leftarrow> poll True;
     case f of
       Some (Refused i) \<Rightarrow> fail (infra_err i)
     | Some (Unacked i) \<Rightarrow> do {
         modify (\<lambda>w. if reply_lost i then (case q (w_now w) (w_db w) of Inl _ \<Rightarrow> w | Inr (_, d) \<Rightarrow> w\<lparr>w_db := d\<rparr>) else w);
         fail (infra_err i) }
     | None \<Rightarrow> State (\<lambda>w. case q (w_now w) (w_db w) of
         Inl e \<Rightarrow> (Inl e, w) | Inr (x, d) \<Rightarrow> (Inr x, w\<lparr>w_db := d\<rparr>)) }"

text \<open>Transactions: \<open>BeginTx\<close>, a statement in the open transaction, \<open>Commit\<close>, \<open>Rollback\<close>.\<close>

definition db_begin :: "unit result" where
  "db_begin = do {
     f \<leftarrow> poll True;
     case f of
       Some x \<Rightarrow> fail (fault_err x)
     | None \<Rightarrow> do { modify (\<lambda>w. w\<lparr>w_tx := Some (w_now w, w_db w)\<rparr>); succeed () } }"

definition tx_closed :: goerr where "tx_closed = DriverError ''tx is closed''"

definition tx_exec :: "(time \<Rightarrow> 'a writer) \<Rightarrow> 'a result" where
  "tx_exec q = do {
     f \<leftarrow> poll False;
     case f of
       Some x \<Rightarrow> fail (fault_err x)
     | None \<Rightarrow> State (\<lambda>w. case w_tx w of
         None \<Rightarrow> (Inl tx_closed, w)
       | Some (ts, d) \<Rightarrow> (case q ts d of
           Inl e \<Rightarrow> (Inl e, w)
         | Inr (x, d') \<Rightarrow> (Inr x, w\<lparr>w_tx := Some (ts, d')\<rparr>))) }"

definition close_tx :: "bool \<Rightarrow> world \<Rightarrow> world" where
  "close_tx commit w = (case w_tx w of
     None \<Rightarrow> w
   | Some (ts, d) \<Rightarrow> w\<lparr>w_tx := None, w_db := if commit then d else w_db w\<rparr>)"

definition db_commit :: "unit result" where
  "db_commit = do {
     f \<leftarrow> poll False;
     case f of
       Some (Refused i) \<Rightarrow> do { modify (close_tx False); fail (infra_err i) }
     | Some (Unacked i) \<Rightarrow> do { modify (close_tx (reply_lost i)); fail (infra_err i) }
     | None \<Rightarrow> do { modify (close_tx True); succeed () } }"

definition db_rollback :: "unit result" where
  "db_rollback = do {
     f \<leftarrow> poll False;
     modify (close_tx False);
     case f of Some x \<Rightarrow> fail (fault_err x) | None \<Rightarrow> succeed () }"

text \<open>Redis executes a command or a script atomically.\<close>

definition redis_do :: "redis_cmd \<Rightarrow> int list result" where
  "redis_do c = do {
     f \<leftarrow> poll True;
     case f of
       Some (Refused i) \<Rightarrow> fail (infra_err i)
     | Some (Unacked i) \<Rightarrow> do {
         modify (\<lambda>w. w\<lparr>w_redis := snd (redis_exec (ms_of (w_now w)) c (w_redis w))\<rparr>);
         fail (infra_err i) }
     | None \<Rightarrow> State (\<lambda>w. case redis_exec (ms_of (w_now w)) c (w_redis w) of
         (r, st) \<Rightarrow> (r, w\<lparr>w_redis := st\<rparr>)) }"

text \<open>\<open>smtp.SendMail\<close>; it is called inside a transaction only.\<close>

definition smtp_send :: "sent_mail \<Rightarrow> unit result" where
  "smtp_send m = do {
     f \<leftarrow> poll False;
     case f of
       Some (Refused i) \<Rightarrow> fail (infra_err i)
     | Some (Unacked i) \<Rightarrow> do { modify (\<lambda>w. w\<lparr>w_mail := w_mail w @ [m]\<rparr>); fail (infra_err i) }
     | None \<Rightarrow> do { modify (\<lambda>w. w\<lparr>w_mail := w_mail w @ [m]\<rparr>); succeed () } }"

section \<open>Clock, randomness, log\<close>

definition now :: "time action" where "now = gets w_now"

text \<open>Every call of a source of randomness gets a number of its own.\<close>

definition draw :: "nat action" where
  "draw = do { n \<leftarrow> gets w_draws; modify (\<lambda>w. w\<lparr>w_draws := n + 1\<rparr>); ret n }"

definition new_uuid :: "ext \<Rightarrow> uuid action" where
  "new_uuid X = do { n \<leftarrow> draw; ret (uuid_new X n) }"

definition read_random :: "ext \<Rightarrow> nat \<Rightarrow> string result" where
  "read_random X n = do {
     i \<leftarrow> draw;
     case rand_read X i n of
       None \<Rightarrow> fail (DriverError ''rand: read failed'') | Some b \<Rightarrow> succeed b }"

definition hash_password :: "ext \<Rightarrow> string \<Rightarrow> string result" where
  "hash_password X password = do { i \<leftarrow> draw; ret (bcrypt_generate X i password PasswordBcryptCost) }"

definition log :: "string \<Rightarrow> log_level \<Rightarrow> string \<Rightarrow> (string \<times> log_value) list \<Rightarrow> unit action" where
  "log uc lvl msg attrs =
     modify (\<lambda>w. w\<lparr>w_log := w_log w @
       [\<lparr>l_usecase = uc, l_level = lvl, l_msg = msg, l_attrs = attrs\<rparr>]\<rparr>)"

section \<open>What a caller may rely on\<close>

text \<open>
  The rules keep \<open>evolves d0 (w_db w)\<close> for the database \<open>d0\<close> a handler started with, so a proof
  about a handler is one pass over its code.
\<close>

lemma wp_db_read:
  assumes "evolves d0 (w_db w)"
    and "\<And>r w'. \<lbrakk>env_frame w w'; evolves d0 (w_db w'); evolves (w_db w) (w_db w');
      case r of Inl e \<Rightarrow> w_env w \<noteq> [] \<and> (\<exists>i. e = infra_err i) \<or> q (w_db w') = Inl e
        | Inr x \<Rightarrow> q (w_db w') = Inr x;
      w_env w = [] \<Longrightarrow> w' = w; family_frame w w'\<rbrakk> \<Longrightarrow> Q r w'"
  shows "wp (db_read q) Q w"
  unfolding db_read_def wp_bind
proof (rule wp_poll_outside)
  fix f :: "fault option" and w'
  assume w': "env_frame w w'" "evolves (w_db w) (w_db w')" "w_env w = [] \<Longrightarrow> f = None \<and> w' = w"
    "family_frame w w'"
  have "evolves d0 (w_db w')" using w'(2) assms(1) evolves_trans by blast
  with w' show "wp (case f of None \<Rightarrow> gets (\<lambda>w. q (w_db w)) | Some x \<Rightarrow> fail (fault_err x)) Q w'"
    by (cases f; cases "the f") (auto intro!: assms(2) split: sum.split)
qed

text \<open>
  A statement that commits by itself is the operation \<open>act\<close> when its result is \<open>changed\<close>, and
  changes nothing otherwise.
\<close>

definition writes_as :: "db_op \<Rightarrow> ('a \<Rightarrow> bool) \<Rightarrow> (time \<Rightarrow> 'a writer) \<Rightarrow> bool" where
  "writes_as act changed q \<longleftrightarrow> (\<forall>ts d x d'. q ts d = Inr (x, d') \<longrightarrow>
     (if changed x then tx_op ts act d = Inr ((), d') else d' = d))"

lemma writes_as_evolves:
  "writes_as act changed q \<Longrightarrow> q ts d = Inr (x, d') \<Longrightarrow> admissible act d \<Longrightarrow> evolves d d'"
  unfolding writes_as_def by (metis evolves.stay evolves_op)

lemma wp_db_write:
  assumes "evolves d0 (w_db w)" "writes_as act changed q"
    and "\<And>d. evolves (w_db w) d \<Longrightarrow> families d \<subseteq> families (w_db w) \<union> env_families w \<Longrightarrow> admissible act d"
    and "\<And>r w'. \<lbrakk>env_frame w w'; evolves d0 (w_db w'); evolves (w_db w) (w_db w');
      case r of Inl e \<Rightarrow> (unaffected w w' \<or> (\<exists>x. applied q x w w')) \<and>
          (w_env w \<noteq> [] \<and> (\<exists>i. e = infra_err i) \<or> refused q e w w')
        | Inr x \<Rightarrow> applied q x w w';
      w_env w = [] \<Longrightarrow> (case r of Inl e \<Rightarrow> w' = w \<and> q (w_now w) (w_db w) = Inl e
        | Inr x \<Rightarrow> w' = w\<lparr>w_db := w_db w'\<rparr> \<and> q (w_now w) (w_db w) = Inr (x, w_db w'))\<rbrakk> \<Longrightarrow> Q r w'"
  shows "wp (db_write q) Q w"
  unfolding db_write_def wp_bind
proof (rule wp_poll_outside)
  fix f :: "fault option" and w1
  assume w1: "env_frame w w1" "evolves (w_db w) (w_db w1)" "w_env w = [] \<Longrightarrow> f = None \<and> w1 = w"
    "family_frame w w1"
  have un: "unaffected w w1" using w1(4) by (simp add: family_frame_def follows_unaffected)
  have "admissible act (w_db w1)" using assms(3) [OF w1(2)] w1(4) by (simp add: family_frame_def)
  then have step: "evolves (w_db w) d'" if "q ts (w_db w1) = Inr (x, d')" for ts x d'
    using writes_as_evolves [OF assms(2) that] w1(2) evolves_trans by blast
  have d0: "evolves d0 d'" if "evolves (w_db w) d'" for d' using that assms(1) evolves_trans by blast
  have app: "applied q x w (w1\<lparr>w_db := d'\<rparr>)" if "q (w_now w1) (w_db w1) = Inr (x, d')" for x d'
    by (rule unaffected_applied [OF un applied_now]) (simp_all add: that)
  have ref: "refused q e w w1" if "q (w_now w1) (w_db w1) = Inl e" for e
    by (rule unaffected_refused [OF un refused_now]) (simp_all add: that)
  show "wp (case f of None \<Rightarrow> State (\<lambda>w. case q (w_now w) (w_db w) of
         Inl e \<Rightarrow> (Inl e, w) | Inr (x, d) \<Rightarrow> (Inr x, w\<lparr>w_db := d\<rparr>))
      | Some (Refused i) \<Rightarrow> fail (infra_err i)
      | Some (Unacked i) \<Rightarrow> modify (\<lambda>w. if reply_lost i then (case q (w_now w) (w_db w) of Inl _ \<Rightarrow> w
          | Inr (_, d) \<Rightarrow> w\<lparr>w_db := d\<rparr>) else w) \<bind> (\<lambda>_. fail (infra_err i))) Q w1"
  proof (cases f)
    case None
    show ?thesis
    proof (cases "q (w_now w1) (w_db w1)")
      case (Inl e)
      then show ?thesis using w1 d0 un ref by (auto simp: None wp_State intro!: assms(4))
    next
      case (Inr r)
      obtain x d' where r: "r = (x, d')" by (cases r)
      show ?thesis using Inr w1 d0 step app [of x d']
        by (simp add: r None wp_State) (rule assms(4), auto simp: env_frame_def)
    qed
  next
    case (Some x)
    have "Q (Inl (infra_err i)) w1" for i using w1 d0 un Some by (intro assms(4)) auto
    moreover have "Q (Inl (infra_err i)) (w1\<lparr>w_db := d'\<rparr>)" if "q (w_now w1) (w_db w1) = Inr (y, d')" for i y d'
      using w1 d0 step [OF that] app [OF that] Some by (intro assms(4)) (auto simp: env_frame_def)
    ultimately show ?thesis using Some by (cases x) (auto split: sum.split prod.split)
  qed
qed

lemma wp_now [simp]: "wp now Q w = Q (w_now w) w"
  by (simp add: now_def)

lemma wp_log [simp]:
  "wp (log uc lvl msg attrs) Q w = Q () (w\<lparr>w_log := w_log w @
     [\<lparr>l_usecase = uc, l_level = lvl, l_msg = msg, l_attrs = attrs\<rparr>]\<rparr>)"
  by (simp add: log_def)

lemma wp_draw [simp]: "wp draw Q w = Q (w_draws w) (w\<lparr>w_draws := w_draws w + 1\<rparr>)"
  by (simp add: draw_def)

lemma wp_new_uuid [simp]:
  "wp (new_uuid X) Q w = Q (uuid_new X (w_draws w)) (w\<lparr>w_draws := w_draws w + 1\<rparr>)"
  by (simp add: new_uuid_def)

lemma wp_read_random [simp]:
  "wp (read_random X n) Q w =
     Q (case rand_read X (w_draws w) n of
          None \<Rightarrow> Inl (DriverError ''rand: read failed'') | Some b \<Rightarrow> Inr b)
       (w\<lparr>w_draws := w_draws w + 1\<rparr>)"
  by (simp add: read_random_def split: option.split)

lemma wp_hash_password [simp]:
  "wp (hash_password X p) Q w =
     Q (bcrypt_generate X (w_draws w) p PasswordBcryptCost) (w\<lparr>w_draws := w_draws w + 1\<rparr>)"
  by (simp add: hash_password_def)

lemma wp_redis_do:
  assumes "evolves d0 (w_db w)"
    and "\<And>r w'. \<lbrakk>env_frame w w'; evolves d0 (w_db w'); evolves (w_db w) (w_db w');
      w_env w = [] \<Longrightarrow> w' = w\<lparr>w_redis := w_redis w'\<rparr> \<and> w_db w' = w_db w \<and>
        redis_exec (ms_of (w_now w)) c (w_redis w) = (r, w_redis w'); family_frame w w'\<rbrakk> \<Longrightarrow> Q r w'"
  shows "wp (redis_do c) Q w"
  unfolding redis_do_def wp_bind
proof (rule wp_poll_outside)
  fix f :: "fault option" and w'
  assume w': "env_frame w w'" "evolves (w_db w) (w_db w')" "w_env w = [] \<Longrightarrow> f = None \<and> w' = w"
    "family_frame w w'"
  have "evolves d0 (w_db w')" using w'(2) assms(1) evolves_trans by blast
  with w' show "wp (case f of None \<Rightarrow> State (\<lambda>w. case redis_exec (ms_of (w_now w)) c (w_redis w) of
         (r, st) \<Rightarrow> (r, w\<lparr>w_redis := st\<rparr>))
      | Some (Refused i) \<Rightarrow> fail (infra_err i)
      | Some (Unacked i) \<Rightarrow> modify (\<lambda>w. w\<lparr>w_redis := snd (redis_exec (ms_of (w_now w)) c (w_redis w))\<rparr>)
          \<bind> (\<lambda>_. fail (infra_err i))) Q w'"
    by (cases f; cases "the f")
      (auto intro!: assms(2) simp: wp_State env_frame_def family_frame_def env_families_def split: prod.split)
qed

end
