(* ===== verification/TxManager.thy ===== *)
theory TxManager
  imports World
begin

text \<open>
  \<open>backend/common/db.go\<close>: running a function in a transaction, rolling back on its error, and
  retrying while the error says that access could not be serialized. The retry loop belongs to the
  backoff library; as documented it tries at most \<open>WithMaxTries(10)\<close> times, stops at a permanent
  error, and gives up while waiting when the context ends or its total time is over (which the
  environment decides).
\<close>

section \<open>The code\<close>

definition couldNotSerializeAccessErrMsg :: string where
  "couldNotSerializeAccessErrMsg = ''could not serialize access''"

definition retryable :: "goerr \<Rightarrow> bool" where
  "retryable e = str_contains (err_text e) couldNotSerializeAccessErrMsg"

text \<open>An error that is retried reports a transaction that was rolled back.\<close>

lemma retryable_infra: "retryable (infra_err i) \<longleftrightarrow> \<not> reply_lost i"
  by (simp add: retryable_def reply_lost_def couldNotSerializeAccessErrMsg_def serialization_message_def)

definition begin_error :: "goerr \<Rightarrow> goerr" where
  "begin_error e =
     (if err_is_deadline e
      then Wrap (''could not begin transaction (possible pool exhaustion '' @ bytes [226, 128, 148] @
        '' context deadline exceeded)'') e
      else Wrap ''could not begin transaction'' e)"

definition updateInTx :: "unit result \<Rightarrow> unit result" where
  "updateInTx fn =
     attempt db_begin (\<lambda>e. fail (begin_error e)) (\<lambda>_.
     attempt fn
       (\<lambda>err. attempt db_rollback (\<lambda>rollbackErr. fail (JoinErr err rollbackErr)) (\<lambda>_. fail err))
       (\<lambda>_. db_commit))"

definition maxTries :: nat where "maxTries = 10"

fun retry :: "nat \<Rightarrow> unit result \<Rightarrow> unit result" where
  "retry 0 fn = updateInTx fn"
| "retry (Suc n) fn =
     attempt (updateInTx fn)
       (\<lambda>err. if retryable err
          then do {
            f \<leftarrow> poll True;
            case f of
              None \<Rightarrow> retry n fn
            | Some (Refused i) \<Rightarrow> fail (infra_err i)
            | Some (Unacked i) \<Rightarrow> fail err }
          else fail err)
       succeed"

definition UpdateInTx :: "unit result \<Rightarrow> unit result" where
  "UpdateInTx fn = retry (maxTries - 1) fn"

section \<open>What a transaction's function does\<close>

text \<open>
  Inside a transaction the function works on the transaction's copy of the database. \<open>tx_runs ml
  B m q\<close>: \<open>m\<close> is the statement sequence \<open>q\<close> on that copy, except that the environment may make it
  fail, or its own error \<open>B\<close>; when it succeeds it has sent the mails \<open>ml\<close>.
\<close>

definition tx_frame :: "world \<Rightarrow> world \<Rightarrow> bool" where
  "tx_frame w w' \<longleftrightarrow> w_db w' = w_db w \<and> w_draws w' = w_draws w \<and> w_log w' = w_log w \<and>
     w_now w \<le> w_now w' \<and> elapsed w w' \<and>
     (w_env w = [] \<longrightarrow> w_env w' = [] \<and> w_now w' = w_now w \<and> w_redis w' = w_redis w)"

definition mails_between :: "sent_mail list \<Rightarrow> world \<Rightarrow> world \<Rightarrow> bool" where
  "mails_between ml w w' \<longleftrightarrow> (\<exists>ms. w_mail w' = w_mail w @ ms \<and> set ms \<subseteq> set ml)"

text \<open>\<open>out\<close> is what the statement sequence does; \<open>r\<close> and \<open>w'\<close> what the function has done.\<close>

definition tx_post ::
  "sent_mail list \<Rightarrow> goerr set \<Rightarrow> goerr + 'a \<times> db \<Rightarrow> time \<Rightarrow> world \<Rightarrow> goerr + 'a \<Rightarrow> world \<Rightarrow> bool" where
  "tx_post ml B out ts w r w' \<longleftrightarrow> tx_frame w w' \<and> mails_between ml w w' \<and> (\<exists>d'. w_tx w' = Some (ts, d')) \<and>
     (case r of
        Inl e \<Rightarrow> w_env w \<noteq> [] \<and> ((\<exists>i. e = infra_err i) \<or> e \<in> B) \<or> out = Inl e \<and> w_mail w' = w_mail w
      | Inr x \<Rightarrow> (\<exists>d'. out = Inr (x, d') \<and> w_tx w' = Some (ts, d')) \<and> w_mail w' = w_mail w @ ml)"

definition tx_runs ::
  "sent_mail list \<Rightarrow> goerr set \<Rightarrow> 'a result \<Rightarrow> (time \<Rightarrow> 'a writer) \<Rightarrow> bool" where
  "tx_runs ml B m q \<longleftrightarrow>
     (\<forall>w ts d. w_tx w = Some (ts, d) \<longrightarrow> wp m (tx_post ml B (q ts d) ts w) w)"

lemma tx_runsI:
  "(\<And>w ts d. w_tx w = Some (ts, d) \<Longrightarrow> wp m (tx_post ml B (q ts d) ts w) w) \<Longrightarrow> tx_runs ml B m q"
  by (simp add: tx_runs_def)

lemma tx_runsD: "tx_runs ml B m q \<Longrightarrow> w_tx w = Some (ts, d) \<Longrightarrow> wp m (tx_post ml B (q ts d) ts w) w"
  by (simp add: tx_runs_def)

lemma tx_frame_refl [simp]: "tx_frame w w"
  by (simp add: tx_frame_def)

lemma tx_frame_trans: "tx_frame w w' \<Longrightarrow> tx_frame w' w'' \<Longrightarrow> tx_frame w w''"
  using elapsed_trans [of w w' w''] by (auto simp: tx_frame_def)

lemma mails_between_refl [simp]: "mails_between ml w w"
  by (simp add: mails_between_def)

lemma mails_between_trans: "mails_between ml w w' \<Longrightarrow> mails_between ml w' w'' \<Longrightarrow> mails_between ml w w''"
  by (auto simp: mails_between_def)

lemma tx_runs_exec: "tx_runs [] B (tx_exec q) q"
proof (rule tx_runsI)
  fix w :: world and ts d assume tx: "w_tx w = Some (ts, d)"
  show "wp (tx_exec q) (tx_post [] B (q ts d) ts w) w"
    unfolding tx_exec_def wp_bind
  proof (rule wp_poll_inside)
    fix f :: "fault option" and w'
    assume "env_frame w w'" "w_db w' = w_db w" "w_env w = [] \<Longrightarrow> f = None \<and> w' = w"
    then show "wp (case f of None \<Rightarrow> State (\<lambda>w. case w_tx w of None \<Rightarrow> (Inl tx_closed, w)
          | Some (ts, d) \<Rightarrow> (case q ts d of Inl e \<Rightarrow> (Inl e, w)
              | Inr (x, d') \<Rightarrow> (Inr x, w\<lparr>w_tx := Some (ts, d')\<rparr>)))
        | Some x \<Rightarrow> fail (fault_err x)) (tx_post [] B (q ts d) ts w) w'"
      using tx by (cases f; cases "the f"; cases "q ts d")
        (auto simp: wp_State tx_post_def tx_frame_def env_frame_def mails_between_def split: prod.splits)
  qed
qed

lemma tx_runs_succeed: "tx_runs [] B (succeed x) (\<lambda>_ d. Inr (x, d))"
  by (rule tx_runsI) (simp add: tx_post_def)

lemma tx_runs_done: "tx_runs [] B (succeed ()) (\<lambda>_. wdone)"
  by (rule tx_runsI) (simp add: tx_post_def wdone_def)

lemma tx_runs_fail: "tx_runs ml B (fail e) (\<lambda>_. wfail e)"
  by (rule tx_runsI) (simp add: tx_post_def wfail_def)

text \<open>Statements in sequence; the function's mails are sent by its last part.\<close>

lemma tx_runs_bind:
  assumes m: "tx_runs [] B m q" and f: "\<And>x. tx_runs ml B (f x) (g x)"
  shows "tx_runs ml B (attempt m fail f) (\<lambda>ts. wbind (q ts) (\<lambda>x. g x ts))"
proof (rule tx_runsI)
  fix w :: world and ts d assume tx: "w_tx w = Some (ts, d)"
  show "wp (attempt m fail f) (tx_post ml B (wbind (q ts) (\<lambda>x. g x ts) d) ts w) w"
    unfolding wp_attempt
  proof (rule wp_mono [OF tx_runsD [OF m tx]])
    fix r w1 assume post: "tx_post [] B (q ts d) ts w r w1"
    show "case r of
        Inl e \<Rightarrow> wp (fail e) (tx_post ml B (wbind (q ts) (\<lambda>x. g x ts) d) ts w) w1
      | Inr x \<Rightarrow> wp (f x) (tx_post ml B (wbind (q ts) (\<lambda>x. g x ts) d) ts w) w1"
    proof (cases r)
      case (Inl e)
      then show ?thesis using post by (auto simp: tx_post_def mails_between_def wbind_def)
    next
      case (Inr x)
      then obtain d1 where d1: "q ts d = Inr (x, d1)" "w_tx w1 = Some (ts, d1)" "tx_frame w w1"
          "w_mail w1 = w_mail w"
        using post by (auto simp: tx_post_def)
      then have out: "wbind (q ts) (\<lambda>x. g x ts) d = g x ts d1" by (simp add: wbind_def)
      have "w_env w = [] \<Longrightarrow> w_env w1 = []" using d1(3) by (simp add: tx_frame_def)
      then show ?thesis unfolding Inr sum.case out
        by (intro wp_mono [OF tx_runsD [OF f d1(2)]])
          (use d1(4) tx_frame_trans [OF d1(3)] in \<open>auto simp: tx_post_def mails_between_def split: sum.splits\<close>)
    qed
  qed
qed

lemma tx_runs_if:
  "(P \<Longrightarrow> tx_runs ml B m q) \<Longrightarrow> (\<not> P \<Longrightarrow> tx_runs ml B m' q') \<Longrightarrow>
   tx_runs ml B (if P then m else m') (\<lambda>ts. if P then q ts else q' ts)"
  by auto

text \<open>A statement whose error is translated.\<close>

lemma tx_runs_map_error:
  assumes f: "\<And>x. tx_runs ml B (f x) (g x)" and h: "\<And>i. h (infra_err i) = infra_err i"
    and B: "\<And>e. e \<in> B \<Longrightarrow> h e = e"
  shows "tx_runs ml B (attempt (tx_exec q) (\<lambda>e. fail (h e)) f)
    (\<lambda>ts. wbind (map_error h (q ts)) (\<lambda>x. g x ts))"
proof -
  have "tx_runs [] B (attempt (tx_exec q) (\<lambda>e. fail (h e)) succeed) (\<lambda>ts. map_error h (q ts))"
  proof (rule tx_runsI)
    fix w :: world and ts d assume tx: "w_tx w = Some (ts, d)"
    show "wp (attempt (tx_exec q) (\<lambda>e. fail (h e)) succeed) (tx_post [] B (map_error h (q ts) d) ts w) w"
      unfolding wp_attempt
      by (rule wp_mono [OF tx_runsD [OF tx_runs_exec tx]])
        (auto simp: tx_post_def map_error_def h B split: sum.splits)
  qed
  then have "tx_runs ml B (attempt (attempt (tx_exec q) (\<lambda>e. fail (h e)) succeed) fail f)
      (\<lambda>ts. wbind (map_error h (q ts)) (\<lambda>x. g x ts))"
    using f by (rule tx_runs_bind)
  moreover have "attempt (attempt m (\<lambda>e. fail (h e)) succeed) fail f = attempt m (\<lambda>e. fail (h e)) f" for m
    by (rule state.expand)
      (auto simp: attempt_def fail_def succeed_def run_state_bind fun_eq_iff split: sum.split prod.split)
  ultimately show ?thesis by simp
qed

lemma tx_runs_smtp:
  assumes "\<And>i. h (infra_err i) \<in> B"
  shows "tx_runs [m] B (attempt (smtp_send m) (\<lambda>e. fail (h e)) succeed) (\<lambda>_. wdone)"
proof (rule tx_runsI)
  fix w :: world and ts d assume tx: "w_tx w = Some (ts, d)"
  show "wp (attempt (smtp_send m) (\<lambda>e. fail (h e)) succeed) (tx_post [m] B (wdone d) ts w) w"
    unfolding wp_attempt smtp_send_def wp_bind
  proof (rule wp_poll_inside)
    fix f :: "fault option" and w'
    assume "env_frame w w'" "w_db w' = w_db w" "w_env w = [] \<Longrightarrow> f = None \<and> w' = w"
    then show "wp (case f of None \<Rightarrow> modify (\<lambda>w. w\<lparr>w_mail := w_mail w @ [m]\<rparr>) \<bind> (\<lambda>_. succeed ())
        | Some (Refused i) \<Rightarrow> fail (infra_err i)
        | Some (Unacked i) \<Rightarrow> modify (\<lambda>w. w\<lparr>w_mail := w_mail w @ [m]\<rparr>) \<bind> (\<lambda>_. fail (infra_err i)))
      (\<lambda>r w'. case r of Inl e \<Rightarrow> wp (fail (h e)) (tx_post [m] B (wdone d) ts w) w'
        | Inr x \<Rightarrow> wp (succeed x) (tx_post [m] B (wdone d) ts w) w') w'"
      using tx assms by (cases f; cases "the f")
        (auto simp: tx_post_def tx_frame_def env_frame_def mails_between_def wdone_def)
  qed
qed

section \<open>What a transaction does\<close>

text \<open>Errors the environment causes: of a call, of \<open>BeginTx\<close>, of the function's own calls, and
  any of those joined with an error of the rollback.\<close>

definition env_error :: "goerr set \<Rightarrow> goerr \<Rightarrow> bool" where
  "env_error B e \<longleftrightarrow> (\<exists>i. e = infra_err i) \<or> (\<exists>i. e = begin_error (infra_err i)) \<or> e \<in> B \<or>
     (\<exists>e0 i. ((\<exists>j. e0 = infra_err j) \<or> e0 \<in> B) \<and> e = JoinErr e0 (infra_err i))"

text \<open>
  The contract of \<open>UpdateInTx\<close>. On success the operation was applied exactly once, atomically, to the
  database as the transactions of other requests had left it at that moment, nothing else has happened to the
  database since, and the mails are sent. On an error the operation was not applied at all, or once if
  the reply to the commit was lost; and the operation itself refused or the environment failed. In a
  quiet world the result is exactly that of the operation, and after an error nothing has changed.
\<close>

definition committed :: "db_op \<Rightarrow> world \<Rightarrow> world \<Rightarrow> bool" where
  "committed act = applied (\<lambda>ts. tx_op ts act) ()"

lemma committed_simps [simp]:
  "committed act w (w'\<lparr>w_log := l\<rparr>) = committed act w w'"
  "committed act w (w'\<lparr>w_draws := n\<rparr>) = committed act w w'"
  "committed act (w\<lparr>w_draws := n\<rparr>) w' = committed act w w'"
  by (simp_all add: committed_def del: tx_op.simps)

lemma committed_op:
  assumes "committed act w w'"
  obtains ts d where "evolves (w_db w) d" "tx_op ts act d = Inr ((), w_db w')"
  using applied_at [OF assms [unfolded committed_def]] by blast

lemma unaffected_committed: "unaffected w w' \<Longrightarrow> committed act w' w'' \<Longrightarrow> committed act w w''"
  unfolding committed_def by (rule unaffected_applied)

definition not_applied :: "db_op \<Rightarrow> goerr \<Rightarrow> world \<Rightarrow> world \<Rightarrow> bool" where
  "not_applied act e w w' \<longleftrightarrow> unaffected w w' \<or> (\<exists>i. e = infra_err i \<and> reply_lost i) \<and> committed act w w'"

definition tx_result ::
  "db_op \<Rightarrow> sent_mail list \<Rightarrow> goerr set \<Rightarrow> world \<Rightarrow> goerr + unit \<Rightarrow> world \<Rightarrow> bool" where
  "tx_result act ml B w r w' \<longleftrightarrow>
     w_tx w' = None \<and> w_draws w' = w_draws w \<and> w_log w' = w_log w \<and> w_now w \<le> w_now w' \<and>
     evolves (w_db w) (w_db w') \<and> mails_between ml w w' \<and>
     (case r of
        Inr _ \<Rightarrow> committed act w w' \<and> (\<exists>ms. w_mail w' = w_mail w @ ms @ ml)
      | Inl e \<Rightarrow> not_applied act e w w' \<and>
         (w_env w \<noteq> [] \<and> env_error B e \<or>
          (\<exists>e0. refused (\<lambda>ts. tx_op ts act) e0 w w' \<and>
             (e = e0 \<or> w_env w \<noteq> [] \<and> (\<exists>i. e = JoinErr e0 (infra_err i)))))) \<and>
     (w_env w = [] \<longrightarrow>
       (case tx_op (w_now w) act (w_db w) of
          Inl e \<Rightarrow> r = Inl e \<and> w' = w
        | Inr (_, d) \<Rightarrow> r = Inr () \<and> w' = w\<lparr>w_db := d, w_mail := w_mail w @ ml\<rparr>))"

lemma tx_frame_quiet:
  "tx_frame w w' \<Longrightarrow> w_env w = [] \<Longrightarrow> w_tx w' = w_tx w \<Longrightarrow> w' = w\<lparr>w_mail := w_mail w'\<rparr>"
  by (cases w; cases w') (simp add: tx_frame_def)

lemma wp_db_rollback:
  assumes "w_tx w = Some (ts, d)"
    and "\<And>r w'. \<lbrakk>tx_frame w w'; w_tx w' = None; w_mail w' = w_mail w;
      case r of Inl e \<Rightarrow> w_env w \<noteq> [] \<and> (\<exists>i. e = infra_err i) | Inr _ \<Rightarrow> True\<rbrakk> \<Longrightarrow> Q r w'"
  shows "wp db_rollback Q w"
  unfolding db_rollback_def wp_bind
proof (rule wp_poll_inside)
  fix f :: "fault option" and w'
  assume "env_frame w w'" "w_db w' = w_db w" "w_env w = [] \<Longrightarrow> f = None \<and> w' = w"
  then show "wp (modify (close_tx False)) (\<lambda>_. wp (case f of None \<Rightarrow> succeed ()
      | Some x \<Rightarrow> fail (fault_err x)) Q) w'"
    using assms(1) by (cases f; cases "the f")
      (auto intro!: assms(2) simp: close_tx_def tx_frame_def env_frame_def)
qed

lemma wp_db_commit:
  assumes "w_tx w = Some (ts, d)"
    and "\<And>r w'. \<lbrakk>tx_frame w (w'\<lparr>w_db := w_db w\<rparr>); w_tx w' = None; w_mail w' = w_mail w;
      case r of
        Inl e \<Rightarrow> w_env w \<noteq> [] \<and> (\<exists>i. e = infra_err i \<and> (w_db w' = w_db w \<or> reply_lost i \<and> w_db w' = d))
      | Inr _ \<Rightarrow> w_db w' = d\<rbrakk> \<Longrightarrow> Q r w'"
  shows "wp db_commit Q w"
  unfolding db_commit_def wp_bind
proof (rule wp_poll_inside)
  fix f :: "fault option" and w'
  assume *: "env_frame w w'" "w_db w' = w_db w" "w_env w = [] \<Longrightarrow> f = None \<and> w' = w"
  have w': "w_tx w' = Some (ts, d)" using *(1) assms(1) by (simp add: env_frame_def)
  have close: "close_tx b w' = w'\<lparr>w_tx := None, w_db := if b then d else w_db w'\<rparr>" for b
    by (simp add: close_tx_def w')
  have frame: "tx_frame w (close_tx b w'\<lparr>w_db := w_db w\<rparr>)" "w_tx (close_tx b w') = None"
    "w_mail (close_tx b w') = w_mail w" "w_db (close_tx b w') = (if b then d else w_db w)" for b
    unfolding close using * by (auto simp: tx_frame_def env_frame_def)
  show "wp (case f of None \<Rightarrow> modify (close_tx True) \<bind> (\<lambda>_. succeed ())
      | Some (Refused i) \<Rightarrow> modify (close_tx False) \<bind> (\<lambda>_. fail (infra_err i))
      | Some (Unacked i) \<Rightarrow> modify (close_tx (reply_lost i)) \<bind> (\<lambda>_. fail (infra_err i))) Q w'"
  proof (cases f)
    case None
    then show ?thesis using assms(2) [OF frame(1-3) [of True], of "Inr ()"] frame(4) [of True] by simp
  next
    case (Some x)
    then have ne: "w_env w \<noteq> []" using *(3) by auto
    have "Q (Inl (infra_err i)) (close_tx b w')" if "b \<longrightarrow> reply_lost i" for b i
      by (rule assms(2) [OF frame(1-3)]) (use ne frame(4) [of b] that in auto)
    then show ?thesis using Some by (cases x) auto
  qed
qed

lemma wp_db_begin:
  assumes "\<And>w' i. env_frame w w' \<Longrightarrow> follows w w' \<Longrightarrow> w_env w \<noteq> [] \<Longrightarrow> Q (Inl (infra_err i)) w'"
    and "\<And>w'. \<lbrakk>env_frame w (w'\<lparr>w_tx := w_tx w\<rparr>); follows w w';
      w_tx w' = Some (w_now w', w_db w'); w_env w = [] \<Longrightarrow> w' = w\<lparr>w_tx := w_tx w'\<rparr>\<rbrakk> \<Longrightarrow> Q (Inr ()) w'"
  shows "wp db_begin Q w"
  unfolding db_begin_def wp_bind
proof (rule wp_poll_outside)
  fix f :: "fault option" and w'
  assume "env_frame w w'" "evolves (w_db w) (w_db w')" "w_env w = [] \<Longrightarrow> f = None \<and> w' = w" "family_frame w w'"
  then show "wp (case f of None \<Rightarrow> modify (\<lambda>w. w\<lparr>w_tx := Some (w_now w, w_db w)\<rparr>) \<bind> (\<lambda>_. succeed ())
      | Some x \<Rightarrow> fail (fault_err x)) Q w'"
    by (cases f; cases "the f") (auto intro!: assms simp: env_frame_def family_frame_def)
qed

lemma tx_result_begin_failed:
  assumes "w_tx w = None" "env_frame w w'" "follows w w'" "w_env w \<noteq> []"
  shows "tx_result act ml B w (Inl (begin_error (infra_err i))) w'"
  using assms follows_evolves [OF assms(3)] follows_unaffected [OF assms(3)]
  by (auto simp: tx_result_def env_frame_def mails_between_def env_error_def not_applied_def)

text \<open>What is known when the function has returned \<open>r\<close> in \<open>w2\<close>, having started in \<open>w1\<close>.\<close>

lemma tx_result_rolled_back:
  assumes begun: "w_tx w = None" "env_frame w (w1\<lparr>w_tx := w_tx w\<rparr>)" "follows w w1"
      "w_env w = [] \<Longrightarrow> w1 = w\<lparr>w_tx := w_tx w1\<rparr>"
    and ran: "tx_post ml B (tx_op (w_now w1) act (w_db w1)) (w_now w1) w1 (Inl e) w2"
    and rolled: "tx_frame w2 w3" "w_tx w3 = None" "w_mail w3 = w_mail w2"
    and e': "e' = e \<or> w_env w2 \<noteq> [] \<and> (\<exists>i. e' = JoinErr e (infra_err i))"
  shows "tx_result act ml B w (Inl e') w3"
proof (cases "w_env w = []")
  case True
  then have w1: "w1 = w\<lparr>w_tx := w_tx w1\<rparr>" "w_env w1 = []" using begun(2,4) by (auto simp: env_frame_def)
  then have "w_env w2 = []" "w_env w3 = []" "w_mail w2 = w_mail w1"
    and op: "tx_op (w_now w1) act (w_db w1) = Inl e"
    using ran rolled(1) by (auto simp: tx_post_def tx_frame_def)
  then have "e' = e" using e' by simp
  have "tx_frame w1 w3" using ran rolled(1) tx_frame_trans by (auto simp: tx_post_def)
  then have w3: "w3 = w"
    using w1 rolled \<open>w_mail w2 = w_mail w1\<close> begun(1) by (cases w; cases w1; cases w3) (auto simp: tx_frame_def)
  moreover have "w_now w1 = w_now w" "w_db w1 = w_db w" by (subst w1(1), simp)+
  then have "tx_op (w_now w) act (w_db w) = Inl e" using op by simp
  moreover from this have "refused (\<lambda>ts. tx_op ts act) e w w" by (rule refused_now) simp
  ultimately show ?thesis using \<open>e' = e\<close> begun(1)
    by (auto simp: tx_result_def not_applied_def intro: evolves.stay follows_unaffected)
next
  case False
  have frame: "tx_frame w1 w3" using ran rolled(1) tx_frame_trans by (auto simp: tx_post_def)
  have ml: "mails_between ml w w3"
    using begun(2) ran rolled(3) by (auto simp: tx_post_def env_frame_def mails_between_def)
  have un: "unaffected w w3"
    using follows_unaffected [OF begun(3)] frame elapsed_unaffected unaffected_trans by (auto simp: tx_frame_def)
  have "refused (\<lambda>ts. tx_op ts act) e w w3" if "tx_op (w_now w1) act (w_db w1) = Inl e"
    by (rule unaffected_refused [OF follows_unaffected [OF begun(3)] refused_now])
      (use that frame in \<open>simp_all add: tx_frame_def\<close>)
  then have err: "env_error B e' \<or> (\<exists>e0. refused (\<lambda>ts. tx_op ts act) e0 w w3 \<and>
      (e' = e0 \<or> (\<exists>i. e' = JoinErr e0 (infra_err i))))"
    using ran e' unfolding tx_post_def env_error_def by (simp only: sum.case) blast
  show ?thesis
    using False begun(2) frame ml rolled(2) err un unaffected_evolves [OF un]
    by (simp add: tx_result_def env_frame_def tx_frame_def not_applied_def)
qed

lemma tx_result_committed:
  assumes begun: "w_tx w = None" "env_frame w (w1\<lparr>w_tx := w_tx w\<rparr>)" "follows w w1"
      "w_env w = [] \<Longrightarrow> w1 = w\<lparr>w_tx := w_tx w1\<rparr>"
    and adm: "admissible act (w_db w1)"
    and ran: "tx_op (w_now w1) act (w_db w1) = Inr ((), d')" "tx_frame w1 w2" "w_mail w2 = w_mail w1 @ ml"
    and cmt: "tx_frame w2 (w3\<lparr>w_db := w_db w2\<rparr>)" "w_tx w3 = None" "w_mail w3 = w_mail w2"
      "case r of
        Inl e \<Rightarrow> w_env w2 \<noteq> [] \<and> (\<exists>i. e = infra_err i \<and> (w_db w3 = w_db w2 \<or> reply_lost i \<and> w_db w3 = d'))
      | Inr _ \<Rightarrow> w_db w3 = d'"
  shows "tx_result act ml B w r w3"
proof -
  have el: "elapsed w1 w3" using ran(2) cmt(1) elapsed_trans by (auto simp: tx_frame_def)
  have db2: "w_db w2 = w_db w1" using ran(2) by (simp add: tx_frame_def)
  have d': "evolves (w_db w) d'" using evolves_op [OF adm ran(1)] follows_evolves [OF begun(3)] evolves_trans by blast
  have app: "committed act w w3" if "w_db w3 = d'"
    unfolding committed_def by (rule unaffected_applied [OF follows_unaffected [OF begun(3)] applied_now]) (use ran(1) that el in simp_all)
  have un: "unaffected w w3" if "w_db w3 = w_db w1"
    by (rule unaffected_trans [OF follows_unaffected [OF begun(3)] elapsed_unaffected [OF el that]])
  show ?thesis
  proof (cases "w_env w = []")
    case True
    then have w1: "w1 = w\<lparr>w_tx := w_tx w1\<rparr>" "w_env w1 = []" using begun(2,4) by (auto simp: env_frame_def)
    have same: "w_now w1 = w_now w" "w_db w1 = w_db w" by (subst w1(1), simp)+
    have "w_env w2 = []" using ran(2) w1 by (simp add: tx_frame_def)
    then have r: "r = Inr ()" using cmt(4) by (cases r) auto
    then have w3': "w_db w3 = d'" using cmt(4) by simp
    have op: "tx_op (w_now w) act (w_db w) = Inr ((), d')" using ran(1) same by simp
    have "w3 = w\<lparr>w_db := d', w_mail := w_mail w @ ml\<rparr>"
      using w1 cmt(1-3) w3' ran(2,3) begun(1) same
      by (cases w; cases w1; cases w2; cases w3) (auto simp: tx_frame_def)
    moreover from this have "committed act w (w\<lparr>w_db := d', w_mail := w_mail w @ ml\<rparr>)" using app by simp
    ultimately show ?thesis using op r begun(1) d'
      by (auto simp: tx_result_def mails_between_def intro: exI [of _ "[]"])
  next
    case False
    have mail: "w_mail w3 = w_mail w @ ml"
      using cmt(3) ran(3) begun(2) by (simp add: env_frame_def)
    then have mb: "mails_between ml w w3" by (auto simp: mails_between_def)
    have frame: "w_draws w3 = w_draws w" "w_log w3 = w_log w" "w_now w \<le> w_now w3"
      using cmt(1) begun(2) ran(2) by (auto simp: tx_frame_def env_frame_def)
    have ev: "evolves (w_db w) (w_db w3)"
      using cmt(4) d' un unaffected_evolves by (cases r) (auto simp: db2)
    show ?thesis
    proof (cases r)
      case (Inl e)
      then show ?thesis using False cmt(2,4) mb frame ev app un
        by (auto simp: tx_result_def env_error_def not_applied_def db2)
    next
      case (Inr u)
      moreover have "\<exists>ms. w_mail w3 = w_mail w @ ms @ ml" using mail by (intro exI [of _ "[]"]) simp
      ultimately show ?thesis using False cmt(2,4) app mb frame ev by (auto simp: tx_result_def)
    qed
  qed
qed

lemma wp_updateInTx:
  assumes tx: "w_tx w = None" and run: "tx_runs ml B fn (\<lambda>ts. tx_op ts act)"
    and adm: "\<And>d. evolves (w_db w) d \<Longrightarrow> admissible act d"
  shows "wp (updateInTx fn) (tx_result act ml B w) w"
  unfolding updateInTx_def wp_attempt
proof (rule wp_db_begin; unfold sum.case)
  fix w' i assume "env_frame w w'" "follows w w'" "w_env w \<noteq> []"
  then show "wp (fail (begin_error (infra_err i))) (tx_result act ml B w) w'"
    using tx_result_begin_failed [OF tx] by simp
next
  fix w1
  assume begun: "env_frame w (w1\<lparr>w_tx := w_tx w\<rparr>)" "follows w w1"
    "w_tx w1 = Some (w_now w1, w_db w1)" "w_env w = [] \<Longrightarrow> w1 = w\<lparr>w_tx := w_tx w1\<rparr>"
  show "wp fn (\<lambda>r w'. case r of
        Inl e \<Rightarrow> wp db_rollback (\<lambda>ra w'. case ra of
          Inl ea \<Rightarrow> wp (fail (JoinErr e ea)) (tx_result act ml B w) w'
        | Inr x \<Rightarrow> wp (fail e) (tx_result act ml B w) w') w'
      | Inr x \<Rightarrow> wp db_commit (tx_result act ml B w) w') w1"
  proof (rule wp_mono [OF tx_runsD [OF run begun(3)]])
    fix r w2 assume ran: "tx_post ml B (tx_op (w_now w1) act (w_db w1)) (w_now w1) w1 r w2"
    then obtain d2 where d2: "w_tx w2 = Some (w_now w1, d2)" by (auto simp: tx_post_def)
    show "case r of
        Inl e \<Rightarrow> wp db_rollback (\<lambda>ra w'. case ra of
          Inl ea \<Rightarrow> wp (fail (JoinErr e ea)) (tx_result act ml B w) w'
        | Inr x \<Rightarrow> wp (fail e) (tx_result act ml B w) w') w2
      | Inr x \<Rightarrow> wp db_commit (tx_result act ml B w) w2"
    proof (cases r)
      case (Inl e)
      show ?thesis unfolding Inl sum.case
        by (rule wp_db_rollback [OF d2])
          (auto split: sum.splits
            intro!: tx_result_rolled_back [OF tx begun(1,2,4) ran [unfolded Inl]])
    next
      case (Inr u)
      then obtain d' where d': "tx_op (w_now w1) act (w_db w1) = Inr ((), d')" "w_tx w2 = Some (w_now w1, d')"
        "tx_frame w1 w2" "w_mail w2 = w_mail w1 @ ml"
        using ran by (auto simp: tx_post_def)
      show ?thesis unfolding Inr sum.case
        by (rule wp_db_commit [OF d'(2)], rule tx_result_committed
            [OF tx begun(1,2,4) adm [OF follows_evolves [OF begun(2)]] d'(1,3,4)]) auto
    qed
  qed
qed

text \<open>A failed attempt, some waiting, and what the next attempts do.\<close>

lemma tx_result_error:
  assumes "tx_result act ml B w (Inl e) w1" "retryable e"
  shows "unaffected w w1"
proof -
  have "not_applied act e w w1" using assms(1) by (simp add: tx_result_def)
  then show ?thesis using assms(2) retryable_infra unfolding not_applied_def by blast
qed

lemma tx_result_retry:
  assumes first: "tx_result act ml B w (Inl e) w1" "retryable e" and wait: "env_frame w1 w2" "follows w1 w2"
      "w_env w1 = [] \<Longrightarrow> w2 = w1" and "rest": "tx_result act ml B w2 r w3"
    and quiet: "w_env w = [] \<Longrightarrow> w_env w1 = []"
  shows "tx_result act ml B w r w3"
proof (cases "w_env w = []")
  case True
  then have "w1 = w" using first by (auto simp: tx_result_def split: sum.splits)
  then show ?thesis using wait(3) "rest" True by simp
next
  case False
  have un: "unaffected w w2"
    by (rule unaffected_trans [OF tx_result_error [OF first] follows_unaffected [OF wait(2)]])
  have mb: "mails_between ml w w3"
    using first(1) wait(1) "rest" by (auto simp: tx_result_def env_frame_def mails_between_def)
  have frame: "w_tx w3 = None" "w_draws w3 = w_draws w" "w_log w3 = w_log w" "w_now w \<le> w_now w3"
    "evolves (w_db w) (w_db w3)"
    using first(1) wait(1) "rest" unaffected_evolves [OF un] evolves_trans by (auto simp: tx_result_def env_frame_def)
  show ?thesis
  proof (cases r)
    case (Inl e')
    have "not_applied act e' w w3"
      using "rest" unaffected_trans [OF un] unaffected_committed [OF un] unfolding Inl by (auto simp: tx_result_def not_applied_def)
    moreover have "env_error B e' \<or> (\<exists>e0. refused (\<lambda>ts. tx_op ts act) e0 w w3 \<and>
        (e' = e0 \<or> (\<exists>i. e' = JoinErr e0 (infra_err i))))"
      using "rest" unaffected_refused [OF un] unfolding Inl tx_result_def by (simp only: sum.case) blast
    ultimately show ?thesis unfolding tx_result_def Inl sum.case using False frame mb by blast
  next
    case (Inr u)
    have "committed act w w3" "\<exists>ms. w_mail w3 = w_mail w2 @ ms @ ml"
      using "rest" unaffected_committed [OF un] unfolding Inr tx_result_def by auto
    moreover have "\<exists>ms. w_mail w2 = w_mail w @ ms"
      using first(1) wait(1) by (auto simp: tx_result_def env_frame_def mails_between_def)
    ultimately have "\<exists>ms. w_mail w3 = w_mail w @ ms @ ml" by (metis append_assoc)
    with \<open>committed act w w3\<close> show ?thesis unfolding tx_result_def Inr sum.case using False frame mb by blast
  qed
qed

lemma tx_result_gave_up:
  assumes first: "tx_result act ml B w (Inl e) w1" "retryable e" and wait: "env_frame w1 w2" "follows w1 w2"
    and ne: "w_env w \<noteq> []" and e': "e' = e \<or> (\<exists>i. e' = infra_err i)"
  shows "tx_result act ml B w (Inl e') w2"
proof -
  have un: "unaffected w w2"
    by (rule unaffected_trans [OF tx_result_error [OF first] follows_unaffected [OF wait(2)]])
  have mb: "mails_between ml w w2"
    using first(1) wait(1) by (auto simp: tx_result_def env_frame_def mails_between_def)
  have frame: "w_tx w2 = None" "w_draws w2 = w_draws w" "w_log w2 = w_log w" "w_now w \<le> w_now w2"
    "evolves (w_db w) (w_db w2)"
    using first(1) wait(1) unaffected_evolves [OF un] by (auto simp: tx_result_def env_frame_def)
  have "env_error B e' \<or> (\<exists>e0. refused (\<lambda>ts. tx_op ts act) e0 w w2 \<and>
      (e' = e0 \<or> (\<exists>i. e' = JoinErr e0 (infra_err i))))"
  proof (cases "e' = e")
    case True
    have "refused q e0 w w2" if "refused q e0 w w1" for q :: "time \<Rightarrow> unit writer" and e0
      using refused_elapsed_trans [OF that follows_elapsed [OF wait(2)]] .
    then show ?thesis using first(1) unfolding True tx_result_def sum.case by blast
  next
    case False
    then show ?thesis using e' by (auto simp: env_error_def)
  qed
  then show ?thesis unfolding tx_result_def sum.case using ne frame mb un by (auto simp: not_applied_def)
qed

lemma wp_wait_and_retry:
  assumes first: "tx_result act ml B w (Inl e) w1" "retryable e"
    and again: "\<And>w2. w_tx w2 = None \<Longrightarrow> evolves (w_db w) (w_db w2) \<Longrightarrow> wp (retry n fn) (tx_result act ml B w2) w2"
  shows "wp (poll True) (\<lambda>f. wp (case f of None \<Rightarrow> retry n fn
    | Some (Refused i) \<Rightarrow> fail (infra_err i) | Some (Unacked i) \<Rightarrow> fail e) (tx_result act ml B w)) w1"
proof (rule wp_poll_outside)
  have quiet: "w_env w = [] \<Longrightarrow> w1 = w" using first by (auto simp: tx_result_def split: sum.splits)
  fix f :: "fault option" and w2
  assume wait: "env_frame w1 w2" "evolves (w_db w1) (w_db w2)" "w_env w1 = [] \<Longrightarrow> f = None \<and> w2 = w1"
    "family_frame w1 w2"
  have fol: "follows w1 w2" using wait(4) by (simp add: family_frame_def)
  have tx2: "w_tx w2 = None" using first wait(1) by (simp add: tx_result_def env_frame_def)
  have ev: "evolves (w_db w) (w_db w2)" using first wait(2) evolves_trans by (auto simp: tx_result_def)
  show "wp (case f of None \<Rightarrow> retry n fn
      | Some (Refused i) \<Rightarrow> fail (infra_err i) | Some (Unacked i) \<Rightarrow> fail e) (tx_result act ml B w) w2"
  proof (cases f)
    case None
    show ?thesis unfolding None option.case
      by (rule wp_mono [OF again [OF tx2 ev]])
        (rule tx_result_retry [OF first wait(1) fol], use wait(3) quiet in auto)
  next
    case (Some x)
    then have "w_env w \<noteq> []" using wait(3) quiet by auto
    then show ?thesis using tx_result_gave_up [OF first wait(1) fol] Some by (cases x) auto
  qed
qed

lemma wp_retry:
  assumes "w_tx w = None" "tx_runs ml B fn (\<lambda>ts. tx_op ts act)"
    and "\<And>d. evolves (w_db w) d \<Longrightarrow> admissible act d"
  shows "wp (retry n fn) (tx_result act ml B w) w"
  using assms(1,3)
proof (induction n arbitrary: w)
  case 0
  then show ?case using wp_updateInTx [OF _ assms(2)] by simp
next
  case (Suc n)
  show ?case unfolding retry.simps wp_attempt
  proof (rule wp_mono [OF wp_updateInTx [OF Suc.prems(1) assms(2) Suc.prems(2)]])
    fix r w1 assume first: "tx_result act ml B w r w1"
    have again: "wp (retry n fn) (tx_result act ml B w2) w2" if "w_tx w2 = None" "evolves (w_db w) (w_db w2)" for w2
      by (rule Suc.IH [OF that(1)], rule Suc.prems(2)) (rule evolves_trans [OF _ that(2)])
    show "case r of
        Inl e \<Rightarrow> wp (if retryable e then poll True \<bind> (\<lambda>f. case f of None \<Rightarrow> retry n fn
            | Some (Refused i) \<Rightarrow> fail (infra_err i) | Some (Unacked i) \<Rightarrow> fail e) else fail e)
          (tx_result act ml B w) w1
      | Inr x \<Rightarrow> wp (succeed x) (tx_result act ml B w) w1"
      using first wp_wait_and_retry [OF _ _ again] by (cases r) auto
  qed
qed

lemma wp_UpdateInTx:
  assumes "w_tx w = None" "tx_runs ml B fn (\<lambda>ts. tx_op ts act)"
    and "\<And>d. evolves (w_db w) d \<Longrightarrow> admissible act d"
  shows "wp (UpdateInTx fn) (tx_result act ml B w) w"
  unfolding UpdateInTx_def using assms by (rule wp_retry)

section \<open>How often the function runs\<close>

text \<open>Nothing but the function itself draws, so a function that draws once counts its runs.\<close>

lemma poll_draws: "(\<And>f w'. w_draws w' = w_draws w \<Longrightarrow> Q f w') \<Longrightarrow> wp (poll b) Q w"
  by (cases b) (auto intro!: wp_poll_outside wp_poll_inside simp: env_frame_def)

lemma close_tx_draws [simp]: "w_draws (close_tx b w) = w_draws w"
  by (simp add: close_tx_def split: option.split)

lemma tx_control_draws:
  assumes "\<And>r w'. w_draws w' = w_draws w \<Longrightarrow> Q r w'"
  shows "wp db_begin Q w" "wp db_rollback Q w" "wp db_commit Q w"
  unfolding db_begin_def db_rollback_def db_commit_def
  by (auto intro!: poll_draws assms split: option.split fault.split)

lemma updateInTx_draws:
  assumes "\<And>w. wp fn (\<lambda>r w'. w_draws w' = w_draws w + 1) w"
  shows "wp (updateInTx fn) (\<lambda>r w'. w_draws w' \<le> w_draws w + 1) w"
  unfolding updateInTx_def
  by (auto intro!: tx_control_draws wp_mono [OF assms] split: sum.split)

lemma tries_bounded:
  assumes "\<And>w. wp fn (\<lambda>r w'. w_draws w' = w_draws w + 1) w"
  shows "wp (retry n fn) (\<lambda>r w'. w_draws w' \<le> w_draws w + n + 1) w"
proof (induction n arbitrary: w)
  case 0
  then show ?case using updateInTx_draws [OF assms] by simp
next
  case (Suc n)
  show ?case unfolding retry.simps wp_attempt
    by (rule wp_mono [OF updateInTx_draws [OF assms]])
      (auto intro!: poll_draws wp_mono [OF Suc.IH] split: sum.split option.split fault.split)
qed

lemma failing_attempt:
  assumes "w_env w = []" "\<And>w. wp fn (\<lambda>r w'. r = Inl e \<and> w_draws w' = w_draws w + 1 \<and> w_env w' = w_env w) w"
  shows "wp (updateInTx fn) (\<lambda>r w'. r = Inl e \<and> w_draws w' = w_draws w + 1 \<and> w_env w' = []) w"
  using assms(1)
  by (auto simp: updateInTx_def db_begin_def db_rollback_def close_tx_def
      intro!: wp_mono [OF assms(2)] split: option.split)

lemma failing_tries:
  assumes "w_env w = []" "\<And>w. wp fn (\<lambda>r w'. r = Inl e \<and> w_draws w' = w_draws w + 1 \<and> w_env w' = w_env w) w"
  shows "wp (retry n fn) (\<lambda>r w'. r = Inl e \<and> w_draws w' = w_draws w + (if retryable e then n + 1 else 1)) w"
  using assms(1)
proof (induction n arbitrary: w)
  case 0
  then show ?case by (auto intro: wp_mono [OF failing_attempt [OF _ assms(2)]])
next
  case (Suc n)
  show ?case unfolding retry.simps wp_attempt
    by (rule wp_mono [OF failing_attempt [OF Suc.prems assms(2)]]) (auto intro!: wp_mono [OF Suc.IH])
qed

lemma UpdateInTx_tries:
  assumes "\<And>w. wp fn (\<lambda>r w'. r = Inl e \<and> w_draws w' = w_draws w + 1 \<and> w_env w' = w_env w) w"
  shows "wp (UpdateInTx fn) (\<lambda>r w'. w_draws w' \<le> w_draws w + 10 \<and>
    (w_env w = [] \<longrightarrow> r = Inl e \<and> w_draws w' = w_draws w + (if retryable e then 10 else 1))) w"
proof (unfold wp_conj, intro conjI)
  have "wp fn (\<lambda>r w'. w_draws w' = w_draws w + 1) w" for w by (rule wp_mono [OF assms]) simp
  from tries_bounded [OF this, of "maxTries - 1" w]
  show "wp (UpdateInTx fn) (\<lambda>r w'. w_draws w' \<le> w_draws w + 10) w" by (simp add: UpdateInTx_def maxTries_def add.commute)
  show "wp (UpdateInTx fn) (\<lambda>r w'. w_env w = [] \<longrightarrow> r = Inl e \<and> w_draws w' = w_draws w + (if retryable e then 10 else 1)) w"
    using wp_mono [OF failing_tries [of w fn e "maxTries - 1"]] assms
    by (cases "w_env w = []") (auto simp: UpdateInTx_def maxTries_def wp_def)
qed

end
