(* ===== verification/UserRepo.thy ===== *)
theory UserRepo
  imports TxManager Invariants
begin

text \<open>
  The repository of users and sessions: \<open>adapters/db/users_repo.go\<close>, \<open>refresh_tokens_repo.go\<close> and
  \<open>admin_account_repo.go\<close>. Each writing function is shown to do nothing to the database but the
  operation of theory Transactions it stands for, once and atomically (\<open>\<dots>_runs\<close>, \<open>\<dots>_writes\<close>).
\<close>

section \<open>Views of rows\<close>

record LoginUser =
  lu_UserUUID :: uuid
  lu_PasswordHash :: string
  lu_Status :: string
  lu_Roles :: "string list"

record StoredRefreshToken =
  sr_TokenID :: uuid
  sr_UserUUID :: uuid
  sr_FamilyID :: uuid
  sr_ExpiresAt :: time
  sr_UsedAt :: "time option"
  sr_RevokedAt :: "time option"

record RefreshUser =
  ru_UserUUID :: uuid
  ru_Status :: string
  ru_Roles :: "string list"

record UserCredentials =
  uc_PasswordHash :: string
  uc_Status :: string

section \<open>Reading\<close>

text \<open>
  \<open>row, err := q(\<dots>); if errors.Is(err, pgx.ErrNoRows) { none }; if err != nil { return err }\<close>;
  a Go result \<open>(T, bool, error)\<close> is an option.
\<close>

definition find_row :: "'a reader \<Rightarrow> 'b result \<Rightarrow> ('a \<Rightarrow> 'b result) \<Rightarrow> 'b result" where
  "find_row q none found = attempt (db_read q) (\<lambda>e. if err_is_norows e then none else fail e) found"

definition EmailExists :: "string \<Rightarrow> bool result" where
  "EmailExists email = find_row (GetUserByEmail email) (succeed False) (\<lambda>_. succeed True)"

definition FindUserByEmail :: "string \<Rightarrow> (uuid \<times> string) option result" where
  "FindUserByEmail email =
     find_row (GetUserByEmail email) (succeed None) (\<lambda>row. succeed (Some (u_UserUuid row, u_Status row)))"

definition GetLoginUser :: "string \<Rightarrow> LoginUser option result" where
  "GetLoginUser email =
     find_row (GetUserByEmail email) (succeed None) (\<lambda>row.
     attempt (db_read (GetUserRoles (u_UserUuid row))) fail (\<lambda>roles.
     succeed (Some \<lparr>lu_UserUUID = u_UserUuid row, lu_PasswordHash = u_PasswordHash row,
       lu_Status = u_Status row, lu_Roles = roles\<rparr>)))"

definition GetUserCredentials :: "uuid \<Rightarrow> UserCredentials option result" where
  "GetUserCredentials userUUID =
     find_row (GetUserByUuid userUUID) (succeed None) (\<lambda>row.
     succeed (Some \<lparr>uc_PasswordHash = u_PasswordHash row, uc_Status = u_Status row\<rparr>))"

definition repo_GetRefreshTokenByHash :: "string \<Rightarrow> StoredRefreshToken option result" where
  "repo_GetRefreshTokenByHash h =
     find_row (GetRefreshTokenByHash h) (succeed None) (\<lambda>row.
     succeed (Some \<lparr>sr_TokenID = rt_TokenID row, sr_UserUUID = rt_UserUuid row,
       sr_FamilyID = rt_FamilyID row, sr_ExpiresAt = rt_ExpiresAt row,
       sr_UsedAt = rt_UsedAt row, sr_RevokedAt = rt_RevokedAt row\<rparr>))"

definition GetUserForRefresh :: "uuid \<Rightarrow> RefreshUser option result" where
  "GetUserForRefresh userUUID =
     find_row (GetUserByUuid userUUID) (succeed None) (\<lambda>row.
     attempt (db_read (GetUserRoles userUUID)) fail (\<lambda>roles.
     succeed (Some \<lparr>ru_UserUUID = u_UserUuid row, ru_Status = u_Status row, ru_Roles = roles\<rparr>)))"

definition repo_CountActiveSuperAdmins :: "nat result" where
  "repo_CountActiveSuperAdmins = db_read CountActiveSuperAdmins"

definition findAdminAccount :: "uuid \<Rightarrow> (string list \<times> string) option result" where
  "findAdminAccount userUUID =
     find_row (GetUserByUuid userUUID) (succeed None) (\<lambda>row.
     attempt (db_read (GetUserRoles userUUID)) fail (\<lambda>roles.
     succeed (Some (roles, u_Status row))))"

definition FindAccountForDisable :: "uuid \<Rightarrow> (string list \<times> string) option result" where
  "FindAccountForDisable userUUID = findAdminAccount userUUID"

definition FindAccountForReactivate :: "uuid \<Rightarrow> (string list \<times> string) option result" where
  "FindAccountForReactivate userUUID = findAdminAccount userUUID"

section \<open>Writing\<close>

text \<open>A query inside a transaction.\<close>

definition tx_read :: "'a reader \<Rightarrow> 'a result" where
  "tx_read q = tx_exec (\<lambda>_ d. case q d of Inl e \<Rightarrow> Inl e | Inr x \<Rightarrow> Inr (x, d))"

definition CreateUser :: "Registration \<Rightarrow> one_time_token \<Rightarrow> unit result \<Rightarrow> unit result" where
  "CreateUser reg token afterInsert = UpdateInTx (
     attempt (tx_exec (\<lambda>ts. InsertUser ts (reg_UserUUID reg) (reg_Email reg) (reg_PasswordHash reg)
       (reg_Status reg))) fail (\<lambda>_.
     attempt (tx_exec (\<lambda>ts. InsertUserRole ts (reg_UserUUID reg) (reg_Role reg))) fail (\<lambda>_.
     attempt (tx_exec (\<lambda>ts. InsertEmailConfirmationToken ts (TokenUUID token) (reg_UserUUID reg)
       (Hash token) (ExpiresAt token))) fail (\<lambda>_.
     afterInsert))))"

definition ChangePassword :: "uuid \<Rightarrow> string \<Rightarrow> unit result" where
  "ChangePassword userUUID newPasswordHash = UpdateInTx (
     attempt (tx_exec (\<lambda>ts. UpdateUserPassword ts userUUID newPasswordHash)) fail (\<lambda>affected.
     if affected = 0 then fail (NewError ''user not found for password update'')
     else tx_exec (\<lambda>ts. RevokeRefreshTokensByUser ts userUUID (Some RevocationReasonPasswordChanged))))"

definition SaveRefreshToken :: "RefreshTokenRecord \<Rightarrow> unit result" where
  "SaveRefreshToken r = db_write (\<lambda>ts. InsertRefreshToken ts (rr_TokenID r) (rr_UserUUID r)
     (rr_FamilyID r) (rr_ParentTokenID r) (rr_TokenHash r) (rr_ExpiresAt r))"

definition RotateRefreshToken :: "uuid \<Rightarrow> RefreshTokenRecord \<Rightarrow> unit result" where
  "RotateRefreshToken oldTokenID newToken = UpdateInTx (
     attempt (tx_exec (\<lambda>ts. MarkRefreshTokenUsed ts oldTokenID)) fail (\<lambda>affected.
     if affected = 0 then fail (Sentinel ErrRefreshTokenAlreadyUsed)
     else tx_exec (\<lambda>ts. InsertRefreshToken ts (rr_TokenID newToken) (rr_UserUUID newToken)
       (rr_FamilyID newToken) (rr_ParentTokenID newToken) (rr_TokenHash newToken)
       (rr_ExpiresAt newToken))))"

definition repo_RevokeRefreshToken :: "uuid \<Rightarrow> string option \<Rightarrow> unit result" where
  "repo_RevokeRefreshToken tokenID reason = db_write (\<lambda>ts. RevokeRefreshToken ts tokenID reason)"

definition repo_RevokeRefreshTokenFamily :: "uuid \<Rightarrow> string \<Rightarrow> unit result" where
  "repo_RevokeRefreshTokenFamily familyID reason =
     db_write (\<lambda>ts. RevokeRefreshTokenFamily ts familyID (Some reason))"

definition ReactivateAccount :: "uuid \<Rightarrow> unit result" where
  "ReactivateAccount userUUID =
     attempt (db_write (\<lambda>ts. TransitionUserStatus ts userUUID StatusInactive StatusDisabled)) fail
       (\<lambda>affected. if affected = 0 then fail (Sentinel ErrNotDisabled) else succeed ())"

definition DisableAccount :: "uuid \<Rightarrow> bool \<Rightarrow> unit result" where
  "DisableAccount userUUID isSuperAdmin = UpdateInTx (
     let transition =
       attempt (tx_exec (\<lambda>ts. TransitionUserStatus ts userUUID StatusDisabled StatusInactive)) fail
         (\<lambda>affected. if affected = 0 then fail (Sentinel ErrAlreadyDisabled)
            else tx_exec (\<lambda>ts. RevokeRefreshTokensByUser ts userUUID
              (Some RevocationReasonAccountDisabled)))
     in if isSuperAdmin
        then attempt (tx_read LockActiveSuperAdmins) fail (\<lambda>active.
          if length active \<le> 1 then fail (Sentinel ErrLastSuperAdmin) else transition)
        else transition)"

section \<open>The functions of the transactions are the operations\<close>

lemma tx_runs_cong: "tx_runs ml B m q \<Longrightarrow> (\<And>ts d. q ts d = q' ts d) \<Longrightarrow> tx_runs ml B m q'"
  by (simp add: tx_runs_def)

lemmas tx_runs_rules = tx_runs_bind tx_runs_exec tx_runs_if tx_runs_fail tx_runs_done

lemma wbind_done [simp]: "wbind m (\<lambda>_. wdone) = m"
  by (auto simp: wbind_def wdone_def fun_eq_iff split: sum.split)

lemma wbind_need_row: "wbind (need_row e m) f = wbind m (\<lambda>n. if n = 0 then wfail e else f ())"
  by (auto simp: wbind_def need_row_def wdone_def wfail_def fun_eq_iff split: sum.split)

lemma wbind_assoc: "wbind (wbind m f) g = wbind m (\<lambda>x. wbind (f x) g)"
  by (auto simp: wbind_def fun_eq_iff split: sum.split)

lemma wbind_wfail: "wbind (wfail e) f = wfail e" and wbind_wdone: "wbind wdone g = g ()"
  by (simp_all add: wbind_def wfail_def wdone_def fun_eq_iff)

lemma wbind_if: "wbind (if P then m else m') f = (if P then wbind m f else wbind m' f)"
  by simp

lemmas wbind_flat = need_row_def wbind_assoc wbind_wfail wbind_wdone wbind_if if_distribR

lemma CreateUser_runs:
  assumes "tx_runs ml B afterInsert (\<lambda>_. wdone)"
  shows "tx_runs ml B (
     attempt (tx_exec (\<lambda>ts. InsertUser ts (reg_UserUUID reg) (reg_Email reg) (reg_PasswordHash reg)
       (reg_Status reg))) fail (\<lambda>_.
     attempt (tx_exec (\<lambda>ts. InsertUserRole ts (reg_UserUUID reg) (reg_Role reg))) fail (\<lambda>_.
     attempt (tx_exec (\<lambda>ts. InsertEmailConfirmationToken ts (TokenUUID token) (reg_UserUUID reg)
       (Hash token) (ExpiresAt token))) fail (\<lambda>_.
     afterInsert)))) (\<lambda>ts. tx_op ts (OpCreateUser reg token))"
  by (rule tx_runs_cong, (rule tx_runs_rules assms)+) simp

lemma ChangePassword_runs:
  "tx_runs [] B (
     attempt (tx_exec (\<lambda>ts. UpdateUserPassword ts userUUID newPasswordHash)) fail (\<lambda>affected.
     if affected = 0 then fail (NewError ''user not found for password update'')
     else tx_exec (\<lambda>ts. RevokeRefreshTokensByUser ts userUUID (Some RevocationReasonPasswordChanged))))
   (\<lambda>ts. tx_op ts (OpChangePassword userUUID newPasswordHash))"
  by (rule tx_runs_cong, (rule tx_runs_rules)+) (simp add: wbind_need_row if_distribR)

lemma RotateRefreshToken_runs:
  "tx_runs [] B (
     attempt (tx_exec (\<lambda>ts. MarkRefreshTokenUsed ts oldTokenID)) fail (\<lambda>affected.
     if affected = 0 then fail (Sentinel ErrRefreshTokenAlreadyUsed)
     else tx_exec (\<lambda>ts. InsertRefreshToken ts (rr_TokenID r) (rr_UserUUID r)
       (rr_FamilyID r) (rr_ParentTokenID r) (rr_TokenHash r) (rr_ExpiresAt r))))
   (\<lambda>ts. tx_op ts (OpRotateRefreshToken oldTokenID r))"
  by (rule tx_runs_cong, (rule tx_runs_rules)+) (simp add: wbind_need_row if_distribR)

lemma DisableAccount_runs:
  "tx_runs [] B (
     let transition =
       attempt (tx_exec (\<lambda>ts. TransitionUserStatus ts userUUID StatusDisabled StatusInactive)) fail
         (\<lambda>affected. if affected = 0 then fail (Sentinel ErrAlreadyDisabled)
            else tx_exec (\<lambda>ts. RevokeRefreshTokensByUser ts userUUID
              (Some RevocationReasonAccountDisabled)))
     in if isSuperAdmin
        then attempt (tx_read LockActiveSuperAdmins) fail (\<lambda>active.
          if length active \<le> 1 then fail (Sentinel ErrLastSuperAdmin) else transition)
        else transition)
   (\<lambda>ts. tx_op ts (OpDisableAccount userUUID isSuperAdmin))"
  unfolding Let_def tx_read_def
  by (rule tx_runs_cong, (rule tx_runs_rules)+)
    (simp add: wbind_need_row if_distribR wbind_def LockActiveSuperAdmins_def wfail_def)

lemma SaveRefreshToken_writes:
  "writes_as (OpSaveRefreshToken r) (\<lambda>_. True)
     (\<lambda>ts. InsertRefreshToken ts (rr_TokenID r) (rr_UserUUID r) (rr_FamilyID r) (rr_ParentTokenID r)
       (rr_TokenHash r) (rr_ExpiresAt r))"
  by (simp add: writes_as_def)

lemma RevokeRefreshToken_writes:
  "writes_as (OpRevokeRefreshToken tok reason) (\<lambda>_. True) (\<lambda>ts. RevokeRefreshToken ts tok reason)"
  by (simp add: writes_as_def)

lemma RevokeRefreshTokenFamily_writes:
  "writes_as (OpRevokeFamily fam reason) (\<lambda>_. True)
     (\<lambda>ts. RevokeRefreshTokenFamily ts fam (Some reason))"
  by (simp add: writes_as_def)

lemma ReactivateAccount_writes:
  "writes_as (OpReactivateAccount uid) (\<lambda>n. n \<noteq> 0)
     (\<lambda>ts. TransitionUserStatus ts uid StatusInactive StatusDisabled)"
  by (auto simp: writes_as_def need_row_Inr TransitionUserStatus_def Let_def count_where_zero upd_where_none)

end
