(* ===== verification/TokenRepo.thy ===== *)
theory TokenRepo
  imports UserRepo
begin

text \<open>
  The repository of one-time tokens: \<open>adapters/db/email_confirmation_tokens_repo.go\<close>,
  \<open>password_reset_tokens_repo.go\<close> and \<open>invitation_tokens_repo.go\<close>, with the same lemmas as theory
  UserRepo, and what a token that was read stays true of afterwards.
\<close>

section \<open>E-mail confirmation tokens\<close>

definition repo_GetEmailConfirmationTokenByHash :: "string \<Rightarrow> EmailConfirmationTokenRecord result" where
  "repo_GetEmailConfirmationTokenByHash h =
     find_row (GetEmailConfirmationTokenByHash h) (fail (Sentinel ErrTokenNotFound)) (\<lambda>row.
     succeed \<lparr>ec_TokenUUID = et_TokenUuid row, ec_UserUUID = et_UserUuid row,
       ec_TokenHash = et_TokenHash row, ec_ExpiresAt = et_ExpiresAt row, ec_UsedAt = et_UsedAt row\<rparr>)"

definition ReissueEmailConfirmationToken :: "uuid \<Rightarrow> one_time_token \<Rightarrow> unit result \<Rightarrow> unit result" where
  "ReissueEmailConfirmationToken userUUID token afterInsert = UpdateInTx (
     attempt (tx_exec (\<lambda>ts. InvalidateActiveEmailConfirmationTokensByUser ts userUUID)) fail (\<lambda>_.
     attempt (tx_exec (\<lambda>ts. InsertEmailConfirmationToken ts (TokenUUID token) userUUID
       (Hash token) (ExpiresAt token))) fail (\<lambda>_.
     afterInsert)))"

definition ConsumeEmailConfirmationToken :: "uuid \<Rightarrow> uuid \<Rightarrow> unit result" where
  "ConsumeEmailConfirmationToken tokenUUID userUUID = UpdateInTx (
     attempt (tx_exec (\<lambda>ts. MarkEmailConfirmationTokenUsed ts tokenUUID)) fail (\<lambda>rows.
     if rows = 0 then fail (Sentinel ErrTokenConsumeConflict)
     else attempt (tx_exec (\<lambda>ts. TransitionUserStatus ts userUUID StatusInactive StatusMailUnverified))
       fail (\<lambda>rows.
     if rows = 0 then fail (Sentinel ErrTokenConsumeConflict) else succeed ())))"

section \<open>Password reset tokens\<close>

definition repo_GetPasswordResetTokenByHash :: "string \<Rightarrow> PasswordResetTokenRecord result" where
  "repo_GetPasswordResetTokenByHash h =
     find_row (GetPasswordResetTokenByHash h) (fail (Sentinel ErrResetTokenNotFound)) (\<lambda>row.
     succeed \<lparr>pr_TokenUUID = pt_TokenUuid row, pr_UserUUID = pt_UserUuid row,
       pr_TokenHash = pt_TokenHash row, pr_ExpiresAt = pt_ExpiresAt row, pr_UsedAt = pt_UsedAt row\<rparr>)"

definition IssuePasswordResetToken :: "uuid \<Rightarrow> one_time_token \<Rightarrow> unit result \<Rightarrow> unit result" where
  "IssuePasswordResetToken userUUID token afterInsert = UpdateInTx (
     attempt (tx_exec (\<lambda>ts. InvalidateActivePasswordResetTokensByUser ts userUUID)) fail (\<lambda>_.
     attempt (tx_exec (\<lambda>ts. InsertPasswordResetToken ts (TokenUUID token) userUUID
       (Hash token) (ExpiresAt token))) fail (\<lambda>_.
     afterInsert)))"

definition ConfirmPasswordReset :: "uuid \<Rightarrow> uuid \<Rightarrow> string \<Rightarrow> unit result" where
  "ConfirmPasswordReset userUUID tokenUUID newPasswordHash = UpdateInTx (
     attempt (tx_exec (\<lambda>ts. MarkPasswordResetTokenUsed ts tokenUUID)) fail (\<lambda>rows.
     if rows = 0 then fail (Sentinel ErrResetTokenConsumeConflict)
     else attempt (tx_exec (\<lambda>ts. InvalidateActivePasswordResetTokensByUser ts userUUID)) fail (\<lambda>_.
     attempt (tx_exec (\<lambda>ts. UpdateUserPassword ts userUUID newPasswordHash)) fail (\<lambda>affected.
     if affected = 0 then fail (NewError ''user not found for password reset'')
     else tx_exec (\<lambda>ts. RevokeRefreshTokensByUser ts userUUID
       (Some RevocationReasonPasswordChanged))))))"

section \<open>Invitation tokens\<close>

definition FindUserRolesByEmail :: "string \<Rightarrow> string list option result" where
  "FindUserRolesByEmail email =
     find_row (GetUserByEmail email) (succeed None) (\<lambda>row.
     attempt (db_read (GetUserRoles (u_UserUuid row))) fail (\<lambda>roles. succeed (Some roles)))"

definition repo_GetInvitationTokenByHash :: "string \<Rightarrow> InvitationTokenRecord result" where
  "repo_GetInvitationTokenByHash h =
     find_row (GetInvitationTokenByHash h) (fail (Sentinel ErrInvitationTokenNotFound)) (\<lambda>row.
     succeed \<lparr>in_TokenUUID = it_TokenUuid row, in_Email = it_Email row, in_Role = it_Role row,
       in_TokenHash = it_TokenHash row, in_ExpiresAt = it_ExpiresAt row, in_UsedAt = it_UsedAt row\<rparr>)"

definition IssueInvitationToken ::
  "string \<Rightarrow> string \<Rightarrow> one_time_token \<Rightarrow> unit result \<Rightarrow> unit result" where
  "IssueInvitationToken email role token afterInsert = UpdateInTx (
     attempt (tx_exec (\<lambda>ts. InvalidateActiveInvitationTokensByEmail ts email)) fail (\<lambda>_.
     attempt (tx_exec (\<lambda>ts. InsertInvitationToken ts (TokenUUID token) email role
       (Hash token) (ExpiresAt token))) fail (\<lambda>_.
     afterInsert)))"

definition AcceptInvitation :: "ext \<Rightarrow> uuid \<Rightarrow> string \<Rightarrow> string \<Rightarrow> string \<Rightarrow> uuid result" where
  "AcceptInvitation X tokenUUID email role passwordHash = do {
     userUUID \<leftarrow> new_uuid X;
     attempt (UpdateInTx (
       attempt (tx_exec (\<lambda>ts. MarkInvitationTokenUsed ts tokenUUID)) fail (\<lambda>rows.
       if rows = 0 then fail (Sentinel ErrInvitationTokenConsumeConflict)
       else attempt (tx_exec (\<lambda>ts. InvalidateActiveInvitationTokensByEmail ts email)) fail (\<lambda>_.
       attempt (tx_exec (\<lambda>ts. InsertUser ts userUUID email passwordHash StatusInactive))
         (\<lambda>err. fail (if IsUniqueViolationError (Some err) ''users_email_unique''
            then Sentinel ErrEmailAlreadyRegistered else err)) (\<lambda>_.
       tx_exec (\<lambda>ts. InsertUserRole ts userUUID role))))))
     fail (\<lambda>_. succeed userUUID) }"

section \<open>The functions of the transactions are the operations\<close>

lemma infra_not_unique [simp]: "IsUniqueViolationError (Some (infra_err i)) con = False"
  by (cases i) (simp_all add: IsUniqueViolationError_def UniqueViolation_def)

lemma infra_not_norows [simp]: "err_is_norows (infra_err i) = False"
  by (cases i) simp_all

lemma infra_not_sentinel [simp]: "err_is (infra_err i) s = False"
  by (cases i) simp_all

lemma ReissueEmailConfirmationToken_runs:
  assumes "tx_runs ml B afterInsert (\<lambda>_. wdone)"
  shows "tx_runs ml B (
     attempt (tx_exec (\<lambda>ts. InvalidateActiveEmailConfirmationTokensByUser ts userUUID)) fail (\<lambda>_.
     attempt (tx_exec (\<lambda>ts. InsertEmailConfirmationToken ts (TokenUUID token) userUUID
       (Hash token) (ExpiresAt token))) fail (\<lambda>_.
     afterInsert))) (\<lambda>ts. tx_op ts (OpReissueEmailToken userUUID token))"
  by (rule tx_runs_cong, (rule tx_runs_rules assms)+) simp

lemma ConsumeEmailConfirmationToken_runs:
  "tx_runs [] B (
     attempt (tx_exec (\<lambda>ts. MarkEmailConfirmationTokenUsed ts tokenUUID)) fail (\<lambda>rows.
     if rows = 0 then fail (Sentinel ErrTokenConsumeConflict)
     else attempt (tx_exec (\<lambda>ts. TransitionUserStatus ts userUUID StatusInactive StatusMailUnverified))
       fail (\<lambda>rows.
     if rows = 0 then fail (Sentinel ErrTokenConsumeConflict) else succeed ())))
   (\<lambda>ts. tx_op ts (OpConsumeEmailToken tokenUUID userUUID))"
  by (rule tx_runs_cong, (rule tx_runs_rules)+)
    (simp add: wbind_flat cong: if_cong)

lemma IssuePasswordResetToken_runs:
  assumes "tx_runs ml B afterInsert (\<lambda>_. wdone)"
  shows "tx_runs ml B (
     attempt (tx_exec (\<lambda>ts. InvalidateActivePasswordResetTokensByUser ts userUUID)) fail (\<lambda>_.
     attempt (tx_exec (\<lambda>ts. InsertPasswordResetToken ts (TokenUUID token) userUUID
       (Hash token) (ExpiresAt token))) fail (\<lambda>_.
     afterInsert))) (\<lambda>ts. tx_op ts (OpIssueResetToken userUUID token))"
  by (rule tx_runs_cong, (rule tx_runs_rules assms)+) simp

lemma ConfirmPasswordReset_runs:
  "tx_runs [] B (
     attempt (tx_exec (\<lambda>ts. MarkPasswordResetTokenUsed ts tokenUUID)) fail (\<lambda>rows.
     if rows = 0 then fail (Sentinel ErrResetTokenConsumeConflict)
     else attempt (tx_exec (\<lambda>ts. InvalidateActivePasswordResetTokensByUser ts userUUID)) fail (\<lambda>_.
     attempt (tx_exec (\<lambda>ts. UpdateUserPassword ts userUUID newPasswordHash)) fail (\<lambda>affected.
     if affected = 0 then fail (NewError ''user not found for password reset'')
     else tx_exec (\<lambda>ts. RevokeRefreshTokensByUser ts userUUID
       (Some RevocationReasonPasswordChanged))))))
   (\<lambda>ts. tx_op ts (OpConfirmReset userUUID tokenUUID newPasswordHash))"
  by (rule tx_runs_cong, (rule tx_runs_rules)+) (simp add: wbind_need_row if_distribR)

lemma IssueInvitationToken_runs:
  assumes "tx_runs ml B afterInsert (\<lambda>_. wdone)"
  shows "tx_runs ml B (
     attempt (tx_exec (\<lambda>ts. InvalidateActiveInvitationTokensByEmail ts email)) fail (\<lambda>_.
     attempt (tx_exec (\<lambda>ts. InsertInvitationToken ts (TokenUUID token) email role
       (Hash token) (ExpiresAt token))) fail (\<lambda>_.
     afterInsert))) (\<lambda>ts. tx_op ts (OpIssueInvitation email role token))"
  by (rule tx_runs_cong, (rule tx_runs_rules assms)+) simp

lemma AcceptInvitation_runs:
  "tx_runs [] {} (
     attempt (tx_exec (\<lambda>ts. MarkInvitationTokenUsed ts tokenUUID)) fail (\<lambda>rows.
     if rows = 0 then fail (Sentinel ErrInvitationTokenConsumeConflict)
     else attempt (tx_exec (\<lambda>ts. InvalidateActiveInvitationTokensByEmail ts email)) fail (\<lambda>_.
     attempt (tx_exec (\<lambda>ts. InsertUser ts userUUID email h StatusInactive))
       (\<lambda>err. fail (email_conflict err)) (\<lambda>_.
     tx_exec (\<lambda>ts. InsertUserRole ts userUUID role)))))
   (\<lambda>ts. tx_op ts (OpAcceptInvitation userUUID tokenUUID email role h))"
  by (rule tx_runs_cong, (rule tx_runs_bind tx_runs_map_error tx_runs_exec tx_runs_if tx_runs_fail)+)
    (simp_all add: wbind_need_row if_distribR email_conflict_def)

section \<open>What was read of a token stays true\<close>

text \<open>Tokens keep their owner, address and role, and their identifiers stay unique, so the
  operations that consume a token that was read are admissible whenever they run.\<close>

lemma consume_email_admissible:
  assumes "schema_ok d" "GetEmailConfirmationTokenByHash h d = Inr row" "evolves d d'"
  shows "admissible (OpConsumeEmailToken (et_TokenUuid row) (et_UserUuid row)) d'"
proof -
  have "row \<in> set (email_tokens d)"
    using assms(2) by (auto simp: query_defs dest: find_SomeD split: option.splits)
  moreover have "grows email_token_le (email_tokens d) (email_tokens d')"
    using evolves_keeps [OF assms(3)] by (simp add: keeps_def)
  ultimately obtain row' where "row' \<in> set (email_tokens d')" "email_token_le row row'"
    by (metis grows_memberD)
  moreover have "distinct (map et_TokenUuid (email_tokens d'))"
    using evolves_schema [OF assms(3,1)] by (simp add: schema_ok_def email_tokens_ok_def)
  ultimately show ?thesis by (auto simp: email_token_le_def dest: distinct_map_eq)
qed

lemma confirm_reset_admissible:
  assumes "schema_ok d" "GetPasswordResetTokenByHash h d = Inr row" "evolves d d'"
  shows "admissible (OpConfirmReset (pt_UserUuid row) (pt_TokenUuid row) pw) d'"
proof -
  have "row \<in> set (reset_tokens d)"
    using assms(2) by (auto simp: query_defs dest: find_SomeD split: option.splits)
  moreover have "grows reset_token_le (reset_tokens d) (reset_tokens d')"
    using evolves_keeps [OF assms(3)] by (simp add: keeps_def)
  ultimately obtain row' where "row' \<in> set (reset_tokens d')" "reset_token_le row row'"
    by (metis grows_memberD)
  moreover have "distinct (map pt_TokenUuid (reset_tokens d'))"
    using evolves_schema [OF assms(3,1)] by (simp add: schema_ok_def reset_tokens_ok_def)
  ultimately show ?thesis by (auto simp: reset_token_le_def dest: distinct_map_eq)
qed

lemma accept_invitation_admissible:
  assumes "schema_ok d" "GetInvitationTokenByHash h d = Inr row" "evolves d d'"
  shows "admissible (OpAcceptInvitation uid (it_TokenUuid row) (it_Email row) (it_Role row) pw) d'"
proof -
  have "row \<in> set (invitation_tokens d)"
    using assms(2) by (auto simp: query_defs dest: find_SomeD split: option.splits)
  moreover have "grows invitation_token_le (invitation_tokens d) (invitation_tokens d')"
    using evolves_keeps [OF assms(3)] by (simp add: keeps_def)
  ultimately obtain row' where "row' \<in> set (invitation_tokens d')" "invitation_token_le row row'"
    by (metis grows_memberD)
  moreover have "distinct (map it_TokenUuid (invitation_tokens d'))"
    using evolves_schema [OF assms(3,1)] by (simp add: schema_ok_def invitation_tokens_ok_def)
  ultimately show ?thesis by (auto simp: invitation_token_le_def dest: distinct_map_eq)
qed

lemma rotate_admissible:
  assumes "GetRefreshTokenByHash h d = Inr row" "evolves d d'"
    and "rr_ParentTokenID r = Some (rt_TokenID row)" "rr_FamilyID r = rt_FamilyID row"
      "rr_UserUUID r = rt_UserUuid row"
  shows "admissible (OpRotateRefreshToken (rt_TokenID row) r) d'"
proof -
  have "row \<in> set (refresh_tokens d)"
    using assms(1) by (auto simp: query_defs dest: find_SomeD split: option.splits)
  moreover have "grows refresh_token_le (refresh_tokens d) (refresh_tokens d')"
    using evolves_keeps [OF assms(2)] by (simp add: keeps_def)
  ultimately obtain row' where "row' \<in> set (refresh_tokens d')" "refresh_token_le row row'"
    by (metis grows_memberD)
  then show ?thesis using assms(3-5) by (auto simp: refresh_token_le_def)
qed

end
