(* ===== verification/RateLimit.thy ===== *)
theory RateLimit
  imports World
begin

text \<open>
  The rate limiters of \<open>backend/common/ratelimit\<close> and their configuration in
  \<open>auth/adapters/ratelimit\<close>: one request per window, \<open>N\<close> requests per window, the lockout after
  repeated login failures, and what happens when Redis cannot be asked. The scripts themselves are
  in theory Redis. Key anonymisation is a function of the external HMAC.
\<close>

section \<open>Results and keys\<close>

record rl_result =
  Allowed :: bool
  RetryAfter :: duration
  Remaining :: int
  ResetAt :: time

definition NewResult :: "bool \<Rightarrow> duration \<Rightarrow> int \<Rightarrow> time \<Rightarrow> rl_result" where
  "NewResult allowed retryAfter remaining resetAt =
     \<lparr>Allowed = allowed, RetryAfter = retryAfter,
      Remaining = (if remaining < 0 then 0 else remaining), ResetAt = resetAt\<rparr>"

datatype hasher = PassthroughHasher | HMACSHA256Hasher string

fun hash_key :: "ext \<Rightarrow> hasher \<Rightarrow> string \<Rightarrow> string" where
  "hash_key X PassthroughHasher key = key"
| "hash_key X (HMACSHA256Hasher secret) key = hex_encode (hmac_sha256 X secret key)"

text \<open>\<open>d.Milliseconds()\<close> of a duration that is not negative.\<close>

definition Milliseconds :: "duration \<Rightarrow> int" where "Milliseconds d = d div Millisecond"

text \<open>\<open>%v\<close> of a reply.\<close>

fun reply_text :: "int list \<Rightarrow> string" where
  "reply_text [] = ''''"
| "reply_text [i] = int_text i"
| "reply_text (i # is) = int_text i @ '' '' @ reply_text is"

definition unexpected_result :: "int list \<Rightarrow> goerr" where
  "unexpected_result raw = NewError (''unexpected rate limit script result: ['' @ reply_text raw @ '']'')"

section \<open>One request per window\<close>

record FixedWindowLimiter =
  fw_prefix :: string
  fw_window :: duration
  fw_hasher :: hasher

definition FixedWindow_Allow :: "ext \<Rightarrow> FixedWindowLimiter \<Rightarrow> string \<Rightarrow> rl_result result" where
  "FixedWindow_Allow X l key = (
     let redisKey = fw_prefix l @ hash_key X (fw_hasher l) key in
     attempt (redis_do (FixedWindowScript redisKey (Milliseconds (fw_window l))))
       (\<lambda>e. fail (Wrap ''could not evaluate rate limit script'' e)) (\<lambda>vals.
     if length vals \<noteq> 2 then fail (unexpected_result vals)
     else do {
       let created = vals ! 0;
       let pttlMs = vals ! 1;
       (if pttlMs < 0
        then log '''' Warn MsgBadTTL [(''ctx'', LStr ''ratelimit''), (''key'', LStr redisKey),
               (''pttl_ms'', LInt pttlMs)]
        else ret ());
       let pttlMs = (if pttlMs < 0 then 0 else pttlMs);
       let remainingTTL = pttlMs * Millisecond;
       t \<leftarrow> now;
       let resetAt = t + remainingTTL;
       if created = 1 then succeed (NewResult True 0 0 resetAt)
       else succeed (NewResult False remainingTTL 0 resetAt) }))"

section \<open>\<open>N\<close> requests per window\<close>

record CountingWindowLimiter =
  cw_prefix :: string
  cw_window :: duration
  cw_limit :: int
  cw_hasher :: hasher

definition CountingWindow_Allow :: "ext \<Rightarrow> CountingWindowLimiter \<Rightarrow> string \<Rightarrow> rl_result result" where
  "CountingWindow_Allow X l key = (
     let redisKey = cw_prefix l @ hash_key X (cw_hasher l) key in
     attempt (redis_do (CountingWindowScript redisKey (Milliseconds (cw_window l)) (cw_limit l)))
       (\<lambda>e. fail (Wrap ''could not evaluate rate limit script'' e)) (\<lambda>vals.
     if length vals \<noteq> 2 then fail (unexpected_result vals)
     else do {
       let count = vals ! 0;
       let pttlMs = vals ! 1;
       let remainingTTL = pttlMs * Millisecond;
       t \<leftarrow> now;
       let resetAt = t + remainingTTL;
       let remaining = cw_limit l - count;
       if cw_limit l < count then succeed (NewResult False remainingTTL 0 resetAt)
       else succeed (NewResult True 0 remaining resetAt) }))"

section \<open>When the limit cannot be determined\<close>

datatype FailMode = FailClosed | FailOpen

definition FailMode_Allow :: "(string \<Rightarrow> rl_result result) \<Rightarrow> FailMode \<Rightarrow> string \<Rightarrow> rl_result result" where
  "FailMode_Allow inner mode key =
     attempt (inner key)
       (\<lambda>err.
          if mode = FailOpen then do {
            log '''' Error MsgFailOpen [(''error'', LErr err)];
            t \<leftarrow> now;
            succeed (NewResult True 0 0 t) }
          else do {
            log '''' Error MsgFailClosed [(''error'', LErr err)];
            t \<leftarrow> now;
            succeed (NewResult False 0 0 t) })
       succeed"

section \<open>Lockout after repeated failures\<close>

record LockoutLimiter =
  lo_prefix :: string
  lo_window :: duration
  lo_lockTTL :: duration
  lo_threshold :: int
  lo_hasher :: hasher

record LockoutStatus =
  Locked :: bool
  ls_RetryAfter :: duration

definition countKey :: "ext \<Rightarrow> LockoutLimiter \<Rightarrow> string \<Rightarrow> string" where
  "countKey X l key = lo_prefix l @ ''count:'' @ hash_key X (lo_hasher l) key"

definition lockKey :: "ext \<Rightarrow> LockoutLimiter \<Rightarrow> string \<Rightarrow> string" where
  "lockKey X l key = lo_prefix l @ ''lock:'' @ hash_key X (lo_hasher l) key"

text \<open>go-redis reports \<open>PTTL\<close> as a duration, and the replies -1 and -2 as they are.\<close>

definition pttl_duration :: "int list \<Rightarrow> duration" where
  "pttl_duration vals = (case vals of
     [n] \<Rightarrow> if n = -1 \<or> n = -2 then n else n * Millisecond | _ \<Rightarrow> -2)"

definition Lockout_Check :: "ext \<Rightarrow> LockoutLimiter \<Rightarrow> string \<Rightarrow> LockoutStatus result" where
  "Lockout_Check X l key =
     attempt (redis_do (PTTL (lockKey X l key)))
       (\<lambda>e. fail (Wrap ''could not check lockout state'' e)) (\<lambda>vals.
     let pttl = pttl_duration vals in
     if pttl \<le> 0 then
       if pttl = -1 then
         attempt (redis_do (PEXPIRE (lockKey X l key) (Milliseconds (lo_lockTTL l))))
           (\<lambda>e. fail (Wrap ''could not heal lockout ttl'' e))
           (\<lambda>_. succeed \<lparr>Locked = True, ls_RetryAfter = lo_lockTTL l\<rparr>)
       else succeed \<lparr>Locked = False, ls_RetryAfter = 0\<rparr>
     else succeed \<lparr>Locked = True, ls_RetryAfter = pttl\<rparr>)"

definition Lockout_RecordFailure :: "ext \<Rightarrow> LockoutLimiter \<Rightarrow> string \<Rightarrow> bool result" where
  "Lockout_RecordFailure X l key =
     attempt (redis_do (LockoutFailureScript (countKey X l key) (lockKey X l key)
         (Milliseconds (lo_window l)) (lo_threshold l) (Milliseconds (lo_lockTTL l))))
       (\<lambda>e. fail (Wrap ''could not record login failure'' e)) (\<lambda>vals.
     case vals of
       [locked] \<Rightarrow> succeed (locked = 1)
     | _ \<Rightarrow> fail (NewError (''unexpected lockout script result: ['' @ reply_text vals @ '']'')))"

definition Lockout_Reset :: "ext \<Rightarrow> LockoutLimiter \<Rightarrow> string \<Rightarrow> unit result" where
  "Lockout_Reset X l key =
     attempt (redis_do (DEL (countKey X l key)))
       (\<lambda>e. fail (Wrap ''could not reset login failure count'' e)) (\<lambda>_. succeed ())"

section \<open>The limiters of the service\<close>

definition RegistrationLimiter :: "ext \<Rightarrow> string \<Rightarrow> rl_result result" where
  "RegistrationLimiter X = FailMode_Allow (FixedWindow_Allow X
     \<lparr>fw_prefix = ''registration:ratelimit:'', fw_window = RegistrationRateLimitWindow,
      fw_hasher = PassthroughHasher\<rparr>) FailOpen"

definition ResendEmailLimiter :: "ext \<Rightarrow> string \<Rightarrow> rl_result result" where
  "ResendEmailLimiter X = FailMode_Allow (FixedWindow_Allow X
     \<lparr>fw_prefix = ''resend:ratelimit:'', fw_window = ResendEmailRateLimitWindow,
      fw_hasher = PassthroughHasher\<rparr>) FailOpen"

definition PasswordResetLimiter :: "ext \<Rightarrow> string \<Rightarrow> rl_result result" where
  "PasswordResetLimiter X = FailMode_Allow (FixedWindow_Allow X
     \<lparr>fw_prefix = ''password_reset:'', fw_window = PasswordResetRateLimitWindow,
      fw_hasher = PassthroughHasher\<rparr>) FailOpen"

definition InvitationLimiter :: "ext \<Rightarrow> string \<Rightarrow> rl_result result" where
  "InvitationLimiter X = FailMode_Allow (FixedWindow_Allow X
     \<lparr>fw_prefix = ''invitation:'', fw_window = InvitationRateLimitWindow,
      fw_hasher = PassthroughHasher\<rparr>) FailOpen"

definition EmailVerifyLimiter :: "ext \<Rightarrow> string \<Rightarrow> string \<Rightarrow> rl_result result" where
  "EmailVerifyLimiter X hmacSecret = FailMode_Allow (CountingWindow_Allow X
     \<lparr>cw_prefix = ''emailverify:ratelimit:'', cw_window = EmailVerifyRateLimitWindow,
      cw_limit = EmailVerifyRateLimitMax, cw_hasher = HMACSHA256Hasher hmacSecret\<rparr>) FailOpen"

definition LoginLockout :: LockoutLimiter where
  "LoginLockout = \<lparr>lo_prefix = ''login:lockout:'', lo_window = LoginFailureCountWindow,
     lo_lockTTL = LoginLockoutTTL, lo_threshold = LoginLockoutThreshold, lo_hasher = PassthroughHasher\<rparr>"

definition loginLockout_Check :: "ext \<Rightarrow> string \<Rightarrow> (bool \<times> duration) result" where
  "loginLockout_Check X key =
     attempt (Lockout_Check X LoginLockout key) fail (\<lambda>st. succeed (Locked st, ls_RetryAfter st))"

definition loginLockout_RecordFailure :: "ext \<Rightarrow> string \<Rightarrow> bool result" where
  "loginLockout_RecordFailure X key = Lockout_RecordFailure X LoginLockout key"

definition loginLockout_Reset :: "ext \<Rightarrow> string \<Rightarrow> unit result" where
  "loginLockout_Reset X key = Lockout_Reset X LoginLockout key"

definition DevDefaultHMACSecret :: string where "DevDefaultHMACSecret = ''local-dev-secret''"

definition ResolveHMACSecret :: "string \<Rightarrow> string \<times> bool" where
  "ResolveHMACSecret env =
     (if env = [] then (DevDefaultHMACSecret, True) else (env, env = DevDefaultHMACSecret))"

end
