(* ===== verification/RateLimitFacts.thy ===== *)
theory RateLimitFacts
  imports RateLimit
begin

text \<open>
  What the limiters guarantee over time. A history is a list of commands with the millisecond at
  which the server executes each, from all clients; the lemmas say how the keys of a limiter
  evolve along it, and the locale \<open>rate_limiter\<close> is the contract the use cases rely on.
\<close>

section \<open>Histories\<close>

fun run_cmds :: "(int \<times> redis_cmd) list \<Rightarrow> redis \<Rightarrow> (goerr + int list) list \<times> redis" where
  "run_cmds [] r = ([], r)"
| "run_cmds ((t, c) # h) r =
     (let (reply, r') = redis_exec t c r; (replies, r'') = run_cmds h r' in (reply # replies, r''))"

lemma run_cmds_append:
  "run_cmds (h @ h') r = (let (a, r') = run_cmds h r; (b, r'') = run_cmds h' r' in (a @ b, r''))"
  by (induction h r rule: run_cmds.induct) (auto simp: Let_def split: prod.splits)

text \<open>All commands of the history run between \<open>a\<close> and \<open>b\<close>, and those that write \<open>k\<close> are \<open>c\<close>.\<close>

definition only_writer :: "string \<Rightarrow> redis_cmd \<Rightarrow> int \<Rightarrow> int \<Rightarrow> (int \<times> redis_cmd) list \<Rightarrow> bool" where
  "only_writer k c a b h \<longleftrightarrow> (\<forall>(t, c') \<in> set h. a \<le> t \<and> t \<le> b \<and> (k \<in> written_keys c' \<longrightarrow> c' = c))"

lemma only_writer_Cons:
  "only_writer k c a b ((t, c') # h) \<longleftrightarrow>
     a \<le> t \<and> t \<le> b \<and> (k \<in> written_keys c' \<longrightarrow> c' = c) \<and> only_writer k c a b h"
  by (auto simp: only_writer_def)

section \<open>One request per window\<close>

lemma fixed_window_taken:
  "r k = Some \<lparr>re_val = v, re_exp = Some x\<rparr> \<Longrightarrow> t \<le> x \<Longrightarrow> 0 < window \<Longrightarrow>
   fixedWindowScript t k window r = (Inr [0, x - t], r)"
  by (simp add: fixedWindowScript_def r_get_def r_pttl_def)

lemma fixed_window_kept:
  assumes "r k = Some \<lparr>re_val = v, re_exp = Some x\<rparr>" "0 < window"
    and "only_writer k (FixedWindowScript k window) a x h"
  shows "snd (run_cmds h r) k = r k"
  using assms(1,3)
proof (induction h arbitrary: r)
  case Nil
  then show ?case by simp
next
  case (Cons tc h)
  obtain t c where tc: "tc = (t, c)" by (cases tc)
  have "snd (redis_exec t c r) k = r k"
  proof (cases "k \<in> written_keys c")
    case True
    then show ?thesis using Cons.prems assms(2)
      by (simp add: tc only_writer_Cons fixed_window_taken)
  next
    case False
    then show ?thesis by (rule redis_exec_frame)
  qed
  then show ?case using Cons.IH [of "snd (redis_exec t c r)"] Cons.prems
    by (simp add: tc only_writer_Cons Let_def split_beta)
qed

lemma fixed_window_one:
  assumes "0 < window" "fixedWindowScript t1 k window r = (Inr [1, p], r1)"
    and "only_writer k (FixedWindowScript k window) t1 (t1 + window) h" "t1 \<le> t2" "t2 \<le> t1 + window"
  shows "fixedWindowScript t2 k window (snd (run_cmds h r1)) =
    (Inr [0, t1 + window - t2], snd (run_cmds h r1))"
proof -
  have "r1 k = Some \<lparr>re_val = 1, re_exp = Some (t1 + window)\<rparr>"
    using assms(1,2) by (auto simp: fixedWindowScript_def r_set_px_def Let_def split: option.splits)
  then show ?thesis using fixed_window_kept [OF _ assms(1,3)] assms(1,5)
    by (intro fixed_window_taken) simp_all
qed

section \<open>\<open>N\<close> requests per window\<close>

definition count_calls :: "string \<Rightarrow> (int \<times> redis_cmd) list \<Rightarrow> nat" where
  "count_calls k h = length (filter (\<lambda>(t, c). k \<in> written_keys c) h)"

lemma counting_step:
  assumes "r k = Some \<lparr>re_val = min n lim, re_exp = Some x\<rparr>" "t \<le> x" "0 < n" "0 < lim"
  shows "countingWindowScript t k window lim r =
    (Inr [min n lim + 1, x - t], r(k \<mapsto> \<lparr>re_val = min (n + 1) lim, re_exp = Some x\<rparr>))"
  using assms by (auto simp: countingWindowScript_def r_defs Let_def min_def fun_upd_idem)

lemma counting_first:
  assumes "r_get t k r = None" "0 < window" "0 < lim"
  shows "countingWindowScript t k window lim r =
    (Inr [1, window], r(k \<mapsto> \<lparr>re_val = 1, re_exp = Some (t + window)\<rparr>))"
  using assms by (simp add: countingWindowScript_def r_defs Let_def)

text \<open>After \<open>n\<close> calls within the window the counter is \<open>min n lim\<close>, and its expiry is unchanged.\<close>

lemma counting_window_kept:
  assumes "r k = Some \<lparr>re_val = min n lim, re_exp = Some x\<rparr>" "0 < n" "0 < lim"
    and "only_writer k (CountingWindowScript k window lim) a x h"
  shows "snd (run_cmds h r) k = Some \<lparr>re_val = min (n + int (count_calls k h)) lim, re_exp = Some x\<rparr>"
  using assms(1,2,4)
proof (induction h arbitrary: r n)
  case Nil
  then show ?case by (simp add: count_calls_def)
next
  case (Cons tc h)
  obtain t c where tc: "tc = (t, c)" by (cases tc)
  show ?case
  proof (cases "k \<in> written_keys c")
    case True
    then have "snd (redis_exec t c r) k = Some \<lparr>re_val = min (n + 1) lim, re_exp = Some x\<rparr>"
      using Cons.prems assms(3) by (simp add: tc only_writer_Cons counting_step)
    then show ?thesis using Cons.IH [of "snd (redis_exec t c r)" "n + 1"] Cons.prems True
      by (simp add: tc only_writer_Cons Let_def split_beta count_calls_def algebra_simps)
  next
    case False
    then show ?thesis using Cons.IH [of "snd (redis_exec t c r)" n] Cons.prems redis_exec_frame [OF False]
      by (simp add: tc only_writer_Cons Let_def split_beta count_calls_def)
  qed
qed

section \<open>Lockout\<close>

lemma lockout_first:
  assumes "r_get t ck r = None" "0 < window" "1 < threshold"
  shows "lockoutFailureScript t ck lk window threshold lock_ttl r =
    (Inr [0], r(ck \<mapsto> \<lparr>re_val = 1, re_exp = Some (t + window)\<rparr>))"
  using assms by (simp add: lockoutFailureScript_def r_defs Let_def)

lemma lockout_step:
  assumes "r ck = Some \<lparr>re_val = n, re_exp = Some x\<rparr>" "t \<le> x" "0 < n" "0 < lock_ttl"
  shows "lockoutFailureScript t ck lk window threshold lock_ttl r =
    (if n + 1 = threshold
     then (Inr [1], r(ck \<mapsto> \<lparr>re_val = n + 1, re_exp = Some x\<rparr>,
                      lk \<mapsto> \<lparr>re_val = 1, re_exp = Some (t + lock_ttl)\<rparr>))
     else (Inr [0], r(ck \<mapsto> \<lparr>re_val = n + 1, re_exp = Some x\<rparr>)))"
  using assms by (simp add: lockoutFailureScript_def r_defs Let_def)

text \<open>Both keys are written by the failure script of this account only.\<close>

definition lockout_history ::
  "string \<Rightarrow> string \<Rightarrow> redis_cmd \<Rightarrow> int \<Rightarrow> int \<Rightarrow> (int \<times> redis_cmd) list \<Rightarrow> bool" where
  "lockout_history ck lk c a b h \<longleftrightarrow> only_writer ck c a b h \<and> only_writer lk c a b h"

lemma lockout_history_Cons:
  "lockout_history ck lk c a b ((t, c') # h) \<longleftrightarrow>
     a \<le> t \<and> t \<le> b \<and> (ck \<in> written_keys c' \<or> lk \<in> written_keys c' \<longrightarrow> c' = c) \<and>
     lockout_history ck lk c a b h"
  by (auto simp: lockout_history_def only_writer_Cons)

text \<open>Before the threshold the count goes up and the lock is not touched.\<close>

lemma lockout_counts:
  assumes "r ck = Some \<lparr>re_val = n, re_exp = Some x\<rparr>" "0 < n" "0 < lock_ttl" "ck \<noteq> lk"
    and "lockout_history ck lk (LockoutFailureScript ck lk window threshold lock_ttl) a x h"
    and "n + int (count_calls ck h) < threshold"
  shows "snd (run_cmds h r) ck = Some \<lparr>re_val = n + int (count_calls ck h), re_exp = Some x\<rparr> \<and>
    snd (run_cmds h r) lk = r lk"
  using assms(1,2,5,6)
proof (induction h arbitrary: r n)
  case Nil
  then show ?case by (simp add: count_calls_def)
next
  case (Cons tc h)
  obtain t c where tc: "tc = (t, c)" by (cases tc)
  let ?r = "snd (redis_exec t c r)"
  show ?case
  proof (cases "ck \<in> written_keys c")
    case True
    then have "c = LockoutFailureScript ck lk window threshold lock_ttl" "t \<le> x"
      using Cons.prems by (simp_all add: tc lockout_history_Cons)
    moreover have "n + 1 < threshold" using Cons.prems(4) True by (simp add: tc count_calls_def)
    ultimately have "?r ck = Some \<lparr>re_val = n + 1, re_exp = Some x\<rparr>" "?r lk = r lk"
      using Cons.prems(1,2) assms(3,4) by (simp_all add: lockout_step)
    then show ?thesis using Cons.IH [of ?r "n + 1"] Cons.prems True
      by (simp add: tc lockout_history_Cons Let_def split_beta count_calls_def algebra_simps)
  next
    case False
    then have "lk \<notin> written_keys c" using Cons.prems(3) by (auto simp: tc lockout_history_Cons)
    then have "?r ck = r ck" "?r lk = r lk" using False redis_exec_frame by blast+
    then show ?thesis using Cons.IH [of ?r n] Cons.prems False
      by (simp add: tc lockout_history_Cons Let_def split_beta count_calls_def)
  qed
qed

text \<open>From the threshold on, further failures leave the lock as it is: it is not prolonged.\<close>

lemma lockout_not_prolonged:
  assumes "r ck = Some \<lparr>re_val = n, re_exp = Some x\<rparr>" "threshold \<le> n" "0 < n" "0 < lock_ttl" "ck \<noteq> lk"
    and "lockout_history ck lk (LockoutFailureScript ck lk window threshold lock_ttl) a x h"
  shows "snd (run_cmds h r) lk = r lk"
  using assms(1-3,6)
proof (induction h arbitrary: r n)
  case Nil
  then show ?case by simp
next
  case (Cons tc h)
  obtain t c where tc: "tc = (t, c)" by (cases tc)
  let ?r = "snd (redis_exec t c r)"
  show ?case
  proof (cases "ck \<in> written_keys c")
    case True
    then have "?r ck = Some \<lparr>re_val = n + 1, re_exp = Some x\<rparr>" "?r lk = r lk"
      using Cons.prems assms(4,5) by (auto simp: tc lockout_history_Cons lockout_step)
    then show ?thesis using Cons.IH [of ?r "n + 1"] Cons.prems
      by (simp add: tc lockout_history_Cons Let_def split_beta)
  next
    case False
    then have "lk \<notin> written_keys c" using Cons.prems(4) by (auto simp: tc lockout_history_Cons)
    then have "?r ck = r ck" "?r lk = r lk" using False redis_exec_frame by blast+
    then show ?thesis using Cons.IH [of ?r n] Cons.prems
      by (simp add: tc lockout_history_Cons Let_def split_beta)
  qed
qed

section \<open>The contract of a limiter\<close>

text \<open>What asking a limiter leaves alone: everything but Redis and the log, which only grows.\<close>

definition limiter_frame :: "world \<Rightarrow> world \<Rightarrow> bool" where
  "limiter_frame w w' \<longleftrightarrow> w_tx w' = w_tx w \<and> w_draws w' = w_draws w \<and> w_mail w' = w_mail w \<and>
     (\<exists>ls. w_log w' = w_log w @ ls) \<and> w_now w \<le> w_now w' \<and> family_frame w w' \<and>
     (w_env w = [] \<longrightarrow> w_env w' = [] \<and> w_now w' = w_now w \<and> w_db w' = w_db w)"

text \<open>A limiter that may fail, and the fail mode it is wrapped with.\<close>

locale fallible_limiter =
  fixes inner :: "string \<Rightarrow> rl_result result" and mode :: FailMode
  assumes inner_wp:
    "wp (inner key) (\<lambda>r w'. limiter_frame w w' \<and> evolves (w_db w) (w_db w')) w"

text \<open>A limiter as the use cases see it: it always answers, and touches nothing else.\<close>

locale rate_limiter =
  fixes allow :: "string \<Rightarrow> rl_result result"
  assumes allow_contract:
    "wp (allow key) (\<lambda>r w'. limiter_frame w w' \<and> evolves (w_db w) (w_db w') \<and> (\<exists>res. r = Inr res)) w"
begin

lemma wp_allow:
  assumes "evolves d0 (w_db w)"
    and "\<And>res w'. limiter_frame w w' \<Longrightarrow> evolves d0 (w_db w') \<Longrightarrow> evolves (w_db w) (w_db w') \<Longrightarrow> Q (Inr res) w'"
  shows "wp (allow key) Q w"
  by (rule wp_mono [OF allow_contract]) (use assms evolves_trans in blast)

end

text \<open>Any limiter with a fail mode is one.\<close>

sublocale fallible_limiter \<subseteq> rate_limiter "FailMode_Allow inner mode"
proof
  fix key :: string and w :: world
  show "wp (FailMode_Allow inner mode key) (\<lambda>r w'. limiter_frame w w' \<and> evolves (w_db w) (w_db w') \<and>
      (\<exists>res. r = Inr res)) w"
    unfolding FailMode_Allow_def wp_attempt
    by (rule wp_mono [OF inner_wp [of key w]])
      (auto simp: limiter_frame_def split: sum.split)
qed

lemma FixedWindow_frame:
  "wp (FixedWindow_Allow X l key) (\<lambda>r w'. limiter_frame w w' \<and> evolves (w_db w) (w_db w')) w"
  unfolding FixedWindow_Allow_def Let_def wp_attempt
  by (rule wp_redis_do [where ?d0.0 = "w_db w"])
    (auto simp: evolves.stay limiter_frame_def env_frame_def split: sum.split)

lemma CountingWindow_frame:
  "wp (CountingWindow_Allow X l key) (\<lambda>r w'. limiter_frame w w' \<and> evolves (w_db w) (w_db w')) w"
  unfolding CountingWindow_Allow_def Let_def wp_attempt
  by (rule wp_redis_do [where ?d0.0 = "w_db w"])
    (auto simp: evolves.stay limiter_frame_def env_frame_def split: sum.split)

interpretation fixed_window: fallible_limiter "FixedWindow_Allow X l" mode for X l mode
  by unfold_locales (rule FixedWindow_frame)

interpretation counting_window: fallible_limiter "CountingWindow_Allow X l" mode for X l mode
  by unfold_locales (rule CountingWindow_frame)

interpretation registration_limiter: rate_limiter "RegistrationLimiter X" for X
  unfolding RegistrationLimiter_def by (rule fixed_window.rate_limiter_axioms)

interpretation resend_limiter: rate_limiter "ResendEmailLimiter X" for X
  unfolding ResendEmailLimiter_def by (rule fixed_window.rate_limiter_axioms)

interpretation reset_limiter: rate_limiter "PasswordResetLimiter X" for X
  unfolding PasswordResetLimiter_def by (rule fixed_window.rate_limiter_axioms)

interpretation invitation_limiter: rate_limiter "InvitationLimiter X" for X
  unfolding InvitationLimiter_def by (rule fixed_window.rate_limiter_axioms)

interpretation verify_limiter: rate_limiter "EmailVerifyLimiter X secret" for X secret
  unfolding EmailVerifyLimiter_def by (rule counting_window.rate_limiter_axioms)

section \<open>The contract of the lockout\<close>

text \<open>\<open>command.Lockout\<close>: what the login use case may rely on. Any of its calls may fail.\<close>

locale login_lockout =
  fixes check :: "string \<Rightarrow> (bool \<times> duration) result"
    and recordFailure :: "string \<Rightarrow> bool result"
    and reset :: "string \<Rightarrow> unit result"
  assumes check_frame: "wp (check key) (\<lambda>r w'. limiter_frame w w' \<and> evolves (w_db w) (w_db w')) w"
    and record_frame: "wp (recordFailure key) (\<lambda>r w'. limiter_frame w w' \<and> evolves (w_db w) (w_db w')) w"
    and reset_frame: "wp (reset key) (\<lambda>r w'. limiter_frame w w' \<and> evolves (w_db w) (w_db w')) w"

lemma redis_frame:
  "wp (redis_do c) (\<lambda>r w'. limiter_frame w w' \<and> evolves (w_db w) (w_db w')) w"
  by (rule wp_redis_do [where ?d0.0 = "w_db w"])
    (auto simp: evolves.stay limiter_frame_def env_frame_def)

lemma limiter_frame_trans:
  assumes "limiter_frame w w'" "limiter_frame w' w''"
  shows "limiter_frame w w''"
  using assms family_frame_trans [of w w' w''] by (auto simp: limiter_frame_def)

lemma Lockout_Check_frame:
  "wp (Lockout_Check X l key) (\<lambda>r w'. limiter_frame w w' \<and> evolves (w_db w) (w_db w')) w"
proof -
  have again: "wp (redis_do c) Q w1"
    if "limiter_frame w w1" "evolves (w_db w) (w_db w1)"
      "\<And>r w'. limiter_frame w w' \<Longrightarrow> evolves (w_db w) (w_db w') \<Longrightarrow> Q r w'" for c w1 Q
    by (rule wp_mono [OF redis_frame])
      (use that evolves_trans limiter_frame_trans in blast)
  show ?thesis
    unfolding Lockout_Check_def Let_def wp_attempt
    by (rule wp_mono [OF redis_frame]) (auto split: sum.split intro!: again)
qed

lemma Lockout_RecordFailure_frame:
  "wp (Lockout_RecordFailure X l key) (\<lambda>r w'. limiter_frame w w' \<and> evolves (w_db w) (w_db w')) w"
  unfolding Lockout_RecordFailure_def wp_attempt
  by (rule wp_mono [OF redis_frame]) (auto split: sum.split list.split)

lemma Lockout_Reset_frame:
  "wp (Lockout_Reset X l key) (\<lambda>r w'. limiter_frame w w' \<and> evolves (w_db w) (w_db w')) w"
  unfolding Lockout_Reset_def wp_attempt
  by (rule wp_mono [OF redis_frame]) (auto split: sum.split)

interpretation login_lock: login_lockout "loginLockout_Check X" "loginLockout_RecordFailure X" "loginLockout_Reset X" for X
proof
  show "wp (loginLockout_Check X key) (\<lambda>r w'. limiter_frame w w' \<and> evolves (w_db w) (w_db w')) w" for key w
    unfolding loginLockout_Check_def wp_attempt
    by (rule wp_mono [OF Lockout_Check_frame]) (auto split: sum.split)
  show "wp (loginLockout_RecordFailure X key) (\<lambda>r w'. limiter_frame w w' \<and> evolves (w_db w) (w_db w')) w" for key w
    unfolding loginLockout_RecordFailure_def by (rule Lockout_RecordFailure_frame)
  show "wp (loginLockout_Reset X key) (\<lambda>r w'. limiter_frame w w' \<and> evolves (w_db w) (w_db w')) w" for key w
    unfolding loginLockout_Reset_def by (rule Lockout_Reset_frame)
qed

section \<open>The limiters in a quiet world\<close>

text \<open>The script's answer decides; the warning about a missing TTL aside, nothing else happens.\<close>

lemma redis_do_quiet:
  "w_env w = [] \<Longrightarrow> wp (redis_do c) Q w =
     (case redis_exec (ms_of (w_now w)) c (w_redis w) of (r, st) \<Rightarrow> Q r (w\<lparr>w_redis := st\<rparr>))"
  by (simp add: redis_do_def wp_State split: prod.split)

lemma FixedWindow_quiet:
  assumes "w_env w = []" "0 < Milliseconds (fw_window l)"
    and "w_redis w (fw_prefix l @ hash_key X (fw_hasher l) key) = None"
  shows "wp (FailMode_Allow (FixedWindow_Allow X l) mode key)
    (\<lambda>r w'. (\<exists>res. r = Inr res \<and> Allowed res) \<and> w' = w\<lparr>w_redis := w_redis w'\<rparr>) w"
  using assms
  by (simp add: FailMode_Allow_def FixedWindow_Allow_def Let_def redis_do_quiet fixedWindowScript_def
      r_defs NewResult_def)

end
