(* ===== verification/Services.thy ===== *)
theory Services
  imports TokenRepo RateLimitFacts
begin

text \<open>
  What the use cases share: new one-time tokens and refresh tokens (\<open>auth/domain\<close>), the mailer
  (\<open>auth/adapters/mail/smtp.go\<close>; a message is recorded by its kind, recipient and token, which
  determine its text), and the rules with which the use cases are verified.
\<close>

section \<open>New tokens\<close>

definition new_token :: "ext \<Rightarrow> (string \<Rightarrow> string) \<Rightarrow> duration \<Rightarrow> (string \<times> one_time_token) result" where
  "new_token X hsh ttl =
     attempt (read_random X tokenPlainBytes) fail (\<lambda>b. do {
       let plain = b64_encode b;
       uid \<leftarrow> new_uuid X;
       t \<leftarrow> now;
       succeed (plain, \<lparr>TokenUUID = uid, Hash = hsh plain, ExpiresAt = t + ttl\<rparr>) })"

definition NewEmailConfirmationToken :: "ext \<Rightarrow> (string \<times> one_time_token) result" where
  "NewEmailConfirmationToken X = new_token X (\<lambda>p. hex_encode (sha256 X p)) EmailConfirmationTokenTTL"

definition NewPasswordResetToken :: "ext \<Rightarrow> (string \<times> one_time_token) result" where
  "NewPasswordResetToken X = new_token X (\<lambda>p. hex_encode (sha256 X p)) PasswordResetTokenTTL"

definition NewInvitationToken :: "ext \<Rightarrow> (string \<times> one_time_token) result" where
  "NewInvitationToken X = new_token X (\<lambda>p. hex_encode (sha256 X p)) InvitationTokenTTL"

definition GenerateRefreshToken :: "ext \<Rightarrow> (string \<times> string) result" where
  "GenerateRefreshToken X =
     attempt (read_random X refreshTokenBytes)
       (\<lambda>e. fail (Wrap ''could not generate refresh token'' e)) (\<lambda>buf.
     let plain = b64_encode buf in succeed (plain, HashRefreshToken X plain))"

section \<open>Mail\<close>

definition SendConfirmationEmail :: "string \<Rightarrow> string \<Rightarrow> unit result" where
  "SendConfirmationEmail recipient plainToken =
     smtp_send \<lparr>m_kind = ConfirmationMail, m_to = recipient, m_token = plainToken\<rparr>"

definition SendPasswordResetEmail :: "string \<Rightarrow> string \<Rightarrow> unit result" where
  "SendPasswordResetEmail recipient plainToken =
     smtp_send \<lparr>m_kind = PasswordResetMail, m_to = recipient, m_token = plainToken\<rparr>"

definition SendInvitationEmail :: "string \<Rightarrow> string \<Rightarrow> unit result" where
  "SendInvitationEmail recipient plainToken =
     smtp_send \<lparr>m_kind = InvitationMail, m_to = recipient, m_token = plainToken\<rparr>"

text \<open>The function every issuing use case runs before its transaction commits.\<close>

definition after_insert :: "unit result \<Rightarrow> unit result" where
  "after_insert send =
     attempt send (\<lambda>sendErr. fail (WrapSuffix (Sentinel ErrMailDeliveryFail) (err_text sendErr))) succeed"

definition mail_errors :: "goerr set" where
  "mail_errors = {WrapSuffix (Sentinel ErrMailDeliveryFail) (err_text (infra_err i)) | i. True}"

lemma after_insert_runs:
  "tx_runs [m] mail_errors (after_insert (smtp_send m)) (\<lambda>_. wdone)"
  unfolding after_insert_def
  by (rule tx_runs_smtp [where h = "\<lambda>e. WrapSuffix (Sentinel ErrMailDeliveryFail) (err_text e)"])
    (auto simp: mail_errors_def)

section \<open>Failing\<close>

text \<open>The local function \<open>fail := func(msg, cause)\<close> of a use case: it logs, and wraps the cause.\<close>

definition fail_logged :: "string \<Rightarrow> string \<Rightarrow> goerr \<Rightarrow> 'a result" where
  "fail_logged uc msg cause = do {
     log uc Error msg [(''error'', LErr cause)];
     fail (Wrap msg cause) }"

lemma wp_fail_logged [simp]:
  "wp (fail_logged uc msg cause) Q w = Q (Inl (Wrap msg cause)) (w\<lparr>w_log := w_log w @
     [\<lparr>l_usecase = uc, l_level = Error, l_msg = msg, l_attrs = [(''error'', LErr cause)]\<rparr>]\<rparr>)"
  by (simp add: fail_logged_def)

definition user_id :: "ext \<Rightarrow> uuid \<Rightarrow> string \<times> log_value" where
  "user_id X uid = (''user_id'', LStr (uuid_str X uid))"

section \<open>Rules for the use cases\<close>

lemma wp_new_token:
  "wp (new_token X hsh ttl) Q w =
     (case rand_read X (w_draws w) tokenPlainBytes of
        None \<Rightarrow> Q (Inl (DriverError ''rand: read failed'')) (w\<lparr>w_draws := w_draws w + 1\<rparr>)
      | Some b \<Rightarrow> Q (Inr (b64_encode b, \<lparr>TokenUUID = uuid_new X (w_draws w + 1),
            Hash = hsh (b64_encode b), ExpiresAt = w_now w + ttl\<rparr>)) (w\<lparr>w_draws := w_draws w + 2\<rparr>))"
  by (simp add: new_token_def Let_def split: option.split)

lemma wp_GenerateRefreshToken:
  "wp (GenerateRefreshToken X) Q w =
     (case rand_read X (w_draws w) refreshTokenBytes of
        None \<Rightarrow> Q (Inl (Wrap ''could not generate refresh token'' (DriverError ''rand: read failed'')))
          (w\<lparr>w_draws := w_draws w + 1\<rparr>)
      | Some b \<Rightarrow> Q (Inr (b64_encode b, HashRefreshToken X (b64_encode b))) (w\<lparr>w_draws := w_draws w + 1\<rparr>))"
  by (simp add: GenerateRefreshToken_def Let_def split: option.split)

text \<open>
  \<open>ended w0 w\<close>: since \<open>w0\<close> the database has evolved by admissible operations, and no transaction is
  open. \<open>good w0 w\<close>: moreover the handler that started in \<open>w0\<close> has had no effect so far but on Redis,
  the log and the draws. Every rule below keeps them, so one pass over a handler's code shows what
  it does.
\<close>

definition ended :: "world \<Rightarrow> world \<Rightarrow> bool" where
  "ended w0 w \<longleftrightarrow> evolves (w_db w0) (w_db w) \<and> w_tx w = None"

definition good :: "world \<Rightarrow> world \<Rightarrow> bool" where
  "good w0 w \<longleftrightarrow> ended w0 w \<and> w_mail w = w_mail w0 \<and> w_now w0 \<le> w_now w \<and> w_draws w0 \<le> w_draws w \<and>
     family_frame w0 w \<and> (w_env w0 = [] \<longrightarrow> w_env w = [] \<and> w_db w = w_db w0 \<and> w_now w = w_now w0)"

lemma good_simps [simp]:
  "good w0 (w\<lparr>w_log := l\<rparr>) = good w0 w" "good w0 w \<Longrightarrow> w_draws w \<le> n \<Longrightarrow> good w0 (w\<lparr>w_draws := n\<rparr>)"
  "ended w0 (w\<lparr>w_log := l\<rparr>) = ended w0 w" "ended w0 (w\<lparr>w_draws := n\<rparr>) = ended w0 w"
  by (simp_all add: good_def ended_def)

lemma good_ended: "good w0 w \<Longrightarrow> ended w0 w"
  by (simp add: good_def)

lemma endedD: "ended w0 w \<Longrightarrow> evolves (w_db w0) (w_db w)" "ended w0 w \<Longrightarrow> w_tx w = None"
  by (simp_all add: ended_def)

lemma good_start: "w_tx w = None \<Longrightarrow> good w w"
  by (simp add: good_def ended_def evolves.stay)

text \<open>A call that does not touch the database itself.\<close>

definition called :: "world \<Rightarrow> world \<Rightarrow> bool" where
  "called w w' \<longleftrightarrow> env_frame w w' \<and> evolves (w_db w) (w_db w') \<and> family_frame w w' \<and>
     (w_env w = [] \<longrightarrow> w' = w)"

lemma good_called:
  assumes "good w0 w" "called w w'"
  shows "good w0 w'"
proof -
  have "evolves (w_db w0) (w_db w')"
    using assms evolves_trans unfolding good_def ended_def called_def by blast
  moreover have "w_env w0 = [] \<Longrightarrow> w' = w" "family_frame w0 w'"
    using assms family_frame_trans [of w0 w w'] by (simp_all add: good_def called_def)
  ultimately show ?thesis using assms by (auto simp: good_def ended_def called_def env_frame_def)
qed

lemma called_trans:
  assumes "called w w'" "called w' w''"
  shows "called w w''"
  unfolding called_def
proof (intro conjI impI)
  show "env_frame w w''" using assms env_frame_trans unfolding called_def by blast
  show "evolves (w_db w) (w_db w'')" using assms evolves_trans unfolding called_def by blast
  show "family_frame w w''" using assms family_frame_trans [of w w' w''] by (simp add: called_def)
  show "w'' = w" if "w_env w = []" using assms that by (simp add: called_def)
qed

lemma called_evolves: "called w w' \<Longrightarrow> evolves (w_db w) (w_db w')"
  by (simp add: called_def)

lemma vc_read:
  assumes "good w0 w" "\<And>w' i. called w w' \<Longrightarrow> good w0 w' \<Longrightarrow> w_env w \<noteq> [] \<Longrightarrow> Q (Inl (infra_err i)) w'"
    and "\<And>w'. called w w' \<Longrightarrow> good w0 w' \<Longrightarrow> Q (q (w_db w')) w'"
  shows "wp (db_read q) Q w"
proof (rule wp_db_read [OF evolves.stay])
  fix r w'
  assume w': "env_frame w w'" "evolves (w_db w) (w_db w')"
    "case r of Inl e \<Rightarrow> w_env w \<noteq> [] \<and> (\<exists>i. e = infra_err i) \<or> q (w_db w') = Inl e
      | Inr x \<Rightarrow> q (w_db w') = Inr x" "w_env w = [] \<Longrightarrow> w' = w" "family_frame w w'"
  then have c: "called w w'" by (simp add: called_def)
  with assms(1) have g: "good w0 w'" by (rule good_called)
  show "Q r w'" using w'(3) assms(2,3) [OF c g] by (cases r) auto
qed

lemma vc_find_row:
  assumes "good w0 w" "\<And>d e. q d = Inl e \<Longrightarrow> e = NoRows"
    and "\<And>w' i. called w w' \<Longrightarrow> good w0 w' \<Longrightarrow> w_env w \<noteq> [] \<Longrightarrow> Q (Inl (infra_err i)) w'"
    and "\<And>w'. called w w' \<Longrightarrow> good w0 w' \<Longrightarrow> q (w_db w') = Inl NoRows \<Longrightarrow> wp none Q w'"
    and "\<And>w' x. called w w' \<Longrightarrow> good w0 w' \<Longrightarrow> q (w_db w') = Inr x \<Longrightarrow> wp (found x) Q w'"
  shows "wp (find_row q none found) Q w"
  unfolding find_row_def wp_attempt
proof (rule vc_read [OF assms(1)]; (unfold sum.case)?)
  fix w' i assume "called w w'" "good w0 w'" "w_env w \<noteq> []"
  then show "wp (if err_is_norows (infra_err i) then none else fail (infra_err i)) Q w'"
    using assms(3) by simp
next
  fix w' assume w': "called w w'" "good w0 w'"
  show "case q (w_db w') of Inl e \<Rightarrow> wp (if err_is_norows e then none else fail e) Q w'
    | Inr x \<Rightarrow> wp (found x) Q w'"
  proof (cases "q (w_db w')")
    case (Inl e)
    with assms(2) have "e = NoRows" by blast
    with Inl show ?thesis using assms(4) [OF w'] by simp
  next
    case (Inr x)
    with assms(5) [OF w'] show ?thesis by simp
  qed
qed

text \<open>The reads of the use cases: an infrastructure error, or what the database held at the call.\<close>

lemma get_only_norows:
  "GetUserByEmail email d = Inl e \<Longrightarrow> e = NoRows"
  "GetUserByUuid uid d = Inl e \<Longrightarrow> e = NoRows"
  "GetEmailConfirmationTokenByHash h d = Inl e \<Longrightarrow> e = NoRows"
  "GetPasswordResetTokenByHash h d = Inl e \<Longrightarrow> e = NoRows"
  "GetInvitationTokenByHash h d = Inl e \<Longrightarrow> e = NoRows"
  "GetRefreshTokenByHash h d = Inl e \<Longrightarrow> e = NoRows"
  by (auto simp: query_defs split: option.splits)

definition email_taken :: "string \<Rightarrow> db \<Rightarrow> bool" where
  "email_taken email d \<longleftrightarrow> (\<exists>u \<in> set (users d). u_Email u = email \<and> live u)"

lemma email_taken_iff: "email_taken email d \<longleftrightarrow> (\<exists>u. GetUserByEmail email d = Inr u)"
  by (auto simp: email_taken_def query_defs find_None_iff dest: find_SomeD split: option.splits)

lemma vc_EmailExists:
  assumes "good w0 w" "\<And>w' i. called w w' \<Longrightarrow> good w0 w' \<Longrightarrow> w_env w \<noteq> [] \<Longrightarrow> Q (Inl (infra_err i)) w'"
    and "\<And>w'. called w w' \<Longrightarrow> good w0 w' \<Longrightarrow> Q (Inr (email_taken email (w_db w'))) w'"
  shows "wp (EmailExists email) Q w"
  unfolding EmailExists_def
proof (rule vc_find_row [OF assms(1) get_only_norows(1)])
  fix w' assume w': "called w w'" "good w0 w'"
  show "wp (succeed False) Q w'" if "GetUserByEmail email (w_db w') = Inl NoRows"
    using assms(3) [OF w'] that by (simp add: email_taken_iff)
  show "wp (succeed True) Q w'" if "GetUserByEmail email (w_db w') = Inr u" for u
    using assms(3) [OF w'] that by (simp add: email_taken_iff)
qed (use assms(2) in auto)

lemma vc_FindUserByEmail:
  assumes "good w0 w" "\<And>w' i. called w w' \<Longrightarrow> good w0 w' \<Longrightarrow> w_env w \<noteq> [] \<Longrightarrow> Q (Inl (infra_err i)) w'"
    and "\<And>w'. called w w' \<Longrightarrow> good w0 w' \<Longrightarrow> GetUserByEmail email (w_db w') = Inl NoRows \<Longrightarrow> Q (Inr None) w'"
    and "\<And>w' u. called w w' \<Longrightarrow> good w0 w' \<Longrightarrow> GetUserByEmail email (w_db w') = Inr u \<Longrightarrow>
      Q (Inr (Some (u_UserUuid u, u_Status u))) w'"
  shows "wp (FindUserByEmail email) Q w"
  unfolding FindUserByEmail_def
  by (rule vc_find_row [OF assms(1) get_only_norows(1)]) (use assms(2-) in auto)

lemma vc_roles:
  assumes "good w0 w" "\<And>w' i. called w w' \<Longrightarrow> good w0 w' \<Longrightarrow> w_env w \<noteq> [] \<Longrightarrow> Q (Inl (infra_err i)) w'"
    and "\<And>w'. called w w' \<Longrightarrow> good w0 w' \<Longrightarrow> wp (f (sort (roles_of uid (w_db w')))) Q w'"
  shows "wp (attempt (db_read (GetUserRoles uid)) fail f) Q w"
  unfolding wp_attempt
  by (rule vc_read [OF assms(1)]) (use assms(2,3) in \<open>auto simp: GetUserRoles_def\<close>)

lemma vc_GetLoginUser:
  assumes "good w0 w" "\<And>w' i. called w w' \<Longrightarrow> good w0 w' \<Longrightarrow> w_env w \<noteq> [] \<Longrightarrow> Q (Inl (infra_err i)) w'"
    and "\<And>w'. called w w' \<Longrightarrow> good w0 w' \<Longrightarrow> GetUserByEmail email (w_db w') = Inl NoRows \<Longrightarrow> Q (Inr None) w'"
    and "\<And>w1 w' u. called w w1 \<Longrightarrow> called w1 w' \<Longrightarrow> called w w' \<Longrightarrow> good w0 w' \<Longrightarrow>
      GetUserByEmail email (w_db w1) = Inr u \<Longrightarrow>
      Q (Inr (Some \<lparr>lu_UserUUID = u_UserUuid u, lu_PasswordHash = u_PasswordHash u,
        lu_Status = u_Status u, lu_Roles = sort (roles_of (u_UserUuid u) (w_db w'))\<rparr>)) w'"
  shows "wp (GetLoginUser email) Q w"
  unfolding GetLoginUser_def
proof (rule vc_find_row [OF assms(1) get_only_norows(1)])
  fix w1 u assume w1: "called w w1" "good w0 w1" "GetUserByEmail email (w_db w1) = Inr u"
  show "wp (attempt (db_read (GetUserRoles (u_UserUuid u))) fail (\<lambda>roles. succeed (Some
      \<lparr>lu_UserUUID = u_UserUuid u, lu_PasswordHash = u_PasswordHash u, lu_Status = u_Status u,
       lu_Roles = roles\<rparr>))) Q w1"
    by (rule vc_roles [OF w1(2)])
      (use w1 assms(2,4) called_trans [OF w1(1)] in \<open>auto simp: called_def env_frame_def\<close>)
qed (use assms in auto)

lemma vc_GetUserCredentials:
  assumes "good w0 w" "\<And>w' i. called w w' \<Longrightarrow> good w0 w' \<Longrightarrow> w_env w \<noteq> [] \<Longrightarrow> Q (Inl (infra_err i)) w'"
    and "\<And>w'. called w w' \<Longrightarrow> good w0 w' \<Longrightarrow> GetUserByUuid uid (w_db w') = Inl NoRows \<Longrightarrow> Q (Inr None) w'"
    and "\<And>w' u. called w w' \<Longrightarrow> good w0 w' \<Longrightarrow> GetUserByUuid uid (w_db w') = Inr u \<Longrightarrow>
      Q (Inr (Some \<lparr>uc_PasswordHash = u_PasswordHash u, uc_Status = u_Status u\<rparr>)) w'"
  shows "wp (GetUserCredentials uid) Q w"
  unfolding GetUserCredentials_def
  by (rule vc_find_row [OF assms(1) get_only_norows(2)]) (use assms(2-) in auto)

lemma vc_GetRefreshTokenByHash:
  assumes "good w0 w" "\<And>w' i. called w w' \<Longrightarrow> good w0 w' \<Longrightarrow> w_env w \<noteq> [] \<Longrightarrow> Q (Inl (infra_err i)) w'"
    and "\<And>w'. called w w' \<Longrightarrow> good w0 w' \<Longrightarrow> GetRefreshTokenByHash h (w_db w') = Inl NoRows \<Longrightarrow> Q (Inr None) w'"
    and "\<And>w' t. called w w' \<Longrightarrow> good w0 w' \<Longrightarrow> GetRefreshTokenByHash h (w_db w') = Inr t \<Longrightarrow>
      Q (Inr (Some \<lparr>sr_TokenID = rt_TokenID t, sr_UserUUID = rt_UserUuid t, sr_FamilyID = rt_FamilyID t,
        sr_ExpiresAt = rt_ExpiresAt t, sr_UsedAt = rt_UsedAt t, sr_RevokedAt = rt_RevokedAt t\<rparr>)) w'"
  shows "wp (repo_GetRefreshTokenByHash h) Q w"
  unfolding repo_GetRefreshTokenByHash_def
  by (rule vc_find_row [OF assms(1) get_only_norows(6)]) (use assms(2-) in auto)

lemma vc_GetUserForRefresh:
  assumes "good w0 w" "\<And>w' i. called w w' \<Longrightarrow> good w0 w' \<Longrightarrow> w_env w \<noteq> [] \<Longrightarrow> Q (Inl (infra_err i)) w'"
    and "\<And>w'. called w w' \<Longrightarrow> good w0 w' \<Longrightarrow> GetUserByUuid uid (w_db w') = Inl NoRows \<Longrightarrow> Q (Inr None) w'"
    and "\<And>w1 w' u. called w w1 \<Longrightarrow> called w1 w' \<Longrightarrow> called w w' \<Longrightarrow> good w0 w' \<Longrightarrow>
      GetUserByUuid uid (w_db w1) = Inr u \<Longrightarrow>
      Q (Inr (Some \<lparr>ru_UserUUID = u_UserUuid u, ru_Status = u_Status u,
        ru_Roles = sort (roles_of uid (w_db w'))\<rparr>)) w'"
  shows "wp (GetUserForRefresh uid) Q w"
  unfolding GetUserForRefresh_def
proof (rule vc_find_row [OF assms(1) get_only_norows(2)])
  fix w1 u assume w1: "called w w1" "good w0 w1" "GetUserByUuid uid (w_db w1) = Inr u"
  show "wp (attempt (db_read (GetUserRoles uid)) fail (\<lambda>roles. succeed (Some
      \<lparr>ru_UserUUID = u_UserUuid u, ru_Status = u_Status u, ru_Roles = roles\<rparr>))) Q w1"
    by (rule vc_roles [OF w1(2)])
      (use w1 assms(2,4) called_trans [OF w1(1)] in \<open>auto simp: called_def env_frame_def\<close>)
qed (use assms in auto)

lemma vc_findAdminAccount:
  assumes "good w0 w" "\<And>w' i. called w w' \<Longrightarrow> good w0 w' \<Longrightarrow> w_env w \<noteq> [] \<Longrightarrow> Q (Inl (infra_err i)) w'"
    and "\<And>w'. called w w' \<Longrightarrow> good w0 w' \<Longrightarrow> GetUserByUuid uid (w_db w') = Inl NoRows \<Longrightarrow> Q (Inr None) w'"
    and "\<And>w1 w' u. called w w1 \<Longrightarrow> called w1 w' \<Longrightarrow> called w w' \<Longrightarrow> good w0 w' \<Longrightarrow>
      GetUserByUuid uid (w_db w1) = Inr u \<Longrightarrow> Q (Inr (Some (sort (roles_of uid (w_db w')), u_Status u))) w'"
  shows "wp (findAdminAccount uid) Q w"
  unfolding findAdminAccount_def
proof (rule vc_find_row [OF assms(1) get_only_norows(2)])
  fix w1 u assume w1: "called w w1" "good w0 w1" "GetUserByUuid uid (w_db w1) = Inr u"
  show "wp (attempt (db_read (GetUserRoles uid)) fail (\<lambda>roles. succeed (Some (roles, u_Status u)))) Q w1"
    by (rule vc_roles [OF w1(2)])
      (use w1 assms(2,4) called_trans [OF w1(1)] in \<open>auto simp: called_def env_frame_def\<close>)
qed (use assms in auto)

lemma vc_FindUserRolesByEmail:
  assumes "good w0 w" "\<And>w' i. called w w' \<Longrightarrow> good w0 w' \<Longrightarrow> w_env w \<noteq> [] \<Longrightarrow> Q (Inl (infra_err i)) w'"
    and "\<And>w'. called w w' \<Longrightarrow> good w0 w' \<Longrightarrow> GetUserByEmail email (w_db w') = Inl NoRows \<Longrightarrow> Q (Inr None) w'"
    and "\<And>w1 w' u. called w w1 \<Longrightarrow> called w1 w' \<Longrightarrow> called w w' \<Longrightarrow> good w0 w' \<Longrightarrow>
      GetUserByEmail email (w_db w1) = Inr u \<Longrightarrow>
      Q (Inr (Some (sort (roles_of (u_UserUuid u) (w_db w'))))) w'"
  shows "wp (FindUserRolesByEmail email) Q w"
  unfolding FindUserRolesByEmail_def
proof (rule vc_find_row [OF assms(1) get_only_norows(1)])
  fix w1 u assume w1: "called w w1" "good w0 w1" "GetUserByEmail email (w_db w1) = Inr u"
  show "wp (attempt (db_read (GetUserRoles (u_UserUuid u))) fail (\<lambda>roles. succeed (Some roles))) Q w1"
    by (rule vc_roles [OF w1(2)])
      (use w1 assms(2,4) called_trans [OF w1(1)] in \<open>auto simp: called_def env_frame_def\<close>)
qed (use assms in auto)

lemma vc_GetEmailConfirmationTokenByHash:
  assumes "good w0 w" "\<And>w' i. called w w' \<Longrightarrow> good w0 w' \<Longrightarrow> w_env w \<noteq> [] \<Longrightarrow> Q (Inl (infra_err i)) w'"
    and "\<And>w'. called w w' \<Longrightarrow> good w0 w' \<Longrightarrow> GetEmailConfirmationTokenByHash h (w_db w') = Inl NoRows \<Longrightarrow>
      Q (Inl (Sentinel ErrTokenNotFound)) w'"
    and "\<And>w' t. called w w' \<Longrightarrow> good w0 w' \<Longrightarrow> GetEmailConfirmationTokenByHash h (w_db w') = Inr t \<Longrightarrow>
      Q (Inr \<lparr>ec_TokenUUID = et_TokenUuid t, ec_UserUUID = et_UserUuid t, ec_TokenHash = et_TokenHash t,
        ec_ExpiresAt = et_ExpiresAt t, ec_UsedAt = et_UsedAt t\<rparr>) w'"
  shows "wp (repo_GetEmailConfirmationTokenByHash h) Q w"
  unfolding repo_GetEmailConfirmationTokenByHash_def
  by (rule vc_find_row [OF assms(1) get_only_norows(3)]) (use assms(2-) in auto)

lemma vc_GetPasswordResetTokenByHash:
  assumes "good w0 w" "\<And>w' i. called w w' \<Longrightarrow> good w0 w' \<Longrightarrow> w_env w \<noteq> [] \<Longrightarrow> Q (Inl (infra_err i)) w'"
    and "\<And>w'. called w w' \<Longrightarrow> good w0 w' \<Longrightarrow> GetPasswordResetTokenByHash h (w_db w') = Inl NoRows \<Longrightarrow>
      Q (Inl (Sentinel ErrResetTokenNotFound)) w'"
    and "\<And>w' t. called w w' \<Longrightarrow> good w0 w' \<Longrightarrow> GetPasswordResetTokenByHash h (w_db w') = Inr t \<Longrightarrow>
      Q (Inr \<lparr>pr_TokenUUID = pt_TokenUuid t, pr_UserUUID = pt_UserUuid t, pr_TokenHash = pt_TokenHash t,
        pr_ExpiresAt = pt_ExpiresAt t, pr_UsedAt = pt_UsedAt t\<rparr>) w'"
  shows "wp (repo_GetPasswordResetTokenByHash h) Q w"
  unfolding repo_GetPasswordResetTokenByHash_def
  by (rule vc_find_row [OF assms(1) get_only_norows(4)]) (use assms(2-) in auto)

lemma vc_GetInvitationTokenByHash:
  assumes "good w0 w" "\<And>w' i. called w w' \<Longrightarrow> good w0 w' \<Longrightarrow> w_env w \<noteq> [] \<Longrightarrow> Q (Inl (infra_err i)) w'"
    and "\<And>w'. called w w' \<Longrightarrow> good w0 w' \<Longrightarrow> GetInvitationTokenByHash h (w_db w') = Inl NoRows \<Longrightarrow>
      Q (Inl (Sentinel ErrInvitationTokenNotFound)) w'"
    and "\<And>w' t. called w w' \<Longrightarrow> good w0 w' \<Longrightarrow> GetInvitationTokenByHash h (w_db w') = Inr t \<Longrightarrow>
      Q (Inr \<lparr>in_TokenUUID = it_TokenUuid t, in_Email = it_Email t, in_Role = it_Role t,
        in_TokenHash = it_TokenHash t, in_ExpiresAt = it_ExpiresAt t, in_UsedAt = it_UsedAt t\<rparr>) w'"
  shows "wp (repo_GetInvitationTokenByHash h) Q w"
  unfolding repo_GetInvitationTokenByHash_def
  by (rule vc_find_row [OF assms(1) get_only_norows(5)]) (use assms(2-) in auto)

lemma good_schema: "good w0 w \<Longrightarrow> schema_ok (w_db w0) \<Longrightarrow> schema_ok (w_db w)"
  using evolves_schema unfolding good_def ended_def by blast

lemma good_evolves: "good w0 w \<Longrightarrow> evolves (w_db w0) (w_db w)"
  by (simp add: good_def ended_def)

text \<open>The writes of the use cases.\<close>

lemma vc_tx:
  assumes "ended w0 w" "tx_runs ml B fn (\<lambda>ts. tx_op ts act)"
    and "\<And>d'. evolves (w_db w) d' \<Longrightarrow> admissible act d'"
    and "\<And>r w'. tx_result act ml B w r w' \<Longrightarrow> ended w0 w' \<Longrightarrow> Q r w'"
  shows "wp (UpdateInTx fn) Q w"
proof (rule wp_mono [OF wp_UpdateInTx [OF endedD(2) [OF assms(1)] assms(2,3)]])
  fix r w' assume "tx_result act ml B w r w'"
  moreover from this have "ended w0 w'"
    using endedD(1) [OF assms(1)] evolves_trans by (auto simp: ended_def tx_result_def)
  ultimately show "Q r w'" by (rule assms(4))
qed

lemma vc_CreateUser:
  assumes "ended w0 w" "reg_Status reg = StatusMailUnverified" "reg_Role reg = RoleUser"
    and "\<And>r w'. tx_result (OpCreateUser reg tok) [m] mail_errors w r w' \<Longrightarrow> ended w0 w' \<Longrightarrow> Q r w'"
  shows "wp (CreateUser reg tok (after_insert (smtp_send m))) Q w"
  unfolding CreateUser_def
  by (rule vc_tx [OF assms(1) CreateUser_runs [OF after_insert_runs]]) (simp_all add: assms(2-4))

lemma vc_ReissueEmailConfirmationToken:
  assumes "ended w0 w"
    and "\<And>r w'. tx_result (OpReissueEmailToken uid tok) [m] mail_errors w r w' \<Longrightarrow> ended w0 w' \<Longrightarrow> Q r w'"
  shows "wp (ReissueEmailConfirmationToken uid tok (after_insert (smtp_send m))) Q w"
  unfolding ReissueEmailConfirmationToken_def
  by (rule vc_tx [OF assms(1) ReissueEmailConfirmationToken_runs [OF after_insert_runs]])
    (simp_all add: assms(2))

lemma vc_ConsumeEmailConfirmationToken:
  assumes "ended w0 w" "\<And>d'. evolves (w_db w) d' \<Longrightarrow> admissible (OpConsumeEmailToken tok uid) d'"
    and "\<And>r w'. tx_result (OpConsumeEmailToken tok uid) [] {} w r w' \<Longrightarrow> ended w0 w' \<Longrightarrow> Q r w'"
  shows "wp (ConsumeEmailConfirmationToken tok uid) Q w"
  unfolding ConsumeEmailConfirmationToken_def
  by (rule vc_tx [OF assms(1) ConsumeEmailConfirmationToken_runs assms(2,3)])

lemma vc_IssuePasswordResetToken:
  assumes "ended w0 w"
    and "\<And>r w'. tx_result (OpIssueResetToken uid tok) [m] mail_errors w r w' \<Longrightarrow> ended w0 w' \<Longrightarrow> Q r w'"
  shows "wp (IssuePasswordResetToken uid tok (after_insert (smtp_send m))) Q w"
  unfolding IssuePasswordResetToken_def
  by (rule vc_tx [OF assms(1) IssuePasswordResetToken_runs [OF after_insert_runs]]) (simp_all add: assms(2))

lemma vc_ConfirmPasswordReset:
  assumes "ended w0 w" "\<And>d'. evolves (w_db w) d' \<Longrightarrow> admissible (OpConfirmReset uid tok h) d'"
    and "\<And>r w'. tx_result (OpConfirmReset uid tok h) [] {} w r w' \<Longrightarrow> ended w0 w' \<Longrightarrow> Q r w'"
  shows "wp (ConfirmPasswordReset uid tok h) Q w"
  unfolding ConfirmPasswordReset_def
  by (rule vc_tx [OF assms(1) ConfirmPasswordReset_runs assms(2,3)])

lemma vc_ChangePassword:
  assumes "ended w0 w"
    and "\<And>r w'. tx_result (OpChangePassword uid h) [] {} w r w' \<Longrightarrow> ended w0 w' \<Longrightarrow> Q r w'"
  shows "wp (ChangePassword uid h) Q w"
  unfolding ChangePassword_def
  by (rule vc_tx [OF assms(1) ChangePassword_runs _ assms(2)]) simp_all

lemma vc_RotateRefreshToken:
  assumes "ended w0 w" "\<And>d'. evolves (w_db w) d' \<Longrightarrow> admissible (OpRotateRefreshToken old t) d'"
    and "\<And>r w'. tx_result (OpRotateRefreshToken old t) [] {} w r w' \<Longrightarrow> ended w0 w' \<Longrightarrow> Q r w'"
  shows "wp (RotateRefreshToken old t) Q w"
  unfolding RotateRefreshToken_def
  by (rule vc_tx [OF assms(1) RotateRefreshToken_runs assms(2,3)])

lemma vc_IssueInvitationToken:
  assumes "ended w0 w" "IsAdminRole role"
    and "\<And>r w'. tx_result (OpIssueInvitation email role tok) [m] mail_errors w r w' \<Longrightarrow> ended w0 w' \<Longrightarrow> Q r w'"
  shows "wp (IssueInvitationToken email role tok (after_insert (smtp_send m))) Q w"
  unfolding IssueInvitationToken_def
  by (rule vc_tx [OF assms(1) IssueInvitationToken_runs [OF after_insert_runs]]) (simp_all add: assms(2,3))

lemma vc_DisableAccount:
  assumes "ended w0 w" "\<And>d'. evolves (w_db w) d' \<Longrightarrow> admissible (OpDisableAccount uid is_super) d'"
    and "\<And>r w'. tx_result (OpDisableAccount uid is_super) [] {} w r w' \<Longrightarrow> ended w0 w' \<Longrightarrow> Q r w'"
  shows "wp (DisableAccount uid is_super) Q w"
  unfolding DisableAccount_def
  by (rule vc_tx [OF assms(1) DisableAccount_runs assms(2,3)])

lemma vc_AcceptInvitation:
  assumes "ended w0 w"
    and "\<And>uid d'. evolves (w_db w) d' \<Longrightarrow> admissible (OpAcceptInvitation uid tok email role h) d'"
    and "\<And>e w'. tx_result (OpAcceptInvitation (uuid_new X (w_draws w)) tok email role h) [] {}
      (w\<lparr>w_draws := w_draws w + 1\<rparr>) (Inl e) w' \<Longrightarrow> ended w0 w' \<Longrightarrow> Q (Inl e) w'"
    and "\<And>w'. tx_result (OpAcceptInvitation (uuid_new X (w_draws w)) tok email role h) [] {}
      (w\<lparr>w_draws := w_draws w + 1\<rparr>) (Inr ()) w' \<Longrightarrow> ended w0 w' \<Longrightarrow> Q (Inr (uuid_new X (w_draws w))) w'"
  shows "wp (AcceptInvitation X tok email role h) Q w"
  unfolding AcceptInvitation_def wp_bind wp_new_uuid wp_attempt
proof (rule vc_tx [OF _ AcceptInvitation_runs [unfolded email_conflict_def]])
  let ?uid = "uuid_new X (w_draws w)"
  fix r w'
  assume "tx_result (OpAcceptInvitation ?uid tok email role h) [] {} (w\<lparr>w_draws := w_draws w + 1\<rparr>) r w'"
    "ended w0 w'"
  then show "case r of Inl e \<Rightarrow> wp (fail e) Q w' | Inr x \<Rightarrow> wp (succeed ?uid) Q w'"
    by (cases r) (simp_all add: assms(3,4))
qed (use assms(1,2) in simp_all)

text \<open>Statements that commit by themselves.\<close>

definition write_result ::
  "db_op \<Rightarrow> world \<Rightarrow> goerr + unit \<Rightarrow> world \<Rightarrow> bool" where
  "write_result act w r w' \<longleftrightarrow> env_frame w w' \<and> evolves (w_db w) (w_db w') \<and>
     (case r of
        Inr _ \<Rightarrow> committed act w w'
      | Inl e \<Rightarrow> (unaffected w w' \<or> committed act w w') \<and>
          (w_env w \<noteq> [] \<and> (\<exists>i. e = infra_err i) \<or> refused (\<lambda>ts. tx_op ts act) e w w')) \<and>
     (w_env w = [] \<longrightarrow>
       (case tx_op (w_now w) act (w_db w) of
          Inl e \<Rightarrow> r = Inl e \<and> w' = w
        | Inr (_, d) \<Rightarrow> r = Inr () \<and> w' = w\<lparr>w_db := d\<rparr>))"

lemma vc_write:
  assumes "ended w0 w" "\<And>ts. q ts = tx_op ts act" "\<And>d'. evolves (w_db w) d' \<Longrightarrow> families d' \<subseteq> families (w_db w) \<union> env_families w \<Longrightarrow> admissible act d'"
    and "\<And>r w'. write_result act w r w' \<Longrightarrow> ended w0 w' \<Longrightarrow> Q r w'"
  shows "wp (db_write q) Q w"
proof (rule wp_db_write [OF endedD(1) [OF assms(1)], where changed = "\<lambda>_. True" and act = act])
  have q: "q = (\<lambda>ts. tx_op ts act)" using assms(2) by (rule ext)
  show "writes_as act (\<lambda>_. True) q" by (simp add: writes_as_def assms(2))
  fix r w'
  assume w': "env_frame w w'" "evolves (w_db w0) (w_db w')" "evolves (w_db w) (w_db w')"
    "case r of Inl e \<Rightarrow> (unaffected w w' \<or> (\<exists>x. applied q x w w')) \<and>
        (w_env w \<noteq> [] \<and> (\<exists>i. e = infra_err i) \<or> refused q e w w')
      | Inr x \<Rightarrow> applied q x w w'"
    "w_env w = [] \<Longrightarrow> (case r of Inl e \<Rightarrow> w' = w \<and> q (w_now w) (w_db w) = Inl e
      | Inr x \<Rightarrow> w' = w\<lparr>w_db := w_db w'\<rparr> \<and> q (w_now w) (w_db w) = Inr (x, w_db w'))"
  have "ended w0 w'" using w'(1,2) assms(1) by (simp add: ended_def env_frame_def)
  moreover have "write_result act w r w'"
    using w'(1,3-5) unfolding q by (cases r) (auto simp: write_result_def committed_def)
  ultimately show "Q r w'" using assms(4) by blast
qed (rule assms(3))

lemma vc_SaveRefreshToken:
  assumes "ended w0 w" "\<And>d'. evolves (w_db w) d' \<Longrightarrow> families d' \<subseteq> families (w_db w) \<union> env_families w \<Longrightarrow>
      admissible (OpSaveRefreshToken t) d'"
    and "\<And>r w'. write_result (OpSaveRefreshToken t) w r w' \<Longrightarrow> ended w0 w' \<Longrightarrow> Q r w'"
  shows "wp (SaveRefreshToken t) Q w"
  unfolding SaveRefreshToken_def by (rule vc_write [OF assms(1) _ assms(2,3)]) simp_all

lemma vc_RevokeRefreshToken:
  assumes "ended w0 w" "\<And>r w'. write_result (OpRevokeRefreshToken tok reason) w r w' \<Longrightarrow> ended w0 w' \<Longrightarrow> Q r w'"
  shows "wp (repo_RevokeRefreshToken tok reason) Q w"
  unfolding repo_RevokeRefreshToken_def by (rule vc_write [OF assms(1) _ _ assms(2)]) simp_all

lemma vc_RevokeRefreshTokenFamily:
  assumes "ended w0 w" "\<And>r w'. write_result (OpRevokeFamily fam reason) w r w' \<Longrightarrow> ended w0 w' \<Longrightarrow> Q r w'"
  shows "wp (repo_RevokeRefreshTokenFamily fam reason) Q w"
  unfolding repo_RevokeRefreshTokenFamily_def by (rule vc_write [OF assms(1) _ _ assms(2)]) simp_all

lemma transition_count:
  "TransitionUserStatus ts uid new old d = Inr (n, d') \<Longrightarrow> n = 0 \<Longrightarrow> d' = d"
  by (auto simp: TransitionUserStatus_def Let_def count_where_zero upd_where_none)

lemma transition_total: "TransitionUserStatus ts uid new old d \<noteq> Inl e"
  by (simp add: TransitionUserStatus_def Let_def)

lemma reactivate_op:
  assumes "TransitionUserStatus ts uid StatusInactive StatusDisabled d = Inr (n, d')"
  shows "tx_op ts (OpReactivateAccount uid) d =
    (if n = 0 then Inl (Sentinel ErrNotDisabled) else Inr ((), d'))"
  using assms by (simp add: need_row_def wbind_def wfail_def wdone_def)

lemma reactivate_applied:
  assumes "applied (\<lambda>ts. TransitionUserStatus ts uid StatusInactive StatusDisabled) n w w'"
  shows "if n = 0 then unaffected w w' \<and> refused (\<lambda>ts. tx_op ts (OpReactivateAccount uid)) (Sentinel ErrNotDisabled) w w'
    else committed (OpReactivateAccount uid) w w'"
proof (cases "n = 0")
  case True
  have "unaffected w w'" by (rule applied_unchanged [OF assms]) (rule transition_count [OF _ True])
  moreover have "refused (\<lambda>ts. tx_op ts (OpReactivateAccount uid)) (Sentinel ErrNotDisabled) w w'"
    by (rule applied_refused [OF assms]) (simp only: reactivate_op True refl if_True)
  ultimately show ?thesis using True by simp
next
  case False
  have "committed (OpReactivateAccount uid) w w'" unfolding committed_def
    by (rule applied_mono [OF assms]) (simp only: reactivate_op False if_False)
  then show ?thesis using False by simp
qed

lemma vc_ReactivateAccount:
  assumes "ended w0 w"
    and Q: "\<And>r w'. write_result (OpReactivateAccount uid) w r w' \<Longrightarrow> ended w0 w' \<Longrightarrow> Q r w'"
  shows "wp (ReactivateAccount uid) Q w"
  unfolding ReactivateAccount_def wp_attempt
proof (rule wp_db_write [OF endedD(1) [OF assms(1)] ReactivateAccount_writes])
  let ?q = "\<lambda>ts. TransitionUserStatus ts uid StatusInactive StatusDisabled"
  fix r w'
  assume w': "env_frame w w'" "evolves (w_db w0) (w_db w')" "evolves (w_db w) (w_db w')"
    "case r of Inl e \<Rightarrow> (unaffected w w' \<or> (\<exists>x. applied ?q x w w')) \<and>
        (w_env w \<noteq> [] \<and> (\<exists>i. e = infra_err i) \<or> refused ?q e w w')
      | Inr x \<Rightarrow> applied ?q x w w'"
    "w_env w = [] \<Longrightarrow> (case r of Inl e \<Rightarrow> w' = w \<and> ?q (w_now w) (w_db w) = Inl e
      | Inr x \<Rightarrow> w' = w\<lparr>w_db := w_db w'\<rparr> \<and> ?q (w_now w) (w_db w) = Inr (x, w_db w'))"
  have g: "ended w0 w'" using w'(1,2) assms(1) by (simp add: ended_def env_frame_def)
  have "\<not> refused ?q e w w'" for e using refused_at [of ?q e w w'] transition_total by auto
  show "case r of Inl e \<Rightarrow> wp (fail e) Q w'
    | Inr x \<Rightarrow> wp (if x = 0 then fail (Sentinel ErrNotDisabled) else succeed ()) Q w'"
  proof (cases r)
    case (Inl e)
    have "w_env w \<noteq> []" "\<exists>i. e = infra_err i"
      using w'(4) \<open>\<And>e. \<not> refused ?q e w w'\<close> unfolding Inl sum.case by blast+
    moreover have "unaffected w w' \<or> committed (OpReactivateAccount uid) w w'"
      using w'(4) reactivate_applied unfolding Inl sum.case by metis
    ultimately show ?thesis using Q [OF _ g, of "Inl e"] w'(1,3) Inl by (simp add: write_result_def)
  next
    case (Inr n)
    have quiet: "case tx_op (w_now w) (OpReactivateAccount uid) (w_db w) of
          Inl e \<Rightarrow> (if n = 0 then Inl (Sentinel ErrNotDisabled) else Inr ()) = Inl e \<and> w' = w
        | Inr (_, d) \<Rightarrow> (if n = 0 then Inl (Sentinel ErrNotDisabled) else Inr ()) = Inr () \<and>
            w' = w\<lparr>w_db := d\<rparr>" if "w_env w = []"
    proof -
      have t: "w' = w\<lparr>w_db := w_db w'\<rparr>" "?q (w_now w) (w_db w) = Inr (n, w_db w')"
        using w'(5) [OF that] Inr by simp_all
      then show ?thesis using transition_count [OF t(2)] unfolding reactivate_op [OF t(2)] by auto
    qed
    have "write_result (OpReactivateAccount uid) w
        (if n = 0 then Inl (Sentinel ErrNotDisabled) else Inr ()) w'"
      using w'(1,3,4) Inr reactivate_applied quiet
      by (auto simp: write_result_def simp del: tx_op.simps split: if_splits)
    then show ?thesis using Q [OF _ g] Inr by (auto split: if_splits)
  qed
qed simp

text \<open>An e-mail address stays taken.\<close>

lemma email_taken_evolves: "email_taken email d \<Longrightarrow> evolves d d' \<Longrightarrow> email_taken email d'"
  unfolding email_taken_def
  by (drule evolves_keeps, unfold keeps_def)
    (metis grows_memberD live_def user_le_def)

lemma create_user_taken:
  assumes "tx_op ts (OpCreateUser reg tok) d = Inr (x, d')"
  shows "email_taken (reg_Email reg) d'"
  using assms
  by (auto simp: wbind_Inr insert_defs email_taken_def live_def split: if_splits)

lemma accept_invitation_taken:
  assumes "tx_op ts (OpAcceptInvitation uid tok email role h) d = Inr (x, d')"
  shows "email_taken email d'"
  using assms
  by (auto simp: wbind_Inr need_row_Inr insert_defs email_taken_def live_def split: if_splits)

section \<open>Conclusions about a handler\<close>

definition usecase_started :: string where "usecase_started = ''usecase started''"
definition usecase_finished :: string where "usecase_finished = ''usecase finished''"

text \<open>Mails of one kind to one address, and nothing else sent.\<close>

definition mails_only :: "mail_kind \<Rightarrow> string \<Rightarrow> world \<Rightarrow> world \<Rightarrow> bool" where
  "mails_only k addr w w' \<longleftrightarrow>
     (\<exists>ms. w_mail w' = w_mail w @ ms \<and> (\<forall>m \<in> set ms. m_kind m = k \<and> m_to m = addr))"

text \<open>In a quiet world a request that is refused leaves database and outbox as they are.\<close>

definition no_effect_on_error :: "world \<Rightarrow> goerr + 'a \<Rightarrow> world \<Rightarrow> bool" where
  "no_effect_on_error w r w' \<longleftrightarrow>
     (w_env w = [] \<longrightarrow> (\<exists>e. r = Inl e) \<longrightarrow> w_db w' = w_db w \<and> w_mail w' = w_mail w)"

text \<open>A mail was sent only if; a row was found at some time during the request.\<close>

definition mail_needs :: "bool \<Rightarrow> world \<Rightarrow> world \<Rightarrow> bool" where
  "mail_needs P w w' \<longleftrightarrow> (w_mail w' \<noteq> w_mail w \<longrightarrow> P)"

definition seen :: "'a reader \<Rightarrow> world \<Rightarrow> world \<Rightarrow> 'a \<Rightarrow> bool" where
  "seen q w w' x \<longleftrightarrow> meanwhile (\<lambda>d. q d = Inr x) w w'"

lemma good_meanwhile: "good w0 w \<Longrightarrow> P (w_db w) \<Longrightarrow> w_now w \<le> w_now w' \<Longrightarrow> meanwhile P w0 w'"
  by (rule meanwhileI) (simp_all add: good_def family_frame_def)

lemma good_seen: "good w0 w \<Longrightarrow> q (w_db w) = Inr x \<Longrightarrow> w_now w \<le> w_now w' \<Longrightarrow> seen q w0 w' x"
  unfolding seen_def by (rule good_meanwhile)

lemma called_now: "called w w' \<Longrightarrow> w_now w \<le> w_now w'"
  by (simp add: called_def env_frame_def)

lemma limiter_now: "limiter_frame w w' \<Longrightarrow> w_now w \<le> w_now w'"
  by (simp add: limiter_frame_def)

lemma write_now: "write_result act w r w' \<Longrightarrow> w_now w \<le> w_now w'"
  by (simp add: write_result_def env_frame_def)

lemma tx_now: "tx_result act ml B w r w' \<Longrightarrow> w_now w \<le> w_now w'"
  by (simp add: tx_result_def)

lemmas later_rules = called_now limiter_now write_now tx_now

lemma good_mail_needs: "good w0 w \<Longrightarrow> mail_needs P w0 w"
  by (simp add: good_def mail_needs_def)

lemma mail_needsI: "P \<Longrightarrow> mail_needs P w0 w"
  by (simp add: mail_needs_def)

lemma mail_needs_user:
  assumes "good w0 w" "GetUserByEmail email (w_db w) = Inr u" "u_Status u = st"
    and "tx_result act ml B (w\<lparr>w_draws := n\<rparr>) r w'"
  shows "mail_needs (\<exists>u. seen (GetUserByEmail email) w0 w' u \<and> u_Status u = st) w0 w'"
  using good_seen [of w0 w "GetUserByEmail email"] assms(1-3) tx_now [OF assms(4)] by (auto intro!: mail_needsI)

lemma conclusion_simps [simp]:
  "seen q w (w'\<lparr>w_log := l\<rparr>) x = seen q w w' x"
  "seen q w (w'\<lparr>w_draws := n\<rparr>) x = seen q w w' x"
  "mail_needs P w (w'\<lparr>w_log := l\<rparr>) = mail_needs P w w'"
  "mail_needs P w (w'\<lparr>w_draws := n\<rparr>) = mail_needs P w w'"
  "mails_only k addr w (w'\<lparr>w_log := l\<rparr>) = mails_only k addr w w'"
  "mails_only k addr w (w'\<lparr>w_draws := n\<rparr>) = mails_only k addr w w'"
  "no_effect_on_error w (Inr x) w'"
  "no_effect_on_error w r (w'\<lparr>w_log := l\<rparr>) = no_effect_on_error w r w'"
  "no_effect_on_error w r (w'\<lparr>w_draws := n\<rparr>) = no_effect_on_error w r w'"
  by (simp_all add: mails_only_def no_effect_on_error_def mail_needs_def seen_def)

lemma good_mails_only: "good w0 w \<Longrightarrow> mails_only k addr w0 w"
  by (simp add: good_def mails_only_def)

lemma good_no_effect: "good w0 w \<Longrightarrow> no_effect_on_error w0 r w"
  by (simp add: good_def no_effect_on_error_def)

lemma tx_mails_only:
  assumes "good w0 w" "tx_result act [\<lparr>m_kind = k, m_to = addr, m_token = tok\<rparr>] B w r w'"
  shows "mails_only k addr w0 w'"
proof -
  obtain ms where "w_mail w' = w_mail w @ ms" "set ms \<subseteq> {\<lparr>m_kind = k, m_to = addr, m_token = tok\<rparr>}"
    using assms(2) by (auto simp: tx_result_def mails_between_def)
  then show ?thesis using assms(1) by (force simp: mails_only_def good_def subset_iff)
qed

lemma tx_no_mail:
  assumes "good w0 w" "tx_result act [] B w r w'"
  shows "mail_needs P w0 w'"
  using assms by (auto simp: tx_result_def mails_between_def good_def mail_needs_def)

lemma tx_no_effect:
  assumes "good w0 w" "tx_result act ml B w (Inl e) w2"
  shows "no_effect_on_error w0 (Inl e') w2"
proof -
  have "w_env w = [] \<Longrightarrow> w2 = w"
    using assms(2) by (auto simp: tx_result_def split: sum.splits)
  then show ?thesis using assms(1) by (auto simp: no_effect_on_error_def good_def)
qed

text \<open>A transaction that succeeded was applied exactly once since the handler started.\<close>

lemma good_unaffected: "good w0 w \<Longrightarrow> unaffected w0 w"
  by (simp add: good_def family_frame_def follows_unaffected)

lemma tx_committed:
  assumes "good w0 w" "tx_result act ml B w (Inr u) w'"
  shows "committed act w0 w'"
  by (rule unaffected_committed [OF good_unaffected [OF assms(1)]]) (use assms(2) in \<open>simp add: tx_result_def\<close>)

text \<open>The same for a statement that commits by itself.\<close>

lemma write_no_mail: "good w0 w \<Longrightarrow> write_result act w r w' \<Longrightarrow> mail_needs P w0 w'"
  by (simp add: write_result_def env_frame_def good_def mail_needs_def)

lemma write_no_effect:
  assumes "good w0 w" "write_result act w (Inl e) w'"
  shows "no_effect_on_error w0 (Inl e') w'"
  using assms
  by (auto simp: write_result_def good_def no_effect_on_error_def split: sum.splits)

lemma write_committed:
  assumes "good w0 w" "write_result act w (Inr u) w'"
  shows "committed act w0 w'"
  by (rule unaffected_committed [OF good_unaffected [OF assms(1)]]) (use assms(2) in \<open>simp add: write_result_def\<close>)

lemma tx_mail_sent:
  assumes "good w0 w" "tx_result act [m] B w (Inr u) w'"
  shows "w_mail w' \<noteq> [] \<and> last (w_mail w') = m"
  using assms by (auto simp: tx_result_def)

lemma good_limiter:
  assumes "good w0 w" "limiter_frame w w'" "evolves (w_db w) (w_db w')"
  shows "good w0 w'"
proof -
  have "evolves (w_db w0) (w_db w')" using assms(1,3) evolves_trans by (auto simp: good_def ended_def)
  then show ?thesis using assms(1,2) family_frame_trans [of w0 w w']
    by (auto simp: good_def ended_def limiter_frame_def)
qed

lemma vc_limiter:
  assumes "wp m (\<lambda>r w'. limiter_frame w w' \<and> evolves (w_db w) (w_db w')) w" "good w0 w"
    and "\<And>r w'. limiter_frame w w' \<Longrightarrow> good w0 w' \<Longrightarrow> evolves (w_db w) (w_db w') \<Longrightarrow> Q r w'"
  shows "wp m Q w"
  by (rule wp_mono [OF assms(1)]) (use assms(2,3) good_limiter in blast)

context rate_limiter
begin

lemma vc_allow:
  assumes "good w0 w"
    and "\<And>res w'. limiter_frame w w' \<Longrightarrow> good w0 w' \<Longrightarrow> evolves (w_db w) (w_db w') \<Longrightarrow> Q (Inr res) w'"
  shows "wp (allow key) Q w"
  by (rule wp_allow [OF evolves.stay]) (use assms good_limiter in blast)

end

text \<open>The identifiers a handler may still draw open no family that exists or that others open.\<close>

definition fresh_ids :: "ext \<Rightarrow> world \<Rightarrow> bool" where
  "fresh_ids X w \<longleftrightarrow> (\<forall>n \<ge> w_draws w. uuid_new X n \<notin> families (w_db w) \<union> env_families w)"

lemma fresh_admissible:
  assumes "fresh_ids X w0" "families d \<subseteq> families (w_db w) \<union> env_families w" "good w0 w"
    and "rr_FamilyID t = uuid_new X n" "rr_ParentTokenID t = None" "w_draws w \<le> n"
  shows "admissible (OpSaveRefreshToken t) d"
proof -
  have sub: "families d \<subseteq> families (w_db w0) \<union> env_families w0"
    using assms(2,3) by (auto simp: good_def family_frame_def)
  have new: "uuid_new X n \<notin> families (w_db w0) \<union> env_families w0"
    using assms(1,3,6) by (simp add: fresh_ids_def good_def)
  have "rt_FamilyID ta \<noteq> uuid_new X n" if "ta \<in> set (refresh_tokens d)" for ta
  proof -
    have "rt_FamilyID ta \<in> families d" using that by (simp add: families_def)
    with sub new show ?thesis by auto
  qed
  then show ?thesis using assms(4,5) by simp
qed

section \<open>Revoked sessions\<close>

definition token_revoked :: "uuid \<Rightarrow> db \<Rightarrow> bool" where
  "token_revoked tok d \<longleftrightarrow> (\<forall>t \<in> set (refresh_tokens d). rt_TokenID t = tok \<longrightarrow> rt_RevokedAt t \<noteq> None)"

definition family_revoked :: "uuid \<Rightarrow> db \<Rightarrow> bool" where
  "family_revoked fam d \<longleftrightarrow> (\<forall>t \<in> set (refresh_tokens d). rt_FamilyID t = fam \<longrightarrow> rt_RevokedAt t \<noteq> None)"

definition sessions_revoked :: "uuid \<Rightarrow> db \<Rightarrow> bool" where
  "sessions_revoked uid d \<longleftrightarrow> (\<forall>t \<in> set (refresh_tokens d). rt_UserUuid t = uid \<longrightarrow> rt_RevokedAt t \<noteq> None)"

lemma revoke_token_op: "RevokeRefreshToken ts tok reason d = Inr (x, d') \<Longrightarrow> token_revoked tok d'"
  by (simp add: RevokeRefreshToken_def) (drule sym, simp add: token_revoked_def all_upd_where)

lemma revoke_family_op: "RevokeRefreshTokenFamily ts fam reason d = Inr (x, d') \<Longrightarrow> family_revoked fam d'"
  by (simp add: RevokeRefreshTokenFamily_def) (drule sym, simp add: family_revoked_def all_upd_where)

lemma revoke_user_op: "RevokeRefreshTokensByUser ts uid reason d = Inr (x, d') \<Longrightarrow> sessions_revoked uid d'"
  by (simp add: RevokeRefreshTokensByUser_def) (drule sym, simp add: sessions_revoked_def all_upd_where)

lemma write_op:
  assumes "write_result act w (Inr u) w'"
  obtains ts d where "evolves (w_db w) d" "tx_op ts act d = Inr ((), w_db w')"
  using assms unfolding write_result_def sum.case by (meson committed_op)

lemma revoke_token_result:
  assumes "write_result (OpRevokeRefreshToken tok reason) w (Inr u) w'"
  shows "token_revoked tok (w_db w')"
  by (rule write_op [OF assms, unfolded tx_op.simps]) (rule revoke_token_op)

lemma revoke_family_result:
  assumes "write_result (OpRevokeFamily fam reason) w (Inr u) w'"
  shows "family_revoked fam (w_db w')"
  by (rule write_op [OF assms, unfolded tx_op.simps]) (rule revoke_family_op)

text \<open>Changing or resetting a password and disabling an account end all sessions of the user.\<close>

lemma sessions_end:
  "tx_op ts (OpChangePassword uid h) d = Inr ((), d') \<Longrightarrow> sessions_revoked uid d'"
  "tx_op ts (OpConfirmReset uid tok h) d = Inr ((), d') \<Longrightarrow> sessions_revoked uid d'"
  "tx_op ts (OpDisableAccount uid s) d = Inr ((), d') \<Longrightarrow> sessions_revoked uid d'"
  by (auto simp: wbind_Inr dest: revoke_user_op split: if_splits)

text \<open>A transition of an account leaves an account in the new state.\<close>

definition has_status :: "uuid \<Rightarrow> string \<Rightarrow> db \<Rightarrow> bool" where
  "has_status uid st d \<longleftrightarrow> (\<exists>u \<in> set (users d). u_UserUuid u = uid \<and> live u \<and> u_Status u = st)"

lemma transition_status:
  assumes "TransitionUserStatus ts uid new old d = Inr (n, d')" "n \<noteq> 0"
  shows "has_status uid new d'"
proof -
  let ?p = "\<lambda>u. u_UserUuid u = uid \<and> u_Status u = old \<and> live u"
  let ?f = "\<lambda>u. u\<lparr>u_Status := new, u_UpdatedAt := ts\<rparr>"
  have d': "users d' = upd_where ?p ?f (users d)" and n: "n = count_where ?p (users d)"
    using assms(1) by (auto simp: TransitionUserStatus_def Let_def)
  obtain u where u: "u \<in> set (users d)" "?p u"
    using assms(2) unfolding n by (auto simp: count_where_zero)
  then have "?f u \<in> set (users d')" unfolding d' set_upd_where by (intro image_eqI [of _ _ u]) simp_all
  with u(2) show ?thesis unfolding has_status_def by (intro bexI [of _ "?f u"]) (simp_all add: live_def)
qed

lemma revoke_user_status:
  "RevokeRefreshTokensByUser ts uid reason d = Inr (x, d') \<Longrightarrow> has_status u st d \<Longrightarrow> has_status u st d'"
  by (auto simp: RevokeRefreshTokensByUser_def has_status_def)

lemma status_after:
  "tx_op ts (OpConsumeEmailToken tok uid) d = Inr ((), d') \<Longrightarrow> has_status uid StatusInactive d'"
  "tx_op ts (OpDisableAccount uid s) d = Inr ((), d') \<Longrightarrow> has_status uid StatusDisabled d'"
  "tx_op ts (OpReactivateAccount uid) d = Inr ((), d') \<Longrightarrow> has_status uid StatusInactive d'"
  by (auto simp: wbind_Inr need_row_Inr dest: transition_status revoke_user_status split: if_splits)

lemma tx_done:
  assumes "tx_result act ml B w (Inr u) w'"
  obtains ts d where "tx_op ts act d = Inr ((), w_db w')"
  using assms unfolding tx_result_def sum.case by (meson committed_op)

text \<open>An entry of the audit log.\<close>

definition audited :: "string \<Rightarrow> string \<Rightarrow> (string \<times> log_value) list \<Rightarrow> world \<Rightarrow> bool" where
  "audited uc msg attrs w \<longleftrightarrow>
     \<lparr>l_usecase = uc, l_level = Info, l_msg = msg, l_attrs = attrs\<rparr> \<in> set (w_log w)"

lemma audited_log [simp]:
  "audited uc msg attrs (w\<lparr>w_log := l\<rparr>) \<longleftrightarrow>
     \<lparr>l_usecase = uc, l_level = Info, l_msg = msg, l_attrs = attrs\<rparr> \<in> set l"
  by (simp add: audited_def)

lemmas conclude = good_ended good_mails_only good_no_effect good_mail_needs

text \<open>What was read is still right when the transaction runs.\<close>

lemma good_consume_email:
  "good w0 w \<Longrightarrow> GetEmailConfirmationTokenByHash h (w_db w) = Inr t \<Longrightarrow> schema_ok (w_db w0) \<Longrightarrow>
   evolves (w_db w) d \<Longrightarrow> admissible (OpConsumeEmailToken (et_TokenUuid t) (et_UserUuid t)) d"
  using good_schema consume_email_admissible by blast

lemma good_confirm_reset:
  "good w0 w \<Longrightarrow> GetPasswordResetTokenByHash h (w_db w) = Inr t \<Longrightarrow> schema_ok (w_db w0) \<Longrightarrow>
   evolves (w_db w) d \<Longrightarrow> admissible (OpConfirmReset (pt_UserUuid t) (pt_TokenUuid t) pw) d"
  using good_schema confirm_reset_admissible by blast

lemma good_accept_invitation:
  "good w0 w \<Longrightarrow> GetInvitationTokenByHash h (w_db w) = Inr t \<Longrightarrow> schema_ok (w_db w0) \<Longrightarrow>
   evolves (w_db w) d \<Longrightarrow>
   admissible (OpAcceptInvitation uid (it_TokenUuid t) (it_Email t) (it_Role t) pw) d"
  using good_schema accept_invitation_admissible by blast

text \<open>
  The rules for \<open>auto\<close>: operations stay opaque, and the conclusions are introduced from the last
  good world.
\<close>

lemmas opaque = tx_op.simps admissible.simps

end
