(* ===== verification/AccountCommands.thy ===== *)
theory AccountCommands
  imports Services
begin

text \<open>
  The use cases that create an account and confirm its address: \<open>register_account.go\<close> (UC-002),
  \<open>resend_email_verification.go\<close> (UC-004) and \<open>verify_email.go\<close> (UC-003).
\<close>

section \<open>The handlers\<close>

definition RegisterAccount ::
  "ext \<Rightarrow> (string \<Rightarrow> rl_result result) \<Rightarrow> string \<Rightarrow> string \<Rightarrow> unit result" where
  "RegisterAccount X allow email password = do {
     log ''UC-002'' Info usecase_started [];
     attempt (allow email) (\<lambda>err. fail (Wrap ''could not check rate limit'' err)) (\<lambda>res.
     if \<not> Allowed res then do {
       log ''UC-002'' Warn MsgRegistrationRateLimited [];
       fail (RateLimitedError (RetryAfter res)) }
     else case ValidateEmail email of Some err \<Rightarrow> do {
       log ''UC-002'' Warn MsgInvalidEmail [];
       fail err }
     | None \<Rightarrow>
     case ValidatePassword password of Some err \<Rightarrow> do {
       log ''UC-002'' Warn MsgWeakPassword [];
       fail err }
     | None \<Rightarrow>
     attempt (EmailExists email) (\<lambda>err. fail (Wrap ''could not check email existence'' err)) (\<lambda>exists.
     if exists then do {
       log ''UC-002'' Info usecase_finished [];
       succeed () }
     else attempt (hash_password X password) (\<lambda>err. fail (Wrap ''could not hash password'' err)) (\<lambda>hash. do {
       userUUID \<leftarrow> new_uuid X;
       let registration = \<lparr>reg_UserUUID = userUUID, reg_Email = email, reg_PasswordHash = hash,
         reg_Status = StatusMailUnverified, reg_Role = RoleUser\<rparr>;
       attempt (NewEmailConfirmationToken X)
         (\<lambda>err. fail (Wrap ''could not generate confirmation token'' err)) (\<lambda>(plainToken, token).
       attempt (CreateUser registration token (after_insert (SendConfirmationEmail email plainToken)))
         (\<lambda>err. if err_is err ErrMailDeliveryFail then do {
              log ''UC-002'' Error MsgMailFailed [];
              fail (Sentinel ErrMailDeliveryFail) }
            else fail (Wrap ''could not create user'' err))
         (\<lambda>_. do {
       log ''UC-002'' Info usecase_finished [];
       succeed () })) }))) }"

definition ResendEmailVerification ::
  "ext \<Rightarrow> (string \<Rightarrow> rl_result result) \<Rightarrow> string \<Rightarrow> unit result" where
  "ResendEmailVerification X allow email = do {
     log ''UC-004'' Info usecase_started [];
     attempt (allow email) (\<lambda>err. fail (Wrap ''could not check rate limit'' err)) (\<lambda>res.
     if \<not> Allowed res then do {
       log ''UC-004'' Warn MsgResendRateLimited [];
       fail (RateLimitedError (RetryAfter res)) }
     else attempt (FindUserByEmail email) (\<lambda>err. fail (Wrap ''could not look up user'' err)) (\<lambda>user.
     case user of
       None \<Rightarrow> do { log ''UC-004'' Info usecase_finished []; succeed () }
     | Some (userUUID, status) \<Rightarrow>
     if status \<noteq> StatusMailUnverified then do {
       log ''UC-004'' Info usecase_finished [];
       succeed () }
     else attempt (NewEmailConfirmationToken X)
       (\<lambda>err. fail (Wrap ''could not generate confirmation token'' err)) (\<lambda>(plainToken, token).
     attempt (ReissueEmailConfirmationToken userUUID token
         (after_insert (SendConfirmationEmail email plainToken)))
       (\<lambda>err. if err_is err ErrMailDeliveryFail then do {
            log ''UC-004'' Error MsgMailFailed [];
            fail (Sentinel ErrMailDeliveryFail) }
          else fail (Wrap ''could not reissue confirmation token'' err))
       (\<lambda>_. do {
     log ''UC-004'' Info usecase_finished [];
     succeed () })))) }"

definition VerifyEmail ::
  "ext \<Rightarrow> (string \<Rightarrow> rl_result result) \<Rightarrow> string \<Rightarrow> string \<Rightarrow> unit result" where
  "VerifyEmail X allow plainToken clientIP = do {
     log ''UC-003'' Info usecase_started [];
     attempt (allow clientIP) (\<lambda>err. fail (Wrap ''could not check rate limit'' err)) (\<lambda>res.
     if \<not> Allowed res then do {
       log ''UC-003'' Warn MsgVerifyRateLimited [];
       fail (RateLimitedError (RetryAfter res)) }
     else attempt (repo_GetEmailConfirmationTokenByHash (HashEmailConfirmationToken X plainToken))
       (\<lambda>err. if err_is err ErrTokenNotFound then do {
            log ''UC-003'' Warn MsgInvalidConfirmationToken [];
            fail (Sentinel ErrInvalidToken) }
          else fail (Wrap ''could not look up confirmation token'' err)) (\<lambda>record.
     if ec_Used record then do {
       log ''UC-003'' Warn MsgInvalidConfirmationToken [];
       fail (Sentinel ErrInvalidToken) }
     else do {
       t \<leftarrow> now;
       if ec_Expired record t then do {
         log ''UC-003'' Warn MsgConfirmationTokenExpired [];
         fail (Sentinel ErrTokenExpired) }
       else attempt (ConsumeEmailConfirmationToken (ec_TokenUUID record) (ec_UserUUID record))
         (\<lambda>err. if err_is err ErrTokenConsumeConflict then do {
              log ''UC-003'' Warn MsgInvalidConfirmationToken [];
              fail (Sentinel ErrInvalidToken) }
            else fail (Wrap ''could not consume confirmation token'' err))
         (\<lambda>_. do {
       log ''UC-003'' Info usecase_finished [];
       succeed () }) })) }"

section \<open>What the handlers do\<close>

lemma tx_created:
  "tx_result (OpCreateUser reg tok) ml B w (Inr ()) w' \<Longrightarrow> reg_Email reg = email \<Longrightarrow>
   email_taken email (w_db w')"
  by (erule tx_done) (auto dest: create_user_taken simp del: tx_op.simps)

text \<open>
  A confirmed address: the token was found unused and not expired, and was consumed, together with
  the transition of its account, in one step.
\<close>

definition address_confirmed :: "string \<Rightarrow> world \<Rightarrow> world \<Rightarrow> bool" where
  "address_confirmed h w w' \<longleftrightarrow> (\<exists>t. seen (GetEmailConfirmationTokenByHash h) w w' t \<and>
     et_UsedAt t = None \<and> w_now w \<le> et_ExpiresAt t \<and>
     committed (OpConsumeEmailToken (et_TokenUuid t) (et_UserUuid t)) w w')"

lemma address_confirmedI:
  assumes "good w0 w" "GetEmailConfirmationTokenByHash h (w_db w) = Inr t" "et_UsedAt t = None"
    "\<not> et_ExpiresAt t < w_now w"
    "tx_result (OpConsumeEmailToken (et_TokenUuid t) (et_UserUuid t)) ml B w (Inr ()) w'"
  shows "address_confirmed h w0 w'"
proof -
  have "w_now w0 \<le> et_ExpiresAt t" using assms(1,4) by (simp add: good_def)
  then show ?thesis
    using good_seen [of w0 w "GetEmailConfirmationTokenByHash h"] assms(1-3) tx_committed [OF assms(1,5)] tx_now [OF assms(5)]
    unfolding address_confirmed_def by blast
qed

lemma address_confirmed_simps [simp]:
  "address_confirmed h w (w'\<lparr>w_log := l\<rparr>) = address_confirmed h w w'"
  by (simp add: address_confirmed_def)

context rate_limiter
begin

lemma RegisterAccount_spec:
  assumes "good w0 w"
  shows "wp (RegisterAccount X allow email password)
    (\<lambda>r w'. ended w0 w' \<and> mails_only ConfirmationMail email w0 w' \<and> no_effect_on_error w0 r w' \<and>
       (r = Inr () \<longrightarrow> email_taken email (w_db w') \<and> ValidateEmail email = None \<and> ValidatePassword password = None)) w"
  unfolding RegisterAccount_def Let_def NewEmailConfirmationToken_def SendConfirmationEmail_def
  by (simp, rule vc_allow [where ?w0.0 = w0], simp add: assms)
    (auto simp: conclude wp_new_token split: option.split sum.split
      intro!: vc_EmailExists [where ?w0.0 = w0] vc_CreateUser [where ?w0.0 = w0]
      elim: tx_mails_only [rotated] tx_created tx_no_effect [rotated])

text \<open>A re-sent mail goes to an account that was unconfirmed when it was looked up.\<close>

lemma ResendEmailVerification_spec:
  assumes "good w0 w"
  shows "wp (ResendEmailVerification X allow email)
    (\<lambda>r w'. ended w0 w' \<and> mails_only ConfirmationMail email w0 w' \<and> no_effect_on_error w0 r w' \<and>
       mail_needs (\<exists>u. seen (GetUserByEmail email) w0 w' u \<and> u_Status u = StatusMailUnverified) w0 w') w"
  unfolding ResendEmailVerification_def Let_def NewEmailConfirmationToken_def SendConfirmationEmail_def
  by (simp, rule vc_allow [where ?w0.0 = w0], simp add: assms)
    (auto simp: conclude wp_new_token split: option.split sum.split
      intro!: vc_FindUserByEmail [where ?w0.0 = w0] vc_ReissueEmailConfirmationToken [where ?w0.0 = w0]
      elim: tx_mails_only [rotated] tx_no_effect [rotated] intro: mail_needs_user)

lemma VerifyEmail_spec:
  assumes "good w0 w" "schema_ok (w_db w0)"
  shows "wp (VerifyEmail X allow plainToken clientIP)
    (\<lambda>r w'. ended w0 w' \<and> mail_needs False w0 w' \<and> no_effect_on_error w0 r w' \<and>
       (r = Inr () \<longrightarrow> address_confirmed (HashEmailConfirmationToken X plainToken) w0 w')) w"
  unfolding VerifyEmail_def Let_def
  by (simp, rule vc_allow [where ?w0.0 = w0], simp add: assms)
    (auto simp: conclude token_check_defs simp del: opaque split: option.split sum.split
      intro!: vc_GetEmailConfirmationTokenByHash [where ?w0.0 = w0] vc_ConsumeEmailConfirmationToken [where ?w0.0 = w0]
      elim: tx_no_mail [rotated] tx_no_effect [rotated]
      intro: good_consume_email [OF _ _ assms(2)] address_confirmedI)

end

end
