(* ===== verification/SessionCommands.thy ===== *)
theory SessionCommands
  imports Services
begin

text \<open>
  The use cases of a session: \<open>login.go\<close> (UC-005), \<open>refresh_token.go\<close> (UC-006) and \<open>logout.go\<close>
  (UC-007).
\<close>

section \<open>The handlers\<close>

definition Login ::
  "ext \<Rightarrow> (string \<Rightarrow> (bool \<times> duration) result) \<Rightarrow> (string \<Rightarrow> bool result) \<Rightarrow> (string \<Rightarrow> unit result) \<Rightarrow>
   string \<Rightarrow> string \<Rightarrow> (string \<times> string) result" where
  "Login X check recordFailure reset email password = do {
     log ''UC-005'' Info usecase_started [];
     case ValidateEmail email of Some err \<Rightarrow> do {
       log ''UC-005'' Warn MsgInvalidEmail [];
       fail err }
     | None \<Rightarrow>
     attempt (check email) (fail_logged ''UC-005'' ''could not check lockout'') (\<lambda>(locked, retryAfter).
     if locked then do {
       log ''UC-005'' Warn MsgLockedOut [];
       fail (LockedError retryAfter) }
     else attempt (GetLoginUser email) (fail_logged ''UC-005'' ''could not look up user'') (\<lambda>found.
     case found of None \<Rightarrow>
       (let _ = DummyPasswordVerify X password in
        attempt (recordFailure email) (fail_logged ''UC-005'' ''could not record login failure'') (\<lambda>_. do {
          log ''UC-005'' Warn MsgLoginFailed [];
          fail (Sentinel ErrAuthenticationFailed) }))
     | Some user \<Rightarrow>
     if \<not> VerifyPassword X (lu_PasswordHash user) password then
       attempt (recordFailure email) (fail_logged ''UC-005'' ''could not record login failure'') (\<lambda>_. do {
         log ''UC-005'' Warn MsgLoginFailed [user_id X (lu_UserUUID user)];
         fail (Sentinel ErrAuthenticationFailed) })
     else case CheckLoginableStatus (lu_Status user) of Some err \<Rightarrow> do {
       (if err_is err ErrEmailNotVerified then log ''UC-005'' Warn MsgLoginUnverified [user_id X (lu_UserUUID user)]
        else if err_is err ErrAccountDisabled then log ''UC-005'' Warn MsgLoginDisabled [user_id X (lu_UserUUID user)]
        else ret ());
       fail err }
     | None \<Rightarrow>
     attempt (reset email) (fail_logged ''UC-005'' ''could not reset failure count'') (\<lambda>_. do {
     t \<leftarrow> now;
     case GenerateAccessToken X t (uuid_str X (lu_UserUUID user)) (lu_Roles user) AccessTokenTTL of
       Inl err \<Rightarrow> fail_logged ''UC-005'' ''could not issue access token'' err
     | Inr accessToken \<Rightarrow>
     attempt (GenerateRefreshToken X) (fail_logged ''UC-005'' ''could not generate refresh token'')
       (\<lambda>(plainRefresh, hash). do {
     tokenID \<leftarrow> new_uuid X;
     familyID \<leftarrow> new_uuid X;
     t \<leftarrow> now;
     attempt (SaveRefreshToken \<lparr>rr_TokenID = tokenID, rr_UserUUID = lu_UserUUID user, rr_FamilyID = familyID,
         rr_ParentTokenID = None, rr_TokenHash = hash, rr_ExpiresAt = t + RefreshTokenTTL\<rparr>)
       (fail_logged ''UC-005'' ''could not save refresh token'') (\<lambda>_. do {
     log ''UC-005'' Info usecase_finished [user_id X (lu_UserUUID user)];
     succeed (accessToken, plainRefresh) }) }) }))) }"

definition reuse_attrs :: "ext \<Rightarrow> StoredRefreshToken \<Rightarrow> string \<Rightarrow> (string \<times> log_value) list" where
  "reuse_attrs X stored detected_by = [user_id X (sr_UserUUID stored),
     (''family_id'', LStr (uuid_str X (sr_FamilyID stored))), (''detected_by'', LStr detected_by)]"

definition RefreshToken :: "ext \<Rightarrow> string \<Rightarrow> (string \<times> string) result" where
  "RefreshToken X plainToken = do {
     log ''UC-006'' Info usecase_started [];
     if plainToken = '''' then do {
       log ''UC-006'' Warn MsgRefreshFormat [];
       fail (Sentinel ErrInvalidRefreshToken) }
     else attempt (repo_GetRefreshTokenByHash (HashRefreshToken X plainToken))
       (fail_logged ''UC-006'' ''could not look up refresh token'') (\<lambda>found.
     case found of None \<Rightarrow> do {
       log ''UC-006'' Warn MsgUnknownToken [];
       fail (Sentinel ErrInvalidRefreshToken) }
     | Some stored \<Rightarrow> do {
     t \<leftarrow> now;
     if before (sr_ExpiresAt stored) t then
       attempt (repo_RevokeRefreshToken (sr_TokenID stored) None)
         (fail_logged ''UC-006'' ''could not revoke expired token'') (\<lambda>_. do {
         log ''UC-006'' Warn MsgRefreshExpired [user_id X (sr_UserUUID stored)];
         fail (Sentinel ErrRefreshTokenExpired) })
     else if sr_UsedAt stored \<noteq> None \<or> sr_RevokedAt stored \<noteq> None then
       attempt (repo_RevokeRefreshTokenFamily (sr_FamilyID stored) RevocationReasonTokenReuseDetected)
         (fail_logged ''UC-006'' ''could not revoke token family'') (\<lambda>_. do {
         log ''UC-006'' Critical MsgReuseDetected (reuse_attrs X stored ''reuse_presentation'');
         fail (SessionRevokedError RevocationReasonTokenReuseDetected) })
     else attempt (GetUserForRefresh (sr_UserUUID stored))
       (fail_logged ''UC-006'' ''could not look up user'') (\<lambda>ok.
     case ok of None \<Rightarrow>
       attempt (repo_RevokeRefreshToken (sr_TokenID stored) (Some RevocationReasonAccountDeleted))
         (fail_logged ''UC-006'' ''could not revoke token'') (\<lambda>_. do {
         log ''UC-006'' Warn MsgRefreshDeletedAccount [user_id X (sr_UserUUID stored)];
         fail (SessionRevokedError RevocationReasonAccountDeleted) })
     | Some user \<Rightarrow>
     if ru_Status user = StatusDisabled then
       attempt (repo_RevokeRefreshToken (sr_TokenID stored) (Some RevocationReasonAccountDisabled))
         (fail_logged ''UC-006'' ''could not revoke token'') (\<lambda>_. do {
         log ''UC-006'' Warn MsgRefreshDisabledAccount [user_id X (sr_UserUUID stored)];
         fail (SessionRevokedError RevocationReasonAccountDisabled) })
     else attempt (GenerateRefreshToken X) (fail_logged ''UC-006'' ''could not generate refresh token'')
       (\<lambda>(plainRefresh, hash). do {
     tokenID \<leftarrow> new_uuid X;
     t \<leftarrow> now;
     attempt (RotateRefreshToken (sr_TokenID stored)
         \<lparr>rr_TokenID = tokenID, rr_UserUUID = sr_UserUUID stored, rr_FamilyID = sr_FamilyID stored,
          rr_ParentTokenID = Some (sr_TokenID stored), rr_TokenHash = hash, rr_ExpiresAt = t + RefreshTokenTTL\<rparr>)
       (\<lambda>err. if err_is err ErrRefreshTokenAlreadyUsed then
            attempt (repo_RevokeRefreshTokenFamily (sr_FamilyID stored) RevocationReasonTokenReuseDetected)
              (fail_logged ''UC-006'' ''could not revoke token family'') (\<lambda>_. do {
              log ''UC-006'' Critical MsgReuseDetected (reuse_attrs X stored ''concurrent_rotation'');
              fail (SessionRevokedError RevocationReasonTokenReuseDetected) })
          else fail_logged ''UC-006'' ''could not rotate refresh token'' err) (\<lambda>_. do {
     t \<leftarrow> now;
     case GenerateAccessToken X t (uuid_str X (sr_UserUUID stored)) (ru_Roles user) AccessTokenTTL of
       Inl err \<Rightarrow> fail_logged ''UC-006'' ''could not issue access token'' err
     | Inr accessToken \<Rightarrow> do {
     log ''UC-006'' Info usecase_finished [user_id X (sr_UserUUID stored)];
     succeed (accessToken, plainRefresh) } }) })) }) }"

definition Logout :: "ext \<Rightarrow> string \<Rightarrow> string \<Rightarrow> unit result" where
  "Logout X plainToken authenticatedUserID = do {
     log ''UC-007'' Info usecase_started [];
     if plainToken = '''' then do {
       log ''UC-007'' Warn MsgRefreshFormat [];
       fail (Sentinel ErrRefreshTokenFormatInvalid) }
     else attempt (repo_GetRefreshTokenByHash (HashRefreshToken X plainToken))
       (fail_logged ''UC-007'' ''could not look up refresh token'') (\<lambda>found.
     case found of None \<Rightarrow> do {
       log ''UC-007'' Info usecase_finished [(''user_id'', LStr authenticatedUserID)];
       succeed () }
     | Some stored \<Rightarrow>
     if uuid_parse X authenticatedUserID \<noteq> Some (sr_UserUUID stored) then do {
       log ''UC-007'' Warn MsgForeignLogout [(''user_id'', LStr authenticatedUserID)];
       log ''UC-007'' Info usecase_finished [(''user_id'', LStr authenticatedUserID)];
       succeed () }
     else attempt (repo_RevokeRefreshToken (sr_TokenID stored) None)
       (fail_logged ''UC-007'' ''could not revoke refresh token'') (\<lambda>_. do {
     log ''UC-007'' Info usecase_finished [(''user_id'', LStr authenticatedUserID)];
     succeed () })) }"

section \<open>Login\<close>

lemma called_seen:
  assumes "good w0 w" "called w w1" "q (w_db w1) = Inr x" "w_now w1 \<le> w_now w'"
  shows "seen q w0 w' x"
  using good_seen [of w0 w1 q] good_called [OF assms(1,2)] assms(3,4) by blast

definition password_known :: "ext \<Rightarrow> string \<Rightarrow> string \<Rightarrow> world \<Rightarrow> world \<Rightarrow> bool" where
  "password_known X email password w w' \<longleftrightarrow>
     (\<exists>u. seen (GetUserByEmail email) w w' u \<and> VerifyPassword X (u_PasswordHash u) password)"

text \<open>A new session: the first token of a new family, stored by its hash.\<close>

definition session_opened :: "ext \<Rightarrow> uuid \<Rightarrow> string \<Rightarrow> world \<Rightarrow> world \<Rightarrow> bool" where
  "session_opened X uid plain w w' \<longleftrightarrow>
     (\<exists>t. rr_UserUUID t = uid \<and> rr_ParentTokenID t = None \<and> rr_TokenHash t = HashRefreshToken X plain \<and>
        w_now w + RefreshTokenTTL \<le> rr_ExpiresAt t \<and> committed (OpSaveRefreshToken t) w w')"

text \<open>An access token names the user and the roles the user had during the request.\<close>

definition access_for :: "ext \<Rightarrow> uuid \<Rightarrow> string \<Rightarrow> world \<Rightarrow> world \<Rightarrow> bool" where
  "access_for X uid tok w w' \<longleftrightarrow> (\<exists>roles t. seen (GetUserRoles uid) w w' roles \<and> w_now w \<le> t \<and> t \<le> w_now w' \<and>
     GenerateAccessToken X t (uuid_str X uid) roles AccessTokenTTL = Inr tok)"

definition logged_in :: "ext \<Rightarrow> string \<Rightarrow> string \<Rightarrow> string \<times> string \<Rightarrow> world \<Rightarrow> world \<Rightarrow> bool" where
  "logged_in X email password res w w' \<longleftrightarrow>
     (\<exists>u. seen (GetUserByEmail email) w w' u \<and> VerifyPassword X (u_PasswordHash u) password \<and>
        u_Status u = StatusInactive \<and> access_for X (u_UserUuid u) (fst res) w w' \<and>
        session_opened X (u_UserUuid u) (snd res) w w')"

lemma session_opened_simps [simp]:
  "session_opened X uid plain w (w'\<lparr>w_log := l\<rparr>) = session_opened X uid plain w w'"
  "password_known X email password w (w'\<lparr>w_log := l\<rparr>) = password_known X email password w w'"
  "access_for X uid tok w (w'\<lparr>w_log := l\<rparr>) = access_for X uid tok w w'"
  "logged_in X email password res w (w'\<lparr>w_log := l\<rparr>) = logged_in X email password res w w'"
  by (simp_all add: session_opened_def logged_in_def access_for_def password_known_def)

lemma access_forI:
  assumes "GenerateAccessToken X t (uuid_str X uid) (sort (roles_of uid (w_db w))) AccessTokenTTL = Inr tok"
    and "w_now w0 \<le> t" "good w0 w" "t \<le> w_now w'" "w_now w \<le> w_now w'"
  shows "access_for X uid tok w0 w'"
proof -
  have "seen (GetUserRoles uid) w0 w' (sort (roles_of uid (w_db w)))"
    by (rule good_seen [OF assms(3)]) (simp_all add: GetUserRoles_def assms(5))
  then show ?thesis using assms(1,2,4) unfolding access_for_def by blast
qed

lemma good_now: "good w0 w \<Longrightarrow> w_now w0 \<le> w_now w"
  by (simp add: good_def)

lemma session_openedI:
  assumes "good w0 w" "write_result (OpSaveRefreshToken t) w (Inr u) w'"
    and "rr_UserUUID t = uid" "rr_ParentTokenID t = None" "rr_TokenHash t = HashRefreshToken X plain"
    and "rr_ExpiresAt t = w_now w + RefreshTokenTTL"
  shows "session_opened X uid plain w0 w'"
proof -
  show ?thesis unfolding session_opened_def using good_now [OF assms(1)]
      write_committed [OF assms(1,2)] assms(3-6) by (intro exI [of _ t]) simp
qed

lemma password_knownI:
  assumes "good w0 w" "called w w1" "GetUserByEmail email (w_db w1) = Inr u"
    and "VerifyPassword X (u_PasswordHash u) password" "called w1 w'"
  shows "password_known X email password w0 w'"
  using called_seen [OF assms(1,2), of "GetUserByEmail email"] assms(3,4) called_now [OF assms(5)]
  unfolding password_known_def by blast

lemma CheckLoginableStatus_None: "CheckLoginableStatus s = None \<longleftrightarrow> s = StatusInactive"
  by (simp add: CheckLoginableStatus_def)

lemma ValidateEmail_error: "ValidateEmail email = Some err \<Longrightarrow> err = Sentinel ErrInvalidEmail"
  using ValidateEmail_cases [of email] by auto

lemma fresh_session:
  assumes "fresh_ids X w0" "families d \<subseteq> families (w_db w) \<union> env_families w" "good w0 w" "w_draws w \<le> n"
  shows "admissible (OpSaveRefreshToken \<lparr>rr_TokenID = tid, rr_UserUUID = uid, rr_FamilyID = uuid_new X n,
    rr_ParentTokenID = None, rr_TokenHash = h, rr_ExpiresAt = e\<rparr>) d"
  by (rule fresh_admissible [OF assms(1-3)]) (use assms(4) in simp_all)

lemma logged_inI:
  assumes "good w0 w1" "called w1 w2" "GetUserByEmail email (w_db w2) = Inr u"
    and "CheckLoginableStatus (u_Status u) = None" "VerifyPassword X (u_PasswordHash u) password"
    and "good w0 w3" "GenerateAccessToken X (w_now w4) (uuid_str X (u_UserUuid u))
        (sort (roles_of (u_UserUuid u) (w_db w3))) AccessTokenTTL = Inr tok"
    and "good w0 w4" "write_result (OpSaveRefreshToken \<lparr>rr_TokenID = tid, rr_UserUUID = u_UserUuid u, rr_FamilyID = fid,
          rr_ParentTokenID = None, rr_TokenHash = HashRefreshToken X plain, rr_ExpiresAt = w_now w4 + RefreshTokenTTL\<rparr>)
        (w4\<lparr>w_draws := n\<rparr>) (Inr ()) w5" "w_draws w4 \<le> n"
    and "called w2 w3" "limiter_frame w3 w4"
  shows "logged_in X email password (tok, plain) w0 w5"
proof -
  note later = called_now [OF assms(11)] limiter_now [OF assms(12)] write_now [OF assms(9)]
  have "seen (GetUserByEmail email) w0 w5 u" by (rule called_seen [OF assms(1,2)]) (use assms(3) later in simp_all)
  moreover have "access_for X (u_UserUuid u) tok w0 w5"
    by (rule access_forI [OF assms(7) good_now [OF assms(8)] assms(6)]) (use later in simp_all)
  moreover have "session_opened X (u_UserUuid u) plain w0 w5"
    by (rule session_openedI [OF _ assms(9)]) (use assms(8,10) in simp_all)
  ultimately show ?thesis using assms(4,5) by (auto simp: logged_in_def CheckLoginableStatus_None)
qed

context login_lockout
begin

lemma vc_check: "good w0 w \<Longrightarrow>
  (\<And>r w'. limiter_frame w w' \<Longrightarrow> good w0 w' \<Longrightarrow> evolves (w_db w) (w_db w') \<Longrightarrow> Q r w') \<Longrightarrow> wp (check key) Q w"
  by (rule vc_limiter [OF check_frame])

lemma vc_record: "good w0 w \<Longrightarrow>
  (\<And>r w'. limiter_frame w w' \<Longrightarrow> good w0 w' \<Longrightarrow> evolves (w_db w) (w_db w') \<Longrightarrow> Q r w') \<Longrightarrow> wp (recordFailure key) Q w"
  by (rule vc_limiter [OF record_frame])

lemma vc_reset: "good w0 w \<Longrightarrow>
  (\<And>r w'. limiter_frame w w' \<Longrightarrow> good w0 w' \<Longrightarrow> evolves (w_db w) (w_db w') \<Longrightarrow> Q r w') \<Longrightarrow> wp (reset key) Q w"
  by (rule vc_limiter [OF reset_frame])

lemma Login_spec:
  assumes "good w0 w" "fresh_ids X w0"
  shows "wp (Login X check recordFailure reset email password)
    (\<lambda>r w'. ended w0 w' \<and> mail_needs False w0 w' \<and> no_effect_on_error w0 r w' \<and>
       (r = Inl (Sentinel ErrAccountDisabled) \<or> r = Inl (Sentinel ErrEmailNotVerified) \<longrightarrow>
          password_known X email password w0 w') \<and>
       (\<forall>res. r = Inr res \<longrightarrow> logged_in X email password res w0 w')) w"
  unfolding Login_def Let_def
  by (auto simp: assms conclude wp_GenerateRefreshToken simp del: opaque split: option.split sum.split prod.split
      intro!: vc_check [where ?w0.0 = w0] vc_GetLoginUser [where ?w0.0 = w0] vc_record [where ?w0.0 = w0]
        vc_reset [where ?w0.0 = w0] vc_SaveRefreshToken [where ?w0.0 = w0]
      elim: write_no_mail [rotated] write_no_effect [rotated]
      intro: password_knownI logged_inI dest: ValidateEmail_error)
    (rule fresh_session [OF assms(2)], assumption+, simp)

end

section \<open>Refresh and logout\<close>

definition token_seen :: "ext \<Rightarrow> string \<Rightarrow> world \<Rightarrow> world \<Rightarrow> AuthRefreshToken \<Rightarrow> bool" where
  "token_seen X plain w w' t \<longleftrightarrow> seen (GetRefreshTokenByHash (HashRefreshToken X plain)) w w' t"

lemma token_seen_simps [simp]:
  "token_seen X plain w (w'\<lparr>w_log := l\<rparr>) t = token_seen X plain w w' t"
  "token_seen X plain w (w'\<lparr>w_draws := n\<rparr>) t = token_seen X plain w w' t"
  by (simp_all add: token_seen_def)

lemma token_seenI:
  "good w0 w \<Longrightarrow> GetRefreshTokenByHash (HashRefreshToken X plain) (w_db w) = Inr t \<Longrightarrow> w_now w \<le> w_now w' \<Longrightarrow>
   token_seen X plain w0 w' t"
  unfolding token_seen_def by (rule good_seen)

text \<open>
  A refresh that succeeded: the token was found unused, unrevoked and unexpired, its owner was
  there and not disabled, and the token was consumed together with the insertion of its successor
  in the same family.
\<close>

definition refreshed :: "ext \<Rightarrow> string \<Rightarrow> string \<times> string \<Rightarrow> world \<Rightarrow> world \<Rightarrow> bool" where
  "refreshed X plain res w w' \<longleftrightarrow> (\<exists>t u t'. token_seen X plain w w' t \<and> rt_UsedAt t = None \<and>
     rt_RevokedAt t = None \<and> w_now w \<le> rt_ExpiresAt t \<and>
     seen (GetUserByUuid (rt_UserUuid t)) w w' u \<and> u_Status u \<noteq> StatusDisabled \<and>
     access_for X (rt_UserUuid t) (fst res) w w' \<and>
     rr_UserUUID t' = rt_UserUuid t \<and> rr_FamilyID t' = rt_FamilyID t \<and>
     rr_ParentTokenID t' = Some (rt_TokenID t) \<and> rr_TokenHash t' = HashRefreshToken X (snd res) \<and>
     w_now w + RefreshTokenTTL \<le> rr_ExpiresAt t' \<and>
     committed (OpRotateRefreshToken (rt_TokenID t) t') w w')"

text \<open>What the caller is told when the token is refused, and what has happened then.\<close>

definition refresh_refused :: "ext \<Rightarrow> string \<Rightarrow> goerr \<Rightarrow> world \<Rightarrow> world \<Rightarrow> bool" where
  "refresh_refused X plain e w w' \<longleftrightarrow>
     (e = SessionRevokedError RevocationReasonTokenReuseDetected \<longrightarrow>
        (\<exists>t. token_seen X plain w w' t \<and> family_revoked (rt_FamilyID t) (w_db w'))) \<and>
     (e = SessionRevokedError RevocationReasonAccountDisabled \<or>
      e = SessionRevokedError RevocationReasonAccountDeleted \<or> e = Sentinel ErrRefreshTokenExpired \<longrightarrow>
        (\<exists>t. token_seen X plain w w' t \<and> token_revoked (rt_TokenID t) (w_db w'))) \<and>
     (e = Sentinel ErrInvalidRefreshToken \<longrightarrow> w_env w = [] \<longrightarrow> w_db w' = w_db w)"

lemma refreshed_simps [simp]:
  "refreshed X plain res w (w'\<lparr>w_log := l\<rparr>) = refreshed X plain res w w'"
  "refresh_refused X plain e w (w'\<lparr>w_log := l\<rparr>) = refresh_refused X plain e w w'"
  "refresh_refused X plain e w (w'\<lparr>w_draws := n\<rparr>) = refresh_refused X plain e w w'"
  by (simp_all add: refreshed_def refresh_refused_def)

lemma refresh_refused_Wrap [simp]: "refresh_refused X plain (Wrap m e) w w'"
  by (simp add: refresh_refused_def)

lemma reasons_distinct [simp]:
  "RevocationReasonTokenReuseDetected \<noteq> RevocationReasonAccountDisabled"
  "RevocationReasonTokenReuseDetected \<noteq> RevocationReasonAccountDeleted"
  "RevocationReasonAccountDisabled \<noteq> RevocationReasonTokenReuseDetected"
  "RevocationReasonAccountDeleted \<noteq> RevocationReasonTokenReuseDetected"
  by (simp_all add: RevocationReasonTokenReuseDetected_def RevocationReasonAccountDisabled_def
      RevocationReasonAccountDeleted_def)

lemma refused_unknown: "good w0 w \<Longrightarrow> refresh_refused X plain (Sentinel ErrInvalidRefreshToken) w0 w"
  by (simp add: refresh_refused_def good_def)

lemma refused_reuse:
  assumes "GetRefreshTokenByHash (HashRefreshToken X plain) (w_db w) = Inr t"
    and "write_result (OpRevokeFamily (rt_FamilyID t) reason) w1 (Inr ()) w'" "good w0 w" "w_now w \<le> w_now w1"
  shows "refresh_refused X plain (SessionRevokedError RevocationReasonTokenReuseDetected) w0 w'"
proof -
  have "token_seen X plain w0 w' t" by (rule token_seenI [OF assms(3,1)]) (use assms(4) write_now [OF assms(2)] in simp)
  then show ?thesis using revoke_family_result [OF assms(2)] by (auto simp: refresh_refused_def)
qed

lemma refused_race:
  assumes "GetRefreshTokenByHash (HashRefreshToken X plain) (w_db w) = Inr t"
    and "write_result (OpRevokeFamily (rt_FamilyID t) reason) w2 (Inr ()) w'" "good w0 w"
    and "called w w1" "tx_result act ml B (w1\<lparr>w_draws := n\<rparr>) r w2"
  shows "refresh_refused X plain (SessionRevokedError RevocationReasonTokenReuseDetected) w0 w'"
  by (rule refused_reuse [OF assms(1-3)]) (use called_now [OF assms(4)] tx_now [OF assms(5)] in simp)

lemma refused_token:
  assumes "GetRefreshTokenByHash (HashRefreshToken X plain) (w_db w) = Inr t"
    and "write_result (OpRevokeRefreshToken (rt_TokenID t) reason) w1 (Inr ()) w'" "good w0 w" "w_now w \<le> w_now w1"
  shows "refresh_refused X plain (SessionRevokedError RevocationReasonAccountDisabled) w0 w'"
    "refresh_refused X plain (SessionRevokedError RevocationReasonAccountDeleted) w0 w'"
    "refresh_refused X plain (Sentinel ErrRefreshTokenExpired) w0 w'"
proof -
  have "token_seen X plain w0 w' t" by (rule token_seenI [OF assms(3,1)]) (use assms(4) write_now [OF assms(2)] in simp)
  then show "refresh_refused X plain (SessionRevokedError RevocationReasonAccountDisabled) w0 w'"
    "refresh_refused X plain (SessionRevokedError RevocationReasonAccountDeleted) w0 w'"
    "refresh_refused X plain (Sentinel ErrRefreshTokenExpired) w0 w'"
    using revoke_token_result [OF assms(2)] by (auto simp: refresh_refused_def)
qed

lemma refreshedI:
  assumes "good w0 w" "GetRefreshTokenByHash (HashRefreshToken X plain) (w_db w) = Inr t"
    and "rt_UsedAt t = None" "rt_RevokedAt t = None" "\<not> rt_ExpiresAt t < w_now w"
    and "called w w1" "GetUserByUuid (rt_UserUuid t) (w_db w1) = Inr u" "u_Status u \<noteq> StatusDisabled"
    and "good w0 w2" "tx_result (OpRotateRefreshToken (rt_TokenID t) \<lparr>rr_TokenID = tid, rr_UserUUID = rt_UserUuid t,
        rr_FamilyID = rt_FamilyID t, rr_ParentTokenID = Some (rt_TokenID t), rr_TokenHash = HashRefreshToken X new,
        rr_ExpiresAt = w_now w2 + RefreshTokenTTL\<rparr>) [] {} (w2\<lparr>w_draws := n\<rparr>) (Inr ()) w'" "w_draws w2 \<le> n"
    and "GenerateAccessToken X (w_now w') (uuid_str X (rt_UserUuid t)) (sort (roles_of (rt_UserUuid t) (w_db w2))) AccessTokenTTL = Inr tok"
    and "called w1 w2"
  shows "refreshed X plain (tok, new) w0 w'"
proof -
  have g: "good w0 (w2\<lparr>w_draws := n\<rparr>)" using assms(9,11) by simp
  note later = called_now [OF assms(6)] called_now [OF assms(13)] tx_now [OF assms(10)]
  have now: "w_now w0 \<le> w_now w'" using good_now [OF assms(9)] later by simp
  have "token_seen X plain w0 w' t" by (rule token_seenI [OF assms(1,2)]) (use later in simp)
  moreover have "seen (GetUserByUuid (rt_UserUuid t)) w0 w' u"
    by (rule called_seen [OF assms(1,6)]) (use assms(7) later in simp_all)
  moreover have "access_for X (rt_UserUuid t) tok w0 w'"
    by (rule access_forI [OF assms(12) now assms(9)]) (use later in simp_all)
  ultimately show ?thesis
    using assms(3-5,8) good_now [OF assms(1)] good_now [OF assms(9)] tx_committed [OF g assms(10)]
    unfolding refreshed_def by (intro exI [of _ t] exI [of _ u] exI conjI) simp_all
qed

lemma rotate_ok:
  assumes "GetRefreshTokenByHash h (w_db w) = Inr t" "called w w2" "evolves (w_db w2) d"
  shows "admissible (OpRotateRefreshToken (rt_TokenID t) \<lparr>rr_TokenID = tid, rr_UserUUID = rt_UserUuid t,
      rr_FamilyID = rt_FamilyID t, rr_ParentTokenID = Some (rt_TokenID t), rr_TokenHash = h', rr_ExpiresAt = e\<rparr>) d"
  by (rule rotate_admissible [OF assms(1) evolves_trans [OF assms(3) called_evolves [OF assms(2)]]]) simp_all

lemma tx_write_no_mail:
  assumes "good w0 w" "tx_result act [] B w r w1" "write_result act' w1 r' w'"
  shows "mail_needs P w0 w'"
  using tx_no_mail [OF assms(1,2), of False] assms(3) by (simp add: mail_needs_def write_result_def env_frame_def)

lemma RefreshToken_spec:
  assumes "good w0 w"
  shows "wp (RefreshToken X plain)
    (\<lambda>r w'. ended w0 w' \<and> mail_needs False w0 w' \<and>
       (case r of Inl e \<Rightarrow> refresh_refused X plain e w0 w' | Inr res \<Rightarrow> refreshed X plain res w0 w')) w"
  unfolding RefreshToken_def Let_def
  by (auto simp: assms conclude before_def wp_GenerateRefreshToken simp del: opaque split: option.split sum.split prod.split
      intro!: vc_GetRefreshTokenByHash [where ?w0.0 = w0] vc_RevokeRefreshToken [where ?w0.0 = w0]
        vc_RevokeRefreshTokenFamily [where ?w0.0 = w0] vc_GetUserForRefresh [where ?w0.0 = w0]
        vc_RotateRefreshToken [where ?w0.0 = w0]
      elim: tx_no_mail [rotated] write_no_mail [rotated] tx_write_no_mail [rotated 1])
    (auto intro: refused_unknown refused_reuse refused_race refused_token refreshedI rotate_ok called_now
      simp: assms simp del: opaque)

text \<open>
  A logout revokes the presented token when it belongs to the caller. To the caller all other
  cases look the same.
\<close>

definition logged_out :: "ext \<Rightarrow> string \<Rightarrow> string \<Rightarrow> world \<Rightarrow> world \<Rightarrow> bool" where
  "logged_out X plain auth w w' \<longleftrightarrow>
     (\<exists>t. token_seen X plain w w' t \<and> uuid_parse X auth = Some (rt_UserUuid t) \<and> token_revoked (rt_TokenID t) (w_db w')) \<or>
     ((\<exists>t. token_seen X plain w w' t \<and> uuid_parse X auth \<noteq> Some (rt_UserUuid t)) \<or>
      meanwhile (\<lambda>d. GetRefreshTokenByHash (HashRefreshToken X plain) d = Inl NoRows) w w') \<and>
     (w_env w = [] \<longrightarrow> w_db w' = w_db w)"

lemma logged_out_simps [simp]:
  "logged_out X plain auth w (w'\<lparr>w_log := l\<rparr>) = logged_out X plain auth w w'"
  by (simp add: logged_out_def)

lemma logged_outI:
  assumes "GetRefreshTokenByHash (HashRefreshToken X plain) (w_db w) = Inr t"
    and "write_result (OpRevokeRefreshToken (rt_TokenID t) reason) w (Inr ()) w'" "good w0 w"
    and "uuid_parse X auth = Some (rt_UserUuid t)"
  shows "logged_out X plain auth w0 w'"
proof -
  have "token_seen X plain w0 w' t" by (rule token_seenI [OF assms(3,1) write_now [OF assms(2)]])
  then show ?thesis using revoke_token_result [OF assms(2)] assms(4) by (auto simp: logged_out_def)
qed

lemma foreign_logout:
  assumes "GetRefreshTokenByHash (HashRefreshToken X plain) (w_db w) = Inr t" "good w0 w"
    and "uuid_parse X auth \<noteq> Some (rt_UserUuid t)"
  shows "logged_out X plain auth w0 w"
proof -
  have "token_seen X plain w0 w t" by (rule token_seenI [OF assms(2,1)]) simp
  then show ?thesis using assms(2,3) by (auto simp: logged_out_def good_def)
qed

lemma unknown_logout:
  assumes "GetRefreshTokenByHash (HashRefreshToken X plain) (w_db w) = Inl NoRows" "good w0 w"
  shows "logged_out X plain auth w0 w"
  using assms good_meanwhile [OF assms(2), of "\<lambda>d. GetRefreshTokenByHash (HashRefreshToken X plain) d = Inl NoRows" w]
  by (auto simp: logged_out_def good_def)

lemma Logout_spec:
  assumes "good w0 w"
  shows "wp (Logout X plain auth)
    (\<lambda>r w'. ended w0 w' \<and> mail_needs False w0 w' \<and> no_effect_on_error w0 r w' \<and>
       (r = Inr () \<longrightarrow> logged_out X plain auth w0 w')) w"
  unfolding Logout_def
  by (auto simp: assms conclude simp del: opaque split: option.split sum.split
      intro!: vc_GetRefreshTokenByHash [where ?w0.0 = w0] vc_RevokeRefreshToken [where ?w0.0 = w0]
      elim: write_no_mail [rotated] write_no_effect [rotated])
    (auto intro: unknown_logout foreign_logout logged_outI)

end
