(* ===== verification/PasswordCommands.thy ===== *)
theory PasswordCommands
  imports Services
begin

text \<open>
  The use cases that set a password: \<open>change_password.go\<close> (UC-010), \<open>request_password_reset.go\<close>
  (UC-008) and \<open>confirm_password_reset.go\<close> (UC-009).
\<close>

section \<open>The handlers\<close>

definition ChangePasswordHandler :: "ext \<Rightarrow> string \<Rightarrow> string \<Rightarrow> string \<Rightarrow> unit result" where
  "ChangePasswordHandler X authenticatedUserID currentPassword newPassword = do {
     log ''UC-010'' Info usecase_started [];
     case ValidatePassword newPassword of Some err \<Rightarrow> do {
       log ''UC-010'' Warn MsgWeakPassword [];
       fail err }
     | None \<Rightarrow>
     (case uuid_parse X authenticatedUserID of None \<Rightarrow> do {
       log ''UC-010'' Warn MsgBadSubject [(''user_id'', LStr authenticatedUserID)];
       fail (SessionRevokedError RevocationReasonAccountDeleted) }
     | Some authUUID \<Rightarrow>
     attempt (GetUserCredentials authUUID) (fail_logged ''UC-010'' ''could not look up user credentials'')
       (\<lambda>found. case found of None \<Rightarrow> do {
       log ''UC-010'' Warn MsgDeletedAccount [(''user_id'', LStr authenticatedUserID)];
       fail (SessionRevokedError RevocationReasonAccountDeleted) }
     | Some creds \<Rightarrow>
     if uc_Status creds = StatusDisabled then do {
       log ''UC-010'' Warn MsgDisabledAccount [(''user_id'', LStr authenticatedUserID)];
       fail (SessionRevokedError RevocationReasonAccountDisabled) }
     else if \<not> VerifyPassword X (uc_PasswordHash creds) currentPassword then do {
       log ''UC-010'' Warn MsgPasswordMismatch [(''user_id'', LStr authenticatedUserID)];
       fail (Sentinel ErrPasswordMismatch) }
     else attempt (hash_password X newPassword) (fail_logged ''UC-010'' ''could not hash new password'') (\<lambda>newHash.
     attempt (ChangePassword authUUID newHash)
       (\<lambda>err. do {
         log ''UC-010'' Error MsgPasswordChangeFailed [(''error'', LErr err)];
         fail (Wrap ''password change transaction failed'' err) }) (\<lambda>_. do {
     log ''UC-010'' Info MsgPasswordChanged [(''user_id'', LStr authenticatedUserID)];
     log ''UC-010'' Info usecase_finished [(''user_id'', LStr authenticatedUserID)];
     succeed () })))) }"

definition RequestPasswordReset ::
  "ext \<Rightarrow> (string \<Rightarrow> rl_result result) \<Rightarrow> string \<Rightarrow> unit result" where
  "RequestPasswordReset X allow email = do {
     log ''UC-008'' Info usecase_started [];
     attempt (allow email) (\<lambda>err. fail (Wrap ''could not check rate limit'' err)) (\<lambda>res.
     if \<not> Allowed res then do {
       log ''UC-008'' Warn MsgResetRateLimited [];
       fail (RateLimitedError (RetryAfter res)) }
     else case ValidateEmail email of Some err \<Rightarrow> do {
       log ''UC-008'' Warn MsgInvalidEmail [];
       fail err }
     | None \<Rightarrow>
     attempt (FindUserByEmail email) (\<lambda>err. fail (Wrap ''could not look up user'' err)) (\<lambda>user.
     if user = None \<or> snd (the user) \<noteq> StatusInactive then do {
       log ''UC-008'' Info usecase_finished [];
       succeed () }
     else attempt (NewPasswordResetToken X)
       (\<lambda>err. fail (Wrap ''could not generate reset token'' err)) (\<lambda>(plainToken, token).
     attempt (IssuePasswordResetToken (fst (the user)) token
         (after_insert (SendPasswordResetEmail email plainToken)))
       (\<lambda>err. if err_is err ErrMailDeliveryFail then do {
            log ''UC-008'' Error MsgResetMailFailed [];
            fail (Sentinel ErrMailDeliveryFail) }
          else fail (Wrap ''could not issue reset token'' err))
       (\<lambda>_. do {
     log ''UC-008'' Info usecase_finished [];
     succeed () })))) }"

definition ConfirmPasswordResetHandler :: "ext \<Rightarrow> string \<Rightarrow> string \<Rightarrow> unit result" where
  "ConfirmPasswordResetHandler X plainToken newPassword = do {
     log ''UC-009'' Info usecase_started [];
     case ValidatePassword newPassword of Some err \<Rightarrow> do {
       log ''UC-009'' Warn MsgWeakPassword [];
       fail err }
     | None \<Rightarrow>
     attempt (repo_GetPasswordResetTokenByHash (HashPasswordResetToken X plainToken))
       (\<lambda>err. if err_is err ErrResetTokenNotFound then do {
            log ''UC-009'' Warn MsgInvalidResetToken [];
            fail (Sentinel ErrInvalidResetToken) }
          else fail_logged ''UC-009'' ''could not look up reset token'' err) (\<lambda>rec.
     if pr_Used rec then do {
       log ''UC-009'' Warn MsgInvalidResetToken [];
       fail (Sentinel ErrInvalidResetToken) }
     else do {
       t \<leftarrow> now;
       if pr_Expired rec t then do {
         log ''UC-009'' Warn MsgResetTokenExpired [];
         fail (Sentinel ErrResetTokenExpired) }
       else attempt (hash_password X newPassword) (fail_logged ''UC-009'' ''could not hash new password'') (\<lambda>newHash.
       attempt (ConfirmPasswordReset (pr_UserUUID rec) (pr_TokenUUID rec) newHash)
         (\<lambda>err. if err_is err ErrResetTokenConsumeConflict then do {
              log ''UC-009'' Warn MsgInvalidResetToken [];
              fail (Sentinel ErrInvalidResetToken) }
            else do {
              log ''UC-009'' Error MsgPasswordResetFailed [(''error'', LErr err)];
              fail (Wrap ''password reset transaction failed'' err) }) (\<lambda>_. do {
       log ''UC-009'' Info MsgPasswordReset [user_id X (pr_UserUUID rec)];
       log ''UC-009'' Info usecase_finished [user_id X (pr_UserUUID rec)];
       succeed () })) }) }"

section \<open>What the handlers do\<close>

text \<open>The new hash: made from the new password at cost 12.\<close>

definition hash_of :: "ext \<Rightarrow> string \<Rightarrow> string \<Rightarrow> bool" where
  "hash_of X h password \<longleftrightarrow> (\<exists>i. bcrypt_generate X i password PasswordBcryptCost = Inr h)"

definition has_password :: "uuid \<Rightarrow> string \<Rightarrow> db \<Rightarrow> bool" where
  "has_password uid h d \<longleftrightarrow> (\<exists>u \<in> set (users d). u_UserUuid u = uid \<and> live u) \<and>
     (\<forall>u \<in> set (users d). u_UserUuid u = uid \<and> live u \<longrightarrow> u_PasswordHash u = h)"

lemma update_password_op:
  assumes "UpdateUserPassword ts uid h d = Inr (n, d')" "n \<noteq> 0"
  shows "has_password uid h d'"
proof -
  have d': "users d' = upd_where (\<lambda>u. u_UserUuid u = uid \<and> live u)
      (\<lambda>u. u\<lparr>u_PasswordHash := h, u_UpdatedAt := ts\<rparr>) (users d)"
    and n: "n = count_where (\<lambda>u. u_UserUuid u = uid \<and> live u) (users d)"
    using assms(1) by (auto simp: UpdateUserPassword_def Let_def)
  obtain u where u: "u \<in> set (users d)" "u_UserUuid u = uid" "live u"
    using assms(2) unfolding n by (auto simp: count_where_zero)
  have "u\<lparr>u_PasswordHash := h, u_UpdatedAt := ts\<rparr> \<in> set (users d')"
    unfolding d' set_upd_where using u by (intro image_eqI [of _ _ u]) simp_all
  moreover have "live (u\<lparr>u_PasswordHash := h, u_UpdatedAt := ts\<rparr>)" using u(3) by (simp add: live_def)
  moreover have "\<forall>u \<in> set (users d'). u_UserUuid u = uid \<and> live u \<longrightarrow> u_PasswordHash u = h"
    unfolding d' all_upd_where by auto
  ultimately show ?thesis using u(2) unfolding has_password_def
    by (intro conjI bexI [of _ "u\<lparr>u_PasswordHash := h, u_UpdatedAt := ts\<rparr>"]) auto
qed

lemma revoke_user_password:
  "RevokeRefreshTokensByUser ts uid reason d = Inr (x, d') \<Longrightarrow> has_password u h d \<Longrightarrow> has_password u h d'"
  by (auto simp: RevokeRefreshTokensByUser_def has_password_def)

lemma change_password_op:
  "tx_op ts (OpChangePassword uid h) d = Inr ((), d') \<Longrightarrow> has_password uid h d'"
  by (auto simp: wbind_Inr need_row_Inr dest: revoke_user_password update_password_op)

lemma confirm_reset_op:
  "tx_op ts (OpConfirmReset uid tok h) d = Inr ((), d') \<Longrightarrow> has_password uid h d'"
  by (auto simp: wbind_Inr need_row_Inr dest: revoke_user_password update_password_op)

text \<open>The password is the new one, and every session of the user is revoked.\<close>

definition password_set :: "ext \<Rightarrow> uuid \<Rightarrow> string \<Rightarrow> world \<Rightarrow> bool" where
  "password_set X uid password w' \<longleftrightarrow>
     (\<exists>h. hash_of X h password \<and> has_password uid h (w_db w')) \<and> sessions_revoked uid (w_db w')"

lemma password_set_simps [simp]: "password_set X uid p (w'\<lparr>w_log := l\<rparr>) = password_set X uid p w'"
  by (simp add: password_set_def)

lemma password_set_change:
  assumes "tx_result (OpChangePassword uid h) ml B w (Inr u) w'" "bcrypt_generate X i p PasswordBcryptCost = Inr h"
  shows "password_set X uid p w'"
  using tx_done [OF assms(1)] assms(2) change_password_op sessions_end(1)
  unfolding password_set_def hash_of_def by metis

lemma password_set_reset:
  assumes "tx_result (OpConfirmReset uid tok h) ml B w (Inr u) w'" "bcrypt_generate X i p PasswordBcryptCost = Inr h"
  shows "password_set X uid p w'"
  using tx_done [OF assms(1)] assms(2) confirm_reset_op sessions_end(2)
  unfolding password_set_def hash_of_def by metis

definition password_changed :: "ext \<Rightarrow> string \<Rightarrow> string \<Rightarrow> string \<Rightarrow> world \<Rightarrow> world \<Rightarrow> bool" where
  "password_changed X auth old new w w' \<longleftrightarrow>
     (\<exists>uid u h. uuid_parse X auth = Some uid \<and> seen (GetUserByUuid uid) w w' u \<and> u_Status u \<noteq> StatusDisabled \<and>
        VerifyPassword X (u_PasswordHash u) old \<and> ValidatePassword new = None \<and>
        committed (OpChangePassword uid h) w w' \<and> password_set X uid new w')"

definition password_reset :: "ext \<Rightarrow> string \<Rightarrow> string \<Rightarrow> world \<Rightarrow> world \<Rightarrow> bool" where
  "password_reset X plain new w w' \<longleftrightarrow>
     (\<exists>t h. seen (GetPasswordResetTokenByHash (HashPasswordResetToken X plain)) w w' t \<and> pt_UsedAt t = None \<and>
        w_now w \<le> pt_ExpiresAt t \<and> ValidatePassword new = None \<and>
        committed (OpConfirmReset (pt_UserUuid t) (pt_TokenUuid t) h) w w' \<and> password_set X (pt_UserUuid t) new w')"

lemma password_changed_simps [simp]:
  "password_changed X auth old new w (w'\<lparr>w_log := l\<rparr>) = password_changed X auth old new w w'"
  "password_reset X plain new w (w'\<lparr>w_log := l\<rparr>) = password_reset X plain new w w'"
  by (simp_all add: password_changed_def password_reset_def)

lemma password_changedI:
  assumes "good w0 w1" "GetUserByUuid uid (w_db w1) = Inr u" "uuid_parse X auth = Some uid" "u_Status u \<noteq> StatusDisabled"
    and "VerifyPassword X (u_PasswordHash u) old" "ValidatePassword new = None"
    and "tx_result (OpChangePassword uid h) ml B (w1\<lparr>w_draws := n\<rparr>) (Inr ()) w'" "w_draws w1 \<le> n"
    and "bcrypt_generate X i new PasswordBcryptCost = Inr h"
  shows "password_changed X auth old new w0 w'"
proof -
  have g: "good w0 (w1\<lparr>w_draws := n\<rparr>)" using assms(1,8) by simp
  have "seen (GetUserByUuid uid) w0 w' u" by (rule good_seen [OF assms(1)]) (use assms(2) tx_now [OF assms(7)] in simp_all)
  then show ?thesis using assms(3-6) tx_committed [OF g assms(7)] password_set_change [OF assms(7,9)]
    unfolding password_changed_def by blast
qed

lemma password_resetI:
  assumes "good w0 w1" "GetPasswordResetTokenByHash (HashPasswordResetToken X plain) (w_db w1) = Inr t"
    and "pt_UsedAt t = None" "\<not> pt_ExpiresAt t < w_now w1" "ValidatePassword new = None"
    and "tx_result (OpConfirmReset (pt_UserUuid t) (pt_TokenUuid t) h) ml B (w1\<lparr>w_draws := n\<rparr>) (Inr ()) w'" "w_draws w1 \<le> n"
    and "bcrypt_generate X i new PasswordBcryptCost = Inr h"
  shows "password_reset X plain new w0 w'"
proof -
  have g: "good w0 (w1\<lparr>w_draws := n\<rparr>)" using assms(1,7) by simp
  have "seen (GetPasswordResetTokenByHash (HashPasswordResetToken X plain)) w0 w' t"
    by (rule good_seen [OF assms(1)]) (use assms(2) tx_now [OF assms(6)] in simp_all)
  moreover have "w_now w0 \<le> pt_ExpiresAt t" using assms(1,4) by (simp add: good_def)
  ultimately show ?thesis
    using assms(3,5) tx_committed [OF g assms(6)] password_set_reset [OF assms(6,8)]
    unfolding password_reset_def by blast
qed

lemma ChangePasswordHandler_spec:
  assumes "good w0 w"
  shows "wp (ChangePasswordHandler X auth old new)
    (\<lambda>r w'. ended w0 w' \<and> mail_needs False w0 w' \<and> no_effect_on_error w0 r w' \<and>
       (r = Inr () \<longrightarrow> password_changed X auth old new w0 w')) w"
  unfolding ChangePasswordHandler_def
  by (auto simp: assms conclude simp del: opaque split: option.split sum.split
      intro!: vc_GetUserCredentials [where ?w0.0 = w0] vc_ChangePassword [where ?w0.0 = w0]
      elim: tx_no_mail [rotated] tx_no_effect [rotated] intro: password_changedI)

lemma ConfirmPasswordResetHandler_spec:
  assumes "good w0 w" "schema_ok (w_db w0)"
  shows "wp (ConfirmPasswordResetHandler X plain new)
    (\<lambda>r w'. ended w0 w' \<and> mail_needs False w0 w' \<and> no_effect_on_error w0 r w' \<and>
       (r = Inr () \<longrightarrow> password_reset X plain new w0 w')) w"
  unfolding ConfirmPasswordResetHandler_def
  by (auto simp: assms(1) conclude token_check_defs simp del: opaque split: option.split sum.split
      intro!: vc_GetPasswordResetTokenByHash [where ?w0.0 = w0] vc_ConfirmPasswordReset [where ?w0.0 = w0]
      elim: tx_no_mail [rotated] tx_no_effect [rotated]
      intro: good_confirm_reset [OF _ _ assms(2)] password_resetI)

context rate_limiter
begin

lemma RequestPasswordReset_spec:
  assumes "good w0 w"
  shows "wp (RequestPasswordReset X allow email)
    (\<lambda>r w'. ended w0 w' \<and> mails_only PasswordResetMail email w0 w' \<and> no_effect_on_error w0 r w' \<and>
       mail_needs (\<exists>u. seen (GetUserByEmail email) w0 w' u \<and> u_Status u = StatusInactive) w0 w') w"
  unfolding RequestPasswordReset_def Let_def NewPasswordResetToken_def SendPasswordResetEmail_def
  by (simp, rule vc_allow [where ?w0.0 = w0], simp add: assms)
    (auto simp: conclude wp_new_token split: option.split sum.split
      intro!: vc_FindUserByEmail [where ?w0.0 = w0] vc_IssuePasswordResetToken [where ?w0.0 = w0]
      elim: tx_mails_only [rotated] tx_no_effect [rotated] intro: mail_needs_user)

end

end
