(* ===== verification/AdminCommands.thy ===== *)
theory AdminCommands
  imports Services
begin

text \<open>
  The use cases of administration: \<open>invite_admin.go\<close> (UC-011), \<open>accept_invitation.go\<close> (UC-012),
  \<open>disable_account.go\<close> (UC-014) and \<open>reactivate_account.go\<close> (UC-015).
\<close>

section \<open>The handlers\<close>

definition InviteAdmin ::
  "ext \<Rightarrow> (string \<Rightarrow> rl_result result) \<Rightarrow> string \<Rightarrow> string \<Rightarrow> unit result" where
  "InviteAdmin X allow email role = do {
     log ''UC-011'' Info usecase_started [];
     attempt (allow email) (\<lambda>err. fail (Wrap ''could not check rate limit'' err)) (\<lambda>res.
     if \<not> Allowed res then do {
       log ''UC-011'' Warn MsgInvitationRateLimited [];
       fail (RateLimitedError (RetryAfter res)) }
     else case ValidateEmail email of Some err \<Rightarrow> do {
       log ''UC-011'' Warn MsgInvalidEmail [];
       fail err }
     | None \<Rightarrow>
     (case ValidateAdminRole role of Some err \<Rightarrow> do {
       log ''UC-011'' Warn MsgInvalidRole [];
       fail err }
     | None \<Rightarrow>
     attempt (FindUserRolesByEmail email) (\<lambda>err. fail (Wrap ''could not look up user'' err)) (\<lambda>found.
     case found of Some roles \<Rightarrow>
       if list_ex IsAdminRole roles then do {
         log ''UC-011'' Warn MsgRoleAlreadyAssigned [];
         fail (Sentinel ErrRoleAlreadyAssigned) }
       else do {
         log ''UC-011'' Warn MsgInviteExisting [];
         fail (Sentinel ErrEmailAlreadyRegistered) }
     | None \<Rightarrow>
     attempt (NewInvitationToken X)
       (\<lambda>err. fail (Wrap ''could not generate invitation token'' err)) (\<lambda>(plainToken, token).
     attempt (IssueInvitationToken email role token
         (after_insert (SendInvitationEmail email plainToken)))
       (\<lambda>err. if err_is err ErrMailDeliveryFail then do {
            log ''UC-011'' Error MsgInvitationMailFailed [];
            fail (Sentinel ErrMailDeliveryFail) }
          else fail (Wrap ''could not issue invitation token'' err))
       (\<lambda>_. do {
     log ''UC-011'' Info MsgAdminInvited [(''invitation_token_id'', LStr (uuid_str X (TokenUUID token)))];
     log ''UC-011'' Info usecase_finished [];
     succeed () }))))) }"

definition AcceptInvitationHandler :: "ext \<Rightarrow> string \<Rightarrow> string \<Rightarrow> unit result" where
  "AcceptInvitationHandler X plainToken password = do {
     log ''UC-012'' Info usecase_started [];
     case ValidatePassword password of Some err \<Rightarrow> do {
       log ''UC-012'' Warn MsgWeakPassword [];
       fail err }
     | None \<Rightarrow>
     attempt (repo_GetInvitationTokenByHash (HashInvitationToken X plainToken))
       (\<lambda>err. if err_is err ErrInvitationTokenNotFound then do {
            log ''UC-012'' Warn MsgInvalidInvitation [];
            fail (Sentinel ErrInvalidInvitationToken) }
          else fail_logged ''UC-012'' ''could not look up invitation token'' err) (\<lambda>rec.
     if in_UsedAt rec \<noteq> None then do {
       log ''UC-012'' Warn MsgInvalidInvitation [];
       fail (Sentinel ErrInvalidInvitationToken) }
     else do {
       t \<leftarrow> now;
       if after t (in_ExpiresAt rec) then do {
         log ''UC-012'' Warn MsgInvitationExpired [];
         fail (Sentinel ErrInvitationTokenExpired) }
       else attempt (FindUserRolesByEmail (in_Email rec)) (fail_logged ''UC-012'' ''could not look up user'') (\<lambda>found.
       if found \<noteq> None then do {
         log ''UC-012'' Warn MsgAccountConflict [];
         fail (Sentinel ErrEmailAlreadyRegistered) }
       else attempt (hash_password X password) (fail_logged ''UC-012'' ''could not hash password'') (\<lambda>hash.
       attempt (AcceptInvitation X (in_TokenUUID rec) (in_Email rec) (in_Role rec) hash)
         (\<lambda>err. if err_is err ErrInvitationTokenConsumeConflict then do {
              log ''UC-012'' Warn MsgInvalidInvitation [];
              fail (Sentinel ErrInvalidInvitationToken) }
            else if err_is err ErrEmailAlreadyRegistered then do {
              log ''UC-012'' Warn MsgAccountConflict [];
              fail (Sentinel ErrEmailAlreadyRegistered) }
            else do {
              log ''UC-012'' Error MsgAcceptFailed [(''error'', LErr err)];
              fail (Wrap ''invitation accept transaction failed'' err) }) (\<lambda>_. do {
       log ''UC-012'' Info usecase_finished [];
       succeed () }))) }) }"

definition operator_attrs :: "ext \<Rightarrow> uuid \<Rightarrow> string \<Rightarrow> (string \<times> log_value) list" where
  "operator_attrs X targetUUID operatorSub =
     [(''target_user_id'', LStr (uuid_str X targetUUID)), (''operator'', LStr operatorSub)]"

definition DisableAccountHandler :: "ext \<Rightarrow> string \<Rightarrow> string \<Rightarrow> unit result" where
  "DisableAccountHandler X operatorSub targetID = do {
     log ''UC-014'' Info usecase_started [];
     case uuid_parse X targetID of None \<Rightarrow> do {
       log ''UC-014'' Warn MsgTargetMissing [];
       fail (Sentinel ErrUserNotFound) }
     | Some targetUUID \<Rightarrow>
     attempt (FindAccountForDisable targetUUID)
       (\<lambda>err. do {
         log ''UC-014'' Error MsgDisableLookupFailed [];
         fail (Wrap ''could not look up account'' err) }) (\<lambda>found.
     case found of None \<Rightarrow> do {
       log ''UC-014'' Warn MsgTargetMissing [];
       fail (Sentinel ErrUserNotFound) }
     | Some (roles, status) \<Rightarrow>
     let isAdmin = list_ex IsAdminRole roles; isSuperAdmin = RoleSuperAdmin \<in> set roles in
     if \<not> isAdmin then do {
       log ''UC-014'' Warn MsgDisableNotAdmin [];
       fail (Sentinel ErrNotAdminAccount) }
     else if status = StatusDisabled then do {
       log ''UC-014'' Warn MsgAlreadyDisabled [];
       fail (Sentinel ErrAlreadyDisabled) }
     else attempt (DisableAccount targetUUID isSuperAdmin)
       (\<lambda>err. if err_is err ErrLastSuperAdmin then do {
            log ''UC-014'' Warn MsgLastSuperAdmin [];
            fail (Sentinel ErrLastSuperAdmin) }
          else if err_is err ErrAlreadyDisabled then do {
            log ''UC-014'' Warn MsgAlreadyDisabled [];
            fail (Sentinel ErrAlreadyDisabled) }
          else do {
            log ''UC-014'' Error MsgDisableFailed [];
            fail (Wrap ''could not disable account'' err) }) (\<lambda>_. do {
     log ''UC-014'' Info MsgAccountDisabled (operator_attrs X targetUUID operatorSub);
     log ''UC-014'' Info usecase_finished [];
     succeed () })) }"

definition ReactivateAccountHandler :: "ext \<Rightarrow> string \<Rightarrow> string \<Rightarrow> unit result" where
  "ReactivateAccountHandler X operatorSub targetID = do {
     log ''UC-015'' Info usecase_started [];
     case uuid_parse X targetID of None \<Rightarrow> do {
       log ''UC-015'' Warn MsgTargetMissing [];
       fail (Sentinel ErrUserNotFound) }
     | Some targetUUID \<Rightarrow>
     attempt (FindAccountForReactivate targetUUID)
       (\<lambda>err. do {
         log ''UC-015'' Error MsgReactivateLookupFailed [];
         fail (Wrap ''could not look up account'' err) }) (\<lambda>found.
     case found of None \<Rightarrow> do {
       log ''UC-015'' Warn MsgTargetMissing [];
       fail (Sentinel ErrUserNotFound) }
     | Some (roles, status) \<Rightarrow>
     if \<not> list_ex IsAdminRole roles then do {
       log ''UC-015'' Warn MsgReactivateNotAdmin [];
       fail (Sentinel ErrNotAdminAccount) }
     else if status \<noteq> StatusDisabled then do {
       log ''UC-015'' Warn MsgNotDisabled [];
       fail (Sentinel ErrNotDisabled) }
     else attempt (ReactivateAccount targetUUID)
       (\<lambda>err. if err_is err ErrNotDisabled then do {
            log ''UC-015'' Warn MsgNotDisabled [];
            fail (Sentinel ErrNotDisabled) }
          else do {
            log ''UC-015'' Error MsgReactivateFailed [];
            fail (Wrap ''could not reactivate account'' err) }) (\<lambda>_. do {
     log ''UC-015'' Info MsgAccountReactivated (operator_attrs X targetUUID operatorSub);
     log ''UC-015'' Info usecase_finished [];
     succeed () })) }"

section \<open>What the handlers do\<close>

definition holds_admin_role :: "uuid \<Rightarrow> world \<Rightarrow> world \<Rightarrow> bool" where
  "holds_admin_role uid = meanwhile (\<lambda>d. \<exists>r \<in> set (roles_of uid d). IsAdminRole r)"

definition account_disabled :: "ext \<Rightarrow> string \<Rightarrow> string \<Rightarrow> world \<Rightarrow> world \<Rightarrow> bool" where
  "account_disabled X operatorSub targetID w w' \<longleftrightarrow>
     (\<exists>uid s. uuid_parse X targetID = Some uid \<and> holds_admin_role uid w w' \<and>
        committed (OpDisableAccount uid s) w w' \<and> has_status uid StatusDisabled (w_db w') \<and>
        sessions_revoked uid (w_db w') \<and>
        audited ''UC-014'' MsgAccountDisabled (operator_attrs X uid operatorSub) w')"

definition account_reactivated :: "ext \<Rightarrow> string \<Rightarrow> string \<Rightarrow> world \<Rightarrow> world \<Rightarrow> bool" where
  "account_reactivated X operatorSub targetID w w' \<longleftrightarrow>
     (\<exists>uid. uuid_parse X targetID = Some uid \<and> holds_admin_role uid w w' \<and>
        committed (OpReactivateAccount uid) w w' \<and> has_status uid StatusInactive (w_db w') \<and>
        audited ''UC-015'' MsgAccountReactivated (operator_attrs X uid operatorSub) w')"

text \<open>An accepted invitation: the account gets the address and the role of the invitation.\<close>

definition invitation_accepted :: "ext \<Rightarrow> string \<Rightarrow> string \<Rightarrow> world \<Rightarrow> world \<Rightarrow> bool" where
  "invitation_accepted X plain password w w' \<longleftrightarrow>
     (\<exists>t uid h i. seen (GetInvitationTokenByHash (HashInvitationToken X plain)) w w' t \<and> it_UsedAt t = None \<and>
        w_now w \<le> it_ExpiresAt t \<and> ValidatePassword password = None \<and>
        bcrypt_generate X i password PasswordBcryptCost = Inr h \<and>
        committed (OpAcceptInvitation uid (it_TokenUuid t) (it_Email t) (it_Role t) h) w w' \<and>
        email_taken (it_Email t) (w_db w'))"

lemma admin_simps [simp]:
  "invitation_accepted X plain p w (w'\<lparr>w_log := l\<rparr>) = invitation_accepted X plain p w w'"
  by (simp add: invitation_accepted_def)

lemma found_user_id: "GetUserByUuid uid d = Inr u \<Longrightarrow> uid \<in> user_ids d"
  by (auto simp: query_defs user_ids_def dest: find_SomeD split: option.splits)

text \<open>The roles that were read are still those of the account when the transaction runs.\<close>

lemma disable_ok:
  assumes "GetUserByUuid uid (w_db w1) = Inr u" "called w1 w2" "evolves (w_db w2) d"
    and "list_ex IsAdminRole (sort (roles_of uid (w_db w2)))"
  shows "admissible (OpDisableAccount uid (RoleSuperAdmin \<in> set (roles_of uid (w_db w2)))) d"
proof -
  have "uid \<in> user_ids (w_db w2)"
    using found_user_id [OF assms(1)] evolves_roles [OF called_evolves [OF assms(2)]] by (auto simp: same_roles_def)
  then have "roles_of uid d = roles_of uid (w_db w2)"
    using evolves_roles [OF assms(3)] by (simp add: same_roles_def)
  then show ?thesis using assms(4) by (simp add: list_ex_iff)
qed

lemma holds_admin_roleI:
  "good w0 w \<Longrightarrow> list_ex IsAdminRole (sort (roles_of uid (w_db w))) \<Longrightarrow> w_now w \<le> w_now w' \<Longrightarrow>
   holds_admin_role uid w0 w'"
  unfolding holds_admin_role_def by (erule good_meanwhile) (auto simp: list_ex_iff)

lemma account_disabledI:
  assumes "tx_result (OpDisableAccount uid s) ml B w2 (Inr ()) w'" "good w0 w2" "uuid_parse X target = Some uid"
    and "list_ex IsAdminRole (sort (roles_of uid (w_db w2)))"
    and "\<lparr>l_usecase = ''UC-014'', l_level = Info, l_msg = MsgAccountDisabled, l_attrs = operator_attrs X uid op\<rparr> \<in> set l"
  shows "account_disabled X op target w0 (w'\<lparr>w_log := l\<rparr>)"
proof -
  obtain ts d where "tx_op ts (OpDisableAccount uid s) d = Inr ((), w_db w')" by (rule tx_done [OF assms(1)])
  then have "has_status uid StatusDisabled (w_db w')" "sessions_revoked uid (w_db w')"
    using status_after(2) sessions_end(3) by blast+
  then show ?thesis
    using assms(3,5) holds_admin_roleI [OF assms(2,4) tx_now [OF assms(1)]] tx_committed [OF assms(2,1)]
    by (auto simp: account_disabled_def holds_admin_role_def)
qed

lemma account_reactivatedI:
  assumes "write_result (OpReactivateAccount uid) w2 (Inr ()) w'" "good w0 w2" "uuid_parse X target = Some uid"
    and "list_ex IsAdminRole (sort (roles_of uid (w_db w2)))"
    and "\<lparr>l_usecase = ''UC-015'', l_level = Info, l_msg = MsgAccountReactivated, l_attrs = operator_attrs X uid op\<rparr> \<in> set l"
  shows "account_reactivated X op target w0 (w'\<lparr>w_log := l\<rparr>)"
proof -
  obtain ts d where "tx_op ts (OpReactivateAccount uid) d = Inr ((), w_db w')" by (rule write_op [OF assms(1)])
  then have "has_status uid StatusInactive (w_db w')" by (rule status_after(3))
  then show ?thesis
    using assms(3,5) holds_admin_roleI [OF assms(2,4) write_now [OF assms(1)]] write_committed [OF assms(2,1)]
    by (auto simp: account_reactivated_def holds_admin_role_def)
qed

lemma invitation_acceptedI:
  assumes "GetInvitationTokenByHash (HashInvitationToken X plain) (w_db w1) = Inr t" "good w0 w1"
    and "it_UsedAt t = None" "\<not> it_ExpiresAt t < w_now w1" "ValidatePassword password = None"
    and "bcrypt_generate X i password PasswordBcryptCost = Inr h"
    and "tx_result (OpAcceptInvitation uid (it_TokenUuid t) (it_Email t) (it_Role t) h) ml B (w2\<lparr>w_draws := n\<rparr>) (Inr ()) w'"
    and "good w0 w2" "w_draws w2 \<le> n" "called w1 w2"
  shows "invitation_accepted X plain password w0 w'"
proof -
  have g: "good w0 (w2\<lparr>w_draws := n\<rparr>)" using assms(8,9) by simp
  obtain ts d where "tx_op ts (OpAcceptInvitation uid (it_TokenUuid t) (it_Email t) (it_Role t) h) d = Inr ((), w_db w')"
    by (rule tx_done [OF assms(7)])
  then have "email_taken (it_Email t) (w_db w')" by (rule accept_invitation_taken)
  moreover have "seen (GetInvitationTokenByHash (HashInvitationToken X plain)) w0 w' t"
    by (rule good_seen [OF assms(2)]) (use assms(1) called_now [OF assms(10)] tx_now [OF assms(7)] in simp_all)
  moreover have "w_now w0 \<le> it_ExpiresAt t" using assms(2,4) by (simp add: good_def)
  ultimately show ?thesis
    using assms(3,5,6) tx_committed [OF g assms(7)] unfolding invitation_accepted_def by blast
qed

lemma accept_ok:
  assumes "GetInvitationTokenByHash h (w_db w1) = Inr t" "called w1 w2" "evolves (w_db w2) d" "good w0 w1" "schema_ok (w_db w0)"
  shows "admissible (OpAcceptInvitation uid (it_TokenUuid t) (it_Email t) (it_Role t) pw) d"
  by (rule good_accept_invitation [OF assms(4,1,5)])
    (rule evolves_trans [OF assms(3) called_evolves [OF assms(2)]])

lemma ValidateAdminRole_None: "ValidateAdminRole role = None \<longleftrightarrow> IsAdminRole role"
  by (simp add: ValidateAdminRole_def)

lemma invitation_mail:
  assumes "GetUserByEmail email (w_db w) = Inl NoRows" "good w0 w" "tx_result act ml B (w\<lparr>w_draws := n\<rparr>) r w'"
  shows "mail_needs (meanwhile (\<lambda>d. \<not> email_taken email d) w0 w') w0 w'"
proof -
  have "\<not> email_taken email (w_db w)" using assms(1) by (simp add: email_taken_iff)
  then show ?thesis using assms(2) tx_now [OF assms(3)] by (intro mail_needsI good_meanwhile) simp_all
qed

lemma DisableAccountHandler_spec:
  assumes "good w0 w"
  shows "wp (DisableAccountHandler X op target)
    (\<lambda>r w'. ended w0 w' \<and> mail_needs False w0 w' \<and> no_effect_on_error w0 r w' \<and>
       (r = Inr () \<longrightarrow> account_disabled X op target w0 w')) w"
  unfolding DisableAccountHandler_def Let_def FindAccountForDisable_def
  by (auto simp: assms conclude simp del: opaque split: option.split sum.split
      intro!: vc_findAdminAccount [where ?w0.0 = w0] vc_DisableAccount [where ?w0.0 = w0]
      elim: tx_no_mail [rotated] tx_no_effect [rotated] intro: disable_ok account_disabledI)

lemma ReactivateAccountHandler_spec:
  assumes "good w0 w"
  shows "wp (ReactivateAccountHandler X op target)
    (\<lambda>r w'. ended w0 w' \<and> mail_needs False w0 w' \<and> no_effect_on_error w0 r w' \<and>
       (r = Inr () \<longrightarrow> account_reactivated X op target w0 w')) w"
  unfolding ReactivateAccountHandler_def Let_def FindAccountForReactivate_def
  by (auto simp: assms conclude simp del: opaque split: option.split sum.split
      intro!: vc_findAdminAccount [where ?w0.0 = w0] vc_ReactivateAccount [where ?w0.0 = w0]
      elim: write_no_mail [rotated] write_no_effect [rotated] intro: account_reactivatedI)

lemma AcceptInvitationHandler_spec:
  assumes "good w0 w" "schema_ok (w_db w0)"
  shows "wp (AcceptInvitationHandler X plain password)
    (\<lambda>r w'. ended w0 w' \<and> mail_needs False w0 w' \<and> no_effect_on_error w0 r w' \<and>
       (r = Inr () \<longrightarrow> invitation_accepted X plain password w0 w')) w"
  unfolding AcceptInvitationHandler_def
  by (auto simp: assms(1) conclude token_check_defs simp del: opaque split: option.split sum.split
      intro!: vc_GetInvitationTokenByHash [where ?w0.0 = w0] vc_FindUserRolesByEmail [where ?w0.0 = w0]
        vc_AcceptInvitation [where ?w0.0 = w0]
      elim: tx_no_mail [rotated] tx_no_effect [rotated]
      intro: accept_ok [OF _ _ _ _ assms(2)])
    (rule invitation_acceptedI, assumption+, simp)

context rate_limiter
begin

lemma InviteAdmin_spec:
  assumes "good w0 w"
  shows "wp (InviteAdmin X allow email role)
    (\<lambda>r w'. ended w0 w' \<and> mails_only InvitationMail email w0 w' \<and> no_effect_on_error w0 r w' \<and>
       mail_needs (IsAdminRole role) w0 w' \<and>
       mail_needs (meanwhile (\<lambda>d. \<not> email_taken email d) w0 w') w0 w') w"
  unfolding InviteAdmin_def Let_def NewInvitationToken_def SendInvitationEmail_def
  by (simp, rule vc_allow [where ?w0.0 = w0], simp add: assms)
    (auto simp: ValidateAdminRole_None mail_needsI conclude wp_new_token split: option.split sum.split
      intro!: vc_FindUserRolesByEmail [where ?w0.0 = w0] vc_IssueInvitationToken [where ?w0.0 = w0]
      elim: tx_mails_only [rotated] tx_no_effect [rotated] intro: invitation_mail)

end

end
