(* ===== verification/Json.thy ===== *)
theory Json
  imports GoStrings
begin

text \<open>
  JSON values as \<open>encoding/json\<close> decodes them into \<open>any\<close>, and what the request log makes of them:
  \<open>backend/common/http/requestlog.go\<close> (\<open>isSensitiveLogKey\<close>, \<open>redactValues\<close>, \<open>redactBodyForLog\<close>)
  and \<open>truncate.go\<close>. Reading and writing the text form is a parameter (\<open>codec\<close>): the text of
  numbers and the order of keys do not matter here.
\<close>

datatype json =
    JNull
  | JBool bool
  | JNum string
  | JStr string
  | JArr "json list"
  | JObj "(string \<times> json) list"

record codec =
  json_unmarshal :: "string \<Rightarrow> json option"
  json_marshal :: "json \<Rightarrow> string option"

section \<open>Redaction\<close>

definition sensitiveLogKeyParts :: "string list" where
  "sensitiveLogKeyParts = [''password'', ''token'', ''secret'', ''email'']"

text \<open>
  \<open>strings.ToLower\<close> as far as ASCII substrings of the result can tell: besides the ASCII letters
  two characters have an ASCII lower case, U+212A (bytes E2 84 AA, to \<open>k\<close>) and U+0130 (bytes C4 B0,
  to \<open>i\<close>). All others are mapped to non-ASCII characters and are left as they are.
\<close>

fun to_lower :: "string \<Rightarrow> string" where
  "to_lower [] = []"
| "to_lower (c # s) =
     (if byte c = 0xE2 \<and> 2 \<le> length s \<and> byte (s ! 0) = 0x84 \<and> byte (s ! 1) = 0xAA
      then CHR ''k'' # to_lower (drop 2 s)
      else if byte c = 0xC4 \<and> 1 \<le> length s \<and> byte (s ! 0) = 0xB0
      then CHR ''i'' # to_lower (drop 1 s)
      else if 65 \<le> byte c \<and> byte c \<le> 90 then char_of (byte c + 32) # to_lower s
      else c # to_lower s)"

definition isSensitiveLogKey :: "string \<Rightarrow> bool" where
  "isSensitiveLogKey key \<longleftrightarrow> (let k = to_lower key in \<exists>part \<in> set sensitiveLogKeyParts. str_contains k part)"

definition REDACTED :: string where "REDACTED = ''[REDACTED]''"

fun redactValues :: "json \<Rightarrow> json" where
  "redactValues (JObj val) =
     JObj (map (\<lambda>(k, item). (k, if isSensitiveLogKey k then JStr REDACTED else redactValues item)) val)"
| "redactValues (JArr val) = JArr (map redactValues val)"
| "redactValues v = v"

definition non_json :: "string \<Rightarrow> string" where
  "non_json body = ''<non-json body ('' @ nat_text (length body) @ '' bytes)>''"

definition redactBodyForLog :: "codec \<Rightarrow> string \<Rightarrow> string" where
  "redactBodyForLog C body =
     (if body = [] then []
      else case json_unmarshal C body of
        None \<Rightarrow> non_json body
      | Some parsed \<Rightarrow>
          (case parsed of
             JObj _ \<Rightarrow> (case json_marshal C (redactValues parsed) of None \<Rightarrow> non_json body | Some t \<Rightarrow> t)
           | JArr _ \<Rightarrow> (case json_marshal C (redactValues parsed) of None \<Rightarrow> non_json body | Some t \<Rightarrow> t)
           | _ \<Rightarrow> non_json body))"

section \<open>Truncation\<close>

definition maxBodyLogBytes :: nat where "maxBodyLogBytes = 512"
definition maxArrayLogItems :: nat where "maxArrayLogItems = 6"

fun truncateArrays :: "json \<Rightarrow> json" where
  "truncateArrays (JArr val) =
     (let val' = map truncateArrays val in
      if length val' \<le> maxArrayLogItems then JArr val'
      else JArr (take (maxArrayLogItems - 1) val' @
             [JObj [(''...'', JStr (nat_text (length val' - maxArrayLogItems) @ '' items truncated''))]] @
             [last val']))"
| "truncateArrays (JObj val) = JObj (map (\<lambda>(k, item). (k, truncateArrays item)) val)"
| "truncateArrays v = v"

definition headTailTruncate :: "string \<Rightarrow> string" where
  "headTailTruncate body =
     (let keep = maxBodyLogBytes div 2 in
      take keep body @ '' ... ('' @ nat_text (length body - 2 * keep) @ '' bytes truncated) ... '' @
      drop (length body - keep) body)"

definition truncateBodyForLog :: "codec \<Rightarrow> string \<Rightarrow> string" where
  "truncateBodyForLog C body =
     (if body = [] then []
      else if length body \<le> maxBodyLogBytes then body
      else case json_unmarshal C body of
        None \<Rightarrow> headTailTruncate body
      | Some parsed \<Rightarrow>
          (case json_marshal C (truncateArrays parsed) of None \<Rightarrow> headTailTruncate body | Some t \<Rightarrow> t))"

section \<open>What reaches the log\<close>

text \<open>A value leaks when a sensitive key, at any depth, holds something else than the marker.\<close>

fun leaks :: "json \<Rightarrow> bool" where
  "leaks (JObj val) \<longleftrightarrow>
     (\<exists>(k, item) \<in> set val. isSensitiveLogKey k \<and> item \<noteq> JStr REDACTED \<or> leaks item)"
| "leaks (JArr val) \<longleftrightarrow> (\<exists>v \<in> set val. leaks v)"
| "leaks _ \<longleftrightarrow> False"

lemma redact_no_leak: "\<not> leaks (redactValues v)"
  by (induction v) (auto split: if_splits)

lemma not_sensitive_dots: "\<not> isSensitiveLogKey ''...''"
  by code_simp

lemma truncate_no_leak: "\<not> leaks v \<Longrightarrow> \<not> leaks (truncateArrays v)"
proof (induction v)
  case (JArr val)
  have "\<not> leaks x" if "x \<in> set (map truncateArrays val)" for x
    using that JArr by auto
  moreover have "\<not> leaks (last (map truncateArrays val))" if "\<not> length val \<le> 6"
    using that calculation last_in_set [of "map truncateArrays val"] by fastforce
  ultimately show ?case
    by (auto simp: Let_def maxArrayLogItems_def not_sensitive_dots dest!: in_set_takeD simp del: set_map)
next
  case (JObj val)
  have "truncateArrays (JStr REDACTED) = JStr REDACTED" by simp
  then show ?case using JObj by (fastforce)
qed simp_all

text \<open>Every array of a truncated value has at most seven elements.\<close>

fun short_arrays :: "nat \<Rightarrow> json \<Rightarrow> bool" where
  "short_arrays n (JArr val) \<longleftrightarrow> length val \<le> n \<and> (\<forall>v \<in> set val. short_arrays n v)"
| "short_arrays n (JObj val) \<longleftrightarrow> (\<forall>(k, v) \<in> set val. short_arrays n v)"
| "short_arrays n _ \<longleftrightarrow> True"

lemma truncate_short: "short_arrays 7 (truncateArrays v)"
proof (induction v)
  case (JArr val)
  have all: "short_arrays 7 x" if "x \<in> set (map truncateArrays val)" for x
    using that JArr by auto
  moreover have "short_arrays 7 (last (map truncateArrays val))" if "\<not> length val \<le> 6"
    using that all last_in_set [of "map truncateArrays val"] by fastforce
  ultimately show ?case
    by (auto simp: Let_def maxArrayLogItems_def dest!: in_set_takeD simp del: set_map)
qed auto

text \<open>
  What \<open>encoding/json\<close> does with decoded values: after sensitive strings were replaced such a value can
  be written and is read back as it is, and it can be written with its arrays shortened.
\<close>

definition codec_ok :: "codec \<Rightarrow> bool" where
  "codec_ok C \<longleftrightarrow> (\<forall>body v. json_unmarshal C body = Some v \<longrightarrow>
     (\<exists>s. json_marshal C (redactValues v) = Some s \<and> json_unmarshal C s = Some (redactValues v)) \<and>
     json_marshal C (truncateArrays (redactValues v)) \<noteq> None)"

text \<open>The bodies of a log line are empty, the marker of a body that is not JSON, or a value without leaks.\<close>

definition safe_text :: "codec \<Rightarrow> string \<Rightarrow> bool" where
  "safe_text C t \<longleftrightarrow> t = [] \<or> (\<exists>body. t = non_json body) \<or> (\<exists>v. json_marshal C v = Some t \<and> \<not> leaks v)"

lemma redact_cases:
  "redactBodyForLog C body = [] \<or> redactBodyForLog C body = non_json body \<or>
   (\<exists>v. json_unmarshal C body = Some v \<and> json_marshal C (redactValues v) = Some (redactBodyForLog C body))"
proof -
  have "(case json_marshal C (redactValues v) of None \<Rightarrow> non_json body | Some t \<Rightarrow> t) = non_json body \<or>
    json_marshal C (redactValues v) =
      Some (case json_marshal C (redactValues v) of None \<Rightarrow> non_json body | Some t \<Rightarrow> t)" for v
    by (cases "json_marshal C (redactValues v)") auto
  then show ?thesis
    unfolding redactBodyForLog_def
    by (cases "json_unmarshal C body"; cases "the (json_unmarshal C body)") (auto simp del: redactValues.simps)
qed

lemma redact_safe: "safe_text C (redactBodyForLog C body)"
  using redact_cases [of C body] redact_no_leak unfolding safe_text_def by blast

text \<open>Only a body whose redacted form is longer than 512 bytes is shortened further.\<close>

definition log_body :: "codec \<Rightarrow> string \<Rightarrow> string" where
  "log_body C body = truncateBodyForLog C (redactBodyForLog C body)"

lemma log_body_safe:
  assumes "codec_ok C" "length body < 2 ^ 63"
  shows "safe_text C (log_body C body)"
proof (cases "length (redactBodyForLog C body) \<le> maxBodyLogBytes")
  case True
  then show ?thesis using redact_safe [of C body] by (auto simp: log_body_def truncateBodyForLog_def safe_text_def)
next
  case False
  have "length (non_json body) \<le> 512" using length_nat_text [of "length body" 18] assms(2)
    by (simp add: non_json_def)
  then have "redactBodyForLog C body \<noteq> non_json body" using False by (auto simp: maxBodyLogBytes_def)
  moreover have "redactBodyForLog C body \<noteq> []" using False by auto
  ultimately obtain v where v: "json_unmarshal C body = Some v" "json_marshal C (redactValues v) = Some (redactBodyForLog C body)"
    using redact_cases [of C body] by blast
  then have "json_unmarshal C (redactBodyForLog C body) = Some (redactValues v)"
    using assms(1) unfolding codec_ok_def by (metis option.inject)
  moreover obtain t where "json_marshal C (truncateArrays (redactValues v)) = Some t"
    using assms(1) v(1) unfolding codec_ok_def by blast
  ultimately show ?thesis using False truncate_no_leak [OF redact_no_leak]
    by (auto simp: log_body_def truncateBodyForLog_def safe_text_def)
qed

end
