(* ===== verification/HttpMessages.thy ===== *)
theory HttpMessages
  imports LogMessages
begin

text \<open>
  The texts of the HTTP interface and of the mails that are not ASCII: problem details of
  \<open>auth/api/http/handler.go\<close>, log messages of \<open>backend/common/http\<close>, and the mail bodies of
  \<open>auth/adapters/mail/smtp.go\<close>, as UTF-8 bytes.
\<close>

definition DetailBodyRequired :: string where
  "DetailBodyRequired = bytes [227, 131, 170, 227, 130, 175, 227, 130, 168, 227, 130, 185, 227,
     131, 136, 227, 131, 156, 227, 131, 135, 227, 130, 163, 227, 129, 140, 229, 191, 133, 232,
     166, 129, 227, 129, 167, 227, 129, 153]"

definition DetailEmailFormat :: string where
  "DetailEmailFormat = bytes [227, 131, 161, 227, 131, 188, 227, 131, 171, 227, 130, 162, 227,
     131, 137, 227, 131, 172, 227, 130, 185, 227, 129, 174, 229, 189, 162, 229, 188, 143, 227,
     129, 140, 228, 184, 141, 230, 173, 163, 227, 129, 167, 227, 129, 153]"

definition DetailPasswordLength :: string where
  "DetailPasswordLength = bytes [227, 131, 145, 227, 130, 185, 227, 131, 175, 227, 131, 188,
     227, 131, 137, 227, 129, 175, 49, 53, 227, 128, 156, 54, 52, 230, 150, 135, 229, 173, 151,
     227, 129, 167, 230, 140, 135, 229, 174, 154, 227, 129, 151, 227, 129, 166, 227, 129, 143,
     227, 129, 160, 227, 129, 149, 227, 129, 132]"

definition DetailPasswordBytes :: string where
  "DetailPasswordBytes = bytes [227, 131, 145, 227, 130, 185, 227, 131, 175, 227, 131, 188, 227,
     131, 137, 227, 129, 175, 49, 53, 227, 128, 156, 54, 52, 230, 150, 135, 229, 173, 151, 227,
     129, 139, 227, 129, 164, 85, 84, 70, 45, 56, 227, 129, 167, 55, 50, 227, 131, 144, 227,
     130, 164, 227, 131, 136, 228, 187, 165, 228, 184, 139, 227, 129, 167, 230, 140, 135, 229,
     174, 154, 227, 129, 151, 227, 129, 166, 227, 129, 143, 227, 129, 160, 227, 129, 149, 227,
     129, 132]"

definition DetailRegisterRate :: string where
  "DetailRegisterRate = bytes [231, 153, 187, 233, 140, 178, 227, 131, 170, 227, 130, 175, 227,
     130, 168, 227, 130, 185, 227, 131, 136, 227, 129, 140, 229, 164, 154, 227, 129, 153, 227,
     129, 142, 227, 129, 190, 227, 129, 153]"

definition DetailConfirmMailFailed :: string where
  "DetailConfirmMailFailed = bytes [231, 162, 186, 232, 170, 141, 227, 131, 161, 227, 131, 188,
     227, 131, 171, 227, 129, 174, 233, 128, 129, 228, 191, 161, 227, 129, 171, 229, 164, 177,
     230, 149, 151, 227, 129, 151, 227, 129, 190, 227, 129, 151, 227, 129, 159]"

definition DetailTokenRequired :: string where
  "DetailTokenRequired = bytes [227, 131, 136, 227, 131, 188, 227, 130, 175, 227, 131, 179, 227,
     129, 140, 229, 191, 133, 232, 166, 129, 227, 129, 167, 227, 129, 153]"

definition DetailVerifyTokenInvalid :: string where
  "DetailVerifyTokenInvalid = bytes [227, 131, 161, 227, 131, 188, 227, 131, 171, 231, 162, 186,
     232, 170, 141, 227, 131, 136, 227, 131, 188, 227, 130, 175, 227, 131, 179, 227, 129, 140,
     231, 132, 161, 229, 138, 185, 227, 129, 167, 227, 129, 153]"

definition DetailVerifyTokenExpired :: string where
  "DetailVerifyTokenExpired = bytes [227, 131, 161, 227, 131, 188, 227, 131, 171, 231, 162, 186,
     232, 170, 141, 227, 131, 136, 227, 131, 188, 227, 130, 175, 227, 131, 179, 227, 129, 174,
     230, 156, 137, 229, 138, 185, 230, 156, 159, 233, 153, 144, 227, 129, 140, 229, 136, 135,
     227, 130, 140, 227, 129, 166, 227, 129, 132, 227, 129, 190, 227, 129, 153]"

definition DetailVerifyRate :: string where
  "DetailVerifyRate = bytes [227, 131, 161, 227, 131, 188, 227, 131, 171, 231, 162, 186, 232,
     170, 141, 227, 131, 170, 227, 130, 175, 227, 130, 168, 227, 130, 185, 227, 131, 136, 227,
     129, 140, 229, 164, 154, 227, 129, 153, 227, 129, 142, 227, 129, 190, 227, 129, 153]"

definition DetailResetRate :: string where
  "DetailResetRate = bytes [227, 131, 145, 227, 130, 185, 227, 131, 175, 227, 131, 188, 227,
     131, 137, 227, 131, 170, 227, 130, 187, 227, 131, 131, 227, 131, 136, 232, 166, 129, 230,
     177, 130, 227, 129, 140, 229, 164, 154, 227, 129, 153, 227, 129, 142, 227, 129, 190, 227,
     129, 153]"

definition DetailResetMailFailed :: string where
  "DetailResetMailFailed = bytes [227, 131, 170, 227, 130, 187, 227, 131, 131, 227, 131, 136,
     227, 131, 161, 227, 131, 188, 227, 131, 171, 227, 129, 174, 233, 128, 129, 228, 191, 161,
     227, 129, 171, 229, 164, 177, 230, 149, 151, 227, 129, 151, 227, 129, 190, 227, 129, 151,
     227, 129, 159]"

definition DetailInvitationInvalid :: string where
  "DetailInvitationInvalid = bytes [231, 132, 161, 229, 138, 185, 227, 129, 170, 230, 139, 155,
     229, 190, 133, 227, 131, 136, 227, 131, 188, 227, 130, 175, 227, 131, 179]"

definition DetailInvitationExpired :: string where
  "DetailInvitationExpired = bytes [230, 139, 155, 229, 190, 133, 227, 131, 136, 227, 131, 188,
     227, 130, 175, 227, 131, 179, 227, 129, 174, 230, 156, 137, 229, 138, 185, 230, 156, 159,
     233, 153, 144, 227, 129, 140, 229, 136, 135, 227, 130, 140, 227, 129, 166, 227, 129, 132,
     227, 129, 190, 227, 129, 153]"

definition DetailEmailRegistered :: string where
  "DetailEmailRegistered = bytes [227, 129, 147, 227, 129, 174, 227, 131, 161, 227, 131, 188,
     227, 131, 171, 227, 130, 162, 227, 131, 137, 227, 131, 172, 227, 130, 185, 227, 129, 174,
     227, 130, 162, 227, 130, 171, 227, 130, 166, 227, 131, 179, 227, 131, 136, 227, 129, 175,
     230, 151, 162, 227, 129, 171, 229, 173, 152, 229, 156, 168, 227, 129, 151, 227, 129, 190,
     227, 129, 153]"

definition DetailInternal :: string where
  "DetailInternal = bytes [227, 130, 181, 227, 131, 188, 227, 131, 144, 229, 134, 133, 233, 131,
     168, 227, 130, 168, 227, 131, 169, 227, 131, 188, 227, 129, 140, 231, 153, 186, 231, 148,
     159, 227, 129, 151, 227, 129, 190, 227, 129, 151, 227, 129, 159]"

definition DetailInviteRate :: string where
  "DetailInviteRate = bytes [230, 139, 155, 229, 190, 133, 227, 131, 170, 227, 130, 175, 227,
     130, 168, 227, 130, 185, 227, 131, 136, 227, 129, 140, 229, 164, 154, 227, 129, 153, 227,
     129, 142, 227, 129, 190, 227, 129, 153]"

definition DetailAdminRoleOnly :: string where
  "DetailAdminRoleOnly = bytes [230, 140, 135, 229, 174, 154, 227, 129, 167, 227, 129, 141, 227,
     130, 139, 227, 131, 173, 227, 131, 188, 227, 131, 171, 227, 129, 175, 231, 174, 161, 231,
     144, 134, 232, 128, 133, 227, 131, 173, 227, 131, 188, 227, 131, 171, 227, 129, 174, 227,
     129, 191, 227, 129, 167, 227, 129, 153]"

definition DetailRoleAssigned :: string where
  "DetailRoleAssigned = bytes [230, 151, 162, 227, 129, 171, 231, 174, 161, 231, 144, 134, 232,
     128, 133, 227, 131, 173, 227, 131, 188, 227, 131, 171, 227, 129, 140, 228, 187, 152, 228,
     184, 142, 227, 129, 149, 227, 130, 140, 227, 129, 166, 227, 129, 132, 227, 129, 190, 227,
     129, 153]"

definition DetailInviteMailFailed :: string where
  "DetailInviteMailFailed = bytes [230, 139, 155, 229, 190, 133, 227, 131, 161, 227, 131, 188,
     227, 131, 171, 227, 129, 174, 233, 128, 129, 228, 191, 161, 227, 129, 171, 229, 164, 177,
     230, 149, 151, 227, 129, 151, 227, 129, 190, 227, 129, 151, 227, 129, 159]"

definition DetailAccessTokenInvalid :: string where
  "DetailAccessTokenInvalid = bytes [227, 130, 162, 227, 130, 175, 227, 130, 187, 227, 130, 185,
     227, 131, 136, 227, 131, 188, 227, 130, 175, 227, 131, 179, 227, 129, 140, 231, 132, 161,
     229, 138, 185, 227, 129, 167, 227, 129, 153]"

definition DetailUserMissing :: string where
  "DetailUserMissing = bytes [229, 175, 190, 232, 177, 161, 227, 131, 166, 227, 131, 188, 227,
     130, 182, 227, 131, 188, 227, 129, 140, 229, 173, 152, 229, 156, 168, 227, 129, 151, 227,
     129, 190, 227, 129, 155, 227, 130, 147]"

definition DetailNotAdmin :: string where
  "DetailNotAdmin = bytes [229, 175, 190, 232, 177, 161, 227, 129, 175, 231, 174, 161, 231, 144,
     134, 232, 128, 133, 227, 130, 162, 227, 130, 171, 227, 130, 166, 227, 131, 179, 227, 131,
     136, 227, 129, 167, 227, 129, 175, 227, 129, 130, 227, 130, 138, 227, 129, 190, 227, 129,
     155, 227, 130, 147]"

definition DetailAlreadyDisabled :: string where
  "DetailAlreadyDisabled = bytes [230, 151, 162, 227, 129, 171, 231, 132, 161, 229, 138, 185,
     229, 140, 150, 230, 184, 136, 227, 129, 191, 227, 129, 167, 227, 129, 153]"

definition DetailLastSuperAdmin :: string where
  "DetailLastSuperAdmin = bytes [230, 156, 128, 229, 190, 140, 227, 129, 174, 115, 117, 112,
     101, 114, 95, 97, 100, 109, 105, 110, 227, 129, 175, 231, 132, 161, 229, 138, 185, 229,
     140, 150, 227, 129, 167, 227, 129, 141, 227, 129, 190, 227, 129, 155, 227, 130, 147]"

definition DetailNotDisabled :: string where
  "DetailNotDisabled = bytes [229, 175, 190, 232, 177, 161, 227, 129, 175, 231, 132, 161, 229,
     138, 185, 229, 140, 150, 227, 129, 149, 227, 130, 140, 227, 129, 166, 227, 129, 132, 227,
     129, 190, 227, 129, 155, 227, 130, 147]"

definition DetailResetInvalid :: string where
  "DetailResetInvalid = bytes [231, 132, 161, 229, 138, 185, 227, 129, 170, 227, 131, 170, 227,
     130, 187, 227, 131, 131, 227, 131, 136, 227, 131, 136, 227, 131, 188, 227, 130, 175, 227,
     131, 179]"

definition DetailResetExpired :: string where
  "DetailResetExpired = bytes [227, 131, 170, 227, 130, 187, 227, 131, 131, 227, 131, 136, 227,
     131, 136, 227, 131, 188, 227, 130, 175, 227, 131, 179, 227, 129, 174, 230, 156, 137, 229,
     138, 185, 230, 156, 159, 233, 153, 144, 227, 129, 140, 229, 136, 135, 227, 130, 140, 227,
     129, 166, 227, 129, 132, 227, 129, 190, 227, 129, 153]"

definition DetailLocked :: string where
  "DetailLocked = bytes [227, 130, 162, 227, 130, 171, 227, 130, 166, 227, 131, 179, 227, 131,
     136, 227, 129, 140, 227, 131, 173, 227, 131, 131, 227, 130, 175, 227, 129, 149, 227, 130,
     140, 227, 129, 166, 227, 129, 132, 227, 129, 190, 227, 129, 153]"

definition DetailAuthFailed :: string where
  "DetailAuthFailed = bytes [232, 170, 141, 232, 168, 188, 227, 129, 171, 229, 164, 177, 230,
     149, 151, 227, 129, 151, 227, 129, 190, 227, 129, 151, 227, 129, 159]"

definition DetailEmailUnverified :: string where
  "DetailEmailUnverified = bytes [227, 131, 161, 227, 131, 188, 227, 131, 171, 227, 130, 162,
     227, 131, 137, 227, 131, 172, 227, 130, 185, 227, 129, 140, 231, 162, 186, 232, 170, 141,
     227, 129, 149, 227, 130, 140, 227, 129, 166, 227, 129, 132, 227, 129, 190, 227, 129, 155,
     227, 130, 147]"

definition DetailAccountDisabled :: string where
  "DetailAccountDisabled = bytes [227, 130, 162, 227, 130, 171, 227, 130, 166, 227, 131, 179,
     227, 131, 136, 227, 129, 140, 231, 132, 161, 229, 138, 185, 229, 140, 150, 227, 129, 149,
     227, 130, 140, 227, 129, 166, 227, 129, 132, 227, 129, 190, 227, 129, 153]"

definition DetailRefreshInvalid :: string where
  "DetailRefreshInvalid = bytes [227, 131, 170, 227, 131, 149, 227, 131, 172, 227, 131, 131,
     227, 130, 183, 227, 131, 165, 227, 131, 136, 227, 131, 188, 227, 130, 175, 227, 131, 179,
     227, 129, 140, 231, 132, 161, 229, 138, 185, 227, 129, 167, 227, 129, 153]"

definition DetailRefreshExpired :: string where
  "DetailRefreshExpired = bytes [227, 131, 170, 227, 131, 149, 227, 131, 172, 227, 131, 131,
     227, 130, 183, 227, 131, 165, 227, 131, 136, 227, 131, 188, 227, 130, 175, 227, 131, 179,
     227, 129, 174, 230, 156, 137, 229, 138, 185, 230, 156, 159, 233, 153, 144, 227, 129, 140,
     229, 136, 135, 227, 130, 140, 227, 129, 166, 227, 129, 132, 227, 129, 190, 227, 129, 153]"

definition DetailSessionRevoked :: string where
  "DetailSessionRevoked = bytes [227, 130, 187, 227, 131, 131, 227, 130, 183, 227, 131, 167,
     227, 131, 179, 227, 129, 140, 229, 164, 177, 229, 138, 185, 227, 129, 151, 227, 129, 190,
     227, 129, 151, 227, 129, 159]"

definition DetailRefreshRequired :: string where
  "DetailRefreshRequired = bytes [227, 131, 170, 227, 131, 149, 227, 131, 172, 227, 131, 131,
     227, 130, 183, 227, 131, 165, 227, 131, 136, 227, 131, 188, 227, 130, 175, 227, 131, 179,
     227, 129, 140, 229, 191, 133, 232, 166, 129, 227, 129, 167, 227, 129, 153]"

definition DetailPasswordMismatch :: string where
  "DetailPasswordMismatch = bytes [231, 143, 190, 229, 156, 168, 227, 129, 174, 227, 131, 145,
     227, 130, 185, 227, 131, 175, 227, 131, 188, 227, 131, 137, 227, 129, 140, 228, 184, 128,
     232, 135, 180, 227, 129, 151, 227, 129, 190, 227, 129, 155, 227, 130, 147]"

definition DetailForbidden :: string where
  "DetailForbidden = bytes [227, 129, 147, 227, 129, 174, 230, 147, 141, 228, 189, 156, 227,
     130, 146, 232, 161, 140, 227, 129, 134, 230, 168, 169, 233, 153, 144, 227, 129, 140, 227,
     129, 130, 227, 130, 138, 227, 129, 190, 227, 129, 155, 227, 130, 147]"

definition MsgBindError :: string where
  "MsgBindError = bytes [227, 131, 170, 227, 130, 175, 227, 130, 168, 227, 130, 185, 227, 131,
     136, 232, 167, 163, 233, 135, 136, 227, 130, 168, 227, 131, 169, 227, 131, 188]"

definition MsgAccessTokenMissing :: string where
  "MsgAccessTokenMissing = bytes [227, 130, 162, 227, 130, 175, 227, 130, 187, 227, 130, 185,
     227, 131, 136, 227, 131, 188, 227, 130, 175, 227, 131, 179, 230, 172, 160, 232, 144, 189]"

definition MsgAccessTokenExpired :: string where
  "MsgAccessTokenExpired = bytes [227, 130, 162, 227, 130, 175, 227, 130, 187, 227, 130, 185,
     227, 131, 136, 227, 131, 188, 227, 130, 175, 227, 131, 179, 230, 156, 159, 233, 153, 144,
     229, 136, 135, 227, 130, 140]"

definition MsgJwtMalformed :: string where
  "MsgJwtMalformed = bytes [74, 87, 84, 227, 131, 149, 227, 130, 169, 227, 131, 188, 227, 131,
     158, 227, 131, 131, 227, 131, 136, 228, 184, 141, 230, 173, 163]"

definition MsgJwtTampered :: string where
  "MsgJwtTampered = bytes [74, 87, 84, 231, 189, 178, 229, 144, 141, 228, 184, 141, 230, 173,
     163, 227, 131, 187, 230, 148, 185, 227, 129, 150, 227, 130, 147, 230, 164, 156, 231, 159,
     165]"

definition MsgNoClaims :: string where
  "MsgNoClaims = bytes [232, 170, 141, 232, 168, 188, 230, 131, 133, 229, 160, 177, 230, 172,
     160, 232, 144, 189, 239, 188, 136, 227, 131, 159, 227, 131, 137, 227, 131, 171, 227, 130,
     166, 227, 130, 167, 227, 130, 162, 233, 133, 141, 231, 183, 154, 231, 149, 176, 229, 184,
     184, 239, 188, 137]"

definition MsgNoRole :: string where
  "MsgNoRole = bytes [230, 168, 169, 233, 153, 144, 228, 184, 141, 232, 182, 179]"

definition MailConfirmIntro :: string where
  "MailConfirmIntro = bytes [228, 187, 165, 228, 184, 139, 227, 129, 174, 227, 131, 136, 227,
     131, 188, 227, 130, 175, 227, 131, 179, 227, 129, 167, 227, 131, 161, 227, 131, 188, 227,
     131, 171, 227, 130, 162, 227, 131, 137, 227, 131, 172, 227, 130, 185, 227, 130, 146, 231,
     162, 186, 232, 170, 141, 227, 129, 151, 227, 129, 166, 227, 129, 143, 227, 129, 160, 227,
     129, 149, 227, 129, 132, 58, 13, 10, 13, 10]"

definition MailResetIntro :: string where
  "MailResetIntro = bytes [228, 187, 165, 228, 184, 139, 227, 129, 174, 227, 131, 136, 227, 131,
     188, 227, 130, 175, 227, 131, 179, 227, 129, 167, 227, 131, 145, 227, 130, 185, 227, 131,
     175, 227, 131, 188, 227, 131, 137, 227, 130, 146, 229, 134, 141, 232, 168, 173, 229, 174,
     154, 227, 129, 151, 227, 129, 166, 227, 129, 143, 227, 129, 160, 227, 129, 149, 227, 129,
     132, 239, 188, 136, 230, 156, 137, 229, 138, 185, 230, 156, 159, 233, 153, 144, 51, 48,
     229, 136, 134, 239, 188, 137, 58, 13, 10, 13, 10]"

definition MailInviteIntro :: string where
  "MailInviteIntro = bytes [231, 174, 161, 231, 144, 134, 232, 128, 133, 227, 129, 168, 227,
     129, 151, 227, 129, 166, 230, 139, 155, 229, 190, 133, 227, 129, 149, 227, 130, 140, 227,
     129, 166, 227, 129, 132, 227, 129, 190, 227, 129, 153, 227, 128, 130, 228, 187, 165, 228,
     184, 139, 227, 129, 174, 227, 131, 136, 227, 131, 188, 227, 130, 175, 227, 131, 179, 227,
     129, 167, 229, 143, 151, 228, 187, 152, 227, 130, 146, 229, 174, 140, 228, 186, 134, 227,
     129, 151, 227, 129, 166, 227, 129, 143, 227, 129, 160, 227, 129, 149, 227, 129, 132, 239,
     188, 136, 230, 156, 137, 229, 138, 185, 230, 156, 159, 233, 153, 144, 50, 52, 230, 153,
     130, 233, 150, 147, 239, 188, 137, 58, 13, 10, 13, 10]"

definition SubjectConfirm :: string where
  "SubjectConfirm = bytes [227, 131, 161, 227, 131, 188, 227, 131, 171, 227, 130, 162, 227, 131,
     137, 227, 131, 172, 227, 130, 185, 227, 129, 174, 231, 162, 186, 232, 170, 141]"

definition SubjectReset :: string where
  "SubjectReset = bytes [227, 131, 145, 227, 130, 185, 227, 131, 175, 227, 131, 188, 227, 131,
     137, 227, 129, 174, 229, 134, 141, 232, 168, 173, 229, 174, 154]"

definition SubjectInvite :: string where
  "SubjectInvite = bytes [231, 174, 161, 231, 144, 134, 232, 128, 133, 230, 139, 155, 229, 190,
     133, 227, 129, 174, 227, 129, 148, 230, 161, 136, 229, 134, 133]"

end
