(* ===== verification/Http.thy ===== *)
theory Http
  imports World Json HttpMessages
begin

text \<open>
  \<open>backend/common/http\<close>: problem details (RFC 9457) and the error handler (\<open>problem.go\<close>), the
  verification of access tokens (\<open>jwtauth.go\<close>), role authorisation (\<open>roleauth.go\<close>), the request
  context (\<open>echo.go\<close>) and the request log (\<open>requestlog.go\<close>). An echo handler is a function of the
  request context and of the response so far, which returns an error or none and the response.
\<close>

section \<open>Problems and errors\<close>

record Problem =
  p_Type :: string
  p_Title :: string
  p_Status :: int
  p_Detail :: string
  p_Instance :: string
  p_RetryAfter :: "int option"
  p_ErrorCode :: string
  p_RevocationReason :: string

text \<open>
  \<open>*ProblemError\<close>; \<open>*echo.HTTPError\<close> with its code, its message when that is a string, and its
  \<open>Error()\<close> text; any other error. No handler wraps the first two.
\<close>

datatype httperr = ProblemError Problem | HTTPError int "string option" string | OtherError goerr

fun httperr_text :: "httperr \<Rightarrow> string" where
  "httperr_text (ProblemError p) = p_Title p @ '': '' @ p_Detail p"
| "httperr_text (HTTPError code msg text) = text"
| "httperr_text (OtherError e) = err_text e"

definition ContentTypeProblemJSON :: string where
  "ContentTypeProblemJSON = ''application/problem+json''"
definition ProblemTypeBase :: string where
  "ProblemTypeBase = ''https://example.com/probs/''"

text \<open>\<open>http.StatusText\<close> on the client and server errors in use.\<close>

definition StatusText :: "int \<Rightarrow> string" where
  "StatusText code =
     (if code = 400 then ''Bad Request'' else if code = 401 then ''Unauthorized''
      else if code = 403 then ''Forbidden'' else if code = 404 then ''Not Found''
      else if code = 405 then ''Method Not Allowed'' else if code = 409 then ''Conflict''
      else if code = 413 then ''Request Entity Too Large''
      else if code = 415 then ''Unsupported Media Type''
      else if code = 429 then ''Too Many Requests''
      else if code = 500 then ''Internal Server Error''
      else if code = 503 then ''Service Unavailable'' else '''')"

definition NewProblemError :: "int \<Rightarrow> string \<Rightarrow> string \<Rightarrow> httperr" where
  "NewProblemError status typeSlug detail = ProblemError
     \<lparr>p_Type = ProblemTypeBase @ typeSlug, p_Title = StatusText status, p_Status = status,
      p_Detail = detail, p_Instance = '''', p_RetryAfter = None, p_ErrorCode = '''',
      p_RevocationReason = ''''\<rparr>"

fun WithRetryAfter :: "httperr \<Rightarrow> int \<Rightarrow> httperr" where
  "WithRetryAfter (ProblemError p) seconds = ProblemError (p\<lparr>p_RetryAfter := Some seconds\<rparr>)"
| "WithRetryAfter e seconds = e"

fun WithErrorCode :: "httperr \<Rightarrow> string \<Rightarrow> httperr" where
  "WithErrorCode (ProblemError p) code = ProblemError (p\<lparr>p_ErrorCode := code\<rparr>)"
| "WithErrorCode e code = e"

fun WithRevocationReason :: "httperr \<Rightarrow> string \<Rightarrow> httperr" where
  "WithRevocationReason (ProblemError p) reason = ProblemError (p\<lparr>p_RevocationReason := reason\<rparr>)"
| "WithRevocationReason e reason = e"

fun StatusFromError :: "httperr option \<Rightarrow> int" where
  "StatusFromError None = 0"
| "StatusFromError (Some (ProblemError p)) = p_Status p"
| "StatusFromError (Some (HTTPError code msg text)) = code"
| "StatusFromError (Some (OtherError e)) = 500"

section \<open>Requests and responses\<close>

type_synonym headers = "(string \<times> string) list"

text \<open>\<open>Header.Get\<close> and \<open>Header.Set\<close>; names are in canonical form.\<close>

fun header_get :: "headers \<Rightarrow> string \<Rightarrow> string" where
  "header_get [] name = ''''"
| "header_get ((n, v) # hs) name = (if n = name then v else header_get hs name)"

definition header_set :: "string \<Rightarrow> string \<Rightarrow> headers \<Rightarrow> headers" where
  "header_set name v hs = (name, v) # filter (\<lambda>(n, _). n \<noteq> name) hs"

lemma header_get_set [simp]:
  "header_get (header_set n v hs) m = (if m = n then v else header_get hs m)"
  by (induction hs) (auto simp: header_set_def split: if_splits)

record request =
  rq_method :: string
  rq_uri :: string           \<comment> \<open>\<open>RequestURI\<close>\<close>
  rq_headers :: headers
  rq_body :: string
  rq_real_ip :: string       \<comment> \<open>\<open>c.RealIP()\<close>\<close>

record AuthClaims =
  UserID :: string
  Roles :: "string list"

record http_context =
  cx_request :: request
  cx_claims :: "AuthClaims option"
  cx_client_ip :: string
  cx_request_id :: string

record response =
  rs_committed :: bool
  rs_status :: int
  rs_headers :: headers
  rs_body :: "json option"

type_synonym http_handler = "http_context \<Rightarrow> response \<Rightarrow> (world, httperr option \<times> response) state"

definition set_header :: "string \<Rightarrow> string \<Rightarrow> response \<Rightarrow> response" where
  "set_header n v rs = rs\<lparr>rs_headers := header_set n v (rs_headers rs)\<rparr>"

text \<open>Writing a response sends its headers and commits it; echo's \<open>JSON\<close> sets the content type when it is not set.\<close>

definition write_json :: "int \<Rightarrow> json \<Rightarrow> response \<Rightarrow> response" where
  "write_json status body rs = rs\<lparr>rs_committed := True, rs_status := status, rs_body := Some body\<rparr>"

definition write_header :: "int \<Rightarrow> response \<Rightarrow> response" where
  "write_header status rs = rs\<lparr>rs_committed := True, rs_status := status\<rparr>"

lemma response_simps [simp]:
  "rs_committed (set_header n v rs) = rs_committed rs" "rs_status (set_header n v rs) = rs_status rs"
  "rs_body (set_header n v rs) = rs_body rs"
  "rs_headers (set_header n v rs) = header_set n v (rs_headers rs)"
  "rs_committed (write_json st b rs)" "rs_status (write_json st b rs) = st"
  "rs_headers (write_json st b rs) = rs_headers rs" "rs_body (write_json st b rs) = Some b"
  "rs_committed (write_header st rs)" "rs_status (write_header st rs) = st"
  "rs_headers (write_header st rs) = rs_headers rs"
  by (simp_all add: set_header_def write_json_def write_header_def)

section \<open>The error handler\<close>

text \<open>The JSON form of a problem: fields marked \<open>omitempty\<close> are left out when empty.\<close>

definition nonempty :: "string \<Rightarrow> string \<Rightarrow> (string \<times> json) list" where
  "nonempty k v = (if v = '''' then [] else [(k, JStr v)])"

definition problem_json :: "Problem \<Rightarrow> json" where
  "problem_json p = JObj (
     [(''type'', JStr (p_Type p)), (''title'', JStr (p_Title p)), (''status'', JNum (int_text (p_Status p)))] @
     nonempty ''detail'' (p_Detail p) @ nonempty ''instance'' (p_Instance p) @
     (case p_RetryAfter p of None \<Rightarrow> [] | Some n \<Rightarrow> [(''retry_after'', JNum (int_text n))]) @
     nonempty ''error_code'' (p_ErrorCode p) @ nonempty ''revocation_reason'' (p_RevocationReason p))"

text \<open>The problem an error is reported as.\<close>

definition problem_of :: "httperr \<Rightarrow> Problem" where
  "problem_of err =
     (let status = StatusFromError (Some err);
          problem = \<lparr>p_Type = ''about:blank'', p_Title = StatusText status, p_Status = status, p_Detail = '''',
            p_Instance = '''', p_RetryAfter = None, p_ErrorCode = '''', p_RevocationReason = ''''\<rparr> in
      case err of
        ProblemError p \<Rightarrow> p
      | HTTPError code message text \<Rightarrow>
          (let problem = (case message of
                 Some msg \<Rightarrow> if msg \<noteq> p_Title problem then problem\<lparr>p_Detail := msg\<rparr> else problem
               | None \<Rightarrow> problem) in
           if p_Status problem = 400 then problem\<lparr>p_Type := ProblemTypeBase @ ''validation-error''\<rparr>
           else problem)
      | OtherError e \<Rightarrow> problem)"

definition ProblemErrorHandler :: "httperr \<Rightarrow> http_context \<Rightarrow> response \<Rightarrow> response action" where
  "ProblemErrorHandler err c rs =
     (if rs_committed rs then ret rs
      else do {
        (case err of
           ProblemError p \<Rightarrow> ret ()
         | HTTPError code message text \<Rightarrow>
             if code = 400 then log '''' Warn MsgBindError [(''ctx'', LStr ''http'')] else ret ()
         | OtherError e \<Rightarrow>
             log '''' Error ''handling http error'' [(''ctx'', LStr ''http''), (''error'', LErr e)]);
        let problem = (problem_of err)\<lparr>p_Instance := rq_uri (cx_request c)\<rparr>;
        let rs = (case p_RetryAfter problem of
              None \<Rightarrow> rs | Some n \<Rightarrow> set_header ''Retry-After'' (int_text n) rs);
        let rs = set_header ''Content-Type'' ContentTypeProblemJSON rs;
        ret (write_json (p_Status problem) (problem_json problem) rs) })"

lemma problem_of_status [simp]: "p_Status (problem_of err) = StatusFromError (Some err)"
  by (cases err) (simp_all add: problem_of_def Let_def split: option.split)

section \<open>Access tokens\<close>

fun fold_byte :: "char \<Rightarrow> char" where
  "fold_byte c = (if 65 \<le> byte c \<and> byte c \<le> 90 then char_of (byte c + 32) else c)"

text \<open>
  \<open>strings.EqualFold\<close> against a word of ASCII letters and spaces, none of them \<open>k\<close> or \<open>s\<close> (which
  alone have non-ASCII case variants).
\<close>

definition EqualFold :: "string \<Rightarrow> string \<Rightarrow> bool" where
  "EqualFold s t \<longleftrightarrow> map fold_byte s = map fold_byte t"

text \<open>\<open>strings.TrimSpace\<close>: the white space characters, by their UTF-8 bytes.\<close>

definition space_runes :: "string list" where
  "space_runes = map bytes ([[9], [10], [11], [12], [13], [32], [0xC2, 0x85], [0xC2, 0xA0], [0xE1, 0x9A, 0x80]] @
     map (\<lambda>n. [0xE2, 0x80, n]) [0x80..<0x8B] @
     [[0xE2, 0x80, 0xA8], [0xE2, 0x80, 0xA9], [0xE2, 0x80, 0xAF], [0xE2, 0x81, 0x9F], [0xE3, 0x80, 0x80]])"

definition leading_space :: "string list \<Rightarrow> string \<Rightarrow> nat" where
  "leading_space runes s = (case find (\<lambda>r. prefix r s) runes of None \<Rightarrow> 0 | Some r \<Rightarrow> length r)"

function trim_left :: "string list \<Rightarrow> string \<Rightarrow> string" where
  "trim_left runes s =
     (let n = leading_space runes s in if n = 0 \<or> s = [] then s else trim_left runes (drop n s))"
  by auto

termination
  by (relation "measure (\<lambda>(_, s). length s)") auto

declare trim_left.simps [simp del]

definition TrimSpace :: "string \<Rightarrow> string" where
  "TrimSpace s = rev (trim_left (map rev space_runes) (rev (trim_left space_runes s)))"

definition claim_strings :: "claim_value list \<Rightarrow> string list" where
  "claim_strings vs = concat (map (\<lambda>v. case v of CStr s \<Rightarrow> [s] | COther \<Rightarrow> []) vs)"

definition VerifyAccessToken :: "ext \<Rightarrow> time \<Rightarrow> string \<Rightarrow> jwt_error + AuthClaims" where
  "VerifyAccessToken X t tokenString =
     (case jwt_parse X t tokenString of
        Inl e \<Rightarrow> Inl e
      | Inr parsed \<Rightarrow>
          (case rc_sub parsed of
             Some (CStr sub) \<Rightarrow>
               if sub = '''' then Inl JwtOther
               else Inr \<lparr>UserID = sub, Roles = (case rc_roles parsed of None \<Rightarrow> [] | Some vs \<Rightarrow> claim_strings vs)\<rparr>
           | _ \<Rightarrow> Inl JwtOther))"

definition bearer_prefix :: string where "bearer_prefix = ''Bearer ''"

definition bearer_token :: "string \<Rightarrow> string" where
  "bearer_token header =
     (if length bearer_prefix < length header \<and> EqualFold (take (length bearer_prefix) header) bearer_prefix
      then TrimSpace (drop (length bearer_prefix) header) else '''')"

definition unauthorized :: "response \<Rightarrow> (world, httperr option \<times> response) state" where
  "unauthorized rs = ret (Some (NewProblemError 401 ''invalid-token'' DetailAccessTokenInvalid),
     set_header ''WWW-Authenticate'' ''Bearer'' rs)"

definition JWTAuth :: "ext \<Rightarrow> http_handler \<Rightarrow> http_handler" where
  "JWTAuth X next c rs = (
     let token = bearer_token (header_get (rq_headers (cx_request c)) ''Authorization'') in
     if token = '''' then do {
       log '''' Warn MsgAccessTokenMissing [(''ctx'', LStr ''jwt_verify'')];
       unauthorized rs }
     else do {
       t \<leftarrow> now;
       case VerifyAccessToken X t token of
         Inl err \<Rightarrow> do {
           log '''' Warn (case err of JwtExpired \<Rightarrow> MsgAccessTokenExpired | JwtMalformed \<Rightarrow> MsgJwtMalformed
             | JwtOther \<Rightarrow> MsgJwtTampered) [(''ctx'', LStr ''jwt_verify'')];
           unauthorized rs }
       | Inr claims \<Rightarrow> next (c\<lparr>cx_claims := Some claims\<rparr>) rs })"

definition RequireRoles :: "string \<Rightarrow> string list \<Rightarrow> http_handler \<Rightarrow> http_handler" where
  "RequireRoles logCtx roles next c rs =
     (case cx_claims c of
        None \<Rightarrow> do {
          log '''' Warn MsgNoClaims [(''ctx'', LStr logCtx)];
          ret (Some (NewProblemError 401 ''invalid-token'' DetailAccessTokenInvalid), rs) }
      | Some claims \<Rightarrow>
          if list_ex (\<lambda>have. have \<in> set roles) (Roles claims) then next c rs
          else do {
            log '''' Warn MsgNoRole [(''ctx'', LStr logCtx), (''user_id'', LStr (UserID claims))];
            ret (Some (NewProblemError 403 ''forbidden'' DetailForbidden), rs) })"

section \<open>Context and request log\<close>

text \<open>\<open>randomHex\<close>: since Go 1.24 \<open>rand.Read\<close> does not return an error (it ends the process instead).\<close>

definition randomHex :: "ext \<Rightarrow> nat \<Rightarrow> string action" where
  "randomHex X n = do { i \<leftarrow> draw; ret (case rand_read X i n of None \<Rightarrow> '''' | Some b \<Rightarrow> hex_encode b) }"

definition contextMiddleware :: "ext \<Rightarrow> http_handler \<Rightarrow> http_handler" where
  "contextMiddleware X next c rs = do {
     let sent = header_get (rq_headers (cx_request c)) ''X-Request-Id'';
     reqID \<leftarrow> (if sent = '''' then do { h \<leftarrow> randomHex X 8; ret (''gen_'' @ h) } else ret sent);
     traceID \<leftarrow> randomHex X 16;
     spanID \<leftarrow> randomHex X 8;
     let c = c\<lparr>cx_request_id := reqID, cx_client_ip := rq_real_ip (cx_request c)\<rparr>;
     next c (set_header ''X-Request-Id'' reqID rs) }"

text \<open>
  The request log; a response body is logged whole at debug level (\<open>debug\<close>). The text of the
  duration is left out of the model's entry.
\<close>

definition requestLogMiddleware :: "codec \<Rightarrow> bool \<Rightarrow> http_handler \<Rightarrow> http_handler" where
  "requestLogMiddleware C debug next c rs = do {
     (err, rs') \<leftarrow> next c rs;
     let status = (if err \<noteq> None \<and> \<not> rs_committed rs' then StatusFromError err else rs_status rs');
     let resp = (case rs_body rs' of None \<Rightarrow> '''' | Some j \<Rightarrow> (case json_marshal C j of None \<Rightarrow> '''' | Some t \<Rightarrow> t));
     let resp = redactBodyForLog C resp;
     let resp = (if debug then resp else truncateBodyForLog C resp);
     log '''' Info ''Request done'' ([(''ctx'', LStr ''http''), (''URI'', LStr (rq_uri (cx_request c))),
       (''method'', LStr (rq_method (cx_request c))), (''status'', LInt status),
       (''request_body'', LStr (log_body C (rq_body (cx_request c))))] @
       (case err of None \<Rightarrow> [] | Some e \<Rightarrow> [(''error'', LStr (httperr_text e))]) @
       [(''response_body'', LStr resp)]);
     ret (err, rs') }"

end
