(* ===== verification/Api.thy ===== *)
theory Api
  imports AccountCommands SessionCommands PasswordCommands AdminCommands Http
begin

text \<open>
  \<open>auth/api/http/handler.go\<close>: each operation checks its input, runs its use case, and turns the
  error the use case reports into a problem. The request and response objects are those of
  \<open>openapi.gen.go\<close>. What the use cases are given (\<open>auth.Deps\<close>) is a record; the service runs with
  the limiters that \<open>cmd/auth/main.go\<close> makes.
\<close>

section \<open>Request and response objects\<close>

record AdminInvitationRequest = ai_Email :: string  ai_Role :: string
record ChangePasswordRequest = cp_CurrentPassword :: string  cp_NewPassword :: string
record EmailVerifyRequest = ev_Token :: string
record EmailVerifyResendRequest = er_Email :: string
record InvitationAcceptRequest = ia_Password :: string  ia_Token :: string
record LoginRequest = lr_Email :: string  lr_Password :: string
record LogoutRequest = lg_RefreshToken :: string
record PasswordResetConfirmRequest = pc_NewPassword :: string  pc_Token :: string
record PasswordResetRequest = pq_Email :: string
record RefreshTokenRequest = rf_RefreshToken :: string
record RegisterAccountRequest = ra_Email :: string  ra_Password :: string

datatype response_object =
    DisableAdminAccount200JSONResponse string    \<comment> \<open>\<open>RevocationReason\<close>\<close>
  | ReactivateAdminAccount200Response
  | InviteAdmin200Response
  | VerifyEmail200Response
  | ResendEmailVerification200Response
  | AcceptInvitation200Response
  | Login200JSONResponse string string           \<comment> \<open>\<open>AccessToken\<close>, \<open>RefreshToken\<close>\<close>
  | Logout200Response
  | ChangePassword200JSONResponse string         \<comment> \<open>\<open>RevocationReason\<close>\<close>
  | RequestPasswordReset200Response
  | ConfirmPasswordReset200Response
  | RegisterAccount201Response
  | RefreshToken200JSONResponse string string    \<comment> \<open>\<open>AccessToken\<close>, \<open>RefreshToken\<close>\<close>

type_synonym api_result = "(world, httperr + response_object) state"

section \<open>What the use cases are given\<close>

record deps =
  Limiter :: "string \<Rightarrow> rl_result result"
  VerifyLimiter :: "string \<Rightarrow> rl_result result"
  ResendLimiter :: "string \<Rightarrow> rl_result result"
  ResetLimiter :: "string \<Rightarrow> rl_result result"
  InviteLimiter :: "string \<Rightarrow> rl_result result"
  Lockout_Check_of :: "string \<Rightarrow> (bool \<times> duration) result"
  Lockout_RecordFailure_of :: "string \<Rightarrow> bool result"
  Lockout_Reset_of :: "string \<Rightarrow> unit result"

text \<open>\<open>main\<close>: the limiters on Redis; \<open>env\<close> is the value of \<open>RATELIMIT_HMAC_SECRET\<close>.\<close>

definition main_deps :: "ext \<Rightarrow> string \<Rightarrow> deps" where
  "main_deps X env =
     \<lparr>Limiter = RegistrationLimiter X, VerifyLimiter = EmailVerifyLimiter X (fst (ResolveHMACSecret env)),
      ResendLimiter = ResendEmailLimiter X, ResetLimiter = PasswordResetLimiter X,
      InviteLimiter = InvitationLimiter X, Lockout_Check_of = loginLockout_Check X,
      Lockout_RecordFailure_of = loginLockout_RecordFailure X, Lockout_Reset_of = loginLockout_Reset X\<rparr>"

section \<open>The problem of an error\<close>

text \<open>
  The \<open>switch\<close> of each operation, in its order. The seconds of \<open>Retry-After\<close> are rounded up.
\<close>

definition body_required :: httperr where
  "body_required = NewProblemError 400 ''validation-error'' DetailBodyRequired"

definition token_required :: httperr where
  "token_required = NewProblemError 400 ''validation-error'' DetailTokenRequired"

definition access_token_invalid :: httperr where
  "access_token_invalid = NewProblemError 401 ''invalid-token'' DetailAccessTokenInvalid"

definition internal_error :: httperr where
  "internal_error = NewProblemError 500 ''internal-error'' DetailInternal"

definition rate_limit_exceeded :: "string \<Rightarrow> duration \<Rightarrow> httperr" where
  "rate_limit_exceeded detail d =
     WithRetryAfter (NewProblemError 429 ''rate-limit-exceeded'' detail) (ceil_seconds d)"

definition register_error :: "goerr \<Rightarrow> httperr" where
  "register_error err =
     (if err_is err ErrInvalidEmail then NewProblemError 400 ''validation-error'' DetailEmailFormat
      else if err_is err ErrInvalidPassword then NewProblemError 400 ''validation-error'' DetailPasswordLength
      else case err_as_rate_limited err of Some d \<Rightarrow> rate_limit_exceeded DetailRegisterRate d
      | None \<Rightarrow>
      if err_is err ErrMailDeliveryFail then NewProblemError 503 ''mail-delivery-error'' DetailConfirmMailFailed
      else OtherError err)"

definition verify_error :: "goerr \<Rightarrow> httperr" where
  "verify_error err =
     (if err_is err ErrInvalidToken then NewProblemError 400 ''invalid-token'' DetailVerifyTokenInvalid
      else if err_is err ErrTokenExpired then NewProblemError 400 ''token-expired'' DetailVerifyTokenExpired
      else case err_as_rate_limited err of Some d \<Rightarrow> rate_limit_exceeded DetailVerifyRate d
      | None \<Rightarrow> OtherError err)"

definition resend_error :: "goerr \<Rightarrow> httperr" where
  "resend_error err =
     (case err_as_rate_limited err of Some d \<Rightarrow> rate_limit_exceeded DetailVerifyRate d
      | None \<Rightarrow>
      if err_is err ErrMailDeliveryFail then NewProblemError 503 ''mail-delivery-error'' DetailConfirmMailFailed
      else OtherError err)"

definition request_reset_error :: "goerr \<Rightarrow> httperr" where
  "request_reset_error err =
     (case err_as_rate_limited err of Some d \<Rightarrow> rate_limit_exceeded DetailResetRate d
      | None \<Rightarrow>
      if err_is err ErrInvalidEmail then NewProblemError 400 ''validation-error'' DetailEmailFormat
      else if err_is err ErrMailDeliveryFail then NewProblemError 503 ''mail-delivery-error'' DetailResetMailFailed
      else OtherError err)"

definition accept_error :: "goerr \<Rightarrow> httperr" where
  "accept_error err =
     (if err_is err ErrInvalidPassword then NewProblemError 400 ''validation-error'' DetailPasswordLength
      else if err_is err ErrInvalidInvitationToken then NewProblemError 400 ''invalid-token'' DetailInvitationInvalid
      else if err_is err ErrInvitationTokenExpired then NewProblemError 400 ''token-expired'' DetailInvitationExpired
      else if err_is err ErrEmailAlreadyRegistered
      then NewProblemError 409 ''email-already-registered'' DetailEmailRegistered
      else internal_error)"

definition invite_error :: "goerr \<Rightarrow> httperr" where
  "invite_error err =
     (case err_as_rate_limited err of Some d \<Rightarrow> rate_limit_exceeded DetailInviteRate d
      | None \<Rightarrow>
      if err_is err ErrInvalidEmail then NewProblemError 400 ''validation-error'' DetailEmailFormat
      else if err_is err ErrInvalidAdminRole then NewProblemError 400 ''validation-error'' DetailAdminRoleOnly
      else if err_is err ErrRoleAlreadyAssigned
      then NewProblemError 409 ''role-already-assigned'' DetailRoleAssigned
      else if err_is err ErrEmailAlreadyRegistered
      then NewProblemError 409 ''email-already-registered'' DetailEmailRegistered
      else if err_is err ErrMailDeliveryFail then NewProblemError 503 ''mail-delivery-error'' DetailInviteMailFailed
      else OtherError err)"

definition disable_error :: "goerr \<Rightarrow> httperr" where
  "disable_error err =
     (if err_is err ErrUserNotFound then NewProblemError 404 ''user-not-found'' DetailUserMissing
      else if err_is err ErrNotAdminAccount then NewProblemError 400 ''not-admin-account'' DetailNotAdmin
      else if err_is err ErrAlreadyDisabled
      then NewProblemError 409 ''account-already-disabled'' DetailAlreadyDisabled
      else if err_is err ErrLastSuperAdmin then NewProblemError 409 ''last-super-admin'' DetailLastSuperAdmin
      else internal_error)"

definition reactivate_error :: "goerr \<Rightarrow> httperr" where
  "reactivate_error err =
     (if err_is err ErrUserNotFound then NewProblemError 404 ''user-not-found'' DetailUserMissing
      else if err_is err ErrNotAdminAccount then NewProblemError 400 ''not-admin-account'' DetailNotAdmin
      else if err_is err ErrNotDisabled then NewProblemError 409 ''account-not-disabled'' DetailNotDisabled
      else internal_error)"

definition confirm_reset_error :: "goerr \<Rightarrow> httperr" where
  "confirm_reset_error err =
     (if err_is err ErrInvalidPassword then NewProblemError 400 ''validation-error'' DetailPasswordLength
      else if err_is err ErrInvalidResetToken then NewProblemError 400 ''invalid-token'' DetailResetInvalid
      else if err_is err ErrResetTokenExpired then NewProblemError 400 ''token-expired'' DetailResetExpired
      else internal_error)"

definition login_error :: "goerr \<Rightarrow> httperr" where
  "login_error err =
     (if err_is err ErrInvalidEmail then NewProblemError 400 ''validation-error'' DetailEmailFormat
      else case err_as_locked err of
        Some d \<Rightarrow> WithErrorCode (WithRetryAfter
          (NewProblemError 429 ''account-locked'' DetailLocked) (ceil_seconds d)) ''account_locked''
      | None \<Rightarrow>
      if err_is err ErrAuthenticationFailed then NewProblemError 401 ''authentication-failed'' DetailAuthFailed
      else if err_is err ErrEmailNotVerified then NewProblemError 403 ''email-not-verified'' DetailEmailUnverified
      else if err_is err ErrAccountDisabled then NewProblemError 403 ''account-disabled'' DetailAccountDisabled
      else OtherError err)"

definition refresh_error :: "goerr \<Rightarrow> httperr" where
  "refresh_error err =
     (if err_is err ErrInvalidRefreshToken then NewProblemError 401 ''invalid-token'' DetailRefreshInvalid
      else if err_is err ErrRefreshTokenExpired then NewProblemError 401 ''token-expired'' DetailRefreshExpired
      else case err_as_revoked err of
        Some r \<Rightarrow> WithRevocationReason (NewProblemError 401 ''session-revoked'' DetailSessionRevoked) r
      | None \<Rightarrow> OtherError err)"

definition logout_error :: "goerr \<Rightarrow> httperr" where
  "logout_error err =
     (if err_is err ErrRefreshTokenFormatInvalid
      then NewProblemError 400 ''validation-error'' DetailRefreshRequired else OtherError err)"

definition change_password_error :: "goerr \<Rightarrow> httperr" where
  "change_password_error err =
     (if err_is err ErrInvalidPassword then NewProblemError 400 ''validation-error'' DetailPasswordBytes
      else case err_as_revoked err of
        Some r \<Rightarrow> WithRevocationReason (NewProblemError 401 ''session-revoked'' DetailSessionRevoked) r
      | None \<Rightarrow>
      if err_is err ErrPasswordMismatch then NewProblemError 403 ''password-mismatch'' DetailPasswordMismatch
      else internal_error)"

section \<open>The operations\<close>

text \<open>\<open>refuse\<close> returns a problem; \<open>answer\<close> maps the outcome of the use case.\<close>

definition refuse :: "httperr \<Rightarrow> api_result" where "refuse e = ret (Inl e)"

definition answer :: "(goerr \<Rightarrow> httperr) \<Rightarrow> ('a \<Rightarrow> response_object) \<Rightarrow> 'a result \<Rightarrow> api_result" where
  "answer on_error on_success m =
     do { r \<leftarrow> m; ret (case r of Inl e \<Rightarrow> Inl (on_error e) | Inr x \<Rightarrow> Inr (on_success x)) }"

definition api_RegisterAccount :: "ext \<Rightarrow> deps \<Rightarrow> RegisterAccountRequest option \<Rightarrow> api_result" where
  "api_RegisterAccount X D reqBody =
     (case reqBody of None \<Rightarrow> refuse body_required
      | Some b \<Rightarrow> answer register_error (\<lambda>_. RegisterAccount201Response)
          (RegisterAccount X (Limiter D) (ra_Email b) (ra_Password b)))"

definition api_VerifyEmail :: "ext \<Rightarrow> deps \<Rightarrow> string \<Rightarrow> EmailVerifyRequest option \<Rightarrow> api_result" where
  "api_VerifyEmail X D clientIP reqBody =
     (case reqBody of None \<Rightarrow> refuse body_required
      | Some b \<Rightarrow>
          if ev_Token b = '''' then refuse token_required
          else answer verify_error (\<lambda>_. VerifyEmail200Response)
            (VerifyEmail X (VerifyLimiter D) (ev_Token b) clientIP))"

definition api_ResendEmailVerification :: "ext \<Rightarrow> deps \<Rightarrow> EmailVerifyResendRequest option \<Rightarrow> api_result" where
  "api_ResendEmailVerification X D reqBody =
     (case reqBody of None \<Rightarrow> refuse body_required
      | Some b \<Rightarrow> answer resend_error (\<lambda>_. ResendEmailVerification200Response)
          (ResendEmailVerification X (ResendLimiter D) (er_Email b)))"

definition api_RequestPasswordReset :: "ext \<Rightarrow> deps \<Rightarrow> PasswordResetRequest option \<Rightarrow> api_result" where
  "api_RequestPasswordReset X D reqBody =
     (case reqBody of None \<Rightarrow> refuse body_required
      | Some b \<Rightarrow> answer request_reset_error (\<lambda>_. RequestPasswordReset200Response)
          (RequestPasswordReset X (ResetLimiter D) (pq_Email b)))"

definition api_AcceptInvitation :: "ext \<Rightarrow> InvitationAcceptRequest option \<Rightarrow> api_result" where
  "api_AcceptInvitation X reqBody =
     (case reqBody of None \<Rightarrow> refuse body_required
      | Some b \<Rightarrow>
          if ia_Token b = '''' then refuse token_required
          else answer accept_error (\<lambda>_. AcceptInvitation200Response)
            (AcceptInvitationHandler X (ia_Token b) (ia_Password b)))"

definition api_InviteAdmin :: "ext \<Rightarrow> deps \<Rightarrow> AdminInvitationRequest option \<Rightarrow> api_result" where
  "api_InviteAdmin X D reqBody =
     (case reqBody of None \<Rightarrow> refuse body_required
      | Some b \<Rightarrow> answer invite_error (\<lambda>_. InviteAdmin200Response)
          (InviteAdmin X (InviteLimiter D) (ai_Email b) (ai_Role b)))"

definition api_DisableAdminAccount :: "ext \<Rightarrow> AuthClaims option \<Rightarrow> string \<Rightarrow> api_result" where
  "api_DisableAdminAccount X claims userId =
     (case claims of None \<Rightarrow> refuse access_token_invalid
      | Some cl \<Rightarrow> answer disable_error
          (\<lambda>_. DisableAdminAccount200JSONResponse RevocationReasonAccountDisabled)
          (DisableAccountHandler X (UserID cl) userId))"

definition api_ReactivateAdminAccount :: "ext \<Rightarrow> AuthClaims option \<Rightarrow> string \<Rightarrow> api_result" where
  "api_ReactivateAdminAccount X claims userId =
     (case claims of None \<Rightarrow> refuse access_token_invalid
      | Some cl \<Rightarrow> answer reactivate_error (\<lambda>_. ReactivateAdminAccount200Response)
          (ReactivateAccountHandler X (UserID cl) userId))"

definition api_ConfirmPasswordReset :: "ext \<Rightarrow> PasswordResetConfirmRequest option \<Rightarrow> api_result" where
  "api_ConfirmPasswordReset X reqBody =
     (case reqBody of None \<Rightarrow> refuse body_required
      | Some b \<Rightarrow>
          if pc_Token b = '''' then refuse token_required
          else answer confirm_reset_error (\<lambda>_. ConfirmPasswordReset200Response)
            (ConfirmPasswordResetHandler X (pc_Token b) (pc_NewPassword b)))"

definition api_Login :: "ext \<Rightarrow> deps \<Rightarrow> LoginRequest option \<Rightarrow> api_result" where
  "api_Login X D reqBody =
     (case reqBody of None \<Rightarrow> refuse body_required
      | Some b \<Rightarrow> answer login_error (\<lambda>(a, r). Login200JSONResponse a r)
          (Login X (Lockout_Check_of D) (Lockout_RecordFailure_of D) (Lockout_Reset_of D)
            (lr_Email b) (lr_Password b)))"

definition api_RefreshToken :: "ext \<Rightarrow> RefreshTokenRequest option \<Rightarrow> api_result" where
  "api_RefreshToken X reqBody =
     (case reqBody of None \<Rightarrow> refuse body_required
      | Some b \<Rightarrow> answer refresh_error (\<lambda>(a, r). RefreshToken200JSONResponse a r)
          (RefreshToken X (rf_RefreshToken b)))"

definition api_Logout :: "ext \<Rightarrow> AuthClaims option \<Rightarrow> LogoutRequest option \<Rightarrow> api_result" where
  "api_Logout X claims reqBody =
     (case claims of None \<Rightarrow> refuse access_token_invalid
      | Some cl \<Rightarrow>
          (case reqBody of None \<Rightarrow> refuse body_required
           | Some b \<Rightarrow> answer logout_error (\<lambda>_. Logout200Response)
               (Logout X (lg_RefreshToken b) (UserID cl))))"

definition api_ChangePassword :: "ext \<Rightarrow> AuthClaims option \<Rightarrow> ChangePasswordRequest option \<Rightarrow> api_result" where
  "api_ChangePassword X claims reqBody =
     (case claims of None \<Rightarrow> refuse access_token_invalid
      | Some cl \<Rightarrow>
          (case reqBody of None \<Rightarrow> refuse body_required
           | Some b \<Rightarrow> answer change_password_error
               (\<lambda>_. ChangePassword200JSONResponse RevocationReasonPasswordChanged)
               (ChangePasswordHandler X (UserID cl) (cp_CurrentPassword b) (cp_NewPassword b))))"

lemma wp_refuse [simp]: "wp (refuse e) Q w = Q (Inl e) w"
  by (simp add: refuse_def)

lemma wp_answer [simp]:
  "wp (answer f g m) Q w =
     wp m (\<lambda>r. Q (case r of Inl e \<Rightarrow> Inl (f e) | Inr x \<Rightarrow> Inr (g x))) w"
  unfolding answer_def wp_bind by (rule arg_cong2 [where f = "wp m"]) (auto simp: fun_eq_iff)

end
