(* ===== verification/Answers.thy ===== *)
theory Answers
  imports Api
begin

text \<open>
  What the answers of the API reveal, and that they come about. Here the world is quiet (no failure
  of the infrastructure, no other request), so the answer of an operation is a function of its
  input and of the state, and it is computed: a refused login tells nothing about the account, a
  request about an address answers alike whether or not the address has an account, and a login
  with the right password of an active account succeeds. At the end, what a refused client is told to
  wait, and what happens when Redis is down.
\<close>

section \<open>A quiet world\<close>

definition quiet :: "world \<Rightarrow> bool" where
  "quiet w \<longleftrightarrow> w_env w = [] \<and> w_tx w = None"

lemma quiet_simps [simp]:
  "quiet (w\<lparr>w_log := l\<rparr>) = quiet w" "quiet (w\<lparr>w_draws := n\<rparr>) = quiet w" "quiet (w\<lparr>w_redis := r\<rparr>) = quiet w"
  "quiet (w\<lparr>w_db := d\<rparr>) = quiet w" "quiet (w\<lparr>w_mail := m\<rparr>) = quiet w"
  by (simp_all add: quiet_def)

lemma db_read_quiet [simp]: "quiet w \<Longrightarrow> wp (db_read q) Q w = Q (q (w_db w)) w"
  by (simp add: db_read_def quiet_def)

lemma db_write_quiet [simp]:
  "quiet w \<Longrightarrow> wp (db_write q) Q w =
     (case q (w_now w) (w_db w) of Inl e \<Rightarrow> Q (Inl e) w | Inr (x, d) \<Rightarrow> Q (Inr x) (w\<lparr>w_db := d\<rparr>))"
  by (simp add: db_write_def quiet_def wp_State split: sum.split)

lemma redis_do_calm [simp]:
  "quiet w \<Longrightarrow> wp (redis_do c) Q w =
     Q (fst (redis_exec (ms_of (w_now w)) c (w_redis w)))
       (w\<lparr>w_redis := snd (redis_exec (ms_of (w_now w)) c (w_redis w))\<rparr>)"
  by (simp add: redis_do_def quiet_def wp_State split: prod.split)

lemma find_row_quiet [simp]:
  "quiet w \<Longrightarrow> wp (find_row q none found) Q w =
     (case q (w_db w) of Inl e \<Rightarrow> if err_is_norows e then wp none Q w else Q (Inl e) w | Inr x \<Rightarrow> wp (found x) Q w)"
  by (simp add: find_row_def split: sum.split)

section \<open>A refused login\<close>

text \<open>The error of a login that does not present the password of the account: a function of the
  form of the address and of the state of the lock.\<close>

definition login_refusal :: "ext \<Rightarrow> string \<Rightarrow> time \<Rightarrow> redis \<Rightarrow> goerr" where
  "login_refusal X email t r =
     (case ValidateEmail email of Some e \<Rightarrow> e | None \<Rightarrow>
       (let pttl = pttl_duration [r_pttl (ms_of t) (lockKey X LoginLockout email) r] in
        if 0 < pttl then LockedError pttl
        else if pttl = -1 then LockedError LoginLockoutTTL
        else Sentinel ErrAuthenticationFailed))"

definition password_matches :: "ext \<Rightarrow> string \<Rightarrow> string \<Rightarrow> db \<Rightarrow> bool" where
  "password_matches X email password d \<longleftrightarrow>
     (\<exists>u. GetUserByEmail email d = Inr u \<and> VerifyPassword X (u_PasswordHash u) password)"

lemma lockout_script_reply:
  assumes "0 < ttl"
  shows "\<exists>n. fst (lockoutFailureScript t ck lk window threshold ttl r) = Inr [n]"
  using assms by (auto simp: lockoutFailureScript_def Let_def split: prod.split)

lemma login_ttl_pos: "0 < Milliseconds LoginLockoutTTL"
  by (simp add: Milliseconds_def LoginLockoutTTL_def Minute_def Second_def Millisecond_def)

lemma check_quiet:
  assumes "quiet w"
  shows "wp (loginLockout_Check X email) Q w =
    (let pttl = pttl_duration [r_pttl (ms_of (w_now w)) (lockKey X LoginLockout email) (w_redis w)] in
     if 0 < pttl then Q (Inr (True, pttl)) w
     else if pttl = -1 then Q (Inr (True, LoginLockoutTTL))
       (w\<lparr>w_redis := r_pexpire (ms_of (w_now w)) (lockKey X LoginLockout email) (Milliseconds LoginLockoutTTL) (w_redis w)\<rparr>)
     else Q (Inr (False, 0)) w)"
  using assms by (simp add: loginLockout_Check_def Lockout_Check_def Let_def LoginLockout_def)

lemma record_quiet:
  assumes "quiet w"
  shows "\<exists>b r. \<forall>Q. wp (loginLockout_RecordFailure X email) Q w = Q (Inr b) (w\<lparr>w_redis := r\<rparr>)"
proof -
  let ?c = "LockoutFailureScript (countKey X LoginLockout email) (lockKey X LoginLockout email)
    (Milliseconds (lo_window LoginLockout)) (lo_threshold LoginLockout) (Milliseconds (lo_lockTTL LoginLockout))"
  have "0 < Milliseconds (lo_lockTTL LoginLockout)" using login_ttl_pos by (simp add: LoginLockout_def)
  from lockout_script_reply [OF this] obtain n where
    "fst (redis_exec (ms_of (w_now w)) ?c (w_redis w)) = Inr [n]" by (metis redis_exec.simps(3))
  then show ?thesis
    using assms unfolding loginLockout_RecordFailure_def Lockout_RecordFailure_def by auto
qed

text \<open>The account is locked, whatever the password.\<close>

definition login_locked :: "ext \<Rightarrow> string \<Rightarrow> time \<Rightarrow> redis \<Rightarrow> bool" where
  "login_locked X email t r \<longleftrightarrow>
     (let pttl = pttl_duration [r_pttl (ms_of t) (lockKey X LoginLockout email) r] in 0 < pttl \<or> pttl = -1)"

lemma login_refused:
  assumes "quiet w" "password_matches X email password (w_db w) \<Longrightarrow> login_locked X email (w_now w) (w_redis w)"
  shows "wp (Login X (loginLockout_Check X) (loginLockout_RecordFailure X) (loginLockout_Reset X) email password)
    (\<lambda>r w'. r = Inl (login_refusal X email (w_now w) (w_redis w)) \<and> w_db w' = w_db w \<and> w_mail w' = w_mail w) w"
proof -
  have rec: "\<exists>b r. \<forall>Q. wp (loginLockout_RecordFailure X email) Q (w\<lparr>w_log := l\<rparr>) = Q (Inr b) (w\<lparr>w_log := l, w_redis := r\<rparr>)"
    for l using record_quiet [of "w\<lparr>w_log := l\<rparr>" X email] assms(1) by simp
  obtain b r where r: "\<And>l Q. wp (loginLockout_RecordFailure X email) Q (w\<lparr>w_log := l\<rparr>) =
      Q (Inr (b l)) (w\<lparr>w_log := l, w_redis := r l\<rparr>)" using rec by metis
  show ?thesis
    using assms
    by (auto simp: Login_def login_refusal_def check_quiet Let_def GetLoginUser_def r GetUserRoles_def
        password_matches_def login_locked_def get_only_norows split: option.split sum.split dest: get_only_norows)
qed

section \<open>Requests about an address\<close>

text \<open>The window of a limiter is open for a key when no live entry is stored under it.\<close>

definition window_open :: "string \<Rightarrow> string \<Rightarrow> time \<Rightarrow> redis \<Rightarrow> bool" where
  "window_open pre key t r \<longleftrightarrow> r_get (ms_of t) (pre @ key) r = None"

definition same_data :: "world \<Rightarrow> world \<Rightarrow> bool" where
  "same_data w w' \<longleftrightarrow> w_db w' = w_db w \<and> w_mail w' = w_mail w \<and> w_now w' = w_now w \<and> w_draws w' = w_draws w \<and>
     w_env w' = w_env w \<and> w_tx w' = w_tx w"

text \<open>The limiter's answer; it does not depend on the database.\<close>

definition replies :: "(string \<Rightarrow> rl_result result) \<Rightarrow> string \<Rightarrow> string \<Rightarrow> world \<Rightarrow> rl_result \<Rightarrow> bool" where
  "replies allow pre key w res \<longleftrightarrow> (Allowed res \<longleftrightarrow> window_open pre key (w_now w) (w_redis w)) \<and>
     (\<forall>l d. wp (allow key) (\<lambda>r w'. r = Inr res \<and> same_data (w\<lparr>w_db := d\<rparr>) w') (w\<lparr>w_log := l, w_db := d\<rparr>))"

definition answers :: "(string \<Rightarrow> rl_result result) \<Rightarrow> string \<Rightarrow> string \<Rightarrow> world \<Rightarrow> bool" where
  "answers allow pre key w \<longleftrightarrow> (\<exists>res. replies allow pre key w res)"

lemma answersE:
  assumes "answers allow pre key w"
  obtains res where "Allowed res \<longleftrightarrow> window_open pre key (w_now w) (w_redis w)"
    and "\<And>l. wp (allow key) (\<lambda>r w'. r = Inr res \<and> same_data w w') (w\<lparr>w_log := l\<rparr>)"
proof -
  obtain res where res: "Allowed res \<longleftrightarrow> window_open pre key (w_now w) (w_redis w)"
    "\<And>l d. wp (allow key) (\<lambda>r w'. r = Inr res \<and> same_data (w\<lparr>w_db := d\<rparr>) w') (w\<lparr>w_log := l, w_db := d\<rparr>)"
    using assms by (auto simp: answers_def replies_def)
  have "wp (allow key) (\<lambda>r w'. r = Inr res \<and> same_data w w') (w\<lparr>w_log := l\<rparr>)" for l
    using res(2) [of "w_db w" l] by simp
  then show ?thesis using that res(1) by blast
qed

lemma fixed_window_quiet:
  assumes "quiet w" "0 < Milliseconds (fw_window lim)" "fw_hasher lim = PassthroughHasher"
  shows "answers (FailMode_Allow (FixedWindow_Allow X lim) mode) (fw_prefix lim) key w"
proof -
  let ?k = "fw_prefix lim @ key"
  let ?m = "FailMode_Allow (FixedWindow_Allow X lim) mode key"
  let ?out = "fixedWindowScript (ms_of (w_now w)) ?k (Milliseconds (fw_window lim)) (w_redis w)"
  let ?open = "window_open (fw_prefix lim) key (w_now w) (w_redis w)"
  have "\<exists>p. fst ?out = Inr [if ?open then 1 else 0, p]"
    using assms(2) by (auto simp: fixedWindowScript_def window_open_def Let_def split: option.split)
  then obtain p where p: "fst ?out = Inr [if ?open then 1 else 0, p]" ..
  define res where "res = (let ttl = (if p < 0 then 0 else p) * Millisecond in
    if ?open then NewResult True 0 0 (w_now w + ttl) else NewResult False ttl 0 (w_now w + ttl))"
  have "wp ?m (\<lambda>r w'. r = Inr res \<and> same_data (w\<lparr>w_db := d\<rparr>) w') (w\<lparr>w_log := l, w_db := d\<rparr>)" for l d
    using assms(1,3) p by (simp add: FailMode_Allow_def FixedWindow_Allow_def Let_def res_def same_data_def)
  moreover have "Allowed res \<longleftrightarrow> ?open" by (simp add: res_def Let_def NewResult_def)
  ultimately show ?thesis unfolding answers_def replies_def by blast
qed

lemma service_windows:
  assumes "quiet w"
  shows "answers (RegistrationLimiter X) ''registration:ratelimit:'' key w"
    "answers (ResendEmailLimiter X) ''resend:ratelimit:'' key w"
    "answers (PasswordResetLimiter X) ''password_reset:'' key w"
    "answers (InvitationLimiter X) ''invitation:'' key w"
proof -
  note dur = Milliseconds_def RegistrationRateLimitWindow_def ResendEmailRateLimitWindow_def
    PasswordResetRateLimitWindow_def InvitationRateLimitWindow_def Minute_def Second_def Millisecond_def
  show "answers (RegistrationLimiter X) ''registration:ratelimit:'' key w"
    "answers (ResendEmailLimiter X) ''resend:ratelimit:'' key w"
    "answers (PasswordResetLimiter X) ''password_reset:'' key w"
    "answers (InvitationLimiter X) ''invitation:'' key w"
    unfolding RegistrationLimiter_def ResendEmailLimiter_def PasswordResetLimiter_def InvitationLimiter_def
    using fixed_window_quiet [OF assms, of "\<lparr>fw_prefix = ''registration:ratelimit:'',
        fw_window = RegistrationRateLimitWindow, fw_hasher = PassthroughHasher\<rparr>" X FailOpen key]
      fixed_window_quiet [OF assms, of "\<lparr>fw_prefix = ''resend:ratelimit:'',
        fw_window = ResendEmailRateLimitWindow, fw_hasher = PassthroughHasher\<rparr>" X FailOpen key]
      fixed_window_quiet [OF assms, of "\<lparr>fw_prefix = ''password_reset:'',
        fw_window = PasswordResetRateLimitWindow, fw_hasher = PassthroughHasher\<rparr>" X FailOpen key]
      fixed_window_quiet [OF assms, of "\<lparr>fw_prefix = ''invitation:'',
        fw_window = InvitationRateLimitWindow, fw_hasher = PassthroughHasher\<rparr>" X FailOpen key]
    by (simp_all add: dur)
qed

text \<open>The first call of a limited use case: refused, or allowed with everything else as it was.\<close>

lemma wp_answers:
  assumes "answers allow pre key w"
    and "\<And>res w'. Allowed res \<longleftrightarrow> window_open pre key (w_now w) (w_redis w) \<Longrightarrow> same_data w w' \<Longrightarrow>
      quiet w' = quiet w \<Longrightarrow> w_db w' = w_db w \<Longrightarrow> w_draws w' = w_draws w \<Longrightarrow> w_now w' = w_now w \<Longrightarrow> Q (Inr res) w'"
  shows "wp (allow key) Q (w\<lparr>w_log := l\<rparr>)"
proof -
  obtain res where res: "Allowed res \<longleftrightarrow> window_open pre key (w_now w) (w_redis w)"
    "wp (allow key) (\<lambda>r w'. r = Inr res \<and> same_data w w') (w\<lparr>w_log := l\<rparr>)"
    using answersE [OF assms(1)] by blast
  show ?thesis
    by (rule wp_mono [OF res(2)]) (use assms(2) [OF res(1)] in \<open>auto simp: same_data_def quiet_def\<close>)
qed

text \<open>Answered as if done, or refused for the rate; nothing is stored and nothing is sent.\<close>

definition answered_blind :: "string \<Rightarrow> string \<Rightarrow> world \<Rightarrow> goerr + unit \<Rightarrow> world \<Rightarrow> bool" where
  "answered_blind pre key w r w' \<longleftrightarrow>
     (if window_open pre key (w_now w) (w_redis w) then r = Inr () else \<exists>d. r = Inl (RateLimitedError d)) \<and>
     w_db w' = w_db w \<and> w_mail w' = w_mail w"

lemma answered_blindI:
  "same_data w w' \<Longrightarrow> window_open pre key (w_now w) (w_redis w) \<Longrightarrow> answered_blind pre key w (Inr ()) (w'\<lparr>w_log := l\<rparr>)"
  "same_data w w' \<Longrightarrow> \<not> window_open pre key (w_now w) (w_redis w) \<Longrightarrow>
     answered_blind pre key w (Inl (RateLimitedError d)) (w'\<lparr>w_log := l\<rparr>)"
  by (auto simp: answered_blind_def same_data_def)

lemma register_taken:
  assumes "quiet w" "email_taken email (w_db w)" "ValidateEmail email = None" "ValidatePassword password = None"
  shows "wp (RegisterAccount X (RegistrationLimiter X) email password)
    (answered_blind ''registration:ratelimit:'' email w) w"
  unfolding RegisterAccount_def
  using assms
  by (simp, intro wp_answers [OF service_windows(1)])
    (auto simp: EmailExists_def answered_blindI email_taken_iff)

lemma reset_unknown:
  assumes "quiet w" "ValidateEmail email = None" "\<And>u. GetUserByEmail email (w_db w) = Inr u \<Longrightarrow> u_Status u \<noteq> StatusInactive"
  shows "wp (RequestPasswordReset X (PasswordResetLimiter X) email)
    (answered_blind ''password_reset:'' email w) w"
  unfolding RequestPasswordReset_def
  using assms
  by (simp, intro wp_answers [OF service_windows(3)])
    (auto simp: FindUserByEmail_def answered_blindI dest: get_only_norows split: sum.split)

lemma resend_unknown:
  assumes "quiet w" "\<And>u. GetUserByEmail email (w_db w) = Inr u \<Longrightarrow> u_Status u \<noteq> StatusMailUnverified"
  shows "wp (ResendEmailVerification X (ResendEmailLimiter X) email)
    (answered_blind ''resend:ratelimit:'' email w) w"
  unfolding ResendEmailVerification_def
  using assms
  by (simp, intro wp_answers [OF service_windows(2)])
    (auto simp: FindUserByEmail_def answered_blindI dest: get_only_norows split: sum.split)

section \<open>Requests that succeed\<close>

lemma tx_result_quiet:
  "tx_result act ml B w r w' \<Longrightarrow> quiet w \<Longrightarrow> tx_op (w_now w) act (w_db w) = Inr (x, d) \<Longrightarrow>
   r = Inr () \<and> w' = w\<lparr>w_db := d, w_mail := w_mail w @ ml\<rparr>"
  by (simp add: tx_result_def quiet_def)

lemma quiet_ended: "quiet w \<Longrightarrow> ended w w"
  by (simp add: ended_def quiet_def evolves.stay)

lemma CreateUser_quiet:
  assumes "quiet w" "reg_Status reg = StatusMailUnverified" "reg_Role reg = RoleUser"
    and "tx_op (w_now w) (OpCreateUser reg tok) (w_db w) = Inr (x, d)"
    and "Q (Inr ()) (w\<lparr>w_db := d, w_mail := w_mail w @ [m]\<rparr>)"
  shows "wp (CreateUser reg tok (after_insert (smtp_send m))) Q w"
  by (rule vc_CreateUser [OF quiet_ended [OF assms(1)] assms(2,3)])
    (use tx_result_quiet [OF _ assms(1,4)] assms(5) in blast)

text \<open>What the random draws of a request must yield: nothing that is stored already.\<close>

definition fresh_draws :: "ext \<Rightarrow> world \<Rightarrow> bool" where
  "fresh_draws X w \<longleftrightarrow> (\<forall>n \<ge> w_draws w. uuid_new X n \<notin> user_ids (w_db w) \<and>
     (\<forall>t \<in> set (email_tokens (w_db w)). et_TokenUuid t \<noteq> uuid_new X n) \<and>
     (\<forall>t \<in> set (refresh_tokens (w_db w)). rt_TokenID t \<noteq> uuid_new X n) \<and>
     (\<forall>len. \<exists>b. rand_read X n len = Some b \<and>
       (\<forall>t \<in> set (email_tokens (w_db w)). et_TokenHash t \<noteq> hex_encode (sha256 X (b64_encode b))) \<and>
       (\<forall>t \<in> set (refresh_tokens (w_db w)). rt_TokenHash t \<noteq> hex_encode (sha256 X (b64_encode b)))))"

lemma create_user_succeeds:
  assumes "schema_ok d" "reg_UserUUID reg \<notin> user_ids d" "\<not> email_taken (reg_Email reg) d"
    and "reg_Status reg = StatusMailUnverified"
    and "\<forall>t \<in> set (email_tokens d). et_TokenUuid t \<noteq> TokenUUID tok"
    and "\<forall>t \<in> set (email_tokens d). et_TokenHash t \<noteq> Hash tok"
  shows "\<exists>d'. tx_op ts (OpCreateUser reg tok) d = Inr ((), d')"
proof -
  have "\<not> (\<exists>r \<in> set (user_roles d). ur_UserUuid r = reg_UserUUID reg \<and> ur_Role r = reg_Role reg)"
    using assms(1,2) by (auto simp: schema_ok_def roles_ok_def)
  then show ?thesis
    using assms(2-6)
    by (auto simp: insert_defs wbind_def user_ids_def image_iff email_taken_def status_check_def)
qed

lemma register_new:
  assumes "quiet w" "schema_ok (w_db w)" "fresh_draws X w" "bcrypt_total X" "\<not> email_taken email (w_db w)"
    and "ValidateEmail email = None" "ValidatePassword password = None"
    and "window_open ''registration:ratelimit:'' email (w_now w) (w_redis w)"
  shows "wp (RegisterAccount X (RegistrationLimiter X) email password)
    (\<lambda>r w'. r = Inr () \<and> email_taken email (w_db w') \<and>
       (\<exists>tok. w_mail w' = w_mail w @ [\<lparr>m_kind = ConfirmationMail, m_to = email, m_token = tok\<rparr>])) w"
proof -
  have "\<exists>h. bcrypt_generate X (w_draws w) password PasswordBcryptCost = Inr h"
    using assms(4) ValidatePassword_bytes [OF assms(7)] by (simp add: bcrypt_total_def PasswordBcryptCost_def)
  then obtain h where h: "bcrypt_generate X (w_draws w) password PasswordBcryptCost = Inr h" ..
  let ?uid = "uuid_new X (Suc (w_draws w))"
  have "\<exists>b. rand_read X (Suc (Suc (w_draws w))) tokenPlainBytes = Some b \<and>
      (\<forall>t \<in> set (email_tokens (w_db w)). et_TokenHash t \<noteq> hex_encode (sha256 X (b64_encode b)))"
    using assms(3) unfolding fresh_draws_def by (metis le_SucI order_refl)
  then obtain b where b: "rand_read X (Suc (Suc (w_draws w))) tokenPlainBytes = Some b"
    "\<forall>t \<in> set (email_tokens (w_db w)). et_TokenHash t \<noteq> hex_encode (sha256 X (b64_encode b))" by blast
  let ?reg = "\<lparr>reg_UserUUID = ?uid, reg_Email = email, reg_PasswordHash = h,
    reg_Status = StatusMailUnverified, reg_Role = RoleUser\<rparr>"
  let ?tok = "\<lparr>TokenUUID = uuid_new X (Suc (Suc (Suc (w_draws w)))), Hash = hex_encode (sha256 X (b64_encode b)),
    ExpiresAt = w_now w + EmailConfirmationTokenTTL\<rparr>"
  have "\<exists>d. tx_op (w_now w) (OpCreateUser ?reg ?tok) (w_db w) = Inr ((), d)"
    by (rule create_user_succeeds [OF assms(2)]) (use assms(3,5) b(2) in \<open>auto simp: fresh_draws_def\<close>)
  then obtain d where d: "tx_op (w_now w) (OpCreateUser ?reg ?tok) (w_db w) = Inr ((), d)" ..
  have taken: "email_taken email d" using create_user_taken [OF d] by simp
  have none: "GetUserByEmail email (w_db w) = Inl NoRows"
    using assms(5) get_only_norows(1) by (cases "GetUserByEmail email (w_db w)") (auto simp: email_taken_iff)
  show ?thesis
    unfolding RegisterAccount_def NewEmailConfirmationToken_def SendConfirmationEmail_def
    using assms(1,5-8) h b(1) none
    by (simp, intro wp_answers [OF service_windows(1)])
      (auto simp: EmailExists_def email_taken_iff wp_new_token Let_def simp del: tx_op.simps intro!: CreateUser_quiet [where d = d and x = "()"]
        simp: d taken taken [unfolded email_taken_iff] same_data_def)
qed

lemma IssueReset_quiet:
  assumes "quiet w" "tx_op (w_now w) (OpIssueResetToken uid tok) (w_db w) = Inr (x, d)"
    and "Q (Inr ()) (w\<lparr>w_db := d, w_mail := w_mail w @ [m]\<rparr>)"
  shows "wp (IssuePasswordResetToken uid tok (after_insert (smtp_send m))) Q w"
  by (rule vc_IssuePasswordResetToken [OF quiet_ended [OF assms(1)]])
    (use tx_result_quiet [OF _ assms(1,2)] assms(3) in blast)

lemma Reissue_quiet:
  assumes "quiet w" "tx_op (w_now w) (OpReissueEmailToken uid tok) (w_db w) = Inr (x, d)"
    and "Q (Inr ()) (w\<lparr>w_db := d, w_mail := w_mail w @ [m]\<rparr>)"
  shows "wp (ReissueEmailConfirmationToken uid tok (after_insert (smtp_send m))) Q w"
  by (rule vc_ReissueEmailConfirmationToken [OF quiet_ended [OF assms(1)]])
    (use tx_result_quiet [OF _ assms(1,2)] assms(3) in blast)

text \<open>The same for reset tokens.\<close>

definition fresh_resets :: "ext \<Rightarrow> world \<Rightarrow> bool" where
  "fresh_resets X w \<longleftrightarrow> (\<forall>n \<ge> w_draws w. (\<forall>t \<in> set (reset_tokens (w_db w)). pt_TokenUuid t \<noteq> uuid_new X n) \<and>
     (\<forall>len. \<exists>b. rand_read X n len = Some b \<and>
       (\<forall>t \<in> set (reset_tokens (w_db w)). pt_TokenHash t \<noteq> hex_encode (sha256 X (b64_encode b)))))"

lemma found_row: "GetUserByEmail email d = Inr u \<Longrightarrow> u \<in> set (users d)"
  by (auto simp: query_defs dest: find_SomeD split: option.splits)

lemma issue_reset_succeeds:
  assumes "u \<in> set (users d)" "\<forall>t \<in> set (reset_tokens d). pt_TokenUuid t \<noteq> TokenUUID tok"
    and "\<forall>t \<in> set (reset_tokens d). pt_TokenHash t \<noteq> Hash tok"
  shows "\<exists>d'. tx_op ts (OpIssueResetToken (u_UserUuid u) tok) d = Inr ((), d')"
  using assms by (auto simp: insert_defs update_defs InvalidateActivePasswordResetTokensByUser_def InvalidateActiveEmailConfirmationTokensByUser_def wbind_def set_upd_where user_ids_def Let_def)

lemma reissue_succeeds:
  assumes "u \<in> set (users d)" "\<forall>t \<in> set (email_tokens d). et_TokenUuid t \<noteq> TokenUUID tok"
    and "\<forall>t \<in> set (email_tokens d). et_TokenHash t \<noteq> Hash tok"
  shows "\<exists>d'. tx_op ts (OpReissueEmailToken (u_UserUuid u) tok) d = Inr ((), d')"
  using assms by (auto simp: insert_defs update_defs InvalidateActivePasswordResetTokensByUser_def InvalidateActiveEmailConfirmationTokensByUser_def wbind_def set_upd_where user_ids_def Let_def)

lemma reset_due:
  assumes "quiet w" "fresh_resets X w" "ValidateEmail email = None"
    and "GetUserByEmail email (w_db w) = Inr u" "u_Status u = StatusInactive"
    and "window_open ''password_reset:'' email (w_now w) (w_redis w)"
  shows "wp (RequestPasswordReset X (PasswordResetLimiter X) email)
    (\<lambda>r w'. r = Inr () \<and> (\<exists>tok. w_mail w' = w_mail w @ [\<lparr>m_kind = PasswordResetMail, m_to = email, m_token = tok\<rparr>])) w"
proof -
  obtain b where b: "rand_read X (w_draws w) tokenPlainBytes = Some b"
    "\<forall>t \<in> set (reset_tokens (w_db w)). pt_TokenHash t \<noteq> hex_encode (sha256 X (b64_encode b))"
    using assms(2) unfolding fresh_resets_def by (metis order_refl)
  let ?tok = "\<lparr>TokenUUID = uuid_new X (Suc (w_draws w)), Hash = hex_encode (sha256 X (b64_encode b)),
    ExpiresAt = w_now w + PasswordResetTokenTTL\<rparr>"
  have "\<exists>d. tx_op (w_now w) (OpIssueResetToken (u_UserUuid u) ?tok) (w_db w) = Inr ((), d)"
    by (rule issue_reset_succeeds [OF found_row [OF assms(4)]]) (use assms(2) b(2) in \<open>auto simp: fresh_resets_def\<close>)
  then obtain d where d: "tx_op (w_now w) (OpIssueResetToken (u_UserUuid u) ?tok) (w_db w) = Inr ((), d)" ..
  show ?thesis
    unfolding RequestPasswordReset_def NewPasswordResetToken_def SendPasswordResetEmail_def
    using assms(1,3-6) b(1)
    by (simp, intro wp_answers [OF service_windows(3)])
      (auto simp: FindUserByEmail_def wp_new_token Let_def same_data_def simp del: tx_op.simps
        intro!: IssueReset_quiet [where d = d and x = "()"] simp: d)
qed

lemma resend_due:
  assumes "quiet w" "fresh_draws X w"
    and "GetUserByEmail email (w_db w) = Inr u" "u_Status u = StatusMailUnverified"
    and "window_open ''resend:ratelimit:'' email (w_now w) (w_redis w)"
  shows "wp (ResendEmailVerification X (ResendEmailLimiter X) email)
    (\<lambda>r w'. r = Inr () \<and> (\<exists>tok. w_mail w' = w_mail w @ [\<lparr>m_kind = ConfirmationMail, m_to = email, m_token = tok\<rparr>])) w"
proof -
  obtain b where b: "rand_read X (w_draws w) tokenPlainBytes = Some b"
    "\<forall>t \<in> set (email_tokens (w_db w)). et_TokenHash t \<noteq> hex_encode (sha256 X (b64_encode b))"
    using assms(2) unfolding fresh_draws_def by (metis order_refl)
  let ?tok = "\<lparr>TokenUUID = uuid_new X (Suc (w_draws w)), Hash = hex_encode (sha256 X (b64_encode b)),
    ExpiresAt = w_now w + EmailConfirmationTokenTTL\<rparr>"
  have "\<exists>d. tx_op (w_now w) (OpReissueEmailToken (u_UserUuid u) ?tok) (w_db w) = Inr ((), d)"
    by (rule reissue_succeeds [OF found_row [OF assms(3)]]) (use assms(2) b(2) in \<open>auto simp: fresh_draws_def\<close>)
  then obtain d where d: "tx_op (w_now w) (OpReissueEmailToken (u_UserUuid u) ?tok) (w_db w) = Inr ((), d)" ..
  show ?thesis
    unfolding ResendEmailVerification_def NewEmailConfirmationToken_def SendConfirmationEmail_def
    using assms(1,3-5) b(1)
    by (simp, intro wp_answers [OF service_windows(2)])
      (auto simp: FindUserByEmail_def wp_new_token Let_def same_data_def simp del: tx_op.simps
        intro!: Reissue_quiet [where d = d and x = "()"] simp: d)
qed

text \<open>
  The answer to a request about an address, whatever the database says about the address: a function of
  the limiter's reply.
\<close>

definition blind_answer :: "rl_result \<Rightarrow> goerr + unit" where
  "blind_answer res = (if Allowed res then Inr () else Inl (RateLimitedError (RetryAfter res)))"

lemma wp_replies:
  assumes "replies allow pre key w res"
    and "\<And>w'. same_data (w\<lparr>w_db := d\<rparr>) w' \<Longrightarrow> quiet w' = quiet w \<Longrightarrow> Q (Inr res) w'"
  shows "wp (allow key) Q (w\<lparr>w_log := l, w_db := d\<rparr>)"
proof -
  have "wp (allow key) (\<lambda>r w'. r = Inr res \<and> same_data (w\<lparr>w_db := d\<rparr>) w') (w\<lparr>w_log := l, w_db := d\<rparr>)"
    using assms(1) by (simp add: replies_def)
  then show ?thesis by (rule wp_mono) (use assms(2) in \<open>auto simp: same_data_def quiet_def\<close>)
qed

lemma world_log_db: "(w :: world)\<lparr>w_db := d, w_log := l\<rparr> = w\<lparr>w_log := l, w_db := d\<rparr>"
  by simp

text \<open>What is refused for the rate is refused before the database is asked.\<close>

lemma limited_answers:
  assumes "\<not> Allowed res"
  shows "replies (RegistrationLimiter X) pre email w res \<Longrightarrow> wp (RegisterAccount X (RegistrationLimiter X) email password)
      (\<lambda>r w'. r = blind_answer res \<and> w_db w' = d \<and> w_mail w' = w_mail w) (w\<lparr>w_db := d\<rparr>)"
    and "replies (PasswordResetLimiter X) pre email w res \<Longrightarrow> wp (RequestPasswordReset X (PasswordResetLimiter X) email)
      (\<lambda>r w'. r = blind_answer res \<and> w_db w' = d \<and> w_mail w' = w_mail w) (w\<lparr>w_db := d\<rparr>)"
    and "replies (ResendEmailLimiter X) pre email w res \<Longrightarrow> wp (ResendEmailVerification X (ResendEmailLimiter X) email)
      (\<lambda>r w'. r = blind_answer res \<and> w_db w' = d \<and> w_mail w' = w_mail w) (w\<lparr>w_db := d\<rparr>)"
  using assms
  by (simp_all only: RegisterAccount_def RequestPasswordReset_def ResendEmailVerification_def wp_bind wp_log wp_attempt world_log_db)
    (auto intro!: wp_replies simp: world_log_db blind_answer_def same_data_def)

text \<open>
  A request about an address is answered alike whatever the database holds: one answer, fixed before the
  database is known. Something may be due to the address (an account to open, a token to send) or not; what
  is due is sent, and when nothing is due, or the rate is exceeded, nothing is stored and nothing is sent.
  Where something is due its token is drawn, and the draws must be new to the database.
\<close>

definition answered_alike :: "ext \<Rightarrow> string \<Rightarrow> string \<Rightarrow> world \<Rightarrow> unit result \<Rightarrow> (db \<Rightarrow> bool) \<Rightarrow> bool" where
  "answered_alike X pre email w m due \<longleftrightarrow>
     (\<exists>answer. (if window_open pre email (w_now w) (w_redis w) then answer = Inr ()
         else \<exists>wait. answer = Inl (RateLimitedError wait)) \<and>
       (\<forall>d. (due d \<longrightarrow> schema_ok d \<and> fresh_draws X (w\<lparr>w_db := d\<rparr>) \<and> fresh_resets X (w\<lparr>w_db := d\<rparr>)) \<longrightarrow>
         wp m (\<lambda>r w'. r = answer \<and>
           (if due d \<and> window_open pre email (w_now w) (w_redis w) then \<exists>ml. w_mail w' = w_mail w @ [ml] \<and> m_to ml = email
            else w_db w' = d \<and> w_mail w' = w_mail w)) (w\<lparr>w_db := d\<rparr>)))"

lemma answered_alikeI:
  assumes "answers allow pre email w"
    and "\<And>res d. replies allow pre email w res \<Longrightarrow> \<not> Allowed res \<Longrightarrow>
      wp m (\<lambda>r w'. r = blind_answer res \<and> w_db w' = d \<and> w_mail w' = w_mail w) (w\<lparr>w_db := d\<rparr>)"
    and "\<And>d. \<not> due d \<Longrightarrow> wp m (answered_blind pre email (w\<lparr>w_db := d\<rparr>)) (w\<lparr>w_db := d\<rparr>)"
    and "\<And>d. due d \<Longrightarrow> window_open pre email (w_now w) (w_redis w) \<Longrightarrow> schema_ok d \<Longrightarrow> fresh_draws X (w\<lparr>w_db := d\<rparr>) \<Longrightarrow>
      fresh_resets X (w\<lparr>w_db := d\<rparr>) \<Longrightarrow>
      wp m (\<lambda>r w'. r = Inr () \<and> (\<exists>ml. w_mail w' = w_mail w @ [ml] \<and> m_to ml = email)) (w\<lparr>w_db := d\<rparr>)"
  shows "answered_alike X pre email w m due"
proof -
  obtain res where res: "replies allow pre email w res" using assms(1) unfolding answers_def by blast
  let ?open = "window_open pre email (w_now w) (w_redis w)"
  have allowed: "Allowed res \<longleftrightarrow> ?open" using res by (simp add: replies_def)
  have "wp m (\<lambda>r w'. r = blind_answer res \<and> (if due d \<and> ?open then \<exists>ml. w_mail w' = w_mail w @ [ml] \<and> m_to ml = email
      else w_db w' = d \<and> w_mail w' = w_mail w)) (w\<lparr>w_db := d\<rparr>)"
    if d: "due d \<longrightarrow> schema_ok d \<and> fresh_draws X (w\<lparr>w_db := d\<rparr>) \<and> fresh_resets X (w\<lparr>w_db := d\<rparr>)" for d
  proof (cases ?open)
    case False
    then show ?thesis by (intro wp_mono [OF assms(2) [OF res]]) (auto simp: allowed)
  next
    case True
    then have "blind_answer res = Inr ()" by (simp add: blind_answer_def allowed)
    then show ?thesis using True d wp_mono [OF assms(4)] wp_mono [OF assms(3)]
      by (cases "due d") (simp_all add: answered_blind_def)
  qed
  moreover have "if ?open then blind_answer res = Inr () else \<exists>wait. blind_answer res = Inl (RateLimitedError wait)"
    by (simp add: blind_answer_def allowed)
  ultimately show ?thesis unfolding answered_alike_def by blast
qed

lemma answered_open:
  assumes "answered_alike X pre email w m due" "window_open pre email (w_now w) (w_redis w)"
    and "due d \<Longrightarrow> schema_ok d \<and> fresh_draws X (w\<lparr>w_db := d\<rparr>) \<and> fresh_resets X (w\<lparr>w_db := d\<rparr>)"
  shows "wp m (\<lambda>r w'. r = Inr () \<and> (if due d then \<exists>ml. w_mail w' = w_mail w @ [ml] \<and> m_to ml = email
    else w_db w' = d \<and> w_mail w' = w_mail w)) (w\<lparr>w_db := d\<rparr>)"
  using assms unfolding answered_alike_def by auto

lemma register_alike:
  assumes "quiet w" "ValidateEmail email = None" "ValidatePassword password = None" "bcrypt_total X"
  shows "answered_alike X ''registration:ratelimit:'' email w (RegisterAccount X (RegistrationLimiter X) email password)
    (\<lambda>d. \<not> email_taken email d)"
proof (rule answered_alikeI [OF service_windows(1) [OF assms(1)] limited_answers(1)])
  fix d assume "\<not> \<not> email_taken email d"
  then show "wp (RegisterAccount X (RegistrationLimiter X) email password)
      (answered_blind ''registration:ratelimit:'' email (w\<lparr>w_db := d\<rparr>)) (w\<lparr>w_db := d\<rparr>)"
    using assms by (intro register_taken) simp_all
next
  fix d assume "\<not> email_taken email d" "window_open ''registration:ratelimit:'' email (w_now w) (w_redis w)"
    "schema_ok d" "fresh_draws X (w\<lparr>w_db := d\<rparr>)"
  then show "wp (RegisterAccount X (RegistrationLimiter X) email password)
      (\<lambda>r w'. r = Inr () \<and> (\<exists>ml. w_mail w' = w_mail w @ [ml] \<and> m_to ml = email)) (w\<lparr>w_db := d\<rparr>)"
    using assms by (intro wp_mono [OF register_new]) auto
qed

lemma reset_alike:
  assumes "quiet w" "ValidateEmail email = None"
  shows "answered_alike X ''password_reset:'' email w (RequestPasswordReset X (PasswordResetLimiter X) email)
    (\<lambda>d. \<exists>u. GetUserByEmail email d = Inr u \<and> u_Status u = StatusInactive)"
proof (rule answered_alikeI [OF service_windows(3) [OF assms(1)] limited_answers(2)])
  fix d assume "\<not> (\<exists>u. GetUserByEmail email d = Inr u \<and> u_Status u = StatusInactive)"
  then show "wp (RequestPasswordReset X (PasswordResetLimiter X) email)
      (answered_blind ''password_reset:'' email (w\<lparr>w_db := d\<rparr>)) (w\<lparr>w_db := d\<rparr>)"
    using assms by (intro reset_unknown) auto
next
  fix d assume "\<exists>u. GetUserByEmail email d = Inr u \<and> u_Status u = StatusInactive"
    and *: "window_open ''password_reset:'' email (w_now w) (w_redis w)" "fresh_resets X (w\<lparr>w_db := d\<rparr>)"
  then obtain u where "GetUserByEmail email d = Inr u" "u_Status u = StatusInactive" by blast
  then show "wp (RequestPasswordReset X (PasswordResetLimiter X) email)
      (\<lambda>r w'. r = Inr () \<and> (\<exists>ml. w_mail w' = w_mail w @ [ml] \<and> m_to ml = email)) (w\<lparr>w_db := d\<rparr>)"
    using assms * by (intro wp_mono [OF reset_due]) auto
qed

lemma resend_alike:
  assumes "quiet w"
  shows "answered_alike X ''resend:ratelimit:'' email w (ResendEmailVerification X (ResendEmailLimiter X) email)
    (\<lambda>d. \<exists>u. GetUserByEmail email d = Inr u \<and> u_Status u = StatusMailUnverified)"
proof (rule answered_alikeI [OF service_windows(2) [OF assms(1)] limited_answers(3)])
  fix d assume "\<not> (\<exists>u. GetUserByEmail email d = Inr u \<and> u_Status u = StatusMailUnverified)"
  then show "wp (ResendEmailVerification X (ResendEmailLimiter X) email)
      (answered_blind ''resend:ratelimit:'' email (w\<lparr>w_db := d\<rparr>)) (w\<lparr>w_db := d\<rparr>)"
    using assms by (intro resend_unknown) auto
next
  fix d assume "\<exists>u. GetUserByEmail email d = Inr u \<and> u_Status u = StatusMailUnverified"
    and *: "window_open ''resend:ratelimit:'' email (w_now w) (w_redis w)" "fresh_draws X (w\<lparr>w_db := d\<rparr>)"
  then obtain u where "GetUserByEmail email d = Inr u" "u_Status u = StatusMailUnverified" by blast
  then show "wp (ResendEmailVerification X (ResendEmailLimiter X) email)
      (\<lambda>r w'. r = Inr () \<and> (\<exists>ml. w_mail w' = w_mail w @ [ml] \<and> m_to ml = email)) (w\<lparr>w_db := d\<rparr>)"
    using assms * by (intro wp_mono [OF resend_due]) auto
qed

text \<open>A refresh token that can be exchanged at a time, and whose it is.\<close>

definition live_session :: "ext \<Rightarrow> string \<Rightarrow> uuid \<Rightarrow> time \<Rightarrow> db \<Rightarrow> bool" where
  "live_session X plain uid t d \<longleftrightarrow> (\<exists>rt. GetRefreshTokenByHash (HashRefreshToken X plain) d = Inr rt \<and>
     rt_UserUuid rt = uid \<and> rt_UsedAt rt = None \<and> rt_RevokedAt rt = None \<and> t \<le> rt_ExpiresAt rt)"

definition signs :: "ext \<Rightarrow> bool" where
  "signs X \<longleftrightarrow> (\<forall>cl. \<exists>tok. jwt_sign X cl = Inr tok)"

lemma signs_token: "signs X \<Longrightarrow> \<exists>tok. GenerateAccessToken X t uid roles ttl = Inr tok"
  unfolding signs_def GenerateAccessToken_def by (metis sum.simps(6))

lemma save_first_token:
  assumes "\<forall>t \<in> set (refresh_tokens d). rt_TokenID t \<noteq> rr_TokenID r"
    and "\<forall>t \<in> set (refresh_tokens d). rt_TokenHash t \<noteq> rr_TokenHash r"
    and "rr_UserUUID r \<in> user_ids d" "rr_ParentTokenID r = None \<or> (\<exists>t \<in> set (refresh_tokens d). Some (rt_TokenID t) = rr_ParentTokenID r)"
  shows "\<exists>d' rt. insert_refresh ts r d = Inr ((), d') \<and> users d' = users d \<and>
    GetRefreshTokenByHash (rr_TokenHash r) d' = Inr rt \<and> rt_UserUuid rt = rr_UserUUID r \<and> rt_UsedAt rt = None \<and>
    rt_RevokedAt rt = None \<and> rt_ExpiresAt rt = rr_ExpiresAt r \<and> rt_FamilyID rt = rr_FamilyID r"
proof -
  have none: "find (\<lambda>t. rt_TokenHash t = rr_TokenHash r) (refresh_tokens d) = None"
    using assms(2) by (auto simp: find_None_iff)
  have "find p (xs @ [y]) = (case find p xs of None \<Rightarrow> if p y then Some y else None | Some x \<Rightarrow> Some x)"
    for p and xs and y :: AuthRefreshToken by (induction xs) auto
  then show ?thesis
    using assms none by (auto simp: insert_defs GetRefreshTokenByHash_def user_ids_def split: option.split)
qed

text \<open>The access token is one the signer made, the refresh token the base64 text of random bytes.\<close>

lemma login_tokens:
  assumes "quiet w" "fresh_draws X w" "signs X" "ValidateEmail email = None"
    and "r_pttl (ms_of (w_now w)) (lockKey X LoginLockout email) (w_redis w) = -2"
    and "GetUserByEmail email (w_db w) = Inr u" "VerifyPassword X (u_PasswordHash u) password"
    and "u_Status u = StatusInactive"
  shows "wp (Login X (loginLockout_Check X) (loginLockout_RecordFailure X) (loginLockout_Reset X) email password)
    (\<lambda>r w'. \<exists>access plain. r = Inr (access, plain) \<and>
       live_session X plain (u_UserUuid u) (w_now w + RefreshTokenTTL) (w_db w') \<and>
       (\<exists>cl. jwt_sign X cl = Inr access) \<and> (\<exists>b. plain = b64_encode b)) w"
proof -
  have pttl: "pttl_duration [-2] = -2" by (simp add: pttl_duration_def)
  obtain access where a: "GenerateAccessToken X (w_now w) (uuid_str X (u_UserUuid u))
      (sort (roles_of (u_UserUuid u) (w_db w))) AccessTokenTTL = Inr access"
    using signs_token [OF assms(3)] by blast
  then have signed: "\<exists>cl. jwt_sign X cl = Inr access" by (auto simp: GenerateAccessToken_def split: sum.splits)
  obtain b where b: "rand_read X (w_draws w) refreshTokenBytes = Some b"
    "\<forall>t \<in> set (refresh_tokens (w_db w)). rt_TokenHash t \<noteq> hex_encode (sha256 X (b64_encode b))"
    using assms(2) unfolding fresh_draws_def by blast
  let ?r = "\<lparr>rr_TokenID = uuid_new X (Suc (w_draws w)), rr_UserUUID = u_UserUuid u,
    rr_FamilyID = uuid_new X (Suc (Suc (w_draws w))), rr_ParentTokenID = None,
    rr_TokenHash = HashRefreshToken X (b64_encode b), rr_ExpiresAt = w_now w + RefreshTokenTTL\<rparr>"
  have "u_UserUuid u \<in> user_ids (w_db w)"
    using assms(6) by (auto simp: query_defs user_ids_def dest: find_SomeD split: option.splits)
  moreover have "\<forall>t \<in> set (refresh_tokens (w_db w)). rt_TokenID t \<noteq> uuid_new X (Suc (w_draws w))"
    using assms(2) by (simp add: fresh_draws_def)
  ultimately obtain d rt where d: "insert_refresh (w_now w) ?r (w_db w) = Inr ((), d)"
    "GetRefreshTokenByHash (HashRefreshToken X (b64_encode b)) d = Inr rt" "rt_UserUuid rt = u_UserUuid u"
    "rt_UsedAt rt = None" "rt_RevokedAt rt = None" "rt_ExpiresAt rt = w_now w + RefreshTokenTTL"
    using save_first_token [of "w_db w" ?r "w_now w"] b(2) by (auto simp: HashRefreshToken_def)
  have live: "live_session X (b64_encode b) (u_UserUuid u) (w_now w + RefreshTokenTTL) d"
    using d by (auto simp: live_session_def)
  have active: "CheckLoginableStatus StatusInactive = None" by (simp add: CheckLoginableStatus_None)
  show ?thesis
    unfolding Login_def
    using assms(1,4-8) a b(1) d(1)
    by (simp add: check_quiet pttl Let_def GetLoginUser_def GetUserRoles_def active
        loginLockout_Reset_def Lockout_Reset_def wp_GenerateRefreshToken SaveRefreshToken_def live signed)
      blast
qed

lemma login_works:
  assumes "quiet w" "fresh_draws X w" "signs X" "ValidateEmail email = None"
    and "r_pttl (ms_of (w_now w)) (lockKey X LoginLockout email) (w_redis w) = -2"
    and "GetUserByEmail email (w_db w) = Inr u" "VerifyPassword X (u_PasswordHash u) password"
    and "u_Status u = StatusInactive"
  shows "wp (Login X (loginLockout_Check X) (loginLockout_RecordFailure X) (loginLockout_Reset X) email password)
    (\<lambda>r w'. \<exists>access plain. r = Inr (access, plain) \<and>
       live_session X plain (u_UserUuid u) (w_now w + RefreshTokenTTL) (w_db w')) w"
  by (rule wp_mono [OF login_tokens [OF assms]]) blast

lemma no_mail_update: "(w :: world)\<lparr>w_db := d, w_mail := w_mail w\<rparr> = w\<lparr>w_db := d\<rparr>"
  by (cases w) simp

lemma RotateRefreshToken_quiet:
  assumes "quiet w" "GetRefreshTokenByHash h (w_db w) = Inr rt"
    and "rr_UserUUID r = rt_UserUuid rt" "rr_FamilyID r = rt_FamilyID rt" "rr_ParentTokenID r = Some (rt_TokenID rt)"
    and "tx_op (w_now w) (OpRotateRefreshToken (rt_TokenID rt) r) (w_db w) = Inr (x, d)"
    and "Q (Inr ()) (w\<lparr>w_db := d\<rparr>)"
  shows "wp (RotateRefreshToken (rt_TokenID rt) r) Q w"
proof (rule vc_RotateRefreshToken [OF quiet_ended [OF assms(1)] rotate_admissible [OF assms(2) _ assms(5,4,3)]])
  fix ra w' assume "tx_result (OpRotateRefreshToken (rt_TokenID rt) r) [] {} w ra w'"
  from tx_result_quiet [OF this assms(1,6)] show "Q ra w'" using assms(7) by (simp add: no_mail_update)
qed

lemma rotate_succeeds:
  assumes "GetRefreshTokenByHash h d = Inr rt" "rt_UsedAt rt = None"
    and "\<forall>t \<in> set (refresh_tokens d). rt_TokenID t \<noteq> rr_TokenID r"
    and "\<forall>t \<in> set (refresh_tokens d). rt_TokenHash t \<noteq> rr_TokenHash r"
    and "rr_UserUUID r \<in> user_ids d" "rr_ParentTokenID r = Some (rt_TokenID rt)"
  shows "\<exists>d' rt'. tx_op ts (OpRotateRefreshToken (rt_TokenID rt) r) d = Inr ((), d') \<and>
    GetRefreshTokenByHash (rr_TokenHash r) d' = Inr rt' \<and> rt_UserUuid rt' = rr_UserUUID r \<and> rt_UsedAt rt' = None \<and>
    rt_RevokedAt rt' = None \<and> rt_ExpiresAt rt' = rr_ExpiresAt r"
proof -
  let ?sel = "\<lambda>t. rt_TokenID t = rt_TokenID rt \<and> rt_UsedAt t = None"
  let ?d = "d\<lparr>refresh_tokens := upd_where ?sel (\<lambda>t. t\<lparr>rt_UsedAt := Some ts\<rparr>) (refresh_tokens d)\<rparr>"
  have rt: "rt \<in> set (refresh_tokens d)"
    using assms(1) by (auto simp: query_defs dest: find_SomeD split: option.splits)
  then have n: "count_where ?sel (refresh_tokens d) \<noteq> 0" using assms(2) by (auto simp: count_where_zero)
  have "\<exists>d' rt'. insert_refresh ts r ?d = Inr ((), d') \<and> users d' = users ?d \<and>
      GetRefreshTokenByHash (rr_TokenHash r) d' = Inr rt' \<and> rt_UserUuid rt' = rr_UserUUID r \<and> rt_UsedAt rt' = None \<and>
      rt_RevokedAt rt' = None \<and> rt_ExpiresAt rt' = rr_ExpiresAt r \<and> rt_FamilyID rt' = rr_FamilyID r"
  proof (rule save_first_token)
    show "rr_ParentTokenID r = None \<or> (\<exists>t \<in> set (refresh_tokens ?d). Some (rt_TokenID t) = rr_ParentTokenID r)"
      using rt assms(2,6) by (auto simp: set_upd_where intro!: bexI [of _ "rt\<lparr>rt_UsedAt := Some ts\<rparr>"])
  qed (use assms(3-5) in \<open>auto simp: set_upd_where user_ids_def\<close>)
  then obtain d' rt' where d': "insert_refresh ts r ?d = Inr ((), d')"
    "GetRefreshTokenByHash (rr_TokenHash r) d' = Inr rt'" "rt_UserUuid rt' = rr_UserUUID r" "rt_UsedAt rt' = None"
    "rt_RevokedAt rt' = None" "rt_ExpiresAt rt' = rr_ExpiresAt r" by blast
  have "tx_op ts (OpRotateRefreshToken (rt_TokenID rt) r) d = Inr ((), d')"
    using n d'(1) by (simp add: wbind_def need_row_def MarkRefreshTokenUsed_def Let_def wdone_def)
  then show ?thesis using d'(2-6) by blast
qed

lemma refresh_works:
  assumes "quiet w" "fresh_draws X w" "signs X" "plain \<noteq> ''''"
    and "live_session X plain uid (w_now w) (w_db w)"
    and "GetUserByUuid uid (w_db w) = Inr u" "u_Status u \<noteq> StatusDisabled"
  shows "wp (RefreshToken X plain)
    (\<lambda>r w'. \<exists>access new. r = Inr (access, new) \<and> live_session X new uid (w_now w + RefreshTokenTTL) (w_db w')) w"
proof -
  obtain rt where rt: "GetRefreshTokenByHash (HashRefreshToken X plain) (w_db w) = Inr rt" "rt_UserUuid rt = uid"
    "rt_UsedAt rt = None" "rt_RevokedAt rt = None" "w_now w \<le> rt_ExpiresAt rt"
    using assms(5) by (auto simp: live_session_def)
  obtain access where a: "GenerateAccessToken X (w_now w) (uuid_str X uid)
      (sort (roles_of uid (w_db w))) AccessTokenTTL = Inr access"
    using signs_token [OF assms(3)] by blast
  obtain b where b: "rand_read X (w_draws w) refreshTokenBytes = Some b"
    "\<forall>t \<in> set (refresh_tokens (w_db w)). rt_TokenHash t \<noteq> hex_encode (sha256 X (b64_encode b))"
    using assms(2) unfolding fresh_draws_def by blast
  let ?r = "\<lparr>rr_TokenID = uuid_new X (Suc (w_draws w)), rr_UserUUID = uid, rr_FamilyID = rt_FamilyID rt,
    rr_ParentTokenID = Some (rt_TokenID rt), rr_TokenHash = HashRefreshToken X (b64_encode b),
    rr_ExpiresAt = w_now w + RefreshTokenTTL\<rparr>"
  have "uid \<in> user_ids (w_db w)"
    using assms(6) by (auto simp: query_defs user_ids_def dest: find_SomeD split: option.splits)
  moreover have "\<forall>t \<in> set (refresh_tokens (w_db w)). rt_TokenID t \<noteq> uuid_new X (Suc (w_draws w))"
    using assms(2) by (simp add: fresh_draws_def)
  ultimately obtain d rt' where d: "tx_op (w_now w) (OpRotateRefreshToken (rt_TokenID rt) ?r) (w_db w) = Inr ((), d)"
    "GetRefreshTokenByHash (HashRefreshToken X (b64_encode b)) d = Inr rt'" "rt_UserUuid rt' = uid"
    "rt_UsedAt rt' = None" "rt_RevokedAt rt' = None" "rt_ExpiresAt rt' = w_now w + RefreshTokenTTL"
    using rotate_succeeds [OF rt(1,3), of ?r "w_now w"] b(2) by (auto simp: HashRefreshToken_def simp del: tx_op.simps)
  have live: "live_session X (b64_encode b) uid (w_now w + RefreshTokenTTL) d"
    using d(2-) by (auto simp: live_session_def)
  show ?thesis
    unfolding RefreshToken_def
    using assms(1,4,6,7) rt a b(1) d(1)
    by (auto simp: repo_GetRefreshTokenByHash_def before_def GetUserForRefresh_def GetUserRoles_def
        wp_GenerateRefreshToken live live [folded rt(2)] Let_def simp del: tx_op.simps intro!: RotateRefreshToken_quiet [where d = d and x = "()"])
qed

text \<open>A token that was exchanged or revoked before ends the whole session it belongs to.\<close>

lemma refresh_reused:
  assumes "quiet w" "plain \<noteq> ''''" "GetRefreshTokenByHash (HashRefreshToken X plain) (w_db w) = Inr t"
    and "w_now w \<le> rt_ExpiresAt t" "rt_UsedAt t \<noteq> None \<or> rt_RevokedAt t \<noteq> None"
  shows "wp (RefreshToken X plain) (\<lambda>r w'. r = Inl (SessionRevokedError RevocationReasonTokenReuseDetected) \<and>
    family_revoked (rt_FamilyID t) (w_db w') \<and>
    (\<exists>entry \<in> set (w_log w'). l_level entry = Critical \<and> l_msg entry = MsgReuseDetected)) w"
proof -
  obtain x d where d: "RevokeRefreshTokenFamily (w_now w) (rt_FamilyID t) (Some RevocationReasonTokenReuseDetected) (w_db w) = Inr (x, d)"
    by (auto simp: RevokeRefreshTokenFamily_def)
  have "family_revoked (rt_FamilyID t) d" using d revoke_family_op by simp
  then show ?thesis
    unfolding RefreshToken_def
    using assms d
    by (auto simp: repo_GetRefreshTokenByHash_def before_def repo_RevokeRefreshTokenFamily_def Let_def split: option.split)
qed
section \<open>Retry-After\<close>

text \<open>The seconds are rounded up: a client that waits that long does not come too early.\<close>

lemma retry_after_answer:
  assumes "err \<in> {register_error (RateLimitedError d), verify_error (RateLimitedError d), resend_error (RateLimitedError d),
      request_reset_error (RateLimitedError d), invite_error (RateLimitedError d), login_error (LockedError d)}"
    and "\<not> rs_committed rs"
  shows "wp (ProblemErrorHandler err c rs) (\<lambda>rs' w'. rs_status rs' = 429 \<and>
    (\<exists>n. header_get (rs_headers rs') ''Retry-After'' = int_text n \<and> d \<le> n * Second \<and> n * Second < d + Second)) w"
proof -
  have n: "d \<le> ceil_seconds d * Second \<and> ceil_seconds d * Second < d + Second"
    unfolding ceil_seconds_def Second_def by linarith
  have "\<exists>p. err = ProblemError p \<and> p_Status p = 429 \<and> p_RetryAfter p = Some (ceil_seconds d)"
    using assms(1)
    by (auto simp: register_error_def verify_error_def resend_error_def request_reset_error_def invite_error_def
        login_error_def rate_limit_exceeded_def NewProblemError_def)
  then obtain p where "err = ProblemError p" "p_Status p = 429" "p_RetryAfter p = Some (ceil_seconds d)" by blast
  then show ?thesis using n assms(2)
    by (auto simp: ProblemErrorHandler_def problem_of_def Let_def)
qed

section \<open>When Redis is down\<close>

text \<open>The first call to Redis fails: the limiters let the request pass, the login does not.\<close>

definition redis_down :: "world \<Rightarrow> bool" where
  "redis_down w \<longleftrightarrow> (\<exists>e es. w_env w = e # es \<and> es_fault e \<noteq> None)"

lemma redis_do_down:
  assumes "redis_down w" "\<And>e w'. \<exists>ls. w_log w' = w_log w @ ls \<Longrightarrow> Q (Inl e) w'"
  shows "wp (redis_do c) Q w"
proof -
  obtain e es x where "w_env w = e # es" "es_fault e = Some x" using assms(1) by (auto simp: redis_down_def)
  then show ?thesis using assms(2)
    by (cases x) (auto simp: redis_do_def poll_def wp_State env_advance_def Let_def)
qed


lemma redis_down_simps [simp]: "redis_down (w\<lparr>w_log := l\<rparr>) = redis_down w"
  by (simp add: redis_down_def)

lemma limiters_fail_open:
  assumes "redis_down w" "allow \<in> {RegistrationLimiter X, ResendEmailLimiter X, PasswordResetLimiter X,
      InvitationLimiter X, EmailVerifyLimiter X secret}"
  shows "wp (allow key) (\<lambda>r w'. (\<exists>res. r = Inr res \<and> Allowed res) \<and>
    (\<exists>entry \<in> set (w_log w'). l_level entry = Error \<and> l_msg entry = MsgFailOpen)) w"
  using assms(2)
  by (auto simp: RegistrationLimiter_def ResendEmailLimiter_def PasswordResetLimiter_def InvitationLimiter_def
      EmailVerifyLimiter_def FailMode_Allow_def FixedWindow_Allow_def CountingWindow_Allow_def Let_def NewResult_def
      intro!: redis_do_down [OF assms(1)])

lemma login_fails_closed:
  assumes "redis_down w"
  shows "wp (Login X (loginLockout_Check X) (loginLockout_RecordFailure X) (loginLockout_Reset X) email password)
    (\<lambda>r w'. \<exists>e. r = Inl e) w"
  unfolding Login_def Let_def
  by (auto simp: loginLockout_Check_def Lockout_Check_def split: option.split intro!: redis_do_down simp: assms)

end
