(* ===== verification/LoginAttempts.thy ===== *)
theory LoginAttempts
  imports Answers
begin

text \<open>
  Guessing a password: a sequence of logins for one address, with time passing between them, against
  the lockout (\<open>login.go\<close>, \<open>lockout.go\<close> and its script in Redis together).
\<close>

abbreviation login :: "ext \<Rightarrow> string \<Rightarrow> string \<Rightarrow> (string \<times> string) result" where
  "login X \<equiv> Login X (loginLockout_Check X) (loginLockout_RecordFailure X) (loginLockout_Reset X)"

text \<open>Each attempt comes some time after the one before it.\<close>

fun login_attempts :: "ext \<Rightarrow> string \<Rightarrow> (duration \<times> string) list \<Rightarrow> world \<Rightarrow> (goerr + string \<times> string) list \<times> world" where
  "login_attempts X email [] w = ([], w)"
| "login_attempts X email ((dt, password) # as) w =
     (let (r, w1) = run_state (login X email password) (w\<lparr>w_now := w_now w + dt\<rparr>);
          (rs, w2) = login_attempts X email as w1 in (r # rs, w2))"

definition failure_cmd :: "ext \<Rightarrow> string \<Rightarrow> redis_cmd" where
  "failure_cmd X email = LockoutFailureScript (countKey X LoginLockout email) (lockKey X LoginLockout email)
     (Milliseconds LoginFailureCountWindow) LoginLockoutThreshold (Milliseconds LoginLockoutTTL)"

lemma lockout_keys_differ: "countKey X LoginLockout email \<noteq> lockKey X LoginLockout email"
  by (simp add: countKey_def lockKey_def)

lemma record_failure_quiet:
  assumes "quiet w"
  shows "\<exists>b. \<forall>Q. wp (loginLockout_RecordFailure X email) Q w = Q (Inr b)
    (w\<lparr>w_redis := snd (redis_exec (ms_of (w_now w)) (failure_cmd X email) (w_redis w))\<rparr>)"
proof -
  obtain n where "fst (redis_exec (ms_of (w_now w)) (failure_cmd X email) (w_redis w)) = Inr [n]"
    using lockout_script_reply [OF login_ttl_pos] by (metis failure_cmd_def redis_exec.simps(3))
  then show ?thesis
    using assms unfolding loginLockout_RecordFailure_def Lockout_RecordFailure_def
    by (auto simp: LoginLockout_def failure_cmd_def)
qed

text \<open>A wrong password for an account that is not locked is counted.\<close>

lemma login_failure:
  assumes "quiet w" "ValidateEmail email = None" "\<not> password_matches X email password (w_db w)"
    and "r_pttl (ms_of (w_now w)) (lockKey X LoginLockout email) (w_redis w) = -2"
  shows "wp (login X email password) (\<lambda>r w'. r = Inl (Sentinel ErrAuthenticationFailed) \<and> w_db w' = w_db w \<and>
    w_now w' = w_now w \<and> quiet w' \<and>
    w_redis w' = snd (redis_exec (ms_of (w_now w)) (failure_cmd X email) (w_redis w))) w"
proof -
  have rec: "\<exists>b. \<forall>Q. wp (loginLockout_RecordFailure X email) Q (w\<lparr>w_log := l\<rparr>) = Q (Inr b)
      (w\<lparr>w_log := l, w_redis := snd (redis_exec (ms_of (w_now w)) (failure_cmd X email) (w_redis w))\<rparr>)"
    for l using record_failure_quiet [of "w\<lparr>w_log := l\<rparr>" X email] assms(1) by simp
  obtain b where r: "\<And>l Q. wp (loginLockout_RecordFailure X email) Q (w\<lparr>w_log := l\<rparr>) =
      Q (Inr (b l)) (w\<lparr>w_log := l, w_redis := snd (redis_exec (ms_of (w_now w)) (failure_cmd X email) (w_redis w))\<rparr>)"
    using rec by metis
  show ?thesis
    using assms
    by (auto simp: Login_def check_quiet Let_def GetLoginUser_def r GetUserRoles_def pttl_duration_def
        password_matches_def get_only_norows split: option.split sum.split dest: get_only_norows)
qed

text \<open>While the lock stands, the answer is the time that is left, whatever the password.\<close>

lemma login_while_locked:
  assumes "quiet w" "ValidateEmail email = None"
    and "w_redis w (lockKey X LoginLockout email) = Some \<lparr>re_val = v, re_exp = Some e\<rparr>" "ms_of (w_now w) < e"
  shows "wp (login X email password) (\<lambda>r w'. r = Inl (LockedError ((e - ms_of (w_now w)) * Millisecond)) \<and>
    w_db w' = w_db w \<and> w_redis w' = w_redis w) w"
proof -
  have "r_pttl (ms_of (w_now w)) (lockKey X LoginLockout email) (w_redis w) = e - ms_of (w_now w)"
    using assms(3,4) by (simp add: r_defs)
  moreover have "0 < (e - ms_of (w_now w)) * Millisecond" using assms(4) by (simp add: Millisecond_def)
  ultimately show ?thesis
    using assms(1,2,4) by (simp add: Login_def check_quiet Let_def pttl_duration_def)
qed

definition no_lock :: "ext \<Rightarrow> string \<Rightarrow> time \<Rightarrow> redis \<Rightarrow> bool" where
  "no_lock X email t r \<longleftrightarrow> r_get (ms_of t) (lockKey X LoginLockout email) r = None"

lemma ms_of_mono: "t \<le> t' \<Longrightarrow> ms_of t \<le> ms_of t'"
  by (simp add: ms_of_def Millisecond_def zdiv_mono1)

lemma no_lock_later: "no_lock X email t r \<Longrightarrow> t \<le> t' \<Longrightarrow> no_lock X email t' r"
  using ms_of_mono [of t t'] by (auto simp: no_lock_def r_get_def split: option.splits if_splits)

lemma no_lock_pttl: "no_lock X email t r \<Longrightarrow> r_pttl (ms_of t) (lockKey X LoginLockout email) r = -2"
  by (simp add: no_lock_def r_pttl_def)

lemma no_lock_not_locked: "no_lock X email t r \<Longrightarrow> \<not> login_locked X email t r"
  by (simp add: login_locked_def no_lock_pttl pttl_duration_def Let_def)

definition wrong_guesses :: "ext \<Rightarrow> string \<Rightarrow> db \<Rightarrow> (duration \<times> string) list \<Rightarrow> bool" where
  "wrong_guesses X email d as \<longleftrightarrow> (\<forall>(dt, p) \<in> set as. 0 \<le> dt \<and> \<not> password_matches X email p d)"

lemma wrong_guesses_Cons [simp]:
  "wrong_guesses X email d ((dt, p) # as) \<longleftrightarrow> 0 \<le> dt \<and> \<not> password_matches X email p d \<and> wrong_guesses X email d as"
  by (auto simp: wrong_guesses_def)

lemma wrong_guesses_time: "wrong_guesses X email d as \<Longrightarrow> 0 \<le> sum_list (map fst as)"
  by (induction as) auto

lemma run_login_failure:
  assumes "quiet w" "ValidateEmail email = None" "\<not> password_matches X email password (w_db w)" "0 \<le> dt"
    and "no_lock X email (w_now w) (w_redis w)"
    and "run_state (login X email password) (w\<lparr>w_now := w_now w + dt\<rparr>) = (r, w1)"
  shows "r = Inl (Sentinel ErrAuthenticationFailed) \<and> w_db w1 = w_db w \<and> w_now w1 = w_now w + dt \<and> quiet w1 \<and>
    w_redis w1 = snd (redis_exec (ms_of (w_now w + dt)) (failure_cmd X email) (w_redis w))"
proof -
  have "no_lock X email (w_now w + dt) (w_redis w)" using no_lock_later [OF assms(5)] assms(4) by simp
  then have "r_pttl (ms_of (w_now w + dt)) (lockKey X LoginLockout email) (w_redis w) = -2" by (rule no_lock_pttl)
  moreover have "quiet (w\<lparr>w_now := w_now w + dt\<rparr>)" using assms(1) by (simp add: quiet_def)
  ultimately show ?thesis
    using wpD [OF login_failure [of "w\<lparr>w_now := w_now w + dt\<rparr>" email X password] assms(6)] assms(2,3) by simp
qed

lemma durations:
  "0 < Milliseconds LoginLockoutTTL" "0 < Milliseconds LoginFailureCountWindow"
  "Milliseconds LoginFailureCountWindow * Millisecond = LoginFailureCountWindow"
  "Milliseconds LoginLockoutTTL * Millisecond = LoginLockoutTTL"
  by (simp_all add: Milliseconds_def LoginLockoutTTL_def LoginFailureCountWindow_def Minute_def Second_def Millisecond_def)

text \<open>The attempts after the first one, which has opened the window that ends at \<open>x\<close>.\<close>

lemma attempts_counted:
  assumes "quiet w" "ValidateEmail email = None" "wrong_guesses X email (w_db w) as"
    and "w_redis w (countKey X LoginLockout email) = Some \<lparr>re_val = n, re_exp = Some x\<rparr>"
    and "no_lock X email (w_now w) (w_redis w)" "ms_of (w_now w + sum_list (map fst as)) \<le> x"
    and "0 < n" "n + int (length as) \<le> LoginLockoutThreshold" "n < LoginLockoutThreshold"
    and "login_attempts X email as w = (rs, w')"
  shows "rs = replicate (length as) (Inl (Sentinel ErrAuthenticationFailed)) \<and> quiet w' \<and> w_db w' = w_db w \<and>
    w_now w' = w_now w + sum_list (map fst as) \<and>
    (if n + int (length as) < LoginLockoutThreshold then no_lock X email (w_now w') (w_redis w')
     else w_redis w' (lockKey X LoginLockout email) =
       Some \<lparr>re_val = 1, re_exp = Some (ms_of (w_now w') + Milliseconds LoginLockoutTTL)\<rparr>)"
  using assms(1,3-10)
proof (induction as arbitrary: w n rs)
  case Nil
  then show ?case by simp
next
  case (Cons a as)
  obtain dt p where a: "a = (dt, p)" by (cases a)
  obtain r w1 where w1: "run_state (login X email p) (w\<lparr>w_now := w_now w + dt\<rparr>) = (r, w1)" by fastforce
  obtain rs1 where rs1: "login_attempts X email as w1 = (rs1, w')" "rs = r # rs1"
    using Cons.prems(9) by (auto simp: a w1 split: prod.splits)
  have dt: "0 \<le> dt" "0 \<le> sum_list (map fst as)"
    using Cons.prems(2) wrong_guesses_time [of X email "w_db w" as] by (simp_all add: a)
  have step: "r = Inl (Sentinel ErrAuthenticationFailed)" "w_db w1 = w_db w" "w_now w1 = w_now w + dt" "quiet w1"
    "w_redis w1 = snd (redis_exec (ms_of (w_now w + dt)) (failure_cmd X email) (w_redis w))"
    using run_login_failure [OF Cons.prems(1) assms(2) _ dt(1) Cons.prems(4) w1] Cons.prems(2) by (simp_all add: a)
  have "ms_of (w_now w + dt) \<le> x"
    using Cons.prems(5) ms_of_mono [of "w_now w + dt" "w_now w + sum_list (map fst (a # as))"] dt(2) by (simp add: a)
  from lockout_step [where r = "w_redis w", OF Cons.prems(3) this Cons.prems(6) durations(1)]
  have redis: "w_redis w1 = (if n + 1 = LoginLockoutThreshold
      then (w_redis w)(countKey X LoginLockout email \<mapsto> \<lparr>re_val = n + 1, re_exp = Some x\<rparr>,
        lockKey X LoginLockout email \<mapsto> \<lparr>re_val = 1, re_exp = Some (ms_of (w_now w + dt) + Milliseconds LoginLockoutTTL)\<rparr>)
      else (w_redis w)(countKey X LoginLockout email \<mapsto> \<lparr>re_val = n + 1, re_exp = Some x\<rparr>))"
    by (simp add: step(5) failure_cmd_def)
  show ?case
  proof (cases "n + 1 = LoginLockoutThreshold")
    case True
    then have "as = []" using Cons.prems(7) by (cases as) simp_all
    then show ?thesis using rs1 step True redis by (simp add: a)
  next
    case False
    then have ck: "w_redis w1 (countKey X LoginLockout email) = Some \<lparr>re_val = n + 1, re_exp = Some x\<rparr>" by (simp add: redis)
    have "no_lock X email (w_now w1) (w_redis w)" using no_lock_later [OF Cons.prems(4)] dt(1) step(3) by simp
    then have nl: "no_lock X email (w_now w1) (w_redis w1)"
      using False lockout_keys_differ [of X email] by (simp add: redis no_lock_def r_get_def)
    show ?thesis
      using Cons.IH [OF step(4) _ ck nl _ _ _ _ rs1(1)] Cons.prems(2,5-8) False rs1(2) step
      by (auto simp: a algebra_simps split: if_splits)
  qed
qed

text \<open>
  Up to \<open>LoginLockoutThreshold\<close> wrong passwords, the last within \<open>LoginFailureCountWindow\<close> of the first:
  all are refused alike; fewer do not lock the account; that many lock it, for everybody and whatever
  the password, for \<open>LoginLockoutTTL\<close>, after which it is not locked any more.
\<close>

lemma ms_of_add: "s \<le> m * Millisecond \<Longrightarrow> ms_of (t + s) \<le> ms_of t + m"
proof -
  assume "s \<le> m * Millisecond"
  then have "ms_of (t + s) \<le> ms_of (t + m * Millisecond)" by (intro ms_of_mono) simp
  then show ?thesis by (simp add: ms_of_def Millisecond_def)
qed

lemma guessing_counted:
  assumes "quiet w" "ValidateEmail email = None" "wrong_guesses X email (w_db w) as"
    and "r_get (ms_of (w_now w)) (countKey X LoginLockout email) (w_redis w) = None" "no_lock X email (w_now w) (w_redis w)"
    and "sum_list (map fst (tl as)) \<le> LoginFailureCountWindow" "int (length as) \<le> LoginLockoutThreshold"
    and "login_attempts X email as w = (rs, w')"
  shows "rs = replicate (length as) (Inl (Sentinel ErrAuthenticationFailed)) \<and> quiet w' \<and> w_db w' = w_db w \<and>
    (if int (length as) < LoginLockoutThreshold then no_lock X email (w_now w') (w_redis w')
     else w_redis w' (lockKey X LoginLockout email) =
       Some \<lparr>re_val = 1, re_exp = Some (ms_of (w_now w') + Milliseconds LoginLockoutTTL)\<rparr>)"
proof (cases as)
  case Nil
  then show ?thesis using assms by (simp add: LoginLockoutThreshold_def)
next
  case (Cons a as')
  obtain dt p where a: "a = (dt, p)" by (cases a)
  obtain r w1 where w1: "run_state (login X email p) (w\<lparr>w_now := w_now w + dt\<rparr>) = (r, w1)" by fastforce
  obtain rs1 where rs1: "login_attempts X email as' w1 = (rs1, w')" "rs = r # rs1"
    using assms(8) by (auto simp: Cons a w1 split: prod.splits)
  have dt: "0 \<le> dt" and wrong: "wrong_guesses X email (w_db w) as'" "\<not> password_matches X email p (w_db w)"
    using assms(3) by (simp_all add: Cons a)
  have step: "r = Inl (Sentinel ErrAuthenticationFailed)" "w_db w1 = w_db w" "w_now w1 = w_now w + dt" "quiet w1"
    "w_redis w1 = snd (redis_exec (ms_of (w_now w + dt)) (failure_cmd X email) (w_redis w))"
    using run_login_failure [OF assms(1,2) wrong(2) dt assms(5) w1] by simp_all
  let ?x = "ms_of (w_now w + dt) + Milliseconds LoginFailureCountWindow"
  have "r_get (ms_of (w_now w + dt)) (countKey X LoginLockout email) (w_redis w) = None"
    using assms(4) ms_of_mono [of "w_now w" "w_now w + dt"] dt by (auto simp: r_get_def split: option.splits if_splits)
  from lockout_first [where r = "w_redis w", OF this durations(2)]
  have redis: "w_redis w1 = (w_redis w)(countKey X LoginLockout email \<mapsto> \<lparr>re_val = 1, re_exp = Some ?x\<rparr>)"
    by (simp add: step(5) failure_cmd_def LoginLockoutThreshold_def)
  have "no_lock X email (w_now w1) (w_redis w)" using no_lock_later [OF assms(5)] dt step(3) by simp
  then have nl: "no_lock X email (w_now w1) (w_redis w1)"
    using lockout_keys_differ [of X email] by (simp add: redis no_lock_def r_get_def)
  have "ms_of (w_now w1 + sum_list (map fst as')) \<le> ?x"
    unfolding step(3) by (rule ms_of_add) (use assms(6) in \<open>simp add: Cons durations\<close>)
  from attempts_counted [OF step(4) assms(2) _ _ nl this _ _ _ rs1(1)] redis
  show ?thesis using wrong(1) assms(7) rs1(2) step by (auto simp: Cons LoginLockoutThreshold_def split: if_splits)
qed

lemma guessing_locks:
  assumes "quiet w" "ValidateEmail email = None" "wrong_guesses X email (w_db w) as"
    and "r_get (ms_of (w_now w)) (countKey X LoginLockout email) (w_redis w) = None" "no_lock X email (w_now w) (w_redis w)"
    and "sum_list (map fst (tl as)) \<le> LoginFailureCountWindow" "int (length as) \<le> LoginLockoutThreshold"
    and "login_attempts X email as w = (rs, w')"
  shows "rs = replicate (length as) (Inl (Sentinel ErrAuthenticationFailed))"
    and "int (length as) < LoginLockoutThreshold \<Longrightarrow> \<not> login_locked X email (w_now w') (w_redis w')"
    and "int (length as) = LoginLockoutThreshold \<Longrightarrow> ms_of t < ms_of (w_now w') + Milliseconds LoginLockoutTTL \<Longrightarrow>
      wp (login X email password) (\<lambda>r w''. r = Inl (LockedError ((ms_of (w_now w') + Milliseconds LoginLockoutTTL - ms_of t) * Millisecond)) \<and>
        w_db w'' = w_db w \<and> w_redis w'' = w_redis w') (w'\<lparr>w_now := t\<rparr>)"
    and "int (length as) = LoginLockoutThreshold \<Longrightarrow> ms_of (w_now w') + Milliseconds LoginLockoutTTL \<le> ms_of t \<Longrightarrow>
      \<not> login_locked X email t (w_redis w')"
proof -
  note g = guessing_counted [OF assms]
  show "rs = replicate (length as) (Inl (Sentinel ErrAuthenticationFailed))" using g by simp
  show "\<not> login_locked X email (w_now w') (w_redis w')" if "int (length as) < LoginLockoutThreshold"
    using g that no_lock_not_locked by simp
  let ?e = "ms_of (w_now w') + Milliseconds LoginLockoutTTL"
  assume "int (length as) = LoginLockoutThreshold"
  then have lk: "w_redis w' (lockKey X LoginLockout email) = Some \<lparr>re_val = 1, re_exp = Some ?e\<rparr>" using g by simp
  have q: "quiet (w'\<lparr>w_now := t\<rparr>)" using g by (simp add: quiet_def)
  show "wp (login X email password) (\<lambda>r w''. r = Inl (LockedError ((?e - ms_of t) * Millisecond)) \<and>
      w_db w'' = w_db w \<and> w_redis w'' = w_redis w') (w'\<lparr>w_now := t\<rparr>)" if "ms_of t < ?e"
    by (rule wp_mono [OF login_while_locked [OF q assms(2)]]) (use lk that g in auto)
  show "\<not> login_locked X email t (w_redis w')" if "?e \<le> ms_of t"
    using lk that by (auto simp: login_locked_def r_defs pttl_duration_def Let_def)
qed

end
