(* ===== verification/ClientJson.thy ===== *)
theory ClientJson
  imports Api
begin

text \<open>
  The documents the generated client of the API reads (\<open>auth/api/http/client/client.gen.go\<close>): its
  model types, and how \<open>encoding/json\<close> decodes a JSON value into one of them. A key names a field
  when the two are equal up to case; a later value of the same field replaces an earlier one; \<open>null\<close>
  leaves a plain field as it is and clears a pointer; a value of the wrong kind is an error.
\<close>

section \<open>Model types\<close>

record LoginTokens =
  lt_AccessToken :: string
  lt_RefreshToken :: string

record AccountDisableResult = ad_RevocationReason :: string

record PasswordChangeResponse = pw_RevocationReason :: string

text \<open>\<open>client.Problem\<close>; a pointer is an option.\<close>

record ClientProblem =
  cpr_Detail :: "string option"
  cpr_ErrorCode :: "string option"
  cpr_Instance :: "string option"
  cpr_RetryAfter :: "int option"
  cpr_RevocationReason :: "string option"
  cpr_Status :: int
  cpr_Title :: string
  cpr_Type :: string

section \<open>Decoding\<close>

text \<open>
  The case folding of keys. Besides the lower case letters two characters are folded to an ASCII
  letter: U+212A (bytes E2 84 AA, to \<open>K\<close>) and U+017F (bytes C5 BF, to \<open>S\<close>); the names of the fields
  are ASCII.
\<close>

fun fold_name :: "string \<Rightarrow> string" where
  "fold_name [] = []"
| "fold_name (c # s) =
     (if byte c = 0xE2 \<and> 2 \<le> length s \<and> byte (s ! 0) = 0x84 \<and> byte (s ! 1) = 0xAA
      then CHR ''K'' # fold_name (drop 2 s)
      else if byte c = 0xC5 \<and> 1 \<le> length s \<and> byte (s ! 0) = 0xBF
      then CHR ''S'' # fold_name (drop 1 s)
      else if 97 \<le> byte c \<and> byte c \<le> 122 then char_of (byte c - 32) # fold_name s
      else c # fold_name s)"

definition members :: "string \<Rightarrow> (string \<times> json) list \<Rightarrow> json list" where
  "members name ms = map snd (filter (\<lambda>(k, _). fold_name k = fold_name name) ms)"

text \<open>Values of the kinds in use; \<open>None\<close> is the error of a wrong kind. Integers have 64 bits.\<close>

fun as_string :: "json \<Rightarrow> string option" where
  "as_string (JStr s) = Some s"
| "as_string _ = None"

definition digits_int :: "string \<Rightarrow> int option" where
  "digits_int ds = (if ds \<noteq> [] \<and> list_all (\<lambda>c. 48 \<le> byte c \<and> byte c \<le> 57) ds
     then Some (int (nat_value 0 ds)) else None)"

definition parse_int :: "string \<Rightarrow> int option" where
  "parse_int t =
     (case (case t of CHR ''-'' # ds \<Rightarrow> map_option uminus (digits_int ds) | _ \<Rightarrow> digits_int t) of
        None \<Rightarrow> None
      | Some n \<Rightarrow> if - (2 ^ 63) \<le> n \<and> n < 2 ^ 63 then Some n else None)"

fun as_int :: "json \<Rightarrow> int option" where
  "as_int (JNum t) = parse_int t"
| "as_int _ = None"

definition plain_field :: "(json \<Rightarrow> 'a option) \<Rightarrow> 'a \<Rightarrow> string \<Rightarrow> (string \<times> json) list \<Rightarrow> 'a option" where
  "plain_field dec zero name ms =
     fold (\<lambda>j acc. case acc of None \<Rightarrow> None | Some old \<Rightarrow> if j = JNull then Some old else dec j)
       (members name ms) (Some zero)"

definition pointer_field :: "(json \<Rightarrow> 'a option) \<Rightarrow> string \<Rightarrow> (string \<times> json) list \<Rightarrow> 'a option option" where
  "pointer_field dec name ms =
     fold (\<lambda>j acc. case acc of None \<Rightarrow> None
         | Some _ \<Rightarrow> if j = JNull then Some None else map_option Some (dec j))
       (members name ms) (Some None)"

text \<open>\<open>json.Unmarshal\<close> into a struct: an object, or \<open>null\<close>, which changes nothing.\<close>

definition decode_struct :: "((string \<times> json) list \<Rightarrow> 'a option) \<Rightarrow> json \<Rightarrow> 'a option" where
  "decode_struct dec j = (case j of JObj ms \<Rightarrow> dec ms | JNull \<Rightarrow> dec [] | _ \<Rightarrow> None)"

definition decode_LoginTokens :: "json \<Rightarrow> LoginTokens option" where
  "decode_LoginTokens = decode_struct (\<lambda>ms.
     Option.bind (plain_field as_string '''' ''access_token'' ms) (\<lambda>a.
     Option.bind (plain_field as_string '''' ''refresh_token'' ms) (\<lambda>r.
     Some \<lparr>lt_AccessToken = a, lt_RefreshToken = r\<rparr>)))"

definition decode_AccountDisableResult :: "json \<Rightarrow> AccountDisableResult option" where
  "decode_AccountDisableResult = decode_struct (\<lambda>ms.
     map_option (\<lambda>r. \<lparr>ad_RevocationReason = r\<rparr>) (plain_field as_string '''' ''revocation_reason'' ms))"

definition decode_PasswordChangeResponse :: "json \<Rightarrow> PasswordChangeResponse option" where
  "decode_PasswordChangeResponse = decode_struct (\<lambda>ms.
     map_option (\<lambda>r. \<lparr>pw_RevocationReason = r\<rparr>) (plain_field as_string '''' ''revocation_reason'' ms))"

definition decode_Problem :: "json \<Rightarrow> ClientProblem option" where
  "decode_Problem = decode_struct (\<lambda>ms.
     Option.bind (pointer_field as_string ''detail'' ms) (\<lambda>detail.
     Option.bind (pointer_field as_string ''error_code'' ms) (\<lambda>code.
     Option.bind (pointer_field as_string ''instance'' ms) (\<lambda>inst.
     Option.bind (pointer_field as_int ''retry_after'' ms) (\<lambda>retry.
     Option.bind (pointer_field as_string ''revocation_reason'' ms) (\<lambda>reason.
     Option.bind (plain_field as_int 0 ''status'' ms) (\<lambda>status.
     Option.bind (plain_field as_string '''' ''title'' ms) (\<lambda>title.
     Option.bind (plain_field as_string '''' ''type'' ms) (\<lambda>typ.
     Some \<lparr>cpr_Detail = detail, cpr_ErrorCode = code, cpr_Instance = inst, cpr_RetryAfter = retry,
       cpr_RevocationReason = reason, cpr_Status = status, cpr_Title = title, cpr_Type = typ\<rparr>)))))))))"

section \<open>What the server writes is read\<close>

lemma nat_text_digits: "list_all (\<lambda>c. 48 \<le> byte c \<and> byte c \<le> 57) (nat_text n)"
proof (induction n rule: nat_text.induct)
  case (1 n)
  have "n mod 10 \<le> 9" using mod_less_divisor [of 10 n] by linarith
  then show ?case using 1 by (subst nat_text.simps) (simp add: byte_char_of)
qed

lemma nat_text_nonempty: "nat_text n \<noteq> []"
  by (simp add: nat_text.simps [of n])

lemma digits_int_nat_text: "digits_int (nat_text n) = Some (int n)"
  by (simp add: digits_int_def nat_text_digits nat_text_nonempty nat_text_roundtrip)

lemma parse_int_nat_text: "n < 2 ^ 63 \<Longrightarrow> parse_int (nat_text n) = Some (int n)"
proof -
  assume n: "n < 2 ^ 63"
  obtain c s where cs: "nat_text n = c # s" using nat_text_nonempty [of n] by (cases "nat_text n") auto
  have "48 \<le> byte c" using nat_text_digits [of n] by (simp add: cs)
  then have "c \<noteq> CHR ''-''" by auto
  then have "(case nat_text n of CHR ''-'' # ds \<Rightarrow> map_option uminus (digits_int ds) | _ \<Rightarrow> digits_int (nat_text n)) =
      digits_int (nat_text n)"
    unfolding cs by (auto split: char.split bool.split)
  moreover have "int n < 2 ^ 63" using n by simp
  ultimately show ?thesis by (simp add: parse_int_def digits_int_nat_text)
qed

lemma parse_int_text:
  assumes "- (2 ^ 63) \<le> n" "n < 2 ^ 63"
  shows "parse_int (int_text n) = Some n"
proof (cases "n < 0")
  case True
  then show ?thesis using assms
    by (simp add: int_text_def parse_int_def digits_int_nat_text)
next
  case False
  then have "nat n < 2 ^ 63" using assms(2) by (simp add: nat_less_iff)
  then show ?thesis using False parse_int_nat_text [of "nat n"] by (simp add: int_text_def)
qed

lemma fold_names:
  "fold_name ''access_token'' = ''ACCESS_TOKEN''" "fold_name ''refresh_token'' = ''REFRESH_TOKEN''"
  "fold_name ''revocation_reason'' = ''REVOCATION_REASON''" "fold_name ''detail'' = ''DETAIL''"
  "fold_name ''error_code'' = ''ERROR_CODE''" "fold_name ''instance'' = ''INSTANCE''"
  "fold_name ''retry_after'' = ''RETRY_AFTER''" "fold_name ''status'' = ''STATUS''"
  "fold_name ''title'' = ''TITLE''" "fold_name ''type'' = ''TYPE''"
  by code_simp+

declare fold_name.simps [simp del]

lemma members_simps [simp]:
  "members name [] = []"
  "members name ((k, v) # ms) = (if fold_name k = fold_name name then v # members name ms else members name ms)"
  "members name (ms @ ms') = members name ms @ members name ms'"
  by (simp_all add: members_def)

lemma members_nonempty:
  "members name (nonempty k v) = (if fold_name k = fold_name name \<and> v \<noteq> '''' then [JStr v] else [])"
  by (simp add: nonempty_def)

lemma decode_tokens:
  "decode_LoginTokens (JObj [(''access_token'', JStr a), (''refresh_token'', JStr r)]) =
     Some \<lparr>lt_AccessToken = a, lt_RefreshToken = r\<rparr>"
  by (simp add: decode_LoginTokens_def decode_struct_def plain_field_def fold_names)

lemma decode_reason:
  "decode_AccountDisableResult (JObj [(''revocation_reason'', JStr r)]) = Some \<lparr>ad_RevocationReason = r\<rparr>"
  "decode_PasswordChangeResponse (JObj [(''revocation_reason'', JStr r)]) = Some \<lparr>pw_RevocationReason = r\<rparr>"
  by (simp_all add: decode_AccountDisableResult_def decode_PasswordChangeResponse_def decode_struct_def plain_field_def)

text \<open>A problem as the client sees it: what the server leaves out is \<open>nil\<close>.\<close>

definition present :: "string \<Rightarrow> string option" where
  "present s = (if s = '''' then None else Some s)"

definition client_problem :: "Problem \<Rightarrow> ClientProblem" where
  "client_problem p =
     \<lparr>cpr_Detail = present (p_Detail p), cpr_ErrorCode = present (p_ErrorCode p),
      cpr_Instance = present (p_Instance p), cpr_RetryAfter = p_RetryAfter p,
      cpr_RevocationReason = present (p_RevocationReason p), cpr_Status = p_Status p,
      cpr_Title = p_Title p, cpr_Type = p_Type p\<rparr>"

definition int64 :: "int \<Rightarrow> bool" where "int64 n \<longleftrightarrow> - (2 ^ 63) \<le> n \<and> n < 2 ^ 63"

lemma decode_problem:
  assumes "int64 (p_Status p)" "\<And>n. p_RetryAfter p = Some n \<Longrightarrow> int64 n"
  shows "decode_Problem (problem_json p) = Some (client_problem p)"
proof -
  have retry: "members ''retry_after'' (case p_RetryAfter p of None \<Rightarrow> [] | Some n \<Rightarrow> [(''retry_after'', JNum (int_text n))]) =
      (case p_RetryAfter p of None \<Rightarrow> [] | Some n \<Rightarrow> [JNum (int_text n)])"
    by (simp split: option.split)
  have other: "members k (case p_RetryAfter p of None \<Rightarrow> [] | Some n \<Rightarrow> [(''retry_after'', JNum (int_text n))]) = []"
    if "fold_name k \<noteq> ''RETRY_AFTER''" for k
    using that by (simp add: fold_names split: option.split)
  show ?thesis
    using assms
    by (simp add: decode_Problem_def decode_struct_def problem_json_def plain_field_def pointer_field_def
        members_nonempty retry other fold_names client_problem_def present_def parse_int_text int64_def
        split: option.split)
qed

end
