(* ===== verification/Client.thy ===== *)
theory Client
  imports ClientJson
begin

text \<open>
  The requests of the generated client (\<open>auth/api/http/client/client.gen.go\<close>): the client and its
  options, one builder per operation, and one method per operation that builds the request, lets the
  editors change it and hands it to the doer. What the client takes from libraries (parsing and
  printing URLs, the styles of path parameters, the JSON form of an e-mail address, the HTTP client)
  is the record \<open>client_lib\<close>. The bodies are the records of theory Api, which has the same types.
\<close>

section \<open>URLs, requests, responses\<close>

record url =
  ur_server :: string     \<comment> \<open>scheme and authority\<close>
  ur_path :: string       \<comment> \<open>\<open>EscapedPath\<close>\<close>

record client_request =
  cr_method :: string
  cr_url :: url
  cr_headers :: headers
  cr_body :: string

record http_response =
  hr_Status :: string     \<comment> \<open>the status line, for instance \<open>200 OK\<close>\<close>
  hr_status :: int        \<comment> \<open>\<open>StatusCode\<close>\<close>
  hr_headers :: headers
  hr_body :: "goerr + string"   \<comment> \<open>what reading the body gives\<close>

type_synonym doer = "client_request \<Rightarrow> http_response result"

record client_lib =
  url_parse :: "string \<Rightarrow> goerr + url"             \<comment> \<open>\<open>url.Parse\<close> of an absolute URL\<close>
  url_ref :: "string \<Rightarrow> goerr + string"            \<comment> \<open>\<open>url.Parse\<close> of a relative path: its escaped path\<close>
  url_string :: "url \<Rightarrow> string"                    \<comment> \<open>\<open>URL.String\<close>\<close>
  style_param :: "string \<Rightarrow> goerr + string"        \<comment> \<open>\<open>StyleParamWithLocation\<close>, style simple, in a path\<close>
  email_json :: "string \<Rightarrow> goerr + json"           \<comment> \<open>\<open>types.Email.MarshalJSON\<close>\<close>
  json_failed :: goerr                             \<comment> \<open>what \<open>encoding/json\<close> reports\<close>
  default_client :: doer                           \<comment> \<open>\<open>&http.Client{}\<close>\<close>

text \<open>
  \<open>net/url\<close>'s \<open>resolvePath\<close>: a relative path replaces what follows the last slash of the base, and
  dot segments are removed. The state of the loop is what was written after the leading slash, and
  whether nothing was written yet.
\<close>

fun split_slash :: "string \<Rightarrow> string list" where
  "split_slash [] = [[]]"
| "split_slash (c # s) =
     (if c = CHR ''/'' then [] # split_slash s
      else case split_slash s of [] \<Rightarrow> [[c]] | e # es \<Rightarrow> (c # e) # es)"

definition upto_last_slash :: "string \<Rightarrow> string" where
  "upto_last_slash s = rev (dropWhile (\<lambda>c. c \<noteq> CHR ''/'') (rev s))"

definition resolve_elem :: "string \<times> bool \<Rightarrow> string \<Rightarrow> string \<times> bool" where
  "resolve_elem st elem =
     (case st of (dst, first) \<Rightarrow>
        if elem = ''.'' then (dst, False)
        else if elem = ''..'' then
          (if CHR ''/'' \<in> set dst then (butlast (upto_last_slash dst), first) else ([], True))
        else ((if first then dst else dst @ ''/'') @ elem, False))"

definition resolve_path :: "string \<Rightarrow> string \<Rightarrow> string" where
  "resolve_path base r =
     (let full = (if r = '''' then base else if hd r \<noteq> CHR ''/'' then upto_last_slash base @ r else r) in
      if full = '''' then ''''
      else let elems = split_slash full;
               dst = fst (foldl resolve_elem ([], True) elems);
               res = ''/'' @ dst @ (if last elems = ''.'' \<or> last elems = ''..'' then ''/'' else '''') in
           if 1 < length res \<and> res ! 1 = CHR ''/'' then tl res else res)"

section \<open>The client\<close>

type_synonym editor = "client_request \<Rightarrow> goerr + client_request"

record Client =
  cl_Server :: string
  cl_Client :: "doer option"
  cl_RequestEditors :: "editor list"

type_synonym client_option = "Client \<Rightarrow> goerr + Client"

fun apply_options :: "client_option list \<Rightarrow> Client \<Rightarrow> goerr + Client" where
  "apply_options [] c = Inr c"
| "apply_options (opt # opts) c = (case opt c of Inl e \<Rightarrow> Inl e | Inr c' \<Rightarrow> apply_options opts c')"

definition NewClient :: "client_lib \<Rightarrow> string \<Rightarrow> client_option list \<Rightarrow> goerr + Client" where
  "NewClient L server opts =
     (case apply_options opts \<lparr>cl_Server = server, cl_Client = None, cl_RequestEditors = []\<rparr> of
        Inl e \<Rightarrow> Inl e
      | Inr c \<Rightarrow>
          (let c = (if suffix ''/'' (cl_Server c) then c else c\<lparr>cl_Server := cl_Server c @ ''/''\<rparr>);
               c = (case cl_Client c of None \<Rightarrow> c\<lparr>cl_Client := Some (default_client L)\<rparr> | Some _ \<Rightarrow> c)
           in Inr c))"

definition WithHTTPClient :: "doer \<Rightarrow> client_option" where
  "WithHTTPClient d c = Inr (c\<lparr>cl_Client := Some d\<rparr>)"

definition WithRequestEditorFn :: "editor \<Rightarrow> client_option" where
  "WithRequestEditorFn f c = Inr (c\<lparr>cl_RequestEditors := cl_RequestEditors c @ [f]\<rparr>)"

definition WithBaseURL :: "client_lib \<Rightarrow> string \<Rightarrow> client_option" where
  "WithBaseURL L baseURL c =
     (case url_parse L baseURL of Inl e \<Rightarrow> Inl e | Inr u \<Rightarrow> Inr (c\<lparr>cl_Server := url_string L u\<rparr>))"

fun run_editors :: "editor list \<Rightarrow> client_request \<Rightarrow> goerr + client_request" where
  "run_editors [] req = Inr req"
| "run_editors (r # rs) req = (case r req of Inl e \<Rightarrow> Inl e | Inr req' \<Rightarrow> run_editors rs req')"

definition applyEditors :: "Client \<Rightarrow> client_request \<Rightarrow> editor list \<Rightarrow> goerr + client_request" where
  "applyEditors c req additionalEditors =
     (case run_editors (cl_RequestEditors c) req of
        Inl e \<Rightarrow> Inl e
      | Inr req \<Rightarrow> run_editors additionalEditors req)"

text \<open>
  \<open>c.Client.Do(req)\<close>; a client that was not made by \<open>NewClient\<close> may have no doer, and calling it panics.
\<close>

definition nil_client :: goerr where
  "nil_client = NewError ''invalid memory address or nil pointer dereference''"

definition client_do :: "Client \<Rightarrow> goerr + client_request \<Rightarrow> editor list \<Rightarrow> http_response result" where
  "client_do c built reqEditors =
     (case built of
        Inl e \<Rightarrow> fail e
      | Inr req \<Rightarrow>
          (case applyEditors c req reqEditors of
             Inl e \<Rightarrow> fail e
           | Inr req \<Rightarrow> (case cl_Client c of None \<Rightarrow> fail nil_client | Some d \<Rightarrow> d req)))"

section \<open>Building requests\<close>

definition http_NewRequest :: "client_lib \<Rightarrow> string \<Rightarrow> string \<Rightarrow> string \<Rightarrow> goerr + client_request" where
  "http_NewRequest L verb u body =
     (case url_parse L u of
        Inl e \<Rightarrow> Inl e
      | Inr u \<Rightarrow> Inr \<lparr>cr_method = verb, cr_url = u, cr_headers = [], cr_body = body\<rparr>)"

text \<open>What every builder does with its path.\<close>

definition operation_request :: "client_lib \<Rightarrow> string \<Rightarrow> string \<Rightarrow> string \<Rightarrow> string \<Rightarrow> goerr + client_request" where
  "operation_request L server verb operationPath body =
     (case url_parse L server of
        Inl e \<Rightarrow> Inl e
      | Inr serverURL \<Rightarrow>
          (let operationPath = (if hd operationPath = CHR ''/'' then ''.'' @ operationPath else operationPath) in
           case url_ref L operationPath of
             Inl e \<Rightarrow> Inl e
           | Inr r \<Rightarrow> http_NewRequest L verb
               (url_string L (serverURL\<lparr>ur_path := resolve_path (ur_path serverURL) r\<rparr>)) body))"

definition request_with_body ::
  "client_lib \<Rightarrow> string \<Rightarrow> string \<Rightarrow> string \<Rightarrow> string \<Rightarrow> string \<Rightarrow> goerr + client_request" where
  "request_with_body L server verb path contentType body =
     (case operation_request L server verb path body of
        Inl e \<Rightarrow> Inl e
      | Inr req \<Rightarrow> Inr (req\<lparr>cr_headers := cr_headers req @ [(''Content-Type'', contentType)]\<rparr>))"

definition request_with_userId ::
  "client_lib \<Rightarrow> string \<Rightarrow> string \<Rightarrow> string \<Rightarrow> string \<Rightarrow> string \<Rightarrow> goerr + client_request" where
  "request_with_userId L server verb path1 path2 userId =
     (case style_param L userId of
        Inl e \<Rightarrow> Inl e
      | Inr pathParam0 \<Rightarrow> operation_request L server verb (path1 @ pathParam0 @ path2) '''')"

text \<open>\<open>json.Marshal\<close> of a body: its fields in order; an address is written by its own method.\<close>

datatype body_field = Text string | Email string

fun field_json :: "client_lib \<Rightarrow> body_field \<Rightarrow> goerr + json" where
  "field_json L (Text s) = Inr (JStr s)"
| "field_json L (Email e) = email_json L e"

fun fields_json :: "client_lib \<Rightarrow> (string \<times> body_field) list \<Rightarrow> goerr + (string \<times> json) list" where
  "fields_json L [] = Inr []"
| "fields_json L ((k, f) # fs) =
     (case field_json L f of
        Inl e \<Rightarrow> Inl e
      | Inr v \<Rightarrow> (case fields_json L fs of Inl e \<Rightarrow> Inl e | Inr ms \<Rightarrow> Inr ((k, v) # ms)))"

definition marshal_body :: "client_lib \<Rightarrow> codec \<Rightarrow> (string \<times> body_field) list \<Rightarrow> goerr + string" where
  "marshal_body L C fs =
     (case fields_json L fs of
        Inl e \<Rightarrow> Inl e
      | Inr ms \<Rightarrow> (case json_marshal C (JObj ms) of None \<Rightarrow> Inl (json_failed L) | Some t \<Rightarrow> Inr t))"

definition with_json :: "client_lib \<Rightarrow> codec \<Rightarrow> (string \<times> body_field) list \<Rightarrow>
    (string \<Rightarrow> string \<Rightarrow> goerr + client_request) \<Rightarrow> goerr + client_request" where
  "with_json L C fs f = (case marshal_body L C fs of Inl e \<Rightarrow> Inl e | Inr buf \<Rightarrow> f ''application/json'' buf)"

definition NewDisableAdminAccountRequest :: "client_lib \<Rightarrow> string \<Rightarrow> string \<Rightarrow> goerr + client_request" where
  "NewDisableAdminAccountRequest L server userId =
     request_with_userId L server ''POST'' ''/admin/accounts/'' ''/disable'' userId"

definition NewReactivateAdminAccountRequest :: "client_lib \<Rightarrow> string \<Rightarrow> string \<Rightarrow> goerr + client_request" where
  "NewReactivateAdminAccountRequest L server userId =
     request_with_userId L server ''POST'' ''/admin/accounts/'' ''/reactivate'' userId"

definition NewInviteAdminRequestWithBody ::
  "client_lib \<Rightarrow> string \<Rightarrow> string \<Rightarrow> string \<Rightarrow> goerr + client_request" where
  "NewInviteAdminRequestWithBody L server contentType body =
     request_with_body L server ''POST'' ''/admin/invitations'' contentType body"

definition NewInviteAdminRequest ::
  "client_lib \<Rightarrow> codec \<Rightarrow> string \<Rightarrow> AdminInvitationRequest \<Rightarrow> goerr + client_request" where
  "NewInviteAdminRequest L C server body =
     with_json L C [(''email'', Email (ai_Email body)), (''role'', Text (ai_Role body))]
       (NewInviteAdminRequestWithBody L server)"

definition NewVerifyEmailRequestWithBody ::
  "client_lib \<Rightarrow> string \<Rightarrow> string \<Rightarrow> string \<Rightarrow> goerr + client_request" where
  "NewVerifyEmailRequestWithBody L server contentType body =
     request_with_body L server ''POST'' ''/auth/email-verify'' contentType body"

definition NewVerifyEmailRequest ::
  "client_lib \<Rightarrow> codec \<Rightarrow> string \<Rightarrow> EmailVerifyRequest \<Rightarrow> goerr + client_request" where
  "NewVerifyEmailRequest L C server body =
     with_json L C [(''token'', Text (ev_Token body))]
       (NewVerifyEmailRequestWithBody L server)"

definition NewResendEmailVerificationRequestWithBody ::
  "client_lib \<Rightarrow> string \<Rightarrow> string \<Rightarrow> string \<Rightarrow> goerr + client_request" where
  "NewResendEmailVerificationRequestWithBody L server contentType body =
     request_with_body L server ''POST'' ''/auth/email-verify/resend'' contentType body"

definition NewResendEmailVerificationRequest ::
  "client_lib \<Rightarrow> codec \<Rightarrow> string \<Rightarrow> EmailVerifyResendRequest \<Rightarrow> goerr + client_request" where
  "NewResendEmailVerificationRequest L C server body =
     with_json L C [(''email'', Email (er_Email body))]
       (NewResendEmailVerificationRequestWithBody L server)"

definition NewAcceptInvitationRequestWithBody ::
  "client_lib \<Rightarrow> string \<Rightarrow> string \<Rightarrow> string \<Rightarrow> goerr + client_request" where
  "NewAcceptInvitationRequestWithBody L server contentType body =
     request_with_body L server ''POST'' ''/auth/invitation/accept'' contentType body"

definition NewAcceptInvitationRequest ::
  "client_lib \<Rightarrow> codec \<Rightarrow> string \<Rightarrow> InvitationAcceptRequest \<Rightarrow> goerr + client_request" where
  "NewAcceptInvitationRequest L C server body =
     with_json L C [(''password'', Text (ia_Password body)), (''token'', Text (ia_Token body))]
       (NewAcceptInvitationRequestWithBody L server)"

definition NewLoginRequestWithBody ::
  "client_lib \<Rightarrow> string \<Rightarrow> string \<Rightarrow> string \<Rightarrow> goerr + client_request" where
  "NewLoginRequestWithBody L server contentType body =
     request_with_body L server ''POST'' ''/auth/login'' contentType body"

definition NewLoginRequest ::
  "client_lib \<Rightarrow> codec \<Rightarrow> string \<Rightarrow> LoginRequest \<Rightarrow> goerr + client_request" where
  "NewLoginRequest L C server body =
     with_json L C [(''email'', Email (lr_Email body)), (''password'', Text (lr_Password body))]
       (NewLoginRequestWithBody L server)"

definition NewLogoutRequestWithBody ::
  "client_lib \<Rightarrow> string \<Rightarrow> string \<Rightarrow> string \<Rightarrow> goerr + client_request" where
  "NewLogoutRequestWithBody L server contentType body =
     request_with_body L server ''POST'' ''/auth/logout'' contentType body"

definition NewLogoutRequest ::
  "client_lib \<Rightarrow> codec \<Rightarrow> string \<Rightarrow> LogoutRequest \<Rightarrow> goerr + client_request" where
  "NewLogoutRequest L C server body =
     with_json L C [(''refresh_token'', Text (lg_RefreshToken body))]
       (NewLogoutRequestWithBody L server)"

definition NewChangePasswordRequestWithBody ::
  "client_lib \<Rightarrow> string \<Rightarrow> string \<Rightarrow> string \<Rightarrow> goerr + client_request" where
  "NewChangePasswordRequestWithBody L server contentType body =
     request_with_body L server ''PUT'' ''/auth/password'' contentType body"

definition NewChangePasswordRequest ::
  "client_lib \<Rightarrow> codec \<Rightarrow> string \<Rightarrow> ChangePasswordRequest \<Rightarrow> goerr + client_request" where
  "NewChangePasswordRequest L C server body =
     with_json L C [(''current_password'', Text (cp_CurrentPassword body)), (''new_password'', Text (cp_NewPassword body))]
       (NewChangePasswordRequestWithBody L server)"

definition NewRequestPasswordResetRequestWithBody ::
  "client_lib \<Rightarrow> string \<Rightarrow> string \<Rightarrow> string \<Rightarrow> goerr + client_request" where
  "NewRequestPasswordResetRequestWithBody L server contentType body =
     request_with_body L server ''POST'' ''/auth/password-reset'' contentType body"

definition NewRequestPasswordResetRequest ::
  "client_lib \<Rightarrow> codec \<Rightarrow> string \<Rightarrow> PasswordResetRequest \<Rightarrow> goerr + client_request" where
  "NewRequestPasswordResetRequest L C server body =
     with_json L C [(''email'', Email (pq_Email body))]
       (NewRequestPasswordResetRequestWithBody L server)"

definition NewConfirmPasswordResetRequestWithBody ::
  "client_lib \<Rightarrow> string \<Rightarrow> string \<Rightarrow> string \<Rightarrow> goerr + client_request" where
  "NewConfirmPasswordResetRequestWithBody L server contentType body =
     request_with_body L server ''POST'' ''/auth/password-reset/confirm'' contentType body"

definition NewConfirmPasswordResetRequest ::
  "client_lib \<Rightarrow> codec \<Rightarrow> string \<Rightarrow> PasswordResetConfirmRequest \<Rightarrow> goerr + client_request" where
  "NewConfirmPasswordResetRequest L C server body =
     with_json L C [(''new_password'', Text (pc_NewPassword body)), (''token'', Text (pc_Token body))]
       (NewConfirmPasswordResetRequestWithBody L server)"

definition NewRegisterAccountRequestWithBody ::
  "client_lib \<Rightarrow> string \<Rightarrow> string \<Rightarrow> string \<Rightarrow> goerr + client_request" where
  "NewRegisterAccountRequestWithBody L server contentType body =
     request_with_body L server ''POST'' ''/auth/register'' contentType body"

definition NewRegisterAccountRequest ::
  "client_lib \<Rightarrow> codec \<Rightarrow> string \<Rightarrow> RegisterAccountRequest \<Rightarrow> goerr + client_request" where
  "NewRegisterAccountRequest L C server body =
     with_json L C [(''email'', Email (ra_Email body)), (''password'', Text (ra_Password body))]
       (NewRegisterAccountRequestWithBody L server)"

definition NewRefreshTokenRequestWithBody ::
  "client_lib \<Rightarrow> string \<Rightarrow> string \<Rightarrow> string \<Rightarrow> goerr + client_request" where
  "NewRefreshTokenRequestWithBody L server contentType body =
     request_with_body L server ''POST'' ''/auth/token/refresh'' contentType body"

definition NewRefreshTokenRequest ::
  "client_lib \<Rightarrow> codec \<Rightarrow> string \<Rightarrow> RefreshTokenRequest \<Rightarrow> goerr + client_request" where
  "NewRefreshTokenRequest L C server body =
     with_json L C [(''refresh_token'', Text (rf_RefreshToken body))]
       (NewRefreshTokenRequestWithBody L server)"

section \<open>The methods of the client\<close>

definition client_DisableAdminAccount :: "client_lib \<Rightarrow> Client \<Rightarrow> string \<Rightarrow> editor list \<Rightarrow> http_response result" where
  "client_DisableAdminAccount L c userId reqEditors =
     client_do c (NewDisableAdminAccountRequest L (cl_Server c) userId) reqEditors"

definition client_ReactivateAdminAccount :: "client_lib \<Rightarrow> Client \<Rightarrow> string \<Rightarrow> editor list \<Rightarrow> http_response result" where
  "client_ReactivateAdminAccount L c userId reqEditors =
     client_do c (NewReactivateAdminAccountRequest L (cl_Server c) userId) reqEditors"

definition client_InviteAdminWithBody ::
  "client_lib \<Rightarrow> Client \<Rightarrow> string \<Rightarrow> string \<Rightarrow> editor list \<Rightarrow> http_response result" where
  "client_InviteAdminWithBody L c contentType body reqEditors =
     client_do c (NewInviteAdminRequestWithBody L (cl_Server c) contentType body) reqEditors"

definition client_InviteAdmin ::
  "client_lib \<Rightarrow> codec \<Rightarrow> Client \<Rightarrow> AdminInvitationRequest \<Rightarrow> editor list \<Rightarrow> http_response result" where
  "client_InviteAdmin L C c body reqEditors =
     client_do c (NewInviteAdminRequest L C (cl_Server c) body) reqEditors"

definition client_VerifyEmailWithBody ::
  "client_lib \<Rightarrow> Client \<Rightarrow> string \<Rightarrow> string \<Rightarrow> editor list \<Rightarrow> http_response result" where
  "client_VerifyEmailWithBody L c contentType body reqEditors =
     client_do c (NewVerifyEmailRequestWithBody L (cl_Server c) contentType body) reqEditors"

definition client_VerifyEmail ::
  "client_lib \<Rightarrow> codec \<Rightarrow> Client \<Rightarrow> EmailVerifyRequest \<Rightarrow> editor list \<Rightarrow> http_response result" where
  "client_VerifyEmail L C c body reqEditors =
     client_do c (NewVerifyEmailRequest L C (cl_Server c) body) reqEditors"

definition client_ResendEmailVerificationWithBody ::
  "client_lib \<Rightarrow> Client \<Rightarrow> string \<Rightarrow> string \<Rightarrow> editor list \<Rightarrow> http_response result" where
  "client_ResendEmailVerificationWithBody L c contentType body reqEditors =
     client_do c (NewResendEmailVerificationRequestWithBody L (cl_Server c) contentType body) reqEditors"

definition client_ResendEmailVerification ::
  "client_lib \<Rightarrow> codec \<Rightarrow> Client \<Rightarrow> EmailVerifyResendRequest \<Rightarrow> editor list \<Rightarrow> http_response result" where
  "client_ResendEmailVerification L C c body reqEditors =
     client_do c (NewResendEmailVerificationRequest L C (cl_Server c) body) reqEditors"

definition client_AcceptInvitationWithBody ::
  "client_lib \<Rightarrow> Client \<Rightarrow> string \<Rightarrow> string \<Rightarrow> editor list \<Rightarrow> http_response result" where
  "client_AcceptInvitationWithBody L c contentType body reqEditors =
     client_do c (NewAcceptInvitationRequestWithBody L (cl_Server c) contentType body) reqEditors"

definition client_AcceptInvitation ::
  "client_lib \<Rightarrow> codec \<Rightarrow> Client \<Rightarrow> InvitationAcceptRequest \<Rightarrow> editor list \<Rightarrow> http_response result" where
  "client_AcceptInvitation L C c body reqEditors =
     client_do c (NewAcceptInvitationRequest L C (cl_Server c) body) reqEditors"

definition client_LoginWithBody ::
  "client_lib \<Rightarrow> Client \<Rightarrow> string \<Rightarrow> string \<Rightarrow> editor list \<Rightarrow> http_response result" where
  "client_LoginWithBody L c contentType body reqEditors =
     client_do c (NewLoginRequestWithBody L (cl_Server c) contentType body) reqEditors"

definition client_Login ::
  "client_lib \<Rightarrow> codec \<Rightarrow> Client \<Rightarrow> LoginRequest \<Rightarrow> editor list \<Rightarrow> http_response result" where
  "client_Login L C c body reqEditors =
     client_do c (NewLoginRequest L C (cl_Server c) body) reqEditors"

definition client_LogoutWithBody ::
  "client_lib \<Rightarrow> Client \<Rightarrow> string \<Rightarrow> string \<Rightarrow> editor list \<Rightarrow> http_response result" where
  "client_LogoutWithBody L c contentType body reqEditors =
     client_do c (NewLogoutRequestWithBody L (cl_Server c) contentType body) reqEditors"

definition client_Logout ::
  "client_lib \<Rightarrow> codec \<Rightarrow> Client \<Rightarrow> LogoutRequest \<Rightarrow> editor list \<Rightarrow> http_response result" where
  "client_Logout L C c body reqEditors =
     client_do c (NewLogoutRequest L C (cl_Server c) body) reqEditors"

definition client_ChangePasswordWithBody ::
  "client_lib \<Rightarrow> Client \<Rightarrow> string \<Rightarrow> string \<Rightarrow> editor list \<Rightarrow> http_response result" where
  "client_ChangePasswordWithBody L c contentType body reqEditors =
     client_do c (NewChangePasswordRequestWithBody L (cl_Server c) contentType body) reqEditors"

definition client_ChangePassword ::
  "client_lib \<Rightarrow> codec \<Rightarrow> Client \<Rightarrow> ChangePasswordRequest \<Rightarrow> editor list \<Rightarrow> http_response result" where
  "client_ChangePassword L C c body reqEditors =
     client_do c (NewChangePasswordRequest L C (cl_Server c) body) reqEditors"

definition client_RequestPasswordResetWithBody ::
  "client_lib \<Rightarrow> Client \<Rightarrow> string \<Rightarrow> string \<Rightarrow> editor list \<Rightarrow> http_response result" where
  "client_RequestPasswordResetWithBody L c contentType body reqEditors =
     client_do c (NewRequestPasswordResetRequestWithBody L (cl_Server c) contentType body) reqEditors"

definition client_RequestPasswordReset ::
  "client_lib \<Rightarrow> codec \<Rightarrow> Client \<Rightarrow> PasswordResetRequest \<Rightarrow> editor list \<Rightarrow> http_response result" where
  "client_RequestPasswordReset L C c body reqEditors =
     client_do c (NewRequestPasswordResetRequest L C (cl_Server c) body) reqEditors"

definition client_ConfirmPasswordResetWithBody ::
  "client_lib \<Rightarrow> Client \<Rightarrow> string \<Rightarrow> string \<Rightarrow> editor list \<Rightarrow> http_response result" where
  "client_ConfirmPasswordResetWithBody L c contentType body reqEditors =
     client_do c (NewConfirmPasswordResetRequestWithBody L (cl_Server c) contentType body) reqEditors"

definition client_ConfirmPasswordReset ::
  "client_lib \<Rightarrow> codec \<Rightarrow> Client \<Rightarrow> PasswordResetConfirmRequest \<Rightarrow> editor list \<Rightarrow> http_response result" where
  "client_ConfirmPasswordReset L C c body reqEditors =
     client_do c (NewConfirmPasswordResetRequest L C (cl_Server c) body) reqEditors"

definition client_RegisterAccountWithBody ::
  "client_lib \<Rightarrow> Client \<Rightarrow> string \<Rightarrow> string \<Rightarrow> editor list \<Rightarrow> http_response result" where
  "client_RegisterAccountWithBody L c contentType body reqEditors =
     client_do c (NewRegisterAccountRequestWithBody L (cl_Server c) contentType body) reqEditors"

definition client_RegisterAccount ::
  "client_lib \<Rightarrow> codec \<Rightarrow> Client \<Rightarrow> RegisterAccountRequest \<Rightarrow> editor list \<Rightarrow> http_response result" where
  "client_RegisterAccount L C c body reqEditors =
     client_do c (NewRegisterAccountRequest L C (cl_Server c) body) reqEditors"

definition client_RefreshTokenWithBody ::
  "client_lib \<Rightarrow> Client \<Rightarrow> string \<Rightarrow> string \<Rightarrow> editor list \<Rightarrow> http_response result" where
  "client_RefreshTokenWithBody L c contentType body reqEditors =
     client_do c (NewRefreshTokenRequestWithBody L (cl_Server c) contentType body) reqEditors"

definition client_RefreshToken ::
  "client_lib \<Rightarrow> codec \<Rightarrow> Client \<Rightarrow> RefreshTokenRequest \<Rightarrow> editor list \<Rightarrow> http_response result" where
  "client_RefreshToken L C c body reqEditors =
     client_do c (NewRefreshTokenRequest L C (cl_Server c) body) reqEditors"

end
