(* ===== verification/ClientResponses.thy ===== *)
theory ClientResponses
  imports Client
begin

text \<open>
  The responses of the generated client (\<open>auth/api/http/client/client.gen.go\<close>): a typed response has
  the body, the HTTP response and, for the statuses the API declares for its operation, the decoded
  document. \<open>Parse\<dots>Response\<close> makes it; the methods \<open>\<dots>WithResponse\<close> do so with what a method of theory
  Client returns.
\<close>

section \<open>Typed responses\<close>

text \<open>
  One record for the typed responses of all operations: \<open>JSON200\<close>, and \<open>ApplicationproblemJSON400\<close>,
  \<open>ApplicationproblemJSON401\<close>, \<dots> as a function of the status. A status for which the type of an
  operation has no field is never set. An operation without a document of success has \<open>JSON200\<close> of type
  \<open>unit\<close>, never set.
\<close>

record 'a typed_response =
  tr_Body :: string
  tr_HTTPResponse :: "http_response option"
  tr_JSON200 :: "'a option"
  tr_ProblemJSON :: "int \<Rightarrow> ClientProblem option"

type_synonym DisableAdminAccountResponse = "AccountDisableResult typed_response"
type_synonym ReactivateAdminAccountResponse = "unit typed_response"
type_synonym InviteAdminResponse = "unit typed_response"
type_synonym VerifyEmailResponse = "unit typed_response"
type_synonym ResendEmailVerificationResponse = "unit typed_response"
type_synonym AcceptInvitationResponse = "unit typed_response"
type_synonym LoginResponse = "LoginTokens typed_response"
type_synonym LogoutResponse = "unit typed_response"
type_synonym ChangePasswordResponse = "PasswordChangeResponse typed_response"
type_synonym RequestPasswordResetResponse = "unit typed_response"
type_synonym ConfirmPasswordResetResponse = "unit typed_response"
type_synonym RegisterAccountResponse = "unit typed_response"
type_synonym RefreshTokenResponse = "LoginTokens typed_response"

text \<open>\<open>json.Unmarshal(bodyBytes, &dest)\<close>.\<close>

definition unmarshal_into :: "client_lib \<Rightarrow> codec \<Rightarrow> (json \<Rightarrow> 'a option) \<Rightarrow> string \<Rightarrow> goerr + 'a" where
  "unmarshal_into L C dec body =
     (case json_unmarshal C body of
        None \<Rightarrow> Inl (json_failed L)
      | Some j \<Rightarrow> (case dec j of None \<Rightarrow> Inl (json_failed L) | Some x \<Rightarrow> Inr x))"

text \<open>
  What every \<open>Parse\<dots>Response\<close> does: \<open>decode200\<close> is the case of status 200, where there is one, and
  \<open>statuses\<close> are the cases of problems.
\<close>

definition parse_response ::
  "client_lib \<Rightarrow> codec \<Rightarrow> (json \<Rightarrow> 'a option) option \<Rightarrow> int list \<Rightarrow> http_response \<Rightarrow> goerr + 'a typed_response" where
  "parse_response L C decode200 statuses rsp =
     (case hr_body rsp of
        Inl e \<Rightarrow> Inl e
      | Inr bodyBytes \<Rightarrow>
          (let response = \<lparr>tr_Body = bodyBytes, tr_HTTPResponse = Some rsp, tr_JSON200 = None, tr_ProblemJSON = (\<lambda>_. None)\<rparr>;
               is_json = str_contains (header_get (hr_headers rsp) ''Content-Type'') ''json'';
               status = hr_status rsp in
           if is_json \<and> status = 200 \<and> decode200 \<noteq> None then
             (case unmarshal_into L C (the decode200) bodyBytes of
                Inl e \<Rightarrow> Inl e | Inr dest \<Rightarrow> Inr (response\<lparr>tr_JSON200 := Some dest\<rparr>))
           else if is_json \<and> status \<in> set statuses then
             (case unmarshal_into L C decode_Problem bodyBytes of
                Inl e \<Rightarrow> Inl e
              | Inr dest \<Rightarrow> Inr (response\<lparr>tr_ProblemJSON := (\<lambda>_. None)(status := Some dest)\<rparr>))
           else Inr response))"

text \<open>
  The methods \<open>Status\<close> and \<open>StatusCode\<close>, the same for every type of response: those of the HTTP response,
  or \<open>http.StatusText(0)\<close>, the empty string, and 0 when there is none.
\<close>

definition response_Status :: "'a typed_response \<Rightarrow> string" where
  "response_Status r = (case tr_HTTPResponse r of Some rsp \<Rightarrow> hr_Status rsp | None \<Rightarrow> StatusText 0)"

definition response_StatusCode :: "'a typed_response \<Rightarrow> int" where
  "response_StatusCode r = (case tr_HTTPResponse r of Some rsp \<Rightarrow> hr_status rsp | None \<Rightarrow> 0)"

definition DisableAdminAccountResponse_Status :: "DisableAdminAccountResponse \<Rightarrow> string" where
  "DisableAdminAccountResponse_Status = response_Status"

definition DisableAdminAccountResponse_StatusCode :: "DisableAdminAccountResponse \<Rightarrow> int" where
  "DisableAdminAccountResponse_StatusCode = response_StatusCode"

definition ReactivateAdminAccountResponse_Status :: "ReactivateAdminAccountResponse \<Rightarrow> string" where
  "ReactivateAdminAccountResponse_Status = response_Status"

definition ReactivateAdminAccountResponse_StatusCode :: "ReactivateAdminAccountResponse \<Rightarrow> int" where
  "ReactivateAdminAccountResponse_StatusCode = response_StatusCode"

definition InviteAdminResponse_Status :: "InviteAdminResponse \<Rightarrow> string" where
  "InviteAdminResponse_Status = response_Status"

definition InviteAdminResponse_StatusCode :: "InviteAdminResponse \<Rightarrow> int" where
  "InviteAdminResponse_StatusCode = response_StatusCode"

definition VerifyEmailResponse_Status :: "VerifyEmailResponse \<Rightarrow> string" where
  "VerifyEmailResponse_Status = response_Status"

definition VerifyEmailResponse_StatusCode :: "VerifyEmailResponse \<Rightarrow> int" where
  "VerifyEmailResponse_StatusCode = response_StatusCode"

definition ResendEmailVerificationResponse_Status :: "ResendEmailVerificationResponse \<Rightarrow> string" where
  "ResendEmailVerificationResponse_Status = response_Status"

definition ResendEmailVerificationResponse_StatusCode :: "ResendEmailVerificationResponse \<Rightarrow> int" where
  "ResendEmailVerificationResponse_StatusCode = response_StatusCode"

definition AcceptInvitationResponse_Status :: "AcceptInvitationResponse \<Rightarrow> string" where
  "AcceptInvitationResponse_Status = response_Status"

definition AcceptInvitationResponse_StatusCode :: "AcceptInvitationResponse \<Rightarrow> int" where
  "AcceptInvitationResponse_StatusCode = response_StatusCode"

definition LoginResponse_Status :: "LoginResponse \<Rightarrow> string" where
  "LoginResponse_Status = response_Status"

definition LoginResponse_StatusCode :: "LoginResponse \<Rightarrow> int" where
  "LoginResponse_StatusCode = response_StatusCode"

definition LogoutResponse_Status :: "LogoutResponse \<Rightarrow> string" where
  "LogoutResponse_Status = response_Status"

definition LogoutResponse_StatusCode :: "LogoutResponse \<Rightarrow> int" where
  "LogoutResponse_StatusCode = response_StatusCode"

definition ChangePasswordResponse_Status :: "ChangePasswordResponse \<Rightarrow> string" where
  "ChangePasswordResponse_Status = response_Status"

definition ChangePasswordResponse_StatusCode :: "ChangePasswordResponse \<Rightarrow> int" where
  "ChangePasswordResponse_StatusCode = response_StatusCode"

definition RequestPasswordResetResponse_Status :: "RequestPasswordResetResponse \<Rightarrow> string" where
  "RequestPasswordResetResponse_Status = response_Status"

definition RequestPasswordResetResponse_StatusCode :: "RequestPasswordResetResponse \<Rightarrow> int" where
  "RequestPasswordResetResponse_StatusCode = response_StatusCode"

definition ConfirmPasswordResetResponse_Status :: "ConfirmPasswordResetResponse \<Rightarrow> string" where
  "ConfirmPasswordResetResponse_Status = response_Status"

definition ConfirmPasswordResetResponse_StatusCode :: "ConfirmPasswordResetResponse \<Rightarrow> int" where
  "ConfirmPasswordResetResponse_StatusCode = response_StatusCode"

definition RegisterAccountResponse_Status :: "RegisterAccountResponse \<Rightarrow> string" where
  "RegisterAccountResponse_Status = response_Status"

definition RegisterAccountResponse_StatusCode :: "RegisterAccountResponse \<Rightarrow> int" where
  "RegisterAccountResponse_StatusCode = response_StatusCode"

definition RefreshTokenResponse_Status :: "RefreshTokenResponse \<Rightarrow> string" where
  "RefreshTokenResponse_Status = response_Status"

definition RefreshTokenResponse_StatusCode :: "RefreshTokenResponse \<Rightarrow> int" where
  "RefreshTokenResponse_StatusCode = response_StatusCode"

section \<open>Parsing\<close>

definition ParseDisableAdminAccountResponse :: "client_lib \<Rightarrow> codec \<Rightarrow> http_response \<Rightarrow> goerr + DisableAdminAccountResponse" where
  "ParseDisableAdminAccountResponse L C = parse_response L C (Some decode_AccountDisableResult) [400, 401, 403, 404, 409, 500]"

definition ParseReactivateAdminAccountResponse :: "client_lib \<Rightarrow> codec \<Rightarrow> http_response \<Rightarrow> goerr + ReactivateAdminAccountResponse" where
  "ParseReactivateAdminAccountResponse L C = parse_response L C None [400, 401, 403, 404, 409, 500]"

definition ParseInviteAdminResponse :: "client_lib \<Rightarrow> codec \<Rightarrow> http_response \<Rightarrow> goerr + InviteAdminResponse" where
  "ParseInviteAdminResponse L C = parse_response L C None [400, 401, 403, 409, 429, 503]"

definition ParseVerifyEmailResponse :: "client_lib \<Rightarrow> codec \<Rightarrow> http_response \<Rightarrow> goerr + VerifyEmailResponse" where
  "ParseVerifyEmailResponse L C = parse_response L C None [400, 429]"

definition ParseResendEmailVerificationResponse :: "client_lib \<Rightarrow> codec \<Rightarrow> http_response \<Rightarrow> goerr + ResendEmailVerificationResponse" where
  "ParseResendEmailVerificationResponse L C = parse_response L C None [429, 503]"

definition ParseAcceptInvitationResponse :: "client_lib \<Rightarrow> codec \<Rightarrow> http_response \<Rightarrow> goerr + AcceptInvitationResponse" where
  "ParseAcceptInvitationResponse L C = parse_response L C None [400, 409, 500]"

definition ParseLoginResponse :: "client_lib \<Rightarrow> codec \<Rightarrow> http_response \<Rightarrow> goerr + LoginResponse" where
  "ParseLoginResponse L C = parse_response L C (Some decode_LoginTokens) [400, 401, 403, 429]"

definition ParseLogoutResponse :: "client_lib \<Rightarrow> codec \<Rightarrow> http_response \<Rightarrow> goerr + LogoutResponse" where
  "ParseLogoutResponse L C = parse_response L C None [400, 401]"

definition ParseChangePasswordResponse :: "client_lib \<Rightarrow> codec \<Rightarrow> http_response \<Rightarrow> goerr + ChangePasswordResponse" where
  "ParseChangePasswordResponse L C = parse_response L C (Some decode_PasswordChangeResponse) [400, 401, 403, 500]"

definition ParseRequestPasswordResetResponse :: "client_lib \<Rightarrow> codec \<Rightarrow> http_response \<Rightarrow> goerr + RequestPasswordResetResponse" where
  "ParseRequestPasswordResetResponse L C = parse_response L C None [400, 429, 503]"

definition ParseConfirmPasswordResetResponse :: "client_lib \<Rightarrow> codec \<Rightarrow> http_response \<Rightarrow> goerr + ConfirmPasswordResetResponse" where
  "ParseConfirmPasswordResetResponse L C = parse_response L C None [400, 500]"

definition ParseRegisterAccountResponse :: "client_lib \<Rightarrow> codec \<Rightarrow> http_response \<Rightarrow> goerr + RegisterAccountResponse" where
  "ParseRegisterAccountResponse L C = parse_response L C None [400, 429, 503]"

definition ParseRefreshTokenResponse :: "client_lib \<Rightarrow> codec \<Rightarrow> http_response \<Rightarrow> goerr + RefreshTokenResponse" where
  "ParseRefreshTokenResponse L C = parse_response L C (Some decode_LoginTokens) [401]"

text \<open>A parsed response has the status of the HTTP response.\<close>

lemma parse_response_status:
  "parse_response L C dec statuses rsp = Inr r \<Longrightarrow> response_Status r = hr_Status rsp \<and> response_StatusCode r = hr_status rsp"
  by (auto simp: parse_response_def response_Status_def response_StatusCode_def Let_def split: sum.splits if_splits)

lemmas status_defs_of_responses = DisableAdminAccountResponse_Status_def DisableAdminAccountResponse_StatusCode_def ReactivateAdminAccountResponse_Status_def ReactivateAdminAccountResponse_StatusCode_def InviteAdminResponse_Status_def InviteAdminResponse_StatusCode_def VerifyEmailResponse_Status_def VerifyEmailResponse_StatusCode_def ResendEmailVerificationResponse_Status_def ResendEmailVerificationResponse_StatusCode_def AcceptInvitationResponse_Status_def AcceptInvitationResponse_StatusCode_def LoginResponse_Status_def LoginResponse_StatusCode_def LogoutResponse_Status_def LogoutResponse_StatusCode_def ChangePasswordResponse_Status_def ChangePasswordResponse_StatusCode_def RequestPasswordResetResponse_Status_def RequestPasswordResetResponse_StatusCode_def ConfirmPasswordResetResponse_Status_def ConfirmPasswordResetResponse_StatusCode_def RegisterAccountResponse_Status_def RegisterAccountResponse_StatusCode_def RefreshTokenResponse_Status_def RefreshTokenResponse_StatusCode_def
lemmas parse_defs = ParseDisableAdminAccountResponse_def ParseReactivateAdminAccountResponse_def ParseInviteAdminResponse_def ParseVerifyEmailResponse_def ParseResendEmailVerificationResponse_def ParseAcceptInvitationResponse_def ParseLoginResponse_def ParseLogoutResponse_def ParseChangePasswordResponse_def ParseRequestPasswordResetResponse_def ParseConfirmPasswordResetResponse_def ParseRegisterAccountResponse_def ParseRefreshTokenResponse_def

lemma parsed_status:
  "ParseDisableAdminAccountResponse L C rsp = Inr r0 \<Longrightarrow> DisableAdminAccountResponse_Status r0 = hr_Status rsp \<and> DisableAdminAccountResponse_StatusCode r0 = hr_status rsp"
  "ParseReactivateAdminAccountResponse L C rsp = Inr r1 \<Longrightarrow> ReactivateAdminAccountResponse_Status r1 = hr_Status rsp \<and> ReactivateAdminAccountResponse_StatusCode r1 = hr_status rsp"
  "ParseInviteAdminResponse L C rsp = Inr r2 \<Longrightarrow> InviteAdminResponse_Status r2 = hr_Status rsp \<and> InviteAdminResponse_StatusCode r2 = hr_status rsp"
  "ParseVerifyEmailResponse L C rsp = Inr r3 \<Longrightarrow> VerifyEmailResponse_Status r3 = hr_Status rsp \<and> VerifyEmailResponse_StatusCode r3 = hr_status rsp"
  "ParseResendEmailVerificationResponse L C rsp = Inr r4 \<Longrightarrow> ResendEmailVerificationResponse_Status r4 = hr_Status rsp \<and> ResendEmailVerificationResponse_StatusCode r4 = hr_status rsp"
  "ParseAcceptInvitationResponse L C rsp = Inr r5 \<Longrightarrow> AcceptInvitationResponse_Status r5 = hr_Status rsp \<and> AcceptInvitationResponse_StatusCode r5 = hr_status rsp"
  "ParseLoginResponse L C rsp = Inr r6 \<Longrightarrow> LoginResponse_Status r6 = hr_Status rsp \<and> LoginResponse_StatusCode r6 = hr_status rsp"
  "ParseLogoutResponse L C rsp = Inr r7 \<Longrightarrow> LogoutResponse_Status r7 = hr_Status rsp \<and> LogoutResponse_StatusCode r7 = hr_status rsp"
  "ParseChangePasswordResponse L C rsp = Inr r8 \<Longrightarrow> ChangePasswordResponse_Status r8 = hr_Status rsp \<and> ChangePasswordResponse_StatusCode r8 = hr_status rsp"
  "ParseRequestPasswordResetResponse L C rsp = Inr r9 \<Longrightarrow> RequestPasswordResetResponse_Status r9 = hr_Status rsp \<and> RequestPasswordResetResponse_StatusCode r9 = hr_status rsp"
  "ParseConfirmPasswordResetResponse L C rsp = Inr r10 \<Longrightarrow> ConfirmPasswordResetResponse_Status r10 = hr_Status rsp \<and> ConfirmPasswordResetResponse_StatusCode r10 = hr_status rsp"
  "ParseRegisterAccountResponse L C rsp = Inr r11 \<Longrightarrow> RegisterAccountResponse_Status r11 = hr_Status rsp \<and> RegisterAccountResponse_StatusCode r11 = hr_status rsp"
  "ParseRefreshTokenResponse L C rsp = Inr r12 \<Longrightarrow> RefreshTokenResponse_Status r12 = hr_Status rsp \<and> RefreshTokenResponse_StatusCode r12 = hr_status rsp"
  by (simp_all only: parse_defs status_defs_of_responses parse_response_status)

section \<open>Methods that parse\<close>

definition parsed :: "(http_response \<Rightarrow> goerr + 'a typed_response) \<Rightarrow> http_response result \<Rightarrow> 'a typed_response result" where
  "parsed f m = attempt m fail (\<lambda>rsp. ret (f rsp))"

definition DisableAdminAccountWithResponse ::
  "client_lib \<Rightarrow> codec \<Rightarrow> Client \<Rightarrow> string \<Rightarrow> editor list \<Rightarrow> DisableAdminAccountResponse result" where
  "DisableAdminAccountWithResponse L C c userId reqEditors =
     parsed (ParseDisableAdminAccountResponse L C) (client_DisableAdminAccount L c userId reqEditors)"

definition ReactivateAdminAccountWithResponse ::
  "client_lib \<Rightarrow> codec \<Rightarrow> Client \<Rightarrow> string \<Rightarrow> editor list \<Rightarrow> ReactivateAdminAccountResponse result" where
  "ReactivateAdminAccountWithResponse L C c userId reqEditors =
     parsed (ParseReactivateAdminAccountResponse L C) (client_ReactivateAdminAccount L c userId reqEditors)"

definition InviteAdminWithBodyWithResponse ::
  "client_lib \<Rightarrow> codec \<Rightarrow> Client \<Rightarrow> string \<Rightarrow> string \<Rightarrow> editor list \<Rightarrow> InviteAdminResponse result" where
  "InviteAdminWithBodyWithResponse L C c contentType body reqEditors =
     parsed (ParseInviteAdminResponse L C) (client_InviteAdminWithBody L c contentType body reqEditors)"

definition InviteAdminWithResponse ::
  "client_lib \<Rightarrow> codec \<Rightarrow> Client \<Rightarrow> AdminInvitationRequest \<Rightarrow> editor list \<Rightarrow> InviteAdminResponse result" where
  "InviteAdminWithResponse L C c body reqEditors =
     parsed (ParseInviteAdminResponse L C) (client_InviteAdmin L C c body reqEditors)"

definition VerifyEmailWithBodyWithResponse ::
  "client_lib \<Rightarrow> codec \<Rightarrow> Client \<Rightarrow> string \<Rightarrow> string \<Rightarrow> editor list \<Rightarrow> VerifyEmailResponse result" where
  "VerifyEmailWithBodyWithResponse L C c contentType body reqEditors =
     parsed (ParseVerifyEmailResponse L C) (client_VerifyEmailWithBody L c contentType body reqEditors)"

definition VerifyEmailWithResponse ::
  "client_lib \<Rightarrow> codec \<Rightarrow> Client \<Rightarrow> EmailVerifyRequest \<Rightarrow> editor list \<Rightarrow> VerifyEmailResponse result" where
  "VerifyEmailWithResponse L C c body reqEditors =
     parsed (ParseVerifyEmailResponse L C) (client_VerifyEmail L C c body reqEditors)"

definition ResendEmailVerificationWithBodyWithResponse ::
  "client_lib \<Rightarrow> codec \<Rightarrow> Client \<Rightarrow> string \<Rightarrow> string \<Rightarrow> editor list \<Rightarrow> ResendEmailVerificationResponse result" where
  "ResendEmailVerificationWithBodyWithResponse L C c contentType body reqEditors =
     parsed (ParseResendEmailVerificationResponse L C) (client_ResendEmailVerificationWithBody L c contentType body reqEditors)"

definition ResendEmailVerificationWithResponse ::
  "client_lib \<Rightarrow> codec \<Rightarrow> Client \<Rightarrow> EmailVerifyResendRequest \<Rightarrow> editor list \<Rightarrow> ResendEmailVerificationResponse result" where
  "ResendEmailVerificationWithResponse L C c body reqEditors =
     parsed (ParseResendEmailVerificationResponse L C) (client_ResendEmailVerification L C c body reqEditors)"

definition AcceptInvitationWithBodyWithResponse ::
  "client_lib \<Rightarrow> codec \<Rightarrow> Client \<Rightarrow> string \<Rightarrow> string \<Rightarrow> editor list \<Rightarrow> AcceptInvitationResponse result" where
  "AcceptInvitationWithBodyWithResponse L C c contentType body reqEditors =
     parsed (ParseAcceptInvitationResponse L C) (client_AcceptInvitationWithBody L c contentType body reqEditors)"

definition AcceptInvitationWithResponse ::
  "client_lib \<Rightarrow> codec \<Rightarrow> Client \<Rightarrow> InvitationAcceptRequest \<Rightarrow> editor list \<Rightarrow> AcceptInvitationResponse result" where
  "AcceptInvitationWithResponse L C c body reqEditors =
     parsed (ParseAcceptInvitationResponse L C) (client_AcceptInvitation L C c body reqEditors)"

definition LoginWithBodyWithResponse ::
  "client_lib \<Rightarrow> codec \<Rightarrow> Client \<Rightarrow> string \<Rightarrow> string \<Rightarrow> editor list \<Rightarrow> LoginResponse result" where
  "LoginWithBodyWithResponse L C c contentType body reqEditors =
     parsed (ParseLoginResponse L C) (client_LoginWithBody L c contentType body reqEditors)"

definition LoginWithResponse ::
  "client_lib \<Rightarrow> codec \<Rightarrow> Client \<Rightarrow> LoginRequest \<Rightarrow> editor list \<Rightarrow> LoginResponse result" where
  "LoginWithResponse L C c body reqEditors =
     parsed (ParseLoginResponse L C) (client_Login L C c body reqEditors)"

definition LogoutWithBodyWithResponse ::
  "client_lib \<Rightarrow> codec \<Rightarrow> Client \<Rightarrow> string \<Rightarrow> string \<Rightarrow> editor list \<Rightarrow> LogoutResponse result" where
  "LogoutWithBodyWithResponse L C c contentType body reqEditors =
     parsed (ParseLogoutResponse L C) (client_LogoutWithBody L c contentType body reqEditors)"

definition LogoutWithResponse ::
  "client_lib \<Rightarrow> codec \<Rightarrow> Client \<Rightarrow> LogoutRequest \<Rightarrow> editor list \<Rightarrow> LogoutResponse result" where
  "LogoutWithResponse L C c body reqEditors =
     parsed (ParseLogoutResponse L C) (client_Logout L C c body reqEditors)"

definition ChangePasswordWithBodyWithResponse ::
  "client_lib \<Rightarrow> codec \<Rightarrow> Client \<Rightarrow> string \<Rightarrow> string \<Rightarrow> editor list \<Rightarrow> ChangePasswordResponse result" where
  "ChangePasswordWithBodyWithResponse L C c contentType body reqEditors =
     parsed (ParseChangePasswordResponse L C) (client_ChangePasswordWithBody L c contentType body reqEditors)"

definition ChangePasswordWithResponse ::
  "client_lib \<Rightarrow> codec \<Rightarrow> Client \<Rightarrow> ChangePasswordRequest \<Rightarrow> editor list \<Rightarrow> ChangePasswordResponse result" where
  "ChangePasswordWithResponse L C c body reqEditors =
     parsed (ParseChangePasswordResponse L C) (client_ChangePassword L C c body reqEditors)"

definition RequestPasswordResetWithBodyWithResponse ::
  "client_lib \<Rightarrow> codec \<Rightarrow> Client \<Rightarrow> string \<Rightarrow> string \<Rightarrow> editor list \<Rightarrow> RequestPasswordResetResponse result" where
  "RequestPasswordResetWithBodyWithResponse L C c contentType body reqEditors =
     parsed (ParseRequestPasswordResetResponse L C) (client_RequestPasswordResetWithBody L c contentType body reqEditors)"

definition RequestPasswordResetWithResponse ::
  "client_lib \<Rightarrow> codec \<Rightarrow> Client \<Rightarrow> PasswordResetRequest \<Rightarrow> editor list \<Rightarrow> RequestPasswordResetResponse result" where
  "RequestPasswordResetWithResponse L C c body reqEditors =
     parsed (ParseRequestPasswordResetResponse L C) (client_RequestPasswordReset L C c body reqEditors)"

definition ConfirmPasswordResetWithBodyWithResponse ::
  "client_lib \<Rightarrow> codec \<Rightarrow> Client \<Rightarrow> string \<Rightarrow> string \<Rightarrow> editor list \<Rightarrow> ConfirmPasswordResetResponse result" where
  "ConfirmPasswordResetWithBodyWithResponse L C c contentType body reqEditors =
     parsed (ParseConfirmPasswordResetResponse L C) (client_ConfirmPasswordResetWithBody L c contentType body reqEditors)"

definition ConfirmPasswordResetWithResponse ::
  "client_lib \<Rightarrow> codec \<Rightarrow> Client \<Rightarrow> PasswordResetConfirmRequest \<Rightarrow> editor list \<Rightarrow> ConfirmPasswordResetResponse result" where
  "ConfirmPasswordResetWithResponse L C c body reqEditors =
     parsed (ParseConfirmPasswordResetResponse L C) (client_ConfirmPasswordReset L C c body reqEditors)"

definition RegisterAccountWithBodyWithResponse ::
  "client_lib \<Rightarrow> codec \<Rightarrow> Client \<Rightarrow> string \<Rightarrow> string \<Rightarrow> editor list \<Rightarrow> RegisterAccountResponse result" where
  "RegisterAccountWithBodyWithResponse L C c contentType body reqEditors =
     parsed (ParseRegisterAccountResponse L C) (client_RegisterAccountWithBody L c contentType body reqEditors)"

definition RegisterAccountWithResponse ::
  "client_lib \<Rightarrow> codec \<Rightarrow> Client \<Rightarrow> RegisterAccountRequest \<Rightarrow> editor list \<Rightarrow> RegisterAccountResponse result" where
  "RegisterAccountWithResponse L C c body reqEditors =
     parsed (ParseRegisterAccountResponse L C) (client_RegisterAccount L C c body reqEditors)"

definition RefreshTokenWithBodyWithResponse ::
  "client_lib \<Rightarrow> codec \<Rightarrow> Client \<Rightarrow> string \<Rightarrow> string \<Rightarrow> editor list \<Rightarrow> RefreshTokenResponse result" where
  "RefreshTokenWithBodyWithResponse L C c contentType body reqEditors =
     parsed (ParseRefreshTokenResponse L C) (client_RefreshTokenWithBody L c contentType body reqEditors)"

definition RefreshTokenWithResponse ::
  "client_lib \<Rightarrow> codec \<Rightarrow> Client \<Rightarrow> RefreshTokenRequest \<Rightarrow> editor list \<Rightarrow> RefreshTokenResponse result" where
  "RefreshTokenWithResponse L C c body reqEditors =
     parsed (ParseRefreshTokenResponse L C) (client_RefreshToken L C c body reqEditors)"

end
