(* ===== verification/Server.thy ===== *)
theory Server
  imports Api
begin

text \<open>
  From a request to its response: the generated server of \<open>auth/api/http/openapi.gen.go\<close> (request
  bodies, the strict handlers, the responses, the routes), the protected routes of \<open>handler.go\<close>, and
  the middleware chain of \<open>backend/common/http/echo.go\<close>. What the library echo does (routing,
  binding, the order of middlewares, its time-out and recovery middlewares) is the record \<open>echo\<close>;
  what the theorems rely on is \<open>echo_ok\<close>.
\<close>

section \<open>The library\<close>

record echo =
  eo_route :: "(string \<times> string) list \<Rightarrow> request \<Rightarrow> httperr + (string \<times> string) \<times> (string \<Rightarrow> string)"
    \<comment> \<open>the registered method and path that match, and the path parameters\<close>
  eo_bind :: "request \<Rightarrow> string list \<Rightarrow> httperr + (string \<Rightarrow> string)"
    \<comment> \<open>\<open>Bind\<close> for a struct of strings with these JSON names: its fields\<close>
  eo_bind_param :: "string \<Rightarrow> string + string"
    \<comment> \<open>\<open>runtime.BindStyledParameterWithOptions\<close>, style simple: an error text or the value\<close>
  eo_apply :: "(http_handler \<Rightarrow> http_handler) list \<Rightarrow> http_handler \<Rightarrow> http_handler"
  eo_timeout :: "http_handler \<Rightarrow> http_handler"     \<comment> \<open>\<open>middleware.ContextTimeout\<close>\<close>
  eo_recover :: "http_handler \<Rightarrow> http_handler"     \<comment> \<open>\<open>middleware.RecoverWithConfig\<close>\<close>

text \<open>
  The first middleware is the outermost one. The time-out middleware runs the handler and only
  replaces the error of a deadline, by one with status 503; nothing is recovered when nothing
  panics.
\<close>

definition timeout_error :: "httperr \<Rightarrow> bool" where
  "timeout_error err \<longleftrightarrow> (case err of OtherError e \<Rightarrow> err_is_deadline e | _ \<Rightarrow> False)"

definition echo_ok :: "echo \<Rightarrow> bool" where
  "echo_ok E \<longleftrightarrow> (\<forall>ms h. eo_apply E ms h = foldr (\<lambda>m. m) ms h) \<and> (\<forall>h. eo_recover E h = h) \<and>
     (\<exists>f. (\<forall>e. \<not> timeout_error e \<longrightarrow> f e = e) \<and> (\<forall>e. timeout_error e \<longrightarrow> StatusFromError (Some (f e)) = 503) \<and>
       (\<forall>h c rs. eo_timeout E h c rs = do { (err, rs') \<leftarrow> h c rs; ret (map_option f err, rs') }))"

section \<open>Responses\<close>

definition json_response :: "int \<Rightarrow> (string \<times> json) list \<Rightarrow> response \<Rightarrow> response" where
  "json_response status fs rs =
     write_json status (JObj fs) (set_header ''Content-Type'' ''application/json'' rs)"

definition VisitDisableAdminAccountResponse :: "string \<Rightarrow> response \<Rightarrow> response" where
  "VisitDisableAdminAccountResponse reason = json_response 200 [(''revocation_reason'', JStr reason)]"
definition VisitReactivateAdminAccountResponse :: "response \<Rightarrow> response" where
  "VisitReactivateAdminAccountResponse = write_header 200"
definition VisitInviteAdminResponse :: "response \<Rightarrow> response" where
  "VisitInviteAdminResponse = write_header 200"
definition VisitVerifyEmailResponse :: "response \<Rightarrow> response" where
  "VisitVerifyEmailResponse = write_header 200"
definition VisitResendEmailVerificationResponse :: "response \<Rightarrow> response" where
  "VisitResendEmailVerificationResponse = write_header 200"
definition VisitAcceptInvitationResponse :: "response \<Rightarrow> response" where
  "VisitAcceptInvitationResponse = write_header 200"
definition VisitLoginResponse :: "string \<Rightarrow> string \<Rightarrow> response \<Rightarrow> response" where
  "VisitLoginResponse access refresh =
     json_response 200 [(''access_token'', JStr access), (''refresh_token'', JStr refresh)]"
definition VisitLogoutResponse :: "response \<Rightarrow> response" where
  "VisitLogoutResponse = write_header 200"
definition VisitChangePasswordResponse :: "string \<Rightarrow> response \<Rightarrow> response" where
  "VisitChangePasswordResponse reason = json_response 200 [(''revocation_reason'', JStr reason)]"
definition VisitRequestPasswordResetResponse :: "response \<Rightarrow> response" where
  "VisitRequestPasswordResetResponse = write_header 200"
definition VisitConfirmPasswordResetResponse :: "response \<Rightarrow> response" where
  "VisitConfirmPasswordResetResponse = write_header 200"
definition VisitRegisterAccountResponse :: "response \<Rightarrow> response" where
  "VisitRegisterAccountResponse = write_header 201"
definition VisitRefreshTokenResponse :: "string \<Rightarrow> string \<Rightarrow> response \<Rightarrow> response" where
  "VisitRefreshTokenResponse access refresh =
     json_response 200 [(''access_token'', JStr access), (''refresh_token'', JStr refresh)]"

fun visit :: "response_object \<Rightarrow> response \<Rightarrow> response" where
  "visit (DisableAdminAccount200JSONResponse r) = VisitDisableAdminAccountResponse r"
| "visit ReactivateAdminAccount200Response = VisitReactivateAdminAccountResponse"
| "visit InviteAdmin200Response = VisitInviteAdminResponse"
| "visit VerifyEmail200Response = VisitVerifyEmailResponse"
| "visit ResendEmailVerification200Response = VisitResendEmailVerificationResponse"
| "visit AcceptInvitation200Response = VisitAcceptInvitationResponse"
| "visit (Login200JSONResponse a r) = VisitLoginResponse a r"
| "visit Logout200Response = VisitLogoutResponse"
| "visit (ChangePassword200JSONResponse r) = VisitChangePasswordResponse r"
| "visit RequestPasswordReset200Response = VisitRequestPasswordResetResponse"
| "visit ConfirmPasswordReset200Response = VisitConfirmPasswordResetResponse"
| "visit RegisterAccount201Response = VisitRegisterAccountResponse"
| "visit (RefreshToken200JSONResponse a r) = VisitRefreshTokenResponse a r"

section \<open>The strict handlers\<close>

text \<open>What every strict handler does after it has its request object, and how it binds a body.\<close>

definition strict_result :: "api_result \<Rightarrow> response \<Rightarrow> (world, httperr option \<times> response) state" where
  "strict_result m rs = do {
     r \<leftarrow> m;
     ret (case r of Inl err \<Rightarrow> (Some err, rs) | Inr obj \<Rightarrow> (None, visit obj rs)) }"

definition with_body :: "echo \<Rightarrow> string list \<Rightarrow> ((string \<Rightarrow> string) \<Rightarrow> http_context \<Rightarrow> api_result) \<Rightarrow> http_handler" where
  "with_body E names f c rs =
     (case eo_bind E (cx_request c) names of
        Inl err \<Rightarrow> ret (Some err, rs)
      | Inr v \<Rightarrow> strict_result (f v c) rs)"

definition sh_DisableAdminAccount :: "ext \<Rightarrow> string \<Rightarrow> http_handler" where
  "sh_DisableAdminAccount X userId c rs =
     strict_result (api_DisableAdminAccount X (cx_claims c) userId) rs"

definition sh_ReactivateAdminAccount :: "ext \<Rightarrow> string \<Rightarrow> http_handler" where
  "sh_ReactivateAdminAccount X userId c rs =
     strict_result (api_ReactivateAdminAccount X (cx_claims c) userId) rs"

definition sh_InviteAdmin :: "echo \<Rightarrow> ext \<Rightarrow> deps \<Rightarrow> http_handler" where
  "sh_InviteAdmin E X D = with_body E [''email'', ''role''] (\<lambda>v c.
     api_InviteAdmin X D (Some \<lparr>ai_Email = v ''email'', ai_Role = v ''role''\<rparr>))"

definition sh_VerifyEmail :: "echo \<Rightarrow> ext \<Rightarrow> deps \<Rightarrow> http_handler" where
  "sh_VerifyEmail E X D = with_body E [''token''] (\<lambda>v c.
     api_VerifyEmail X D (cx_client_ip c) (Some \<lparr>ev_Token = v ''token''\<rparr>))"

definition sh_ResendEmailVerification :: "echo \<Rightarrow> ext \<Rightarrow> deps \<Rightarrow> http_handler" where
  "sh_ResendEmailVerification E X D = with_body E [''email''] (\<lambda>v c.
     api_ResendEmailVerification X D (Some \<lparr>er_Email = v ''email''\<rparr>))"

definition sh_AcceptInvitation :: "echo \<Rightarrow> ext \<Rightarrow> http_handler" where
  "sh_AcceptInvitation E X = with_body E [''password'', ''token''] (\<lambda>v c.
     api_AcceptInvitation X (Some \<lparr>ia_Password = v ''password'', ia_Token = v ''token''\<rparr>))"

definition sh_Login :: "echo \<Rightarrow> ext \<Rightarrow> deps \<Rightarrow> http_handler" where
  "sh_Login E X D = with_body E [''email'', ''password''] (\<lambda>v c.
     api_Login X D (Some \<lparr>lr_Email = v ''email'', lr_Password = v ''password''\<rparr>))"

definition sh_Logout :: "echo \<Rightarrow> ext \<Rightarrow> http_handler" where
  "sh_Logout E X = with_body E [''refresh_token''] (\<lambda>v c.
     api_Logout X (cx_claims c) (Some \<lparr>lg_RefreshToken = v ''refresh_token''\<rparr>))"

definition sh_ChangePassword :: "echo \<Rightarrow> ext \<Rightarrow> http_handler" where
  "sh_ChangePassword E X = with_body E [''current_password'', ''new_password''] (\<lambda>v c.
     api_ChangePassword X (cx_claims c)
       (Some \<lparr>cp_CurrentPassword = v ''current_password'', cp_NewPassword = v ''new_password''\<rparr>))"

definition sh_RequestPasswordReset :: "echo \<Rightarrow> ext \<Rightarrow> deps \<Rightarrow> http_handler" where
  "sh_RequestPasswordReset E X D = with_body E [''email''] (\<lambda>v c.
     api_RequestPasswordReset X D (Some \<lparr>pq_Email = v ''email''\<rparr>))"

definition sh_ConfirmPasswordReset :: "echo \<Rightarrow> ext \<Rightarrow> http_handler" where
  "sh_ConfirmPasswordReset E X = with_body E [''new_password'', ''token''] (\<lambda>v c.
     api_ConfirmPasswordReset X (Some \<lparr>pc_NewPassword = v ''new_password'', pc_Token = v ''token''\<rparr>))"

definition sh_RegisterAccount :: "echo \<Rightarrow> ext \<Rightarrow> deps \<Rightarrow> http_handler" where
  "sh_RegisterAccount E X D = with_body E [''email'', ''password''] (\<lambda>v c.
     api_RegisterAccount X D (Some \<lparr>ra_Email = v ''email'', ra_Password = v ''password''\<rparr>))"

definition sh_RefreshToken :: "echo \<Rightarrow> ext \<Rightarrow> http_handler" where
  "sh_RefreshToken E X = with_body E [''refresh_token''] (\<lambda>v c.
     api_RefreshToken X (Some \<lparr>rf_RefreshToken = v ''refresh_token''\<rparr>))"

section \<open>Routes\<close>

text \<open>
  The wrappers of \<open>ServerInterfaceWrapper\<close>: a route takes the path parameters, which only the first two
  use. (The scopes they put into the context of echo are not read anywhere.)
\<close>

type_synonym route_handler = "(string \<Rightarrow> string) \<Rightarrow> http_handler"

definition bind_userId :: "echo \<Rightarrow> (string \<Rightarrow> http_handler) \<Rightarrow> route_handler" where
  "bind_userId E f params c rs =
     (case eo_bind_param E (params ''userId'') of
        Inl err \<Rightarrow>
          (let msg = ''Invalid format for parameter userId: '' @ err in
           ret (Some (HTTPError 400 (Some msg) (''code=400, message='' @ msg)), rs))
      | Inr userId \<Rightarrow> f userId c rs)"

definition wrap_DisableAdminAccount :: "echo \<Rightarrow> ext \<Rightarrow> route_handler" where
  "wrap_DisableAdminAccount E X = bind_userId E (sh_DisableAdminAccount X)"

definition wrap_ReactivateAdminAccount :: "echo \<Rightarrow> ext \<Rightarrow> route_handler" where
  "wrap_ReactivateAdminAccount E X = bind_userId E (sh_ReactivateAdminAccount X)"

definition wrap_InviteAdmin :: "echo \<Rightarrow> ext \<Rightarrow> deps \<Rightarrow> route_handler" where
  [simp]: "wrap_InviteAdmin E X D = (\<lambda>_. sh_InviteAdmin E X D)"

definition wrap_VerifyEmail :: "echo \<Rightarrow> ext \<Rightarrow> deps \<Rightarrow> route_handler" where
  [simp]: "wrap_VerifyEmail E X D = (\<lambda>_. sh_VerifyEmail E X D)"

definition wrap_ResendEmailVerification :: "echo \<Rightarrow> ext \<Rightarrow> deps \<Rightarrow> route_handler" where
  [simp]: "wrap_ResendEmailVerification E X D = (\<lambda>_. sh_ResendEmailVerification E X D)"

definition wrap_AcceptInvitation :: "echo \<Rightarrow> ext \<Rightarrow> route_handler" where
  [simp]: "wrap_AcceptInvitation E X = (\<lambda>_. sh_AcceptInvitation E X)"

definition wrap_Login :: "echo \<Rightarrow> ext \<Rightarrow> deps \<Rightarrow> route_handler" where
  [simp]: "wrap_Login E X D = (\<lambda>_. sh_Login E X D)"

definition wrap_Logout :: "echo \<Rightarrow> ext \<Rightarrow> route_handler" where
  [simp]: "wrap_Logout E X = (\<lambda>_. sh_Logout E X)"

definition wrap_ChangePassword :: "echo \<Rightarrow> ext \<Rightarrow> route_handler" where
  [simp]: "wrap_ChangePassword E X = (\<lambda>_. sh_ChangePassword E X)"

definition wrap_RequestPasswordReset :: "echo \<Rightarrow> ext \<Rightarrow> deps \<Rightarrow> route_handler" where
  [simp]: "wrap_RequestPasswordReset E X D = (\<lambda>_. sh_RequestPasswordReset E X D)"

definition wrap_ConfirmPasswordReset :: "echo \<Rightarrow> ext \<Rightarrow> route_handler" where
  [simp]: "wrap_ConfirmPasswordReset E X = (\<lambda>_. sh_ConfirmPasswordReset E X)"

definition wrap_RegisterAccount :: "echo \<Rightarrow> ext \<Rightarrow> deps \<Rightarrow> route_handler" where
  [simp]: "wrap_RegisterAccount E X D = (\<lambda>_. sh_RegisterAccount E X D)"

definition wrap_RefreshToken :: "echo \<Rightarrow> ext \<Rightarrow> route_handler" where
  [simp]: "wrap_RefreshToken E X = (\<lambda>_. sh_RefreshToken E X)"

type_synonym route = "(string \<times> string) \<times> route_handler"

definition RegisterHandlers :: "echo \<Rightarrow> ext \<Rightarrow> deps \<Rightarrow> route list" where
  "RegisterHandlers E X D =
     [((''POST'', ''/admin/accounts/:userId/disable''), wrap_DisableAdminAccount E X),
      ((''POST'', ''/admin/accounts/:userId/reactivate''), wrap_ReactivateAdminAccount E X),
      ((''POST'', ''/admin/invitations''), wrap_InviteAdmin E X D),
      ((''POST'', ''/auth/email-verify''), wrap_VerifyEmail E X D),
      ((''POST'', ''/auth/email-verify/resend''), wrap_ResendEmailVerification E X D),
      ((''POST'', ''/auth/invitation/accept''), wrap_AcceptInvitation E X),
      ((''POST'', ''/auth/login''), wrap_Login E X D),
      ((''POST'', ''/auth/logout''), wrap_Logout E X),
      ((''PUT'', ''/auth/password''), wrap_ChangePassword E X),
      ((''POST'', ''/auth/password-reset''), wrap_RequestPasswordReset E X D),
      ((''POST'', ''/auth/password-reset/confirm''), wrap_ConfirmPasswordReset E X),
      ((''POST'', ''/auth/register''), wrap_RegisterAccount E X D),
      ((''POST'', ''/auth/token/refresh''), wrap_RefreshToken E X)]"

text \<open>The protected paths and their middlewares; \<open>POST\<close> and \<open>PUT\<close> of the protected router.\<close>

definition protected_paths :: "ext \<Rightarrow> (string \<times> (http_handler \<Rightarrow> http_handler) list) list" where
  "protected_paths X =
     [(''/auth/logout'', [JWTAuth X]),
      (''/auth/password'', [JWTAuth X]),
      (''/admin/invitations'', [JWTAuth X, RequireRoles ''admin_invitation'' [RoleSuperAdmin]]),
      (''/admin/accounts/:userId/disable'', [JWTAuth X, RequireRoles ''account_disable'' [RoleSuperAdmin]]),
      (''/admin/accounts/:userId/reactivate'', [JWTAuth X, RequireRoles ''account_reactivate'' [RoleSuperAdmin]])]"

definition router_add :: "echo \<Rightarrow> (string \<times> (http_handler \<Rightarrow> http_handler) list) list \<Rightarrow> route \<Rightarrow> route" where
  "router_add E protected r =
     (case r of ((verb, path), h) \<Rightarrow>
        ((verb, path), \<lambda>params. eo_apply E (case map_of protected path of Some mws \<Rightarrow> mws | None \<Rightarrow> []) (h params)))"

definition Register :: "echo \<Rightarrow> ext \<Rightarrow> deps \<Rightarrow> route list" where
  "Register E X D = map (router_add E (protected_paths X)) (RegisterHandlers E X D)"

section \<open>Serving a request\<close>

text \<open>\<open>echo.ErrNotFound\<close>, the handler of a request no route matches, should the router name none.\<close>

definition dispatch :: "echo \<Rightarrow> ext \<Rightarrow> deps \<Rightarrow> http_handler" where
  "dispatch E X D c rs =
     (case eo_route E (map fst (Register E X D)) (cx_request c) of
        Inl err \<Rightarrow> ret (Some err, rs)
      | Inr (key, params) \<Rightarrow>
          (case map_of (Register E X D) key of
             Some h \<Rightarrow> h params c rs
           | None \<Rightarrow> ret (Some (HTTPError 404 (Some ''Not Found'') ''code=404, message=Not Found''), rs)))"

definition NewEcho :: "echo \<Rightarrow> codec \<Rightarrow> bool \<Rightarrow> ext \<Rightarrow> (http_handler \<Rightarrow> http_handler) list" where
  "NewEcho E C debug X = [eo_timeout E, eo_recover E, contextMiddleware X, requestLogMiddleware C debug]"

definition serve :: "echo \<Rightarrow> codec \<Rightarrow> bool \<Rightarrow> ext \<Rightarrow> deps \<Rightarrow> request \<Rightarrow> response action" where
  "serve E C debug X D rq = do {
     let c = \<lparr>cx_request = rq, cx_claims = None, cx_client_ip = '''', cx_request_id = ''''\<rparr>;
     let rs = \<lparr>rs_committed = False, rs_status = 200, rs_headers = [], rs_body = None\<rparr>;
     (err, rs') \<leftarrow> eo_apply E (NewEcho E C debug X) (dispatch E X D) c rs;
     (case err of None \<Rightarrow> ret rs' | Some e \<Rightarrow> ProblemErrorHandler e c rs') }"

end
