(* ===== verification/Serving.thy ===== *)
theory Serving
  imports Server
begin

text \<open>
  What the server does with any request: a response is always written, the database evolves by the
  operations of the use cases only, a protected path is reached only with a valid access token (and
  the role), and the request log names the status of the response. The locale \<open>service\<close> is the
  contract the server has with its limiters and its lockout; it is interpreted on those of \<open>main\<close>.
\<close>

section \<open>The operations\<close>

locale service =
  register: rate_limiter "Limiter D" + verify: rate_limiter "VerifyLimiter D" +
  resend: rate_limiter "ResendLimiter D" + reset: rate_limiter "ResetLimiter D" +
  invite: rate_limiter "InviteLimiter D" +
  lock: login_lockout "Lockout_Check_of D" "Lockout_RecordFailure_of D" "Lockout_Reset_of D"
  for X :: ext and D :: deps

text \<open>The worlds a request may start in, and what every use case keeps.\<close>

definition start_ok :: "ext \<Rightarrow> world \<Rightarrow> bool" where
  "start_ok X w0 \<longleftrightarrow> schema_ok (w_db w0) \<and> fresh_ids X w0"

definition keeps_db :: "world \<Rightarrow> 'a action \<Rightarrow> world \<Rightarrow> bool" where
  "keeps_db w0 m w \<longleftrightarrow> wp m (\<lambda>_. ended w0) w"

lemma keeps_db_spec: "wp m P w \<Longrightarrow> (\<And>r w'. P r w' \<Longrightarrow> ended w0 w') \<Longrightarrow> keeps_db w0 m w"
  unfolding keeps_db_def by (rule wp_mono)

lemma keeps_db_answer: "keeps_db w0 m w \<Longrightarrow> keeps_db w0 (answer f g m) w"
  by (simp add: keeps_db_def)

lemma keeps_db_refuse: "good w0 w \<Longrightarrow> keeps_db w0 (refuse e) w"
  by (simp add: keeps_db_def good_ended)

lemmas plain_specs =
  keeps_db_spec [OF RefreshToken_spec] keeps_db_spec [OF Logout_spec] keeps_db_spec [OF ChangePasswordHandler_spec]
  keeps_db_spec [OF DisableAccountHandler_spec] keeps_db_spec [OF ReactivateAccountHandler_spec]

lemmas schema_specs =
  keeps_db_spec [OF ConfirmPasswordResetHandler_spec] keeps_db_spec [OF AcceptInvitationHandler_spec]

lemmas api_plain_defs = api_RefreshToken_def api_Logout_def api_ChangePassword_def
  api_DisableAdminAccount_def api_ReactivateAdminAccount_def

lemma plain_api:
  assumes "good w0 w"
  shows "keeps_db w0 (api_RefreshToken X b1) w" "keeps_db w0 (api_Logout X cl b2) w"
    "keeps_db w0 (api_ChangePassword X cl b3) w" "keeps_db w0 (api_DisableAdminAccount X cl uid) w"
    "keeps_db w0 (api_ReactivateAdminAccount X cl uid) w"
  unfolding api_plain_defs
  by (auto split: option.split intro!: keeps_db_answer keeps_db_refuse intro: plain_specs assms)

lemma schema_api:
  assumes "good w0 w" "schema_ok (w_db w0)"
  shows "keeps_db w0 (api_ConfirmPasswordReset X b1) w" "keeps_db w0 (api_AcceptInvitation X b2) w"
  unfolding api_ConfirmPasswordReset_def api_AcceptInvitation_def
  by (auto split: option.split intro!: keeps_db_answer keeps_db_refuse intro: schema_specs assms)

context service
begin

lemmas limited_specs =
  keeps_db_spec [OF register.RegisterAccount_spec] keeps_db_spec [OF resend.ResendEmailVerification_spec]
  keeps_db_spec [OF reset.RequestPasswordReset_spec] keeps_db_spec [OF invite.InviteAdmin_spec]

lemma limited_api:
  assumes "good w0 w"
  shows "keeps_db w0 (api_RegisterAccount X D b1) w" "keeps_db w0 (api_ResendEmailVerification X D b2) w"
    "keeps_db w0 (api_RequestPasswordReset X D b3) w" "keeps_db w0 (api_InviteAdmin X D b4) w"
  unfolding api_RegisterAccount_def api_ResendEmailVerification_def api_RequestPasswordReset_def api_InviteAdmin_def
  by (auto split: option.split intro!: keeps_db_answer keeps_db_refuse intro: limited_specs assms)

lemma verify_api:
  assumes "good w0 w" "schema_ok (w_db w0)"
  shows "keeps_db w0 (api_VerifyEmail X D ip b) w"
  unfolding api_VerifyEmail_def
  by (auto split: option.split intro!: keeps_db_answer keeps_db_refuse
      intro: keeps_db_spec [OF verify.VerifyEmail_spec] assms)

lemma login_api:
  assumes "good w0 w" "fresh_ids X w0"
  shows "keeps_db w0 (api_Login X D b) w"
  unfolding api_Login_def
  by (auto split: option.split intro!: keeps_db_answer keeps_db_refuse
      intro: keeps_db_spec [OF lock.Login_spec] assms)

lemmas all_api = plain_api schema_api limited_api verify_api login_api

end

interpretation main: service X "main_deps X env" for X env
  unfolding main_deps_def service_def deps.simps
  by (intro conjI registration_limiter.rate_limiter_axioms resend_limiter.rate_limiter_axioms
      reset_limiter.rate_limiter_axioms invitation_limiter.rate_limiter_axioms
      verify_limiter.rate_limiter_axioms login_lock.login_lockout_axioms)

section \<open>Handlers and middlewares\<close>

text \<open>
  A handler that is well behaved from \<open>w0\<close> on: the database evolves, and it either writes a response
  of success or returns an error, not both.
\<close>

definition outcome_ok :: "world \<Rightarrow> httperr option \<times> response \<Rightarrow> world \<Rightarrow> bool" where
  "outcome_ok w0 r w' \<longleftrightarrow> ended w0 w' \<and> (rs_committed (snd r) \<longleftrightarrow> fst r = None) \<and>
     (fst r = None \<longrightarrow> rs_status (snd r) \<in> {200, 201})"

definition handler_ok :: "world \<Rightarrow> http_handler \<Rightarrow> bool" where
  "handler_ok w0 h \<longleftrightarrow> (\<forall>c rs w. good w0 w \<longrightarrow> \<not> rs_committed rs \<longrightarrow> wp (h c rs) (outcome_ok w0) w)"

lemma handler_okI:
  "(\<And>c rs w. good w0 w \<Longrightarrow> \<not> rs_committed rs \<Longrightarrow> wp (h c rs) (outcome_ok w0) w) \<Longrightarrow> handler_ok w0 h"
  by (simp add: handler_ok_def)

lemma handler_okD:
  "handler_ok w0 h \<Longrightarrow> good w0 w \<Longrightarrow> \<not> rs_committed rs \<Longrightarrow> wp (h c rs) (outcome_ok w0) w"
  by (simp add: handler_ok_def)

lemma outcome_error [simp]: "outcome_ok w0 (Some e, rs) w' \<longleftrightarrow> ended w0 w' \<and> \<not> rs_committed rs"
  by (simp add: outcome_ok_def)

lemmas visit_defs = VisitDisableAdminAccountResponse_def VisitReactivateAdminAccountResponse_def
  VisitInviteAdminResponse_def VisitVerifyEmailResponse_def VisitResendEmailVerificationResponse_def
  VisitAcceptInvitationResponse_def VisitLoginResponse_def VisitLogoutResponse_def
  VisitChangePasswordResponse_def VisitRequestPasswordResetResponse_def
  VisitConfirmPasswordResetResponse_def VisitRegisterAccountResponse_def VisitRefreshTokenResponse_def
  json_response_def

lemma visit_ok [simp]: "ended w0 w' \<Longrightarrow> outcome_ok w0 (None, visit obj rs) w'"
  by (cases obj) (simp_all add: visit_defs outcome_ok_def)

lemma strict_result_ok:
  assumes "keeps_db w0 m w" "\<not> rs_committed rs"
  shows "wp (strict_result m rs) (outcome_ok w0) w"
  unfolding strict_result_def wp_bind
  by (rule wp_mono [OF assms(1) [unfolded keeps_db_def]]) (auto simp: assms(2) split: sum.split)

lemma with_body_ok:
  assumes "\<And>v c w. good w0 w \<Longrightarrow> keeps_db w0 (f v c) w"
  shows "handler_ok w0 (with_body E names f)"
  by (rule handler_okI) (auto simp: with_body_def good_ended split: sum.split intro: strict_result_ok assms)

lemma bind_userId_ok:
  assumes "\<And>uid. handler_ok w0 (f uid)"
  shows "handler_ok w0 (bind_userId E f params)"
  by (rule handler_okI)
    (auto simp: bind_userId_def Let_def good_ended split: sum.split intro: handler_okD [OF assms])

lemmas sh_defs = sh_InviteAdmin_def sh_VerifyEmail_def sh_ResendEmailVerification_def
  sh_AcceptInvitation_def sh_Login_def sh_Logout_def sh_ChangePassword_def
  sh_RequestPasswordReset_def sh_ConfirmPasswordReset_def sh_RegisterAccount_def sh_RefreshToken_def

lemma admin_route_ok:
  "handler_ok w0 (sh_DisableAdminAccount X uid)" "handler_ok w0 (sh_ReactivateAdminAccount X uid)"
  by (auto simp: sh_DisableAdminAccount_def sh_ReactivateAdminAccount_def
      intro!: handler_okI strict_result_ok plain_api)

context service
begin

lemma sh_ok:
  assumes "start_ok X w0"
  shows "handler_ok w0 (sh_InviteAdmin E X D)" "handler_ok w0 (sh_VerifyEmail E X D)"
    "handler_ok w0 (sh_ResendEmailVerification E X D)" "handler_ok w0 (sh_AcceptInvitation E X)"
    "handler_ok w0 (sh_Login E X D)" "handler_ok w0 (sh_Logout E X)" "handler_ok w0 (sh_ChangePassword E X)"
    "handler_ok w0 (sh_RequestPasswordReset E X D)" "handler_ok w0 (sh_ConfirmPasswordReset E X)"
    "handler_ok w0 (sh_RegisterAccount E X D)" "handler_ok w0 (sh_RefreshToken E X)"
  using assms unfolding sh_defs start_ok_def by (blast intro: with_body_ok all_api)+

lemma routes_ok:
  assumes "start_ok X w0"
  shows "list_all (\<lambda>(key, h). \<forall>params. handler_ok w0 (h params)) (RegisterHandlers E X D)"
  by (simp add: RegisterHandlers_def wrap_DisableAdminAccount_def wrap_ReactivateAdminAccount_def
      sh_ok [OF assms] bind_userId_ok admin_route_ok)

end

lemma JWTAuth_ok: "handler_ok w0 h \<Longrightarrow> handler_ok w0 (JWTAuth X h)"
  by (rule handler_okI)
    (auto simp: JWTAuth_def Let_def unauthorized_def good_ended split: sum.split intro: handler_okD)

lemma RequireRoles_ok: "handler_ok w0 h \<Longrightarrow> handler_ok w0 (RequireRoles ctx roles h)"
  by (rule handler_okI)
    (auto simp: RequireRoles_def good_ended split: option.split intro: handler_okD)

lemma protected_paths_ok:
  "handler_ok w0 h \<Longrightarrow> list_all (\<lambda>(path, mws). handler_ok w0 (foldr (\<lambda>m. m) mws h)) (protected_paths X)"
  by (simp add: protected_paths_def JWTAuth_ok RequireRoles_ok)

lemma map_of_list_all: "list_all (\<lambda>(k, v). P v) xs \<Longrightarrow> map_of xs k = Some v \<Longrightarrow> P v"
  using map_of_SomeD [of xs k v] by (auto simp: list_all_iff)

lemma echo_apply: "echo_ok E \<Longrightarrow> eo_apply E ms h = foldr (\<lambda>m. m) ms h"
  by (simp add: echo_ok_def)

lemma protected_ok:
  assumes "echo_ok E" "handler_ok w0 h"
  shows "handler_ok w0 (eo_apply E (case map_of (protected_paths X) path of Some mws \<Rightarrow> mws | None \<Rightarrow> []) h)"
  using map_of_list_all [OF protected_paths_ok [OF assms(2)]] assms(2)
  by (simp add: echo_apply [OF assms(1)] split: option.split)

section \<open>Serving\<close>

context service
begin

lemma registered_ok:
  assumes "start_ok X w0" "echo_ok E"
  shows "list_all (\<lambda>(key, h). \<forall>params. handler_ok w0 (h params)) (Register E X D)"
  unfolding Register_def list.pred_map
  by (rule list.pred_mono_strong [OF routes_ok [OF assms(1), of E]])
    (auto simp: router_add_def intro: protected_ok [OF assms(2)])

lemma dispatch_ok:
  assumes "start_ok X w0" "echo_ok E"
  shows "handler_ok w0 (dispatch E X D)"
  by (rule handler_okI)
    (auto simp: dispatch_def good_ended split: sum.split option.split
      intro!: handler_okD dest: map_of_list_all [OF registered_ok [OF assms]])

end

definition logged_status :: "int \<Rightarrow> world \<Rightarrow> bool" where
  "logged_status st w \<longleftrightarrow> (\<exists>e \<in> set (w_log w). l_msg e = ''Request done'' \<and> (''status'', LInt st) \<in> set (l_attrs e))"

definition logged_ok :: "world \<Rightarrow> httperr option \<times> response \<Rightarrow> world \<Rightarrow> bool" where
  "logged_ok w0 r w' \<longleftrightarrow> outcome_ok w0 r w' \<and>
     logged_status (case fst r of None \<Rightarrow> rs_status (snd r) | Some e \<Rightarrow> StatusFromError (Some e)) w'"

lemma wp_randomHex: "wp (randomHex X n) Q w = Q (case rand_read X (w_draws w) n of None \<Rightarrow> '''' | Some b \<Rightarrow> hex_encode b)
    (w\<lparr>w_draws := w_draws w + 1\<rparr>)"
  by (simp add: randomHex_def)

lemma requestLog_ok:
  assumes "handler_ok w0 h" "good w0 w" "\<not> rs_committed rs"
  shows "wp (requestLogMiddleware C debug h c rs) (logged_ok w0) w"
  unfolding requestLogMiddleware_def wp_bind
  by (rule wp_mono [OF handler_okD [OF assms]])
    (auto simp: Let_def logged_ok_def outcome_ok_def logged_status_def split: option.splits)

lemma chain_ok:
  assumes "handler_ok w0 h" "good w0 w" "\<not> rs_committed rs"
  shows "wp (contextMiddleware X (requestLogMiddleware C debug h) c rs) (logged_ok w0) w"
  unfolding contextMiddleware_def
  using assms by (simp add: Let_def wp_randomHex) (auto simp: wp_randomHex intro!: requestLog_ok)

text \<open>A problem response (RFC 9457): its content type, body, instance and \<open>Retry-After\<close>.\<close>

definition is_problem :: "string \<Rightarrow> response \<Rightarrow> bool" where
  "is_problem uri rs \<longleftrightarrow> header_get (rs_headers rs) ''Content-Type'' = ContentTypeProblemJSON \<and>
     (\<exists>p. rs_body rs = Some (problem_json p) \<and> p_Status p = rs_status rs \<and> p_Instance p = uri \<and>
       (\<forall>n. p_RetryAfter p = Some n \<longrightarrow> header_get (rs_headers rs) ''Retry-After'' = int_text n))"

text \<open>Nothing but the log has changed.\<close>

definition log_only :: "world \<Rightarrow> world \<Rightarrow> bool" where
  "log_only w w' \<longleftrightarrow> (\<exists>l. w' = w\<lparr>w_log := w_log w @ l\<rparr>)"

lemma log_only_simps [simp]: "log_only w w" "log_only w (w\<lparr>w_log := w_log w @ l\<rparr>)"
  by (auto simp: log_only_def intro: exI [of _ "[]"])

lemma log_onlyD: "log_only w w' \<Longrightarrow> ended w0 w' = ended w0 w"
  by (auto simp: log_only_def)

definition problem_response :: "Problem \<Rightarrow> response \<Rightarrow> response" where
  "problem_response p rs = write_json (p_Status p) (problem_json p)
     (set_header ''Content-Type'' ContentTypeProblemJSON
       (case p_RetryAfter p of None \<Rightarrow> rs | Some n \<Rightarrow> set_header ''Retry-After'' (int_text n) rs))"

lemma problem_response_ok:
  "is_problem (p_Instance p) (problem_response p rs)"
  "rs_committed (problem_response p rs)" "rs_status (problem_response p rs) = p_Status p"
  "h \<noteq> ''Content-Type'' \<Longrightarrow> h \<noteq> ''Retry-After'' \<Longrightarrow>
     header_get (rs_headers (problem_response p rs)) h = header_get (rs_headers rs) h"
  by (auto simp: problem_response_def is_problem_def split: option.split)

lemma wp_ProblemErrorHandler:
  assumes "\<not> rs_committed rs"
  shows "wp (ProblemErrorHandler e c rs) (\<lambda>rs' w'. rs_committed rs' \<and> is_problem (rq_uri (cx_request c)) rs' \<and>
    rs_status rs' = StatusFromError (Some e) \<and> log_only w w' \<and>
    (\<forall>h. h \<noteq> ''Content-Type'' \<and> h \<noteq> ''Retry-After'' \<longrightarrow>
       header_get (rs_headers rs') h = header_get (rs_headers rs) h)) w"
proof -
  have "wp (ProblemErrorHandler e c rs) (\<lambda>rs' w'. log_only w w' \<and>
      rs' = problem_response ((problem_of e)\<lparr>p_Instance := rq_uri (cx_request c)\<rparr>) rs) w"
    using assms by (cases e) (simp_all add: ProblemErrorHandler_def Let_def problem_response_def)
  then show ?thesis by (rule wp_mono) (auto simp: problem_response_ok
      problem_response_ok(1) [where p = "(problem_of e)\<lparr>p_Instance := rq_uri (cx_request c)\<rparr>", simplified])
qed

lemma logged_status_mono: "log_only w w' \<Longrightarrow> logged_status st w \<Longrightarrow> logged_status st w'"
  by (auto simp: logged_status_def log_only_def)

lemma timeout_status: "timeout_error e \<Longrightarrow> StatusFromError (Some e) = 500"
  by (simp add: timeout_error_def split: httperr.splits)

definition response_ok :: "request \<Rightarrow> world \<Rightarrow> response \<Rightarrow> world \<Rightarrow> bool" where
  "response_ok rq w0 rs w' \<longleftrightarrow> ended w0 w' \<and> rs_committed rs \<and>
     (rs_status rs \<in> {200, 201} \<or> is_problem (rq_uri rq) rs) \<and>
     (logged_status (rs_status rs) w' \<or> rs_status rs = 503 \<and> logged_status 500 w')"

context service
begin

lemma serve_ok:
  assumes "start_ok X w0" "echo_ok E" "good w0 w"
  shows "wp (serve E C debug X D rq) (response_ok rq w0) w"
proof -
  let ?c = "\<lparr>cx_request = rq, cx_claims = None, cx_client_ip = '''', cx_request_id = ''''\<rparr>"
  let ?rs = "\<lparr>rs_committed = False, rs_status = 200, rs_headers = [], rs_body = None\<rparr>"
  have recover: "eo_recover E h = h" for h using assms(2) by (simp add: echo_ok_def)
  obtain f where f: "\<And>e. \<not> timeout_error e \<Longrightarrow> f e = e" "\<And>e. timeout_error e \<Longrightarrow> StatusFromError (Some (f e)) = 503"
    "\<And>h c rs. eo_timeout E h c rs = do { (err, rs') \<leftarrow> h c rs; ret (map_option f err, rs') }"
    using assms(2) unfolding echo_ok_def by blast
  have err: "wp (ProblemErrorHandler (f e) ?c rs) (response_ok rq w0) w'"
    if "logged_ok w0 (Some e, rs) w'" for e rs w'
  proof (rule wp_mono [OF wp_ProblemErrorHandler])
    show "\<not> rs_committed rs" using that by (simp add: logged_ok_def)
    fix rs' w''
    assume *: "rs_committed rs' \<and> is_problem (rq_uri (cx_request ?c)) rs' \<and>
      rs_status rs' = StatusFromError (Some (f e)) \<and> log_only w' w'' \<and>
      (\<forall>h. h \<noteq> ''Content-Type'' \<and> h \<noteq> ''Retry-After'' \<longrightarrow> header_get (rs_headers rs') h = header_get (rs_headers rs) h)"
    then have r: "rs_committed rs'" "is_problem (rq_uri rq) rs'" "rs_status rs' = StatusFromError (Some (f e))"
      "log_only w' w''" by simp_all
    have l: "ended w0 w''" "logged_status (StatusFromError (Some e)) w''"
      using that logged_status_mono [OF r(4)] log_onlyD [OF r(4)] by (simp_all add: logged_ok_def)
    show "response_ok rq w0 rs' w''"
      using r l f(1,2) [of e] timeout_status [of e] by (cases "timeout_error e") (simp_all add: response_ok_def)
  qed
  show ?thesis
    unfolding serve_def Let_def echo_apply [OF assms(2)] NewEcho_def
    by (simp add: recover f(3) split_beta)
      (rule wp_mono [OF chain_ok [OF dispatch_ok [OF assms(1,2)] assms(3)]],
        auto simp: response_ok_def logged_ok_def outcome_ok_def split: option.split intro: err)
qed

end

section \<open>Protected routes\<close>

text \<open>The claims of the access token a request presents, if it presents a valid one.\<close>

definition presented :: "ext \<Rightarrow> time \<Rightarrow> request \<Rightarrow> AuthClaims option" where
  "presented X t rq =
     (let token = bearer_token (header_get (rq_headers rq) ''Authorization'') in
      if token = '''' then None
      else case VerifyAccessToken X t token of Inl _ \<Rightarrow> None | Inr cl \<Rightarrow> Some cl)"

definition untouched :: "world \<Rightarrow> world \<Rightarrow> bool" where
  "untouched w w' \<longleftrightarrow> w_db w' = w_db w \<and> w_redis w' = w_redis w \<and> w_mail w' = w_mail w \<and>
     w_tx w' = w_tx w \<and> w_now w' = w_now w \<and> w_env w' = w_env w"

lemma untouched_simps [simp]:
  "untouched w w" "untouched w (w'\<lparr>w_log := l\<rparr>) = untouched w w'" "untouched w (w'\<lparr>w_draws := n\<rparr>) = untouched w w'"
  by (auto simp: untouched_def)

lemma untouched_log_only: "log_only w' w'' \<Longrightarrow> untouched w w'' = untouched w w'"
  by (auto simp: log_only_def)

definition protected_keys :: "(string \<times> string) list" where
  "protected_keys =
     [(''POST'', ''/auth/logout''), (''PUT'', ''/auth/password''), (''POST'', ''/admin/invitations''),
      (''POST'', ''/admin/accounts/:userId/disable''), (''POST'', ''/admin/accounts/:userId/reactivate'')]"

definition admin_keys :: "(string \<times> string) list" where
  "admin_keys = drop 2 protected_keys"

lemma router_add_lookup:
  "map_of (map (router_add E P) rs) (verb, path) = map_option (\<lambda>h params. eo_apply E
      (case map_of P path of Some mws \<Rightarrow> mws | None \<Rightarrow> []) (h params)) (map_of rs (verb, path))"
  by (induction rs) (auto simp: router_add_def)

lemma protected_lookup:
  "map_of (protected_paths X) ''/auth/logout'' = Some [JWTAuth X]"
  "map_of (protected_paths X) ''/auth/password'' = Some [JWTAuth X]"
  "map_of (protected_paths X) ''/admin/invitations'' = Some [JWTAuth X, RequireRoles ''admin_invitation'' [RoleSuperAdmin]]"
  "map_of (protected_paths X) ''/admin/accounts/:userId/disable'' =
     Some [JWTAuth X, RequireRoles ''account_disable'' [RoleSuperAdmin]]"
  "map_of (protected_paths X) ''/admin/accounts/:userId/reactivate'' =
     Some [JWTAuth X, RequireRoles ''account_reactivate'' [RoleSuperAdmin]]"
  by (simp_all add: protected_paths_def)

lemma handler_lookup:
  "map_of (RegisterHandlers E X D) (''POST'', ''/auth/logout'') = Some (\<lambda>_. sh_Logout E X)"
  "map_of (RegisterHandlers E X D) (''PUT'', ''/auth/password'') = Some (\<lambda>_. sh_ChangePassword E X)"
  "map_of (RegisterHandlers E X D) (''POST'', ''/admin/invitations'') = Some (\<lambda>_. sh_InviteAdmin E X D)"
  "map_of (RegisterHandlers E X D) (''POST'', ''/admin/accounts/:userId/disable'') =
     Some (wrap_DisableAdminAccount E X)"
  "map_of (RegisterHandlers E X D) (''POST'', ''/admin/accounts/:userId/reactivate'') =
     Some (wrap_ReactivateAdminAccount E X)"
  by (simp_all add: RegisterHandlers_def)

lemma protected_route:
  assumes "key \<in> set protected_keys"
  shows "\<exists>ms h. map_of (Register E X D) key = Some (\<lambda>params. eo_apply E (JWTAuth X # ms) (h params))"
  using assms unfolding protected_keys_def Register_def list.set insert_iff empty_iff
  by (elim disjE FalseE; hypsubst_thin)
    (simp only: router_add_lookup protected_lookup handler_lookup option.case option.map; intro exI; rule refl)+

lemma admin_route:
  assumes "key \<in> set admin_keys"
  shows "\<exists>ctx h. map_of (Register E X D) key =
    Some (\<lambda>params. eo_apply E [JWTAuth X, RequireRoles ctx [RoleSuperAdmin]] (h params))"
proof -
  have "key \<in> set [(''POST'', ''/admin/invitations''),
     (''POST'', ''/admin/accounts/:userId/disable''), (''POST'', ''/admin/accounts/:userId/reactivate'')]"
    using assms by (simp add: admin_keys_def protected_keys_def)
  then show ?thesis
    unfolding Register_def list.set insert_iff empty_iff
    by (elim disjE FalseE; hypsubst_thin)
      (simp only: router_add_lookup protected_lookup handler_lookup option.case option.map; intro exI; rule refl)+
qed

lemma JWTAuth_refused:
  assumes "presented X (w_now w) (cx_request c) = None"
  shows "wp (JWTAuth X h c rs) (\<lambda>r w'. r = (Some access_token_invalid, set_header ''WWW-Authenticate'' ''Bearer'' rs) \<and>
    log_only w w') w"
  using assms
  by (auto simp: presented_def JWTAuth_def Let_def unauthorized_def access_token_invalid_def split: sum.splits if_splits)

lemma JWTAuth_accepted:
  assumes "presented X (w_now w) (cx_request c) = Some cl"
  shows "wp (JWTAuth X h c rs) Q w = wp (h (c\<lparr>cx_claims := Some cl\<rparr>) rs) Q w"
  using assms by (auto simp: presented_def JWTAuth_def Let_def split: sum.splits if_splits)

lemma RequireRoles_refused:
  assumes "cx_claims c = Some cl" "set (Roles cl) \<inter> set roles = {}"
  shows "wp (RequireRoles ctx roles h c rs) (\<lambda>r w'. r = (Some (NewProblemError 403 ''forbidden'' DetailForbidden), rs) \<and>
    log_only w w') w"
  using assms by (auto simp: RequireRoles_def list_ex_iff)

text \<open>A request that the route refuses before its use case starts.\<close>

lemma serve_refused:
  assumes "echo_ok E" and g: "\<And>rs. rs_committed (g rs) = rs_committed rs"
    and "\<And>c rs w1. cx_request c = rq \<Longrightarrow> untouched w w1 \<Longrightarrow>
      wp (dispatch E X D c rs) (\<lambda>r w'. r = (Some (ProblemError p), g rs) \<and> log_only w1 w') w1"
  shows "wp (serve E C debug X D rq) (\<lambda>rs w'. rs_committed rs \<and> rs_status rs = p_Status p \<and> untouched w w' \<and>
    (\<exists>rs0. \<forall>h. h \<noteq> ''Content-Type'' \<and> h \<noteq> ''Retry-After'' \<longrightarrow> header_get (rs_headers rs) h = header_get (rs_headers (g rs0)) h)) w"
proof -
  have recover: "eo_recover E h = h" for h using assms(1) by (simp add: echo_ok_def)
  obtain f where f: "\<And>e. \<not> timeout_error e \<Longrightarrow> f e = e"
    "\<And>h c rs. eo_timeout E h c rs = do { (err, rs') \<leftarrow> h c rs; ret (map_option f err, rs') }"
    using assms(1) unfolding echo_ok_def by blast
  have fp: "f (ProblemError p) = ProblemError p" by (rule f(1)) (simp add: timeout_error_def)
  have log: "wp (requestLogMiddleware C debug (dispatch E X D) c rs)
      (\<lambda>r w'. r = (Some (ProblemError p), g rs) \<and> untouched w w') w1"
    if "cx_request c = rq" "untouched w w1" for c rs w1
    unfolding requestLogMiddleware_def wp_bind
    by (rule wp_mono [OF assms(3) [OF that]]) (auto simp: Let_def untouched_log_only that(2))
  have ctx: "wp (contextMiddleware X (requestLogMiddleware C debug (dispatch E X D)) c rs)
      (\<lambda>r w'. (\<exists>rs0. r = (Some (ProblemError p), g rs0) \<and> rs_committed rs0 = rs_committed rs) \<and> untouched w w') w"
    if "cx_request c = rq" for c rs
    unfolding contextMiddleware_def Let_def
    using that by (auto simp: wp_randomHex intro!: wp_mono [OF log])
  show ?thesis
    unfolding serve_def Let_def echo_apply [OF assms(1)] NewEcho_def
    by (simp add: recover f(2) split_beta)
      (rule wp_mono [OF ctx], simp, elim conjE exE, simp add: fp,
        rule wp_mono [OF wp_ProblemErrorHandler], simp add: g, elim conjE, simp add: untouched_log_only, blast)
qed

lemma access_token_invalid_problem: "\<exists>p. access_token_invalid = ProblemError p \<and> p_Status p = 401"
  by (simp add: access_token_invalid_def NewProblemError_def)

lemma forbidden_problem: "\<exists>p. NewProblemError 403 ''forbidden'' DetailForbidden = ProblemError p \<and> p_Status p = 403"
  by (simp add: NewProblemError_def)

lemma dispatch_route:
  assumes "eo_route E (map fst (Register E X D)) (cx_request c) = Inr (key, params)"
    and "map_of (Register E X D) key = Some h"
  shows "dispatch E X D c rs = h params c rs"
  using assms by (simp add: dispatch_def)

lemma serve_unauthorized:
  assumes "echo_ok E" "eo_route E (map fst (Register E X D)) rq = Inr (key, params)" "key \<in> set protected_keys"
    and "presented X (w_now w) rq = None"
  shows "wp (serve E C debug X D rq) (\<lambda>rs w'. rs_committed rs \<and> rs_status rs = 401 \<and>
    header_get (rs_headers rs) ''WWW-Authenticate'' = ''Bearer'' \<and> untouched w w') w"
proof -
  obtain p where p: "access_token_invalid = ProblemError p" "p_Status p = 401"
    using access_token_invalid_problem by blast
  obtain ms h where h: "map_of (Register E X D) key = Some (\<lambda>params. eo_apply E (JWTAuth X # ms) (h params))"
    using protected_route [OF assms(3), of E X D] by blast
  have "wp (dispatch E X D c rs) (\<lambda>r w'. r = (Some (ProblemError p), set_header ''WWW-Authenticate'' ''Bearer'' rs) \<and>
      log_only w1 w') w1" if "cx_request c = rq" "untouched w w1" for c rs w1
    using that assms(4) JWTAuth_refused [of X w1 c]
    by (subst dispatch_route [OF _ h, where params = params])
      (simp_all add: assms(2) echo_apply [OF assms(1)] p(1) untouched_def)
  from serve_refused [where g = "set_header ''WWW-Authenticate'' ''Bearer''", OF assms(1) _ this]
  show ?thesis
    by (rule wp_mono) (simp_all, elim conjE exE, drule spec [of _ "''WWW-Authenticate''"], simp add: p(2))
qed

lemma serve_forbidden:
  assumes "echo_ok E" "eo_route E (map fst (Register E X D)) rq = Inr (key, params)" "key \<in> set admin_keys"
    and "presented X (w_now w) rq = Some cl" "RoleSuperAdmin \<notin> set (Roles cl)"
  shows "wp (serve E C debug X D rq) (\<lambda>rs w'. rs_committed rs \<and> rs_status rs = 403 \<and> untouched w w') w"
proof -
  obtain p where p: "NewProblemError 403 ''forbidden'' DetailForbidden = ProblemError p" "p_Status p = 403"
    using forbidden_problem by blast
  obtain ctx h where h: "map_of (Register E X D) key =
      Some (\<lambda>params. eo_apply E [JWTAuth X, RequireRoles ctx [RoleSuperAdmin]] (h params))"
    using admin_route [OF assms(3), of E X D] by blast
  have "wp (dispatch E X D c rs) (\<lambda>r w'. r = (Some (ProblemError p), rs) \<and> log_only w1 w') w1"
    if "cx_request c = rq" "untouched w w1" for c rs w1
    using that assms(4,5) RequireRoles_refused [of "c\<lparr>cx_claims := Some cl\<rparr>" cl "[RoleSuperAdmin]"]
    by (subst dispatch_route [OF _ h, where params = params])
      (simp_all add: assms(2) echo_apply [OF assms(1)] p(1) untouched_def JWTAuth_accepted [where cl = cl])
  from serve_refused [where g = "\<lambda>rs. rs", OF assms(1) _ this]
  show ?thesis by (rule wp_mono) (simp_all add: p(2))
qed

end
