(* ===== verification/ClientServer.thy ===== *)
theory ClientServer
  imports ClientResponses Answers Serving
begin

text \<open>
  The client and the server together: what the server writes, the client reads. Both were generated
  from one document (\<open>openapi.yaml\<close>), but the server answers errors with problem documents of its own
  (\<open>common/http/problem.go\<close>), so that they agree is a property of the code. The network is taken to
  deliver requests and responses as they are (\<open>over_wire\<close>).
\<close>

section \<open>Texts and documents\<close>

text \<open>\<open>utf8.ValidString\<close>, and JSON values that \<open>encoding/json\<close> writes without replacing anything.\<close>

function valid_utf8 :: "string \<Rightarrow> bool" where
  "valid_utf8 [] = True"
| "valid_utf8 (c # s) = (case rune_len (c # s) of None \<Rightarrow> False | Some n \<Rightarrow> valid_utf8 (drop n (c # s)))"
  by pat_completeness auto
termination
  by (relation "measure length") (auto dest: rune_len_bounds)

declare valid_utf8.simps(2) [simp del]

lemma valid_utf8_ascii_Cons: "byte c < 0x80 \<Longrightarrow> valid_utf8 (c # s) = valid_utf8 s"
  by (simp add: valid_utf8.simps(2) rune_len_ascii)

lemma valid_utf8_ascii: "\<forall>c \<in> set s. byte c < 0x80 \<Longrightarrow> valid_utf8 s"
  by (induction s) (simp_all add: valid_utf8_ascii_Cons)

fun utf8_json :: "json \<Rightarrow> bool" where
  "utf8_json (JStr s) \<longleftrightarrow> valid_utf8 s"
| "utf8_json (JNum t) \<longleftrightarrow> (case parse_int t of None \<Rightarrow> False | Some n \<Rightarrow> t = int_text n)"
| "utf8_json (JArr js) \<longleftrightarrow> (\<forall>j \<in> set js. utf8_json j)"
| "utf8_json (JObj ms) \<longleftrightarrow> distinct (map fst ms) \<and> (\<forall>(k, j) \<in> set ms. valid_utf8 k \<and> utf8_json j)"
| "utf8_json _ \<longleftrightarrow> True"

definition newline :: string where "newline = [char_of (10 :: nat)]"

text \<open>What is relied on of \<open>encoding/json\<close>: such values are read back, also with a line feed at the end.\<close>

definition codec_reads :: "codec \<Rightarrow> bool" where
  "codec_reads C \<longleftrightarrow> (\<forall>j. utf8_json j \<longrightarrow> (\<exists>t. json_marshal C j = Some t \<and> json_unmarshal C t = Some j \<and>
     json_unmarshal C (t @ newline) = Some j))"

section \<open>The wire\<close>

text \<open>The reason phrase \<open>net/http\<close> puts in the status line.\<close>

definition reason_phrase :: "int \<Rightarrow> string" where
  "reason_phrase code = (if code = 200 then ''OK'' else if code = 201 then ''Created'' else StatusText code)"

text \<open>A response as the client receives it; \<open>json.Encoder\<close> ends a document with a line feed.\<close>

definition delivered :: "codec \<Rightarrow> response \<Rightarrow> http_response" where
  "delivered C rs =
     \<lparr>hr_Status = int_text (rs_status rs) @ '' '' @ reason_phrase (rs_status rs), hr_status = rs_status rs, hr_headers = rs_headers rs,
      hr_body = Inr (case rs_body rs of None \<Rightarrow> ''''
        | Some j \<Rightarrow> (case json_marshal C j of None \<Rightarrow> '''' | Some t \<Rightarrow> t @ newline))\<rparr>"

definition received :: "string \<Rightarrow> client_request \<Rightarrow> request" where
  "received ip req =
     \<lparr>rq_method = cr_method req, rq_uri = ur_path (cr_url req), rq_headers = cr_headers req,
      rq_body = cr_body req, rq_real_ip = ip\<rparr>"

definition over_wire :: "echo \<Rightarrow> codec \<Rightarrow> bool \<Rightarrow> ext \<Rightarrow> deps \<Rightarrow> string \<Rightarrow> doer" where
  "over_wire E C debug X D ip req = do { rs \<leftarrow> serve E C debug X D (received ip req); succeed (delivered C rs) }"

lemma delivered_json:
  assumes "codec_reads C" "utf8_json j" "rs_body rs = Some j"
  shows "\<exists>t. hr_body (delivered C rs) = Inr t \<and> json_unmarshal C t = Some j"
  using assms unfolding codec_reads_def by (fastforce simp: delivered_def)

section \<open>Problems\<close>

lemma present_problem_valid:
  assumes "\<And>s. s \<in> {p_Type p, p_Title p, p_Detail p, p_Instance p, p_ErrorCode p, p_RevocationReason p} \<Longrightarrow> valid_utf8 s"
    and "int64 (p_Status p)" "\<And>n. p_RetryAfter p = Some n \<Longrightarrow> int64 n"
  shows "utf8_json (problem_json p)"
proof -
  have num: "utf8_json (JNum (int_text n))" if "int64 n" for n
    using that by (simp add: parse_int_text int64_def)
  have ascii: "valid_utf8 k"
    if "k \<in> {''type'', ''title'', ''status'', ''detail'', ''instance'', ''retry_after'', ''error_code'', ''revocation_reason''}" for k
    using that by (auto intro!: valid_utf8_ascii)
  show ?thesis
    using assms num [OF assms(2)] num [OF assms(3)] ascii
    by (auto simp: problem_json_def nonempty_def split: option.split simp del: utf8_json.simps(2))
qed

section \<open>Errors of the use cases\<close>

text \<open>
  Each operation with the problem its handler makes of an error, the statuses \<open>openapi.yaml\<close> declares
  for problems, and the problems its typed response has.
\<close>

datatype operation =
    Op_DisableAdminAccount
  | Op_ReactivateAdminAccount
  | Op_InviteAdmin
  | Op_VerifyEmail
  | Op_ResendEmailVerification
  | Op_AcceptInvitation
  | Op_Login
  | Op_Logout
  | Op_ChangePassword
  | Op_RequestPasswordReset
  | Op_ConfirmPasswordReset
  | Op_RegisterAccount
  | Op_RefreshToken

fun error_of :: "operation \<Rightarrow> goerr \<Rightarrow> httperr" where
  "error_of Op_DisableAdminAccount = disable_error"
| "error_of Op_ReactivateAdminAccount = reactivate_error"
| "error_of Op_InviteAdmin = invite_error"
| "error_of Op_VerifyEmail = verify_error"
| "error_of Op_ResendEmailVerification = resend_error"
| "error_of Op_AcceptInvitation = accept_error"
| "error_of Op_Login = login_error"
| "error_of Op_Logout = logout_error"
| "error_of Op_ChangePassword = change_password_error"
| "error_of Op_RequestPasswordReset = request_reset_error"
| "error_of Op_ConfirmPasswordReset = confirm_reset_error"
| "error_of Op_RegisterAccount = register_error"
| "error_of Op_RefreshToken = refresh_error"

fun declared :: "operation \<Rightarrow> int list" where
  "declared Op_DisableAdminAccount = [400, 401, 403, 404, 409, 500]"
| "declared Op_ReactivateAdminAccount = [400, 401, 403, 404, 409, 500]"
| "declared Op_InviteAdmin = [400, 401, 403, 409, 429, 503]"
| "declared Op_VerifyEmail = [400, 429]"
| "declared Op_ResendEmailVerification = [429, 503]"
| "declared Op_AcceptInvitation = [400, 409, 500]"
| "declared Op_Login = [400, 401, 403, 429]"
| "declared Op_Logout = [400, 401]"
| "declared Op_ChangePassword = [400, 401, 403, 500]"
| "declared Op_RequestPasswordReset = [400, 429, 503]"
| "declared Op_ConfirmPasswordReset = [400, 500]"
| "declared Op_RegisterAccount = [400, 429, 503]"
| "declared Op_RefreshToken = [401]"

fun problems_of :: "operation \<Rightarrow> client_lib \<Rightarrow> codec \<Rightarrow> http_response \<Rightarrow> goerr + (int \<Rightarrow> ClientProblem option)" where
  "problems_of Op_DisableAdminAccount L C rsp = map_sum id tr_ProblemJSON (ParseDisableAdminAccountResponse L C rsp)"
| "problems_of Op_ReactivateAdminAccount L C rsp = map_sum id tr_ProblemJSON (ParseReactivateAdminAccountResponse L C rsp)"
| "problems_of Op_InviteAdmin L C rsp = map_sum id tr_ProblemJSON (ParseInviteAdminResponse L C rsp)"
| "problems_of Op_VerifyEmail L C rsp = map_sum id tr_ProblemJSON (ParseVerifyEmailResponse L C rsp)"
| "problems_of Op_ResendEmailVerification L C rsp = map_sum id tr_ProblemJSON (ParseResendEmailVerificationResponse L C rsp)"
| "problems_of Op_AcceptInvitation L C rsp = map_sum id tr_ProblemJSON (ParseAcceptInvitationResponse L C rsp)"
| "problems_of Op_Login L C rsp = map_sum id tr_ProblemJSON (ParseLoginResponse L C rsp)"
| "problems_of Op_Logout L C rsp = map_sum id tr_ProblemJSON (ParseLogoutResponse L C rsp)"
| "problems_of Op_ChangePassword L C rsp = map_sum id tr_ProblemJSON (ParseChangePasswordResponse L C rsp)"
| "problems_of Op_RequestPasswordReset L C rsp = map_sum id tr_ProblemJSON (ParseRequestPasswordResetResponse L C rsp)"
| "problems_of Op_ConfirmPasswordReset L C rsp = map_sum id tr_ProblemJSON (ParseConfirmPasswordResetResponse L C rsp)"
| "problems_of Op_RegisterAccount L C rsp = map_sum id tr_ProblemJSON (ParseRegisterAccountResponse L C rsp)"
| "problems_of Op_RefreshToken L C rsp = map_sum id tr_ProblemJSON (ParseRefreshTokenResponse L C rsp)"

lemmas error_defs = disable_error_def reactivate_error_def invite_error_def verify_error_def resend_error_def accept_error_def login_error_def logout_error_def change_password_error_def request_reset_error_def confirm_reset_error_def register_error_def refresh_error_def
  rate_limit_exceeded_def internal_error_def

text \<open>The texts are UTF-8: they have runes of one and of three bytes.\<close>

lemma valid_bytes:
  "valid_utf8 (bytes [])"
  "a < 0x80 \<Longrightarrow> valid_utf8 (bytes (a # bs)) = valid_utf8 (bytes bs)"
  "0xE1 \<le> a \<Longrightarrow> a \<le> 0xEF \<Longrightarrow> a \<noteq> 0xED \<Longrightarrow> 0x80 \<le> b \<Longrightarrow> b \<le> 0xBF \<Longrightarrow> 0x80 \<le> c \<Longrightarrow> c \<le> 0xBF \<Longrightarrow>
     valid_utf8 (bytes (a # b # c # bs)) = valid_utf8 (bytes bs)"
  by (simp_all add: bytes_def valid_utf8_ascii_Cons byte_char_of valid_utf8.simps(2) rune_len.simps cont_byte_def)

lemma details_valid:
  "valid_utf8 DetailBodyRequired"
  "valid_utf8 DetailEmailFormat"
  "valid_utf8 DetailPasswordLength"
  "valid_utf8 DetailPasswordBytes"
  "valid_utf8 DetailRegisterRate"
  "valid_utf8 DetailConfirmMailFailed"
  "valid_utf8 DetailTokenRequired"
  "valid_utf8 DetailVerifyTokenInvalid"
  "valid_utf8 DetailVerifyTokenExpired"
  "valid_utf8 DetailVerifyRate"
  "valid_utf8 DetailResetRate"
  "valid_utf8 DetailResetMailFailed"
  "valid_utf8 DetailInvitationInvalid"
  "valid_utf8 DetailInvitationExpired"
  "valid_utf8 DetailEmailRegistered"
  "valid_utf8 DetailInternal"
  "valid_utf8 DetailInviteRate"
  "valid_utf8 DetailAdminRoleOnly"
  "valid_utf8 DetailRoleAssigned"
  "valid_utf8 DetailInviteMailFailed"
  "valid_utf8 DetailAccessTokenInvalid"
  "valid_utf8 DetailUserMissing"
  "valid_utf8 DetailNotAdmin"
  "valid_utf8 DetailAlreadyDisabled"
  "valid_utf8 DetailLastSuperAdmin"
  "valid_utf8 DetailNotDisabled"
  "valid_utf8 DetailResetInvalid"
  "valid_utf8 DetailResetExpired"
  "valid_utf8 DetailLocked"
  "valid_utf8 DetailAuthFailed"
  "valid_utf8 DetailEmailUnverified"
  "valid_utf8 DetailAccountDisabled"
  "valid_utf8 DetailRefreshInvalid"
  "valid_utf8 DetailRefreshExpired"
  "valid_utf8 DetailSessionRevoked"
  "valid_utf8 DetailRefreshRequired"
  "valid_utf8 DetailPasswordMismatch"
  "valid_utf8 DetailForbidden"
  by (simp_all add: valid_bytes DetailBodyRequired_def DetailEmailFormat_def DetailPasswordLength_def DetailPasswordBytes_def DetailRegisterRate_def DetailConfirmMailFailed_def DetailTokenRequired_def DetailVerifyTokenInvalid_def DetailVerifyTokenExpired_def DetailVerifyRate_def DetailResetRate_def DetailResetMailFailed_def DetailInvitationInvalid_def DetailInvitationExpired_def DetailEmailRegistered_def DetailInternal_def DetailInviteRate_def DetailAdminRoleOnly_def DetailRoleAssigned_def DetailInviteMailFailed_def DetailAccessTokenInvalid_def DetailUserMissing_def DetailNotAdmin_def DetailAlreadyDisabled_def DetailLastSuperAdmin_def DetailNotDisabled_def DetailResetInvalid_def DetailResetExpired_def DetailLocked_def DetailAuthFailed_def DetailEmailUnverified_def DetailAccountDisabled_def DetailRefreshInvalid_def DetailRefreshExpired_def DetailSessionRevoked_def DetailRefreshRequired_def DetailPasswordMismatch_def DetailForbidden_def)

fun clean :: "httperr \<Rightarrow> bool" where
  "clean (ProblemError p) \<longleftrightarrow> valid_utf8 (p_Type p) \<and> valid_utf8 (p_Title p) \<and> valid_utf8 (p_Detail p) \<and>
     valid_utf8 (p_Instance p) \<and> valid_utf8 (p_ErrorCode p) \<and> valid_utf8 (p_RevocationReason p) \<and>
     int64 (p_Status p) \<and> (\<forall>n. p_RetryAfter p = Some n \<longrightarrow> int64 n)"
| "clean (OtherError e) \<longleftrightarrow> True"
| "clean (HTTPError code msg text) \<longleftrightarrow> int64 code \<and> (\<forall>m. msg = Some m \<longrightarrow> valid_utf8 m)"

lemma valid_utf8_append_ascii: "\<forall>c \<in> set s. byte c < 0x80 \<Longrightarrow> valid_utf8 (s @ t) = valid_utf8 t"
  by (induction s) (simp_all add: valid_utf8_ascii_Cons)

lemma StatusText_valid: "valid_utf8 (StatusText st)"
  by (simp add: StatusText_def valid_utf8_ascii_Cons)

lemma clean_new [simp]:
  "clean (NewProblemError st slug detail) \<longleftrightarrow> valid_utf8 slug \<and> valid_utf8 detail \<and> int64 st"
proof -
  have "valid_utf8 (ProblemTypeBase @ slug) = valid_utf8 slug"
    by (rule valid_utf8_append_ascii) (simp add: ProblemTypeBase_def)
  then show ?thesis by (simp add: NewProblemError_def StatusText_valid)
qed

lemma clean_with [simp]:
  "clean e \<Longrightarrow> int64 n \<Longrightarrow> clean (WithRetryAfter e n)" "clean e \<Longrightarrow> valid_utf8 s \<Longrightarrow> clean (WithErrorCode e s)"
  "clean e \<Longrightarrow> valid_utf8 s \<Longrightarrow> clean (WithRevocationReason e s)"
  by (cases e; simp)+

lemma status_with [simp]:
  "StatusFromError (Some (NewProblemError st slug detail)) = st"
  "StatusFromError (Some (WithRetryAfter e n)) = StatusFromError (Some e)"
  "StatusFromError (Some (WithErrorCode e s)) = StatusFromError (Some e)"
  "StatusFromError (Some (WithRevocationReason e s)) = StatusFromError (Some e)"
  by (simp add: NewProblemError_def) (cases e; simp)+

text \<open>Durations have 64 bits and reasons are texts.\<close>

definition err_ok :: "goerr \<Rightarrow> bool" where
  "err_ok err \<longleftrightarrow> (\<forall>d. err_as_rate_limited err = Some d \<or> err_as_locked err = Some d \<longrightarrow> int64 d) \<and>
     (\<forall>r. err_as_revoked err = Some r \<longrightarrow> valid_utf8 r)"

lemma int64_ceil: "int64 d \<Longrightarrow> int64 (ceil_seconds d)"
  unfolding int64_def ceil_seconds_def Second_def by auto

lemma error_declared:
  assumes "err_ok err"
  shows "clean (error_of op err)"
    and "StatusFromError (Some (error_of op err)) = 500 \<or> StatusFromError (Some (error_of op err)) \<in> set (declared op)"
proof -
  have "int64 400" "int64 401" "int64 403" "int64 404" "int64 409" "int64 429" "int64 500" "int64 503"
    by (simp_all add: int64_def)
  then show "clean (error_of op err)"
    using assms
    by (cases op) (auto simp: error_defs details_valid valid_utf8_ascii_Cons err_ok_def int64_ceil split: option.split)
  show "StatusFromError (Some (error_of op err)) = 500 \<or> StatusFromError (Some (error_of op err)) \<in> set (declared op)"
    by (cases op) (simp_all add: error_defs split: option.split)
qed

section \<open>What the client makes of a problem\<close>

definition only :: "int \<Rightarrow> ClientProblem \<Rightarrow> int \<Rightarrow> ClientProblem option" where
  "only st p = (\<lambda>_. None)(st := Some p)"

lemma problem_content_type: "str_contains ContentTypeProblemJSON ''json''"
  by code_simp

lemma parse_problem:
  assumes "codec_reads C" "utf8_json (problem_json p)" "int64 (p_Status p)" "\<And>n. p_RetryAfter p = Some n \<Longrightarrow> int64 n"
    and "p_Status p \<noteq> 200"
  shows "map_sum id tr_ProblemJSON (parse_response L C dec sts (delivered C (problem_response p rs))) =
    Inr (if p_Status p \<in> set sts then only (p_Status p) (client_problem p) else (\<lambda>_. None))"
proof -
  have body: "rs_body (problem_response p rs) = Some (problem_json p)" by (simp add: problem_response_def)
  obtain t where t: "hr_body (delivered C (problem_response p rs)) = Inr t" "json_unmarshal C t = Some (problem_json p)"
    using delivered_json [OF assms(1,2) body] by blast
  have "header_get (hr_headers (delivered C (problem_response p rs))) ''Content-Type'' = ContentTypeProblemJSON"
    "hr_status (delivered C (problem_response p rs)) = p_Status p"
    by (simp_all add: delivered_def problem_response_def)
  then show ?thesis
    using t decode_problem [OF assms(3,4)] assms(5)
    by (simp add: parse_response_def Let_def problem_content_type unmarshal_into_def only_def)
qed

lemma problems_of_problem:
  assumes "codec_reads C" "utf8_json (problem_json p)" "int64 (p_Status p)" "\<And>n. p_RetryAfter p = Some n \<Longrightarrow> int64 n"
    and "p_Status p \<noteq> 200"
  shows "problems_of op L C (delivered C (problem_response p rs)) =
    Inr (if p_Status p \<in> set (declared op) then only (p_Status p) (client_problem p) else (\<lambda>_. None))"
  by (cases op) (simp_all only: problems_of.simps declared.simps parse_defs parse_problem [OF assms])

lemma wp_ProblemErrorHandler_response:
  assumes "\<not> rs_committed rs"
  shows "wp (ProblemErrorHandler e c rs)
    (\<lambda>rs' w'. rs' = problem_response ((problem_of e)\<lparr>p_Instance := rq_uri (cx_request c)\<rparr>) rs) w"
  using assms by (cases e) (simp_all add: ProblemErrorHandler_def Let_def problem_response_def)

lemma clean_problem:
  assumes "clean e" "valid_utf8 uri"
  shows "utf8_json (problem_json ((problem_of e)\<lparr>p_Instance := uri\<rparr>))" "int64 (p_Status (problem_of e))"
    "\<And>n. p_RetryAfter (problem_of e) = Some n \<Longrightarrow> int64 n"
proof -
  have "valid_utf8 ''about:blank''" "valid_utf8 ''''" "int64 500" "valid_utf8 (ProblemTypeBase @ ''validation-error'')"
    by (simp_all add: valid_utf8_ascii_Cons int64_def ProblemTypeBase_def)
  then have "clean (ProblemError ((problem_of e)\<lparr>p_Instance := uri\<rparr>))"
    using assms by (cases e) (auto simp: problem_of_def Let_def StatusText_valid split: option.split)
  then show "utf8_json (problem_json ((problem_of e)\<lparr>p_Instance := uri\<rparr>))" "int64 (p_Status (problem_of e))"
    "\<And>n. p_RetryAfter (problem_of e) = Some n \<Longrightarrow> int64 n"
    by (auto intro!: present_problem_valid simp del: problem_of_status)
qed

lemma error_not_200: "StatusFromError (Some (error_of op err)) \<noteq> 200"
proof -
  have "200 \<notin> set (declared op)" by (cases op) simp_all
  moreover have "StatusFromError (Some (error_of op err)) = 500 \<or> StatusFromError (Some (error_of op err)) \<in> set (declared op)"
    by (cases op) (simp_all add: error_defs split: option.split)
  ultimately show ?thesis by auto
qed

text \<open>
  What is relied on of \<open>middleware.ContextTimeout\<close>, beyond \<open>echo_ok\<close>: an error that says that the deadline
  is exceeded is replaced by \<open>echo.ErrServiceUnavailable\<close>, whose message is the text of status 503.
\<close>

definition times_out :: "echo \<Rightarrow> bool" where
  "times_out E \<longleftrightarrow> (\<exists>reason. \<forall>h c rs. eo_timeout E h c rs = do { (err, rs') \<leftarrow> h c rs;
     ret (map_option (\<lambda>e. if timeout_error e then HTTPError 503 (Some ''Service Unavailable'') (reason e) else e) err, rs') })"

text \<open>The error the error handler gets to see, and the status it writes.\<close>

definition answered_error :: "httperr \<Rightarrow> httperr" where
  "answered_error e = (if timeout_error e then HTTPError 503 (Some ''Service Unavailable'') '''' else e)"

lemma answered_status: "StatusFromError (Some (answered_error e)) = (if timeout_error e then 503 else StatusFromError (Some e))"
  by (simp add: answered_error_def)

lemma answered_problem:
  "problem_of (if timeout_error e then HTTPError 503 (Some ''Service Unavailable'') reason else e) = problem_of (answered_error e)"
  by (simp add: answered_error_def problem_of_def)

lemma serve_failure:
  assumes "echo_ok E" "times_out E"
    and route: "\<And>c rs n. cx_request c = rq \<Longrightarrow> \<not> rs_committed rs \<Longrightarrow> w_draws w \<le> n \<Longrightarrow>
      wp (dispatch E X D c rs) (\<lambda>r w'. fst r = Some e \<and> \<not> rs_committed (snd r)) (w\<lparr>w_draws := n\<rparr>)"
  shows "wp (serve E C debug X D rq) (\<lambda>rs w'. \<exists>rs0.
    rs = problem_response ((problem_of (answered_error e))\<lparr>p_Instance := rq_uri rq\<rparr>) rs0) w"
proof -
  have recover: "eo_recover E h = h" for h using assms(1) by (simp add: echo_ok_def)
  obtain reason where reason: "\<And>h c rs. eo_timeout E h c rs = do { (err, rs') \<leftarrow> h c rs;
     ret (map_option (\<lambda>e. if timeout_error e then HTTPError 503 (Some ''Service Unavailable'') (reason e) else e) err, rs') }"
    using assms(2) unfolding times_out_def by blast
  have logged: "wp (requestLogMiddleware C debug (dispatch E X D) c rs) (\<lambda>r w'. fst r = Some e \<and> \<not> rs_committed (snd r))
      (w\<lparr>w_draws := n\<rparr>)" if "cx_request c = rq" "\<not> rs_committed rs" "w_draws w \<le> n" for c rs n
    unfolding requestLogMiddleware_def wp_bind
    by (rule wp_mono [OF route [OF that]]) (auto simp: Let_def)
  have ctx: "wp (contextMiddleware X (requestLogMiddleware C debug (dispatch E X D)) c rs)
      (\<lambda>r w'. fst r = Some e \<and> \<not> rs_committed (snd r)) w" if "cx_request c = rq" "\<not> rs_committed rs" for c rs
    unfolding contextMiddleware_def Let_def
    using that by (auto simp: wp_randomHex intro: logged)
  have handled: "wp (ProblemErrorHandler (if timeout_error e then HTTPError 503 (Some ''Service Unavailable'') (reason e) else e) c rs)
      (\<lambda>rs w'. \<exists>rs0. rs = problem_response ((problem_of (answered_error e))\<lparr>p_Instance := rq_uri rq\<rparr>) rs0) w'"
    if "cx_request c = rq" "\<not> rs_committed rs" for c rs w'
    by (rule wp_mono [OF wp_ProblemErrorHandler_response [OF that(2)]]) (auto simp: answered_problem that(1))
  show ?thesis
    unfolding serve_def Let_def echo_apply [OF assms(1)] NewEcho_def
    by (simp add: recover reason split_beta del: if_split) (rule wp_mono [OF ctx], simp_all del: if_split add: handled)
qed

lemma client_reads_error:
  assumes "codec_reads C" "err_ok err" "valid_utf8 uri" "e = error_of op err"
    and "rs = problem_response ((problem_of (answered_error e))\<lparr>p_Instance := uri\<rparr>) rs0"
  shows "(if timeout_error e then rs_status rs = 503
      else rs_status rs = StatusFromError (Some e) \<and> (rs_status rs = 500 \<or> rs_status rs \<in> set (declared op))) \<and>
    problems_of op L C (delivered C rs) = Inr (if rs_status rs \<in> set (declared op)
      then only (rs_status rs) (client_problem ((problem_of (answered_error e))\<lparr>p_Instance := uri\<rparr>)) else (\<lambda>_. None))"
proof -
  let ?p = "(problem_of (answered_error e))\<lparr>p_Instance := uri\<rparr>"
  have st: "rs_status rs = p_Status ?p" by (simp only: assms(5) problem_response_ok)
  have status: "p_Status ?p = (if timeout_error e then 503 else StatusFromError (Some e))" by (simp add: answered_status)
  have "valid_utf8 ''Service Unavailable''" "int64 503" by (simp_all add: valid_utf8_ascii_Cons int64_def)
  then have "clean (answered_error e)"
    using error_declared(1) [OF assms(2)] by (simp add: answered_error_def assms(4))
  note problem = clean_problem [OF this assms(3)]
  have "p_Status ?p \<noteq> 200" using error_not_200 [of op err] by (simp add: answered_status assms(4))
  then have "problems_of op L C (delivered C rs) =
      Inr (if p_Status ?p \<in> set (declared op) then only (p_Status ?p) (client_problem ?p) else (\<lambda>_. None))"
    unfolding assms(5) using problem by (intro problems_of_problem [OF assms(1)]) simp_all
  moreover have "if timeout_error e then p_Status ?p = 503
      else p_Status ?p = StatusFromError (Some e) \<and> (p_Status ?p = 500 \<or> p_Status ?p \<in> set (declared op))"
    using error_declared(2) [OF assms(2), of op] by (simp add: answered_status assms(4))
  ultimately show ?thesis unfolding st by blast
qed

section \<open>Requests arrive\<close>

text \<open>
  What is relied on of \<open>net/url\<close>: paths of unreserved characters are taken as they are. \<open>server\<close> is the
  address of a service at the root of \<open>s\<close>.
\<close>

definition plain_path :: "string \<Rightarrow> bool" where
  "plain_path p \<longleftrightarrow> p \<noteq> [] \<and> hd p = CHR ''/'' \<and> list_all (\<lambda>c. 97 \<le> byte c \<and> byte c \<le> 122 \<or> 65 \<le> byte c \<and> byte c \<le> 90 \<or>
     48 \<le> byte c \<and> byte c \<le> 57 \<or> c \<in> set ''/-._~'') p"

definition serves_at :: "client_lib \<Rightarrow> string \<Rightarrow> string \<Rightarrow> bool" where
  "serves_at L server s \<longleftrightarrow> url_parse L server = Inr \<lparr>ur_server = s, ur_path = ''/''\<rparr> \<and>
     (\<forall>p. plain_path p \<longrightarrow> url_ref L (''.'' @ p) = Inr (''.'' @ p) \<and>
        url_parse L (url_string L \<lparr>ur_server = s, ur_path = p\<rparr>) = Inr \<lparr>ur_server = s, ur_path = p\<rparr>)"

lemma operation_request_plain:
  assumes "serves_at L server s" "plain_path p" "resolve_path ''/'' (''.'' @ p) = p"
  shows "operation_request L server verb p body =
    Inr \<lparr>cr_method = verb, cr_url = \<lparr>ur_server = s, ur_path = p\<rparr>, cr_headers = [], cr_body = body\<rparr>"
  using assms by (simp add: operation_request_def serves_at_def http_NewRequest_def plain_path_def)

text \<open>
  What is relied on of echo: a route without parameters is found by its path, and a JSON body is bound to
  a struct of strings by the names of its fields (an address must be one that \<open>types.Email\<close> takes).
\<close>

definition finds_routes :: "echo \<Rightarrow> bool" where
  "finds_routes E \<longleftrightarrow> (\<forall>keys rq. (rq_method rq, rq_uri rq) \<in> set keys \<and> CHR '':'' \<notin> set (rq_uri rq) \<longrightarrow>
     (\<exists>params. eo_route E keys rq = Inr ((rq_method rq, rq_uri rq), params)))"

definition binds_json :: "client_lib \<Rightarrow> echo \<Rightarrow> codec \<Rightarrow> bool" where
  "binds_json L E C \<longleftrightarrow> (\<forall>rq names f. header_get (rq_headers rq) ''Content-Type'' = ''application/json'' \<and>
     json_unmarshal C (rq_body rq) = Some (JObj (map (\<lambda>n. (n, JStr (f n))) names)) \<and>
     (''email'' \<in> set names \<longrightarrow> email_json L (f ''email'') = Inr (JStr (f ''email''))) \<longrightarrow>
     (\<exists>v. eo_bind E rq names = Inr v \<and> (\<forall>n \<in> set names. v n = f n)))"

lemma marshal_texts:
  assumes "codec_reads C" "fields_json L fs = Inr ms" "utf8_json (JObj ms)"
  shows "\<exists>t. marshal_body L C fs = Inr t \<and> json_unmarshal C t = Some (JObj ms)"
proof -
  obtain t where "json_marshal C (JObj ms) = Some t" "json_unmarshal C t = Some (JObj ms)"
    using assms(1,3) unfolding codec_reads_def by blast
  then show ?thesis using assms(2) by (simp add: marshal_body_def)
qed

lemma login_path: "plain_path ''/auth/login''" "resolve_path ''/'' (''.'' @ ''/auth/login'') = ''/auth/login''"
  by code_simp+

lemma login_request:
  assumes "codec_reads C" "serves_at L server s" "email_json L (lr_Email b) = Inr (JStr (lr_Email b))"
    and "valid_utf8 (lr_Email b)" "valid_utf8 (lr_Password b)"
  shows "\<exists>t. NewLoginRequest L C server b = Inr \<lparr>cr_method = ''POST'', cr_url = \<lparr>ur_server = s, ur_path = ''/auth/login''\<rparr>,
      cr_headers = [(''Content-Type'', ''application/json'')], cr_body = t\<rparr> \<and>
    json_unmarshal C t = Some (JObj [(''email'', JStr (lr_Email b)), (''password'', JStr (lr_Password b))])"
proof -
  have "utf8_json (JObj [(''email'', JStr (lr_Email b)), (''password'', JStr (lr_Password b))])"
    using assms(4,5) by (simp add: valid_utf8_ascii_Cons)
  then obtain t where "marshal_body L C [(''email'', Email (lr_Email b)), (''password'', Text (lr_Password b))] = Inr t"
    "json_unmarshal C t = Some (JObj [(''email'', JStr (lr_Email b)), (''password'', JStr (lr_Password b))])"
    using marshal_texts [OF assms(1), of L "[(''email'', Email (lr_Email b)), (''password'', Text (lr_Password b))]"] assms(3)
    by auto
  then show ?thesis
    by (simp add: NewLoginRequest_def with_json_def NewLoginRequestWithBody_def request_with_body_def
        operation_request_plain [OF assms(2) login_path])
qed

section \<open>A call that succeeds\<close>

text \<open>Before a route is reached only random numbers are drawn.\<close>

lemma serve_success:
  assumes "echo_ok E"
    and route: "\<And>c rs n. cx_request c = rq \<Longrightarrow> \<not> rs_committed rs \<Longrightarrow> w_draws w \<le> n \<Longrightarrow>
      wp (dispatch E X D c rs) (\<lambda>r w'. fst r = None \<and> P (snd r) w') (w\<lparr>w_draws := n\<rparr>)"
    and log: "\<And>rs w' l. P rs w' \<Longrightarrow> P rs (w'\<lparr>w_log := l\<rparr>)"
  shows "wp (serve E C debug X D rq) P w"
proof -
  have recover: "eo_recover E h = h" for h using assms(1) by (simp add: echo_ok_def)
  obtain f where f: "\<And>h c rs. eo_timeout E h c rs = do { (err, rs') \<leftarrow> h c rs; ret (map_option f err, rs') }"
    using assms(1) unfolding echo_ok_def by blast
  have logged: "wp (requestLogMiddleware C debug (dispatch E X D) c rs) (\<lambda>r w'. fst r = None \<and> P (snd r) w')
      (w\<lparr>w_draws := n\<rparr>)" if "cx_request c = rq" "\<not> rs_committed rs" "w_draws w \<le> n" for c rs n
    unfolding requestLogMiddleware_def wp_bind
    by (rule wp_mono [OF route [OF that]]) (auto simp: Let_def log)
  have ctx: "wp (contextMiddleware X (requestLogMiddleware C debug (dispatch E X D)) c rs)
      (\<lambda>r w'. fst r = None \<and> P (snd r) w') w" if "cx_request c = rq" "\<not> rs_committed rs" for c rs
    unfolding contextMiddleware_def Let_def
    using that by (auto simp: wp_randomHex intro: logged)
  show ?thesis
    unfolding serve_def Let_def echo_apply [OF assms(1)] NewEcho_def
    by (simp add: recover f split_beta) (rule wp_mono [OF ctx], simp_all split: option.split)
qed

lemma login_lookup:
  "map_of (protected_paths X) ''/auth/login'' = None"
  "map_of (RegisterHandlers E X D) (''POST'', ''/auth/login'') = Some (\<lambda>_. sh_Login E X D)"
  by (simp_all add: protected_paths_def RegisterHandlers_def)

lemma login_route: "map_of (Register E X D) (''POST'', ''/auth/login'') = Some (\<lambda>_. eo_apply E [] (sh_Login E X D))"
  by (simp only: Register_def router_add_lookup login_lookup option.case option.map)

lemma fresh_draws_later: "fresh_draws X w \<Longrightarrow> w_draws w \<le> n \<Longrightarrow> fresh_draws X (w\<lparr>w_draws := n\<rparr>)"
  by (simp add: fresh_draws_def)

text \<open>The signer's tokens and base64 texts are ASCII.\<close>

definition signs_text :: "ext \<Rightarrow> bool" where
  "signs_text X \<longleftrightarrow> signs X \<and> (\<forall>cl tok. jwt_sign X cl = Inr tok \<longrightarrow> valid_utf8 tok)"

lemma b64_digit_ascii: "n < 64 \<Longrightarrow> byte (b64_digit n) < 0x80"
  unfolding b64_digit_def by (auto simp: byte_char_of split: if_splits)

lemma six_bits:
  fixes a b :: nat
  assumes "a < 256" "b < 256"
  shows "a div 4 < 64" "a mod 4 * 16 + b div 16 < 64" "a mod 16 * 4 + b div 64 < 64" "a mod 4 * 16 < 64" "a mod 16 * 4 < 64"
  using assms mod_less_divisor [of 4 a] mod_less_divisor [of 16 a] by linarith+

lemma byte_bound: "byte c < 256"
  by simp

lemma b64_ascii: "\<forall>c \<in> set (b64_encode s). byte c < 0x80"
  by (induction s rule: b64_encode.induct) (auto intro!: b64_digit_ascii six_bits byte_bound)

lemma b64_valid: "valid_utf8 (b64_encode s)"
  by (rule valid_utf8_ascii [OF b64_ascii])

text \<open>The tokens of a new session, as the server answers them and as the client reads them.\<close>

definition opens_session :: "ext \<Rightarrow> uuid \<Rightarrow> time \<Rightarrow> string \<Rightarrow> string \<Rightarrow> world \<Rightarrow> bool" where
  "opens_session X uid t access refresh w \<longleftrightarrow> live_session X refresh uid t (w_db w) \<and> valid_utf8 access \<and> valid_utf8 refresh"

lemma serve_login:
  assumes "echo_ok E" "quiet w" "fresh_draws X w" "signs_text X" "ValidateEmail email = None"
    and "r_pttl (ms_of (w_now w)) (lockKey X LoginLockout email) (w_redis w) = -2"
    and "GetUserByEmail email (w_db w) = Inr u" "VerifyPassword X (u_PasswordHash u) password"
    and "u_Status u = StatusInactive"
    and "eo_route E (map fst (Register E X (main_deps X env))) rq = Inr ((''POST'', ''/auth/login''), params)"
    and "eo_bind E rq [''email'', ''password''] = Inr v" "v ''email'' = email" "v ''password'' = password"
  shows "wp (serve E C debug X (main_deps X env) rq) (\<lambda>rs w'. \<exists>access refresh. rs_status rs = 200 \<and>
    header_get (rs_headers rs) ''Content-Type'' = ''application/json'' \<and>
    rs_body rs = Some (JObj [(''access_token'', JStr access), (''refresh_token'', JStr refresh)]) \<and>
    opens_session X (u_UserUuid u) (w_now w + RefreshTokenTTL) access refresh w') w"
proof (rule serve_success [OF assms(1)])
  fix c :: http_context and rs n assume c: "cx_request c = rq" "w_draws w \<le> n"
  let ?w = "w\<lparr>w_draws := n\<rparr>"
  have signs: "signs X" "\<And>cl tok. jwt_sign X cl = Inr tok \<Longrightarrow> valid_utf8 tok"
    using assms(4) by (auto simp: signs_text_def)
  have login: "wp (Login X (loginLockout_Check X) (loginLockout_RecordFailure X) (loginLockout_Reset X) email password)
      (\<lambda>r w'. \<exists>access plain. r = Inr (access, plain) \<and>
         opens_session X (u_UserUuid u) (w_now w + RefreshTokenTTL) access plain w') ?w"
    by (rule wp_mono [OF login_tokens [where u = u]])
      (use assms(2,3,5-9) c(2) signs in \<open>auto simp: opens_session_def fresh_draws_later b64_valid\<close>)
  show "wp (dispatch E X (main_deps X env) c rs) (\<lambda>r w'. fst r = None \<and> (\<exists>access refresh. rs_status (snd r) = 200 \<and>
      header_get (rs_headers (snd r)) ''Content-Type'' = ''application/json'' \<and>
      rs_body (snd r) = Some (JObj [(''access_token'', JStr access), (''refresh_token'', JStr refresh)]) \<and>
      opens_session X (u_UserUuid u) (w_now w + RefreshTokenTTL) access refresh w')) ?w"
    unfolding dispatch_route [OF assms(10) [folded c(1)] login_route] echo_apply [OF assms(1)]
    using assms(11-13)
    by (simp add: sh_Login_def with_body_def c(1) strict_result_def api_Login_def main_deps_def)
      (rule wp_mono [OF login], auto simp: visit_defs)
qed (auto simp: opens_session_def)

lemma json_content_type: "str_contains ''application/json'' ''json''"
  by code_simp

lemma parse_tokens:
  assumes "codec_reads C" "rs_status rs = 200" "header_get (rs_headers rs) ''Content-Type'' = ''application/json''"
    and "rs_body rs = Some (JObj [(''access_token'', JStr access), (''refresh_token'', JStr refresh)])"
    and "valid_utf8 access" "valid_utf8 refresh"
  shows "\<exists>tr. ParseLoginResponse L C (delivered C rs) = Inr tr \<and> LoginResponse_StatusCode tr = 200 \<and>
    tr_JSON200 tr = Some \<lparr>lt_AccessToken = access, lt_RefreshToken = refresh\<rparr>"
proof -
  have "utf8_json (JObj [(''access_token'', JStr access), (''refresh_token'', JStr refresh)])"
    using assms(5,6) by (simp add: valid_utf8_ascii_Cons)
  from delivered_json [OF assms(1) this assms(4)] obtain t where "hr_body (delivered C rs) = Inr t"
    "json_unmarshal C t = Some (JObj [(''access_token'', JStr access), (''refresh_token'', JStr refresh)])" by blast
  moreover have "hr_status (delivered C rs) = 200" "hr_headers (delivered C rs) = rs_headers rs"
    using assms(2) by (simp_all add: delivered_def)
  ultimately show ?thesis
    using assms(3)
    by (simp add: ParseLoginResponse_def parse_response_def Let_def json_content_type unmarshal_into_def
        decode_tokens LoginResponse_StatusCode_def response_StatusCode_def)
qed

lemma new_client:
  assumes "NewClient L server [WithHTTPClient d] = Inr c"
  shows "cl_Client c = Some d" "cl_RequestEditors c = []"
  using assms by (auto simp: NewClient_def WithHTTPClient_def Let_def split: if_splits)

lemma client_login:
  assumes "echo_ok E" "finds_routes E" "binds_json L E C" "codec_reads C" "signs_text X"
    and "NewClient L server [WithHTTPClient (over_wire E C debug X (main_deps X env) ip)] = Inr c" "serves_at L (cl_Server c) s"
    and "quiet w" "fresh_draws X w" "ValidateEmail email = None" "email_json L email = Inr (JStr email)"
    and "valid_utf8 email" "valid_utf8 password"
    and "r_pttl (ms_of (w_now w)) (lockKey X LoginLockout email) (w_redis w) = -2"
    and "GetUserByEmail email (w_db w) = Inr u" "VerifyPassword X (u_PasswordHash u) password"
    and "u_Status u = StatusInactive"
  shows "wp (LoginWithResponse L C c \<lparr>lr_Email = email, lr_Password = password\<rparr> [])
    (\<lambda>r w'. \<exists>tr tokens. r = Inr tr \<and> LoginResponse_StatusCode tr = 200 \<and> tr_JSON200 tr = Some tokens \<and>
       live_session X (lt_RefreshToken tokens) (u_UserUuid u) (w_now w + RefreshTokenTTL) (w_db w')) w"
proof -
  obtain t where t: "NewLoginRequest L C (cl_Server c) \<lparr>lr_Email = email, lr_Password = password\<rparr> =
      Inr \<lparr>cr_method = ''POST'', cr_url = \<lparr>ur_server = s, ur_path = ''/auth/login''\<rparr>,
        cr_headers = [(''Content-Type'', ''application/json'')], cr_body = t\<rparr>"
    "json_unmarshal C t = Some (JObj [(''email'', JStr email), (''password'', JStr password)])"
    using login_request [OF assms(4,7), of "\<lparr>lr_Email = email, lr_Password = password\<rparr>"] assms(11-13) by auto
  let ?rq = "received ip \<lparr>cr_method = ''POST'', cr_url = \<lparr>ur_server = s, ur_path = ''/auth/login''\<rparr>,
        cr_headers = [(''Content-Type'', ''application/json'')], cr_body = t\<rparr>"
  have rq: "rq_method ?rq = ''POST''" "rq_uri ?rq = ''/auth/login''" "rq_body ?rq = t"
    "header_get (rq_headers ?rq) ''Content-Type'' = ''application/json''" by (simp_all add: received_def)
  have "(''POST'', ''/auth/login'') \<in> set (map fst (Register E X (main_deps X env)))"
    using login_route [of E X "main_deps X env"] by (force dest: map_of_SomeD)
  then obtain params where route: "eo_route E (map fst (Register E X (main_deps X env))) ?rq = Inr ((''POST'', ''/auth/login''), params)"
    using assms(2) [unfolded finds_routes_def, rule_format, of ?rq "map fst (Register E X (main_deps X env))"]
    by (simp only: rq) auto
  obtain v where v: "eo_bind E ?rq [''email'', ''password''] = Inr v" "v ''email'' = email" "v ''password'' = password"
    using assms(3) [unfolded binds_json_def, rule_format, of ?rq "\<lambda>n. if n = ''email'' then email else password" "[''email'', ''password'']"]
      rq(3,4) t(2) assms(11) by auto
  show ?thesis
    unfolding LoginWithResponse_def client_Login_def client_do_def parsed_def
    by (simp add: t(1) applyEditors_def new_client [OF assms(6)] over_wire_def)
      (rule wp_mono [OF serve_login [OF assms(1,8,9,5,10,14-17) route v]],
        auto simp: opens_session_def dest!: parse_tokens [OF assms(4), of _ _ _ L])
qed

end
