(* ===== verification/ServerResponses.thy ===== *)
theory ServerResponses
  imports ClientServer "HOL-Library.Multiset"
begin

text \<open>
  The responses for errors that the generated server declares (\<open>auth/api/http/openapi.gen.go\<close>), one type
  per operation and status. No handler returns one: errors become problem documents in
  \<open>ProblemErrorHandler\<close>. So that what is answered is what the document declares is proved here.
\<close>

section \<open>Problems of the API\<close>

text \<open>\<open>Problem\<close> of the generated package; a pointer is an option, and \<open>omitempty\<close> leaves \<open>nil\<close> out.\<close>

record ApiProblem =
  ap_Detail :: "string option"
  ap_ErrorCode :: "string option"
  ap_Instance :: "string option"
  ap_RetryAfter :: "int option"
  ap_RevocationReason :: "string option"
  ap_Status :: int
  ap_Title :: string
  ap_Type :: string

definition omit_nil :: "string \<Rightarrow> ('a \<Rightarrow> json) \<Rightarrow> 'a option \<Rightarrow> (string \<times> json) list" where
  "omit_nil k enc v = (case v of None \<Rightarrow> [] | Some x \<Rightarrow> [(k, enc x)])"

definition api_problem_json :: "ApiProblem \<Rightarrow> json" where
  "api_problem_json p = JObj (
     omit_nil ''detail'' JStr (ap_Detail p) @ omit_nil ''error_code'' JStr (ap_ErrorCode p) @
     omit_nil ''instance'' JStr (ap_Instance p) @
     omit_nil ''retry_after'' (\<lambda>n. JNum (int_text n)) (ap_RetryAfter p) @
     omit_nil ''revocation_reason'' JStr (ap_RevocationReason p) @
     [(''status'', JNum (int_text (ap_Status p))), (''title'', JStr (ap_Title p)), (''type'', JStr (ap_Type p))])"

definition visit_problem :: "int \<Rightarrow> (string \<times> string) list \<Rightarrow> ApiProblem \<Rightarrow> response \<Rightarrow> response" where
  "visit_problem st hs p rs =
     write_json st (api_problem_json p)
       (fold (\<lambda>(k, v). set_header k v) hs (set_header ''Content-Type'' ''application/problem+json'' rs))"

section \<open>The responses of each operation\<close>

datatype DisableAdminAccountProblem =
    DisableAdminAccount400ApplicationProblemPlusJSONResponse ApiProblem
  | DisableAdminAccount401ApplicationProblemPlusJSONResponse ApiProblem string
  | DisableAdminAccount403ApplicationProblemPlusJSONResponse ApiProblem
  | DisableAdminAccount404ApplicationProblemPlusJSONResponse ApiProblem
  | DisableAdminAccount409ApplicationProblemPlusJSONResponse ApiProblem
  | DisableAdminAccount500ApplicationProblemPlusJSONResponse ApiProblem

fun VisitDisableAdminAccountProblem :: "DisableAdminAccountProblem \<Rightarrow> response \<Rightarrow> response" where
  "VisitDisableAdminAccountProblem (DisableAdminAccount400ApplicationProblemPlusJSONResponse p) = visit_problem 400 [] p"
| "VisitDisableAdminAccountProblem (DisableAdminAccount401ApplicationProblemPlusJSONResponse p challenge) = visit_problem 401 [(''WWW-Authenticate'', challenge)] p"
| "VisitDisableAdminAccountProblem (DisableAdminAccount403ApplicationProblemPlusJSONResponse p) = visit_problem 403 [] p"
| "VisitDisableAdminAccountProblem (DisableAdminAccount404ApplicationProblemPlusJSONResponse p) = visit_problem 404 [] p"
| "VisitDisableAdminAccountProblem (DisableAdminAccount409ApplicationProblemPlusJSONResponse p) = visit_problem 409 [] p"
| "VisitDisableAdminAccountProblem (DisableAdminAccount500ApplicationProblemPlusJSONResponse p) = visit_problem 500 [] p"

datatype ReactivateAdminAccountProblem =
    ReactivateAdminAccount400ApplicationProblemPlusJSONResponse ApiProblem
  | ReactivateAdminAccount401ApplicationProblemPlusJSONResponse ApiProblem string
  | ReactivateAdminAccount403ApplicationProblemPlusJSONResponse ApiProblem
  | ReactivateAdminAccount404ApplicationProblemPlusJSONResponse ApiProblem
  | ReactivateAdminAccount409ApplicationProblemPlusJSONResponse ApiProblem
  | ReactivateAdminAccount500ApplicationProblemPlusJSONResponse ApiProblem

fun VisitReactivateAdminAccountProblem :: "ReactivateAdminAccountProblem \<Rightarrow> response \<Rightarrow> response" where
  "VisitReactivateAdminAccountProblem (ReactivateAdminAccount400ApplicationProblemPlusJSONResponse p) = visit_problem 400 [] p"
| "VisitReactivateAdminAccountProblem (ReactivateAdminAccount401ApplicationProblemPlusJSONResponse p challenge) = visit_problem 401 [(''WWW-Authenticate'', challenge)] p"
| "VisitReactivateAdminAccountProblem (ReactivateAdminAccount403ApplicationProblemPlusJSONResponse p) = visit_problem 403 [] p"
| "VisitReactivateAdminAccountProblem (ReactivateAdminAccount404ApplicationProblemPlusJSONResponse p) = visit_problem 404 [] p"
| "VisitReactivateAdminAccountProblem (ReactivateAdminAccount409ApplicationProblemPlusJSONResponse p) = visit_problem 409 [] p"
| "VisitReactivateAdminAccountProblem (ReactivateAdminAccount500ApplicationProblemPlusJSONResponse p) = visit_problem 500 [] p"

datatype InviteAdminProblem =
    InviteAdmin400ApplicationProblemPlusJSONResponse ApiProblem
  | InviteAdmin401ApplicationProblemPlusJSONResponse ApiProblem string
  | InviteAdmin403ApplicationProblemPlusJSONResponse ApiProblem
  | InviteAdmin409ApplicationProblemPlusJSONResponse ApiProblem
  | InviteAdmin429ApplicationProblemPlusJSONResponse ApiProblem int
  | InviteAdmin503ApplicationProblemPlusJSONResponse ApiProblem

fun VisitInviteAdminProblem :: "InviteAdminProblem \<Rightarrow> response \<Rightarrow> response" where
  "VisitInviteAdminProblem (InviteAdmin400ApplicationProblemPlusJSONResponse p) = visit_problem 400 [] p"
| "VisitInviteAdminProblem (InviteAdmin401ApplicationProblemPlusJSONResponse p challenge) = visit_problem 401 [(''WWW-Authenticate'', challenge)] p"
| "VisitInviteAdminProblem (InviteAdmin403ApplicationProblemPlusJSONResponse p) = visit_problem 403 [] p"
| "VisitInviteAdminProblem (InviteAdmin409ApplicationProblemPlusJSONResponse p) = visit_problem 409 [] p"
| "VisitInviteAdminProblem (InviteAdmin429ApplicationProblemPlusJSONResponse p seconds) = visit_problem 429 [(''Retry-After'', int_text seconds)] p"
| "VisitInviteAdminProblem (InviteAdmin503ApplicationProblemPlusJSONResponse p) = visit_problem 503 [] p"

datatype VerifyEmailProblem =
    VerifyEmail400ApplicationProblemPlusJSONResponse ApiProblem
  | VerifyEmail429ApplicationProblemPlusJSONResponse ApiProblem int

fun VisitVerifyEmailProblem :: "VerifyEmailProblem \<Rightarrow> response \<Rightarrow> response" where
  "VisitVerifyEmailProblem (VerifyEmail400ApplicationProblemPlusJSONResponse p) = visit_problem 400 [] p"
| "VisitVerifyEmailProblem (VerifyEmail429ApplicationProblemPlusJSONResponse p seconds) = visit_problem 429 [(''Retry-After'', int_text seconds)] p"

datatype ResendEmailVerificationProblem =
    ResendEmailVerification429ApplicationProblemPlusJSONResponse ApiProblem int
  | ResendEmailVerification503ApplicationProblemPlusJSONResponse ApiProblem

fun VisitResendEmailVerificationProblem :: "ResendEmailVerificationProblem \<Rightarrow> response \<Rightarrow> response" where
  "VisitResendEmailVerificationProblem (ResendEmailVerification429ApplicationProblemPlusJSONResponse p seconds) = visit_problem 429 [(''Retry-After'', int_text seconds)] p"
| "VisitResendEmailVerificationProblem (ResendEmailVerification503ApplicationProblemPlusJSONResponse p) = visit_problem 503 [] p"

datatype AcceptInvitationProblem =
    AcceptInvitation400ApplicationProblemPlusJSONResponse ApiProblem
  | AcceptInvitation409ApplicationProblemPlusJSONResponse ApiProblem
  | AcceptInvitation500ApplicationProblemPlusJSONResponse ApiProblem

fun VisitAcceptInvitationProblem :: "AcceptInvitationProblem \<Rightarrow> response \<Rightarrow> response" where
  "VisitAcceptInvitationProblem (AcceptInvitation400ApplicationProblemPlusJSONResponse p) = visit_problem 400 [] p"
| "VisitAcceptInvitationProblem (AcceptInvitation409ApplicationProblemPlusJSONResponse p) = visit_problem 409 [] p"
| "VisitAcceptInvitationProblem (AcceptInvitation500ApplicationProblemPlusJSONResponse p) = visit_problem 500 [] p"

datatype LoginProblem =
    Login400ApplicationProblemPlusJSONResponse ApiProblem
  | Login401ApplicationProblemPlusJSONResponse ApiProblem
  | Login403ApplicationProblemPlusJSONResponse ApiProblem
  | Login429ApplicationProblemPlusJSONResponse ApiProblem int

fun VisitLoginProblem :: "LoginProblem \<Rightarrow> response \<Rightarrow> response" where
  "VisitLoginProblem (Login400ApplicationProblemPlusJSONResponse p) = visit_problem 400 [] p"
| "VisitLoginProblem (Login401ApplicationProblemPlusJSONResponse p) = visit_problem 401 [] p"
| "VisitLoginProblem (Login403ApplicationProblemPlusJSONResponse p) = visit_problem 403 [] p"
| "VisitLoginProblem (Login429ApplicationProblemPlusJSONResponse p seconds) = visit_problem 429 [(''Retry-After'', int_text seconds)] p"

datatype LogoutProblem =
    Logout400ApplicationProblemPlusJSONResponse ApiProblem
  | Logout401ApplicationProblemPlusJSONResponse ApiProblem string

fun VisitLogoutProblem :: "LogoutProblem \<Rightarrow> response \<Rightarrow> response" where
  "VisitLogoutProblem (Logout400ApplicationProblemPlusJSONResponse p) = visit_problem 400 [] p"
| "VisitLogoutProblem (Logout401ApplicationProblemPlusJSONResponse p challenge) = visit_problem 401 [(''WWW-Authenticate'', challenge)] p"

datatype ChangePasswordProblem =
    ChangePassword400ApplicationProblemPlusJSONResponse ApiProblem
  | ChangePassword401ApplicationProblemPlusJSONResponse ApiProblem string
  | ChangePassword403ApplicationProblemPlusJSONResponse ApiProblem
  | ChangePassword500ApplicationProblemPlusJSONResponse ApiProblem

fun VisitChangePasswordProblem :: "ChangePasswordProblem \<Rightarrow> response \<Rightarrow> response" where
  "VisitChangePasswordProblem (ChangePassword400ApplicationProblemPlusJSONResponse p) = visit_problem 400 [] p"
| "VisitChangePasswordProblem (ChangePassword401ApplicationProblemPlusJSONResponse p challenge) = visit_problem 401 [(''WWW-Authenticate'', challenge)] p"
| "VisitChangePasswordProblem (ChangePassword403ApplicationProblemPlusJSONResponse p) = visit_problem 403 [] p"
| "VisitChangePasswordProblem (ChangePassword500ApplicationProblemPlusJSONResponse p) = visit_problem 500 [] p"

datatype RequestPasswordResetProblem =
    RequestPasswordReset400ApplicationProblemPlusJSONResponse ApiProblem
  | RequestPasswordReset429ApplicationProblemPlusJSONResponse ApiProblem int
  | RequestPasswordReset503ApplicationProblemPlusJSONResponse ApiProblem

fun VisitRequestPasswordResetProblem :: "RequestPasswordResetProblem \<Rightarrow> response \<Rightarrow> response" where
  "VisitRequestPasswordResetProblem (RequestPasswordReset400ApplicationProblemPlusJSONResponse p) = visit_problem 400 [] p"
| "VisitRequestPasswordResetProblem (RequestPasswordReset429ApplicationProblemPlusJSONResponse p seconds) = visit_problem 429 [(''Retry-After'', int_text seconds)] p"
| "VisitRequestPasswordResetProblem (RequestPasswordReset503ApplicationProblemPlusJSONResponse p) = visit_problem 503 [] p"

datatype ConfirmPasswordResetProblem =
    ConfirmPasswordReset400ApplicationProblemPlusJSONResponse ApiProblem
  | ConfirmPasswordReset500ApplicationProblemPlusJSONResponse ApiProblem

fun VisitConfirmPasswordResetProblem :: "ConfirmPasswordResetProblem \<Rightarrow> response \<Rightarrow> response" where
  "VisitConfirmPasswordResetProblem (ConfirmPasswordReset400ApplicationProblemPlusJSONResponse p) = visit_problem 400 [] p"
| "VisitConfirmPasswordResetProblem (ConfirmPasswordReset500ApplicationProblemPlusJSONResponse p) = visit_problem 500 [] p"

datatype RegisterAccountProblem =
    RegisterAccount400ApplicationProblemPlusJSONResponse ApiProblem
  | RegisterAccount429ApplicationProblemPlusJSONResponse ApiProblem int
  | RegisterAccount503ApplicationProblemPlusJSONResponse ApiProblem

fun VisitRegisterAccountProblem :: "RegisterAccountProblem \<Rightarrow> response \<Rightarrow> response" where
  "VisitRegisterAccountProblem (RegisterAccount400ApplicationProblemPlusJSONResponse p) = visit_problem 400 [] p"
| "VisitRegisterAccountProblem (RegisterAccount429ApplicationProblemPlusJSONResponse p seconds) = visit_problem 429 [(''Retry-After'', int_text seconds)] p"
| "VisitRegisterAccountProblem (RegisterAccount503ApplicationProblemPlusJSONResponse p) = visit_problem 503 [] p"

datatype RefreshTokenProblem =
    RefreshToken401ApplicationProblemPlusJSONResponse ApiProblem

fun VisitRefreshTokenProblem :: "RefreshTokenProblem \<Rightarrow> response \<Rightarrow> response" where
  "VisitRefreshTokenProblem (RefreshToken401ApplicationProblemPlusJSONResponse p) = visit_problem 401 [] p"

section \<open>What is answered is what is declared\<close>

text \<open>The response that an operation declares for a status, if any.\<close>

fun declared_response ::
  "operation \<Rightarrow> int \<Rightarrow> ApiProblem \<Rightarrow> string \<Rightarrow> int \<Rightarrow> (response \<Rightarrow> response) option" where
  "declared_response Op_DisableAdminAccount st p challenge seconds =
     (if st = 400 then Some (VisitDisableAdminAccountProblem (DisableAdminAccount400ApplicationProblemPlusJSONResponse p))
      else if st = 401 then Some (VisitDisableAdminAccountProblem (DisableAdminAccount401ApplicationProblemPlusJSONResponse p challenge))
      else if st = 403 then Some (VisitDisableAdminAccountProblem (DisableAdminAccount403ApplicationProblemPlusJSONResponse p))
      else if st = 404 then Some (VisitDisableAdminAccountProblem (DisableAdminAccount404ApplicationProblemPlusJSONResponse p))
      else if st = 409 then Some (VisitDisableAdminAccountProblem (DisableAdminAccount409ApplicationProblemPlusJSONResponse p))
      else if st = 500 then Some (VisitDisableAdminAccountProblem (DisableAdminAccount500ApplicationProblemPlusJSONResponse p))
      else None)"
| "declared_response Op_ReactivateAdminAccount st p challenge seconds =
     (if st = 400 then Some (VisitReactivateAdminAccountProblem (ReactivateAdminAccount400ApplicationProblemPlusJSONResponse p))
      else if st = 401 then Some (VisitReactivateAdminAccountProblem (ReactivateAdminAccount401ApplicationProblemPlusJSONResponse p challenge))
      else if st = 403 then Some (VisitReactivateAdminAccountProblem (ReactivateAdminAccount403ApplicationProblemPlusJSONResponse p))
      else if st = 404 then Some (VisitReactivateAdminAccountProblem (ReactivateAdminAccount404ApplicationProblemPlusJSONResponse p))
      else if st = 409 then Some (VisitReactivateAdminAccountProblem (ReactivateAdminAccount409ApplicationProblemPlusJSONResponse p))
      else if st = 500 then Some (VisitReactivateAdminAccountProblem (ReactivateAdminAccount500ApplicationProblemPlusJSONResponse p))
      else None)"
| "declared_response Op_InviteAdmin st p challenge seconds =
     (if st = 400 then Some (VisitInviteAdminProblem (InviteAdmin400ApplicationProblemPlusJSONResponse p))
      else if st = 401 then Some (VisitInviteAdminProblem (InviteAdmin401ApplicationProblemPlusJSONResponse p challenge))
      else if st = 403 then Some (VisitInviteAdminProblem (InviteAdmin403ApplicationProblemPlusJSONResponse p))
      else if st = 409 then Some (VisitInviteAdminProblem (InviteAdmin409ApplicationProblemPlusJSONResponse p))
      else if st = 429 then Some (VisitInviteAdminProblem (InviteAdmin429ApplicationProblemPlusJSONResponse p seconds))
      else if st = 503 then Some (VisitInviteAdminProblem (InviteAdmin503ApplicationProblemPlusJSONResponse p))
      else None)"
| "declared_response Op_VerifyEmail st p challenge seconds =
     (if st = 400 then Some (VisitVerifyEmailProblem (VerifyEmail400ApplicationProblemPlusJSONResponse p))
      else if st = 429 then Some (VisitVerifyEmailProblem (VerifyEmail429ApplicationProblemPlusJSONResponse p seconds))
      else None)"
| "declared_response Op_ResendEmailVerification st p challenge seconds =
     (if st = 429 then Some (VisitResendEmailVerificationProblem (ResendEmailVerification429ApplicationProblemPlusJSONResponse p seconds))
      else if st = 503 then Some (VisitResendEmailVerificationProblem (ResendEmailVerification503ApplicationProblemPlusJSONResponse p))
      else None)"
| "declared_response Op_AcceptInvitation st p challenge seconds =
     (if st = 400 then Some (VisitAcceptInvitationProblem (AcceptInvitation400ApplicationProblemPlusJSONResponse p))
      else if st = 409 then Some (VisitAcceptInvitationProblem (AcceptInvitation409ApplicationProblemPlusJSONResponse p))
      else if st = 500 then Some (VisitAcceptInvitationProblem (AcceptInvitation500ApplicationProblemPlusJSONResponse p))
      else None)"
| "declared_response Op_Login st p challenge seconds =
     (if st = 400 then Some (VisitLoginProblem (Login400ApplicationProblemPlusJSONResponse p))
      else if st = 401 then Some (VisitLoginProblem (Login401ApplicationProblemPlusJSONResponse p))
      else if st = 403 then Some (VisitLoginProblem (Login403ApplicationProblemPlusJSONResponse p))
      else if st = 429 then Some (VisitLoginProblem (Login429ApplicationProblemPlusJSONResponse p seconds))
      else None)"
| "declared_response Op_Logout st p challenge seconds =
     (if st = 400 then Some (VisitLogoutProblem (Logout400ApplicationProblemPlusJSONResponse p))
      else if st = 401 then Some (VisitLogoutProblem (Logout401ApplicationProblemPlusJSONResponse p challenge))
      else None)"
| "declared_response Op_ChangePassword st p challenge seconds =
     (if st = 400 then Some (VisitChangePasswordProblem (ChangePassword400ApplicationProblemPlusJSONResponse p))
      else if st = 401 then Some (VisitChangePasswordProblem (ChangePassword401ApplicationProblemPlusJSONResponse p challenge))
      else if st = 403 then Some (VisitChangePasswordProblem (ChangePassword403ApplicationProblemPlusJSONResponse p))
      else if st = 500 then Some (VisitChangePasswordProblem (ChangePassword500ApplicationProblemPlusJSONResponse p))
      else None)"
| "declared_response Op_RequestPasswordReset st p challenge seconds =
     (if st = 400 then Some (VisitRequestPasswordResetProblem (RequestPasswordReset400ApplicationProblemPlusJSONResponse p))
      else if st = 429 then Some (VisitRequestPasswordResetProblem (RequestPasswordReset429ApplicationProblemPlusJSONResponse p seconds))
      else if st = 503 then Some (VisitRequestPasswordResetProblem (RequestPasswordReset503ApplicationProblemPlusJSONResponse p))
      else None)"
| "declared_response Op_ConfirmPasswordReset st p challenge seconds =
     (if st = 400 then Some (VisitConfirmPasswordResetProblem (ConfirmPasswordReset400ApplicationProblemPlusJSONResponse p))
      else if st = 500 then Some (VisitConfirmPasswordResetProblem (ConfirmPasswordReset500ApplicationProblemPlusJSONResponse p))
      else None)"
| "declared_response Op_RegisterAccount st p challenge seconds =
     (if st = 400 then Some (VisitRegisterAccountProblem (RegisterAccount400ApplicationProblemPlusJSONResponse p))
      else if st = 429 then Some (VisitRegisterAccountProblem (RegisterAccount429ApplicationProblemPlusJSONResponse p seconds))
      else if st = 503 then Some (VisitRegisterAccountProblem (RegisterAccount503ApplicationProblemPlusJSONResponse p))
      else None)"
| "declared_response Op_RefreshToken st p challenge seconds =
     (if st = 401 then Some (VisitRefreshTokenProblem (RefreshToken401ApplicationProblemPlusJSONResponse p))
      else None)"

lemma declared_response_iff: "declared_response op st p challenge seconds \<noteq> None \<longleftrightarrow> st \<in> set (declared op)"
  by (cases op) simp_all

definition api_problem :: "Problem \<Rightarrow> ApiProblem" where
  "api_problem p =
     \<lparr>ap_Detail = present (p_Detail p), ap_ErrorCode = present (p_ErrorCode p),
      ap_Instance = present (p_Instance p), ap_RetryAfter = p_RetryAfter p,
      ap_RevocationReason = present (p_RevocationReason p), ap_Status = p_Status p,
      ap_Title = p_Title p, ap_Type = p_Type p\<rparr>"

text \<open>The same members, perhaps in another order.\<close>

fun same_members :: "json \<Rightarrow> json \<Rightarrow> bool" where
  "same_members (JObj ms) (JObj ms') \<longleftrightarrow> mset ms = mset ms'"
| "same_members j j' \<longleftrightarrow> j = j'"

lemma omit_present: "omit_nil k JStr (present v) = nonempty k v"
  by (simp add: omit_nil_def present_def nonempty_def)

lemma api_problem_same: "same_members (api_problem_json (api_problem p)) (problem_json p)"
  by (simp add: api_problem_json_def api_problem_def problem_json_def omit_present)
    (simp add: omit_nil_def split: option.split)

text \<open>Too many requests come with the time to wait, and nothing else does.\<close>

lemma retry_after_429:
  assumes "error_of op err = ProblemError p"
  shows "p_Status p = 429 \<longleftrightarrow> p_RetryAfter p \<noteq> None"
  using assms
  by (cases op) (auto simp: error_defs NewProblemError_def split: option.splits if_splits)

lemma problem_declared:
  assumes "error_of op err = ProblemError p"
  shows "p_Status p \<in> set (declared op)"
  using assms
  by (cases op) (auto simp: error_defs NewProblemError_def split: option.splits if_splits)

lemma declared_response_visit:
  assumes "st \<in> set (declared op)"
  shows "\<exists>hs. declared_response op st p challenge seconds = Some (visit_problem st hs p) \<and>
    hs \<in> {[], [(''WWW-Authenticate'', challenge)], [(''Retry-After'', int_text seconds)]} \<and>
    (st = 429 \<longleftrightarrow> hs = [(''Retry-After'', int_text seconds)])"
  using assms by (cases op) (auto simp: fun_eq_iff)

lemma visit_problem_simps [simp]:
  "rs_status (visit_problem st hs p rs) = st" "rs_committed (visit_problem st hs p rs)"
  "rs_body (visit_problem st hs p rs) = Some (api_problem_json p)"
  by (simp_all add: visit_problem_def write_json_def)

lemma visit_problem_headers:
  "header_get (rs_headers (visit_problem st [] p rs)) h =
     (if h = ''Content-Type'' then ContentTypeProblemJSON else header_get (rs_headers rs) h)"
  "header_get (rs_headers (visit_problem st [(k, v)] p rs)) h =
     (if h = k then v else if h = ''Content-Type'' then ContentTypeProblemJSON else header_get (rs_headers rs) h)"
  by (simp_all add: visit_problem_def write_json_def ContentTypeProblemJSON_def)

lemma problem_response_headers:
  "header_get (rs_headers (problem_response p rs)) h =
     (if h = ''Content-Type'' then ContentTypeProblemJSON
      else if h = ''Retry-After'' \<and> p_RetryAfter p \<noteq> None then int_text (the (p_RetryAfter p))
      else header_get (rs_headers rs) h)"
  by (simp add: problem_response_def write_json_def split: option.split)

text \<open>
  An error of a use case that has a problem of its own is answered with the response its operation declares
  for the status: same status, members and headers, but for the challenge, which \<open>JWTAuth\<close> alone sets.
\<close>

lemma error_as_declared:
  assumes "error_of op err = ProblemError p" "\<not> rs_committed rs"
  obtains visit where
    "declared_response op (p_Status p) (api_problem (p\<lparr>p_Instance := rq_uri (cx_request c)\<rparr>)) challenge
       (case p_RetryAfter p of None \<Rightarrow> 0 | Some n \<Rightarrow> n) = Some visit"
    and "\<And>w. wp (ProblemErrorHandler (error_of op err) c rs) (\<lambda>rs' w'. rs_status rs' = rs_status (visit rs) \<and>
      rs_committed rs' = rs_committed (visit rs) \<and>
      same_members (the (rs_body (visit rs))) (the (rs_body rs')) \<and>
      (\<forall>h. h \<noteq> ''WWW-Authenticate'' \<longrightarrow> header_get (rs_headers rs') h = header_get (rs_headers (visit rs)) h)) w"
proof -
  let ?p = "p\<lparr>p_Instance := rq_uri (cx_request c)\<rparr>" and ?n = "case p_RetryAfter p of None \<Rightarrow> 0 | Some n \<Rightarrow> n"
  obtain hs where hs: "declared_response op (p_Status p) (api_problem ?p) challenge ?n = Some (visit_problem (p_Status p) hs (api_problem ?p))"
    "hs \<in> {[], [(''WWW-Authenticate'', challenge)], [(''Retry-After'', int_text ?n)]}"
    "p_Status p = 429 \<longleftrightarrow> hs = [(''Retry-After'', int_text ?n)]"
    using declared_response_visit [OF problem_declared [OF assms(1)]] by blast
  have headers: "header_get (rs_headers (problem_response ?p rs)) h =
      header_get (rs_headers (visit_problem (p_Status p) hs (api_problem ?p) rs)) h" if "h \<noteq> ''WWW-Authenticate''" for h
  proof (cases "p_RetryAfter p")
    case None
    then have "hs \<in> {[], [(''WWW-Authenticate'', challenge)]}"
      using hs(2,3) retry_after_429 [OF assms(1)] by auto
    then show ?thesis
      using that by (elim insertE emptyE) (simp_all only: visit_problem_headers problem_response_headers, simp_all add: None)
  next
    case (Some n)
    then have "hs = [(''Retry-After'', int_text n)]" using hs(3) retry_after_429 [OF assms(1)] by simp
    then show ?thesis by (simp only: visit_problem_headers problem_response_headers) (simp add: Some)
  qed
  have body: "rs_body (problem_response ?p rs) = Some (problem_json ?p)" by (simp add: problem_response_def)
  show ?thesis
  proof (rule that [OF hs(1)])
    fix w
    show "wp (ProblemErrorHandler (error_of op err) c rs) (\<lambda>rs' w'.
        rs_status rs' = rs_status (visit_problem (p_Status p) hs (api_problem ?p) rs) \<and>
        rs_committed rs' = rs_committed (visit_problem (p_Status p) hs (api_problem ?p) rs) \<and>
        same_members (the (rs_body (visit_problem (p_Status p) hs (api_problem ?p) rs))) (the (rs_body rs')) \<and>
        (\<forall>h. h \<noteq> ''WWW-Authenticate'' \<longrightarrow> header_get (rs_headers rs') h =
          header_get (rs_headers (visit_problem (p_Status p) hs (api_problem ?p) rs)) h)) w"
      by (rule wp_mono [OF wp_ProblemErrorHandler_response [OF assms(2)]])
        (simp add: assms(1) problem_of_def problem_response_ok api_problem_same headers body)
  qed
qed

end
