(* ===== verification/Migrations.thy ===== *)
theory Migrations
  imports GoErrors
begin

text \<open>
  \<open>backend/common/migrations.go\<close>: bringing the schema of a module up to date at start-up. The work is done
  by golang-migrate; what is modelled is the order of the steps, the errors, and that what was opened is
  closed. The schema itself is in theory Tables.
\<close>

section \<open>The library\<close>

datatype up_result = UpDone | UpNoChange | UpFailed goerr   \<comment> \<open>\<open>m.Up()\<close>; \<open>migrate.ErrNoChange\<close>\<close>

record migrate_lib =
  ml_source :: "goerr option"       \<comment> \<open>\<open>iofs.New\<close>\<close>
  ml_schema :: "goerr option"       \<comment> \<open>\<open>db.ExecContext\<close>\<close>
  ml_driver :: "goerr option"       \<comment> \<open>\<open>pgxMigrate.WithInstance\<close>\<close>
  ml_migrate :: "goerr option"      \<comment> \<open>\<open>migrate.NewWithInstance\<close>\<close>
  ml_interrupted :: bool            \<comment> \<open>the context ended while \<open>Up\<close> ran\<close>
  ml_up :: up_result
  ml_close :: "goerr option \<times> goerr option"   \<comment> \<open>\<open>m.Close()\<close>: source, database\<close>
  ml_close_db :: "goerr option"     \<comment> \<open>\<open>db.Close()\<close>\<close>

datatype migrate_event =
    OpenedDB | OpenedSource | CreatedSchema string | OpenedDriver | OpenedMigrate
  | StopRequested | RanUp | ClosedMigrate | ClosedDB | LoggedError string goerr

section \<open>The steps\<close>

definition log_error :: "string \<Rightarrow> goerr option \<Rightarrow> migrate_event list" where
  "log_error msg err = (case err of None \<Rightarrow> [] | Some e \<Rightarrow> [LoggedError msg e])"

text \<open>The deferred calls: the handle of the database, and what \<open>migrate\<close> holds.\<close>

definition close_db :: "migrate_lib \<Rightarrow> migrate_event list" where
  "close_db L = ClosedDB # log_error ''closing migration db handle failed'' (ml_close_db L)"

definition close_migrate :: "migrate_lib \<Rightarrow> migrate_event list" where
  "close_migrate L = ClosedMigrate # log_error ''closing migration source failed'' (fst (ml_close L)) @
     log_error ''closing migration database failed'' (snd (ml_close L))"

definition MigrateDatabaseUp :: "migrate_lib \<Rightarrow> string \<Rightarrow> migrate_event list \<times> goerr option" where
  "MigrateDatabaseUp L moduleName =
     (case ml_source L of
        Some e \<Rightarrow> (OpenedDB # close_db L, Some (Wrap ''could not create iofs driver'' e))
      | None \<Rightarrow>
      case ml_schema L of
        Some e \<Rightarrow> ([OpenedDB, OpenedSource] @ close_db L, Some (Wrap (''could not create schema '' @ moduleName) e))
      | None \<Rightarrow>
      case ml_driver L of
        Some e \<Rightarrow> ([OpenedDB, OpenedSource, CreatedSchema moduleName] @ close_db L,
          Some (Wrap ''could not connect to pgx migrations database'' e))
      | None \<Rightarrow>
      case ml_migrate L of
        Some e \<Rightarrow> ([OpenedDB, OpenedSource, CreatedSchema moduleName, OpenedDriver] @ close_db L,
          Some (Wrap ''could not create migrate instance'' e))
      | None \<Rightarrow>
      ([OpenedDB, OpenedSource, CreatedSchema moduleName, OpenedDriver, OpenedMigrate] @
         (if ml_interrupted L then [StopRequested] else []) @ [RanUp] @ close_migrate L @ close_db L,
       case ml_up L of
         UpDone \<Rightarrow> None | UpNoChange \<Rightarrow> None | UpFailed e \<Rightarrow> Some (Wrap ''migration up failed'' e)))"

section \<open>What was opened is closed\<close>

lemma log_error_cases [simp]: "RanUp \<notin> set (log_error msg err)" "ClosedMigrate \<notin> set (log_error msg err)"
  "OpenedMigrate \<notin> set (log_error msg err)"
  by (simp_all add: log_error_def split: option.split)

lemma migrate_closes:
  assumes "MigrateDatabaseUp L m = (evs, r)"
  shows "\<exists>evs'. evs = OpenedDB # evs' @ close_db L" "OpenedMigrate \<in> set evs \<longleftrightarrow> ClosedMigrate \<in> set evs"
  using assms
  by (auto simp: MigrateDatabaseUp_def close_migrate_def close_db_def split: option.splits if_splits)

lemma migrate_runs:
  assumes "MigrateDatabaseUp L m = (evs, r)" "RanUp \<in> set evs"
  shows "\<exists>a b. evs = a @ [RanUp] @ b \<and> CreatedSchema m \<in> set a \<and> ClosedMigrate \<in> set b"
proof -
  have "evs = ([OpenedDB, OpenedSource, CreatedSchema m, OpenedDriver, OpenedMigrate] @
      (if ml_interrupted L then [StopRequested] else [])) @ [RanUp] @ (close_migrate L @ close_db L)"
    using assms by (auto simp: MigrateDatabaseUp_def close_db_def split: option.splits)
  moreover have "ClosedMigrate \<in> set (close_migrate L @ close_db L)" by (simp add: close_migrate_def)
  ultimately show ?thesis by (intro exI conjI) (assumption | simp)+
qed

lemma migrate_succeeds_iff:
  "snd (MigrateDatabaseUp L m) = None \<longleftrightarrow>
     ml_source L = None \<and> ml_schema L = None \<and> ml_driver L = None \<and> ml_migrate L = None \<and> (\<forall>e. ml_up L \<noteq> UpFailed e)"
  by (auto simp: MigrateDatabaseUp_def split: option.split up_result.split)

lemma migrate_done:
  assumes "snd (MigrateDatabaseUp L m) = None"
  shows "{CreatedSchema m, RanUp, ClosedMigrate} \<subseteq> set (fst (MigrateDatabaseUp L m))"
  using assms by (simp add: migrate_succeeds_iff) (simp add: MigrateDatabaseUp_def close_migrate_def)

end
