(* ===== verification/Logging.thy ===== *)
theory Logging
  imports Http
begin

text \<open>
  The log of the service: what the request context carries (\<open>backend/common/log/correlation.go\<close>), how an
  entry becomes a line (\<open>log.go\<close>, over the JSON handler of \<open>log/slog\<close>), and echo's own logger, which is
  turned into such entries (\<open>backend/common/echoadapter.go\<close>). In the use cases and handlers an entry is
  recorded as they make it (theory World); here is what is added to it.
\<close>

section \<open>The request context\<close>

text \<open>The values of a \<open>context.Context\<close> under the keys of the package; \<open>'l\<close> is the type of loggers.\<close>

record 'l log_context =
  lx_logger :: "'l option"
  lx_request_id :: "string option"
  lx_trace_id :: "string option"
  lx_span_id :: "string option"

definition Background :: "'l log_context" where
  "Background = \<lparr>lx_logger = None, lx_request_id = None, lx_trace_id = None, lx_span_id = None\<rparr>"

definition ContextWithRequestID :: "string \<Rightarrow> 'l log_context \<Rightarrow> 'l log_context" where
  "ContextWithRequestID reqID ctx = ctx\<lparr>lx_request_id := Some reqID\<rparr>"

definition RequestIDFromContext :: "ext \<Rightarrow> 'l log_context \<Rightarrow> string action" where
  "RequestIDFromContext X ctx =
     (case lx_request_id ctx of
        Some v \<Rightarrow> if v \<noteq> '''' then ret v else do { h \<leftarrow> randomHex X 8; ret (''gen_'' @ h) }
      | None \<Rightarrow> do { h \<leftarrow> randomHex X 8; ret (''gen_'' @ h) })"

definition ContextWithTrace :: "string \<Rightarrow> string \<Rightarrow> 'l log_context \<Rightarrow> 'l log_context" where
  "ContextWithTrace traceID spanID ctx = ctx\<lparr>lx_trace_id := Some traceID, lx_span_id := Some spanID\<rparr>"

definition TraceIDFromContext :: "'l log_context \<Rightarrow> string" where
  "TraceIDFromContext ctx = (case lx_trace_id ctx of None \<Rightarrow> '''' | Some v \<Rightarrow> v)"

definition SpanIDFromContext :: "'l log_context \<Rightarrow> string" where
  "SpanIDFromContext ctx = (case lx_span_id ctx of None \<Rightarrow> '''' | Some v \<Rightarrow> v)"

definition NewTraceID :: "ext \<Rightarrow> string action" where "NewTraceID X = randomHex X 16"

definition NewSpanID :: "ext \<Rightarrow> string action" where "NewSpanID X = randomHex X 8"

definition ContextWithLogger :: "'l log_context \<Rightarrow> 'l \<Rightarrow> 'l log_context" where
  "ContextWithLogger ctx logger = ctx\<lparr>lx_logger := Some logger\<rparr>"

text \<open>\<open>slog.Default()\<close> is an argument.\<close>

definition FromContext :: "'l \<Rightarrow> 'l log_context \<Rightarrow> 'l" where
  "FromContext default_logger ctx = (case lx_logger ctx of Some l \<Rightarrow> l | None \<Rightarrow> default_logger)"

section \<open>From an entry to a line\<close>

text \<open>
  An attribute value: a string, a time (and whether it is in UTC), a level, anything else. A record of
  \<open>log/slog\<close> has a time, a level, a message and attributes; a handler has the attributes of \<open>With\<close>.
  Groups are not used in the repository and are left out.
\<close>

datatype slog_value = SString string | STime time bool | SLevel int | SAny log_value

type_synonym slog_attr = "string \<times> slog_value"

definition LevelDebug :: int where "LevelDebug = -4"
definition LevelInfo :: int where "LevelInfo = 0"
definition LevelWarn :: int where "LevelWarn = 4"
definition LevelError :: int where "LevelError = 8"
definition LevelCritical :: int where "LevelCritical = 12"

record slog_record =
  sl_time :: time
  sl_level :: int
  sl_msg :: string
  sl_attrs :: "slog_attr list"

record log_handler =
  lh_min_level :: int
  lh_attrs :: "slog_attr list"

fun ReplaceAttr :: "slog_attr \<Rightarrow> slog_attr" where
  "ReplaceAttr (key, value) =
     (if key = ''time'' then (''ts'', case value of STime t _ \<Rightarrow> STime t True | v \<Rightarrow> v)
      else if key = ''level'' then
        (''lvl'', case value of SLevel lv \<Rightarrow> if lv = LevelCritical then SString ''CRITICAL'' else SLevel lv | v \<Rightarrow> v)
      else if key = ''msg'' then (''msg'', value)
      else (key, value))"

text \<open>The JSON handler: time, level and message first, then the handler's attributes, then the record's.\<close>

definition json_line :: "log_handler \<Rightarrow> slog_record \<Rightarrow> slog_attr list" where
  "json_line h r =
     map ReplaceAttr ([(''time'', STime (sl_time r) False), (''level'', SLevel (sl_level r)), (''msg'', SString (sl_msg r))] @
       lh_attrs h @ sl_attrs r)"

definition contextHandler_Handle :: "ext \<Rightarrow> log_handler \<Rightarrow> 'l log_context \<Rightarrow> slog_record \<Rightarrow> slog_attr list action" where
  "contextHandler_Handle X h ctx r = do {
     reqID \<leftarrow> RequestIDFromContext X ctx;
     ret (json_line h (r\<lparr>sl_attrs := sl_attrs r @
       [(''trace_id'', SString (TraceIDFromContext ctx)), (''span_id'', SString (SpanIDFromContext ctx)),
        (''req_id'', SString reqID)]\<rparr>)) }"

definition contextHandler_WithAttrs :: "slog_attr list \<Rightarrow> log_handler \<Rightarrow> log_handler" where
  "contextHandler_WithAttrs attrs h = h\<lparr>lh_attrs := lh_attrs h @ attrs\<rparr>"

text \<open>\<open>New(w, svc)\<close>: the default level is \<open>Info\<close>.\<close>

definition log_New :: "string \<Rightarrow> log_handler" where
  "log_New svc = contextHandler_WithAttrs [(''svc'', SString svc)] \<lparr>lh_min_level = LevelInfo, lh_attrs = []\<rparr>"

text \<open>The handler drops entries below its level; so \<open>requestLogMiddleware\<close> never logs a body whole.\<close>

definition handler_enabled :: "log_handler \<Rightarrow> int \<Rightarrow> bool" where
  "handler_enabled h lv \<longleftrightarrow> lh_min_level h \<le> lv"

lemma debug_not_enabled: "\<not> handler_enabled (log_New svc) LevelDebug" "handler_enabled (log_New svc) LevelInfo"
  by (simp_all add: handler_enabled_def log_New_def contextHandler_WithAttrs_def LevelDebug_def LevelInfo_def)

text \<open>
  An entry of the model as a record: the use cases log with their own attributes and the name of the use
  case; \<open>critical\<close> is the level of the package.
\<close>

fun slog_level :: "log_level \<Rightarrow> int" where
  "slog_level Debug = LevelDebug" | "slog_level Info = LevelInfo" | "slog_level Warn = LevelWarn"
| "slog_level Error = LevelError" | "slog_level Critical = LevelCritical"

definition entry_record :: "time \<Rightarrow> log_entry \<Rightarrow> slog_record" where
  "entry_record t e = \<lparr>sl_time = t, sl_level = slog_level (l_level e), sl_msg = l_msg e,
     sl_attrs = (if l_usecase e = '''' then [] else [(''usecase'', SAny (LStr (l_usecase e)))]) @
       map (\<lambda>(k, v). (k, SAny v)) (l_attrs e)\<rparr>"

lemma ReplaceAttr_key: "fst (ReplaceAttr (k, v)) = (if k = ''time'' then ''ts'' else if k = ''level'' then ''lvl'' else k)"
  by simp

text \<open>
  NFR-09: every line of the service has the time in UTC, the level, the service, the message and the
  identifiers of trace, span and request; within a request the last is the identifier the response
  carries in \<open>X-Request-Id\<close>.
\<close>

lemma line_of_request:
  assumes "lx_request_id ctx = Some reqID" "reqID \<noteq> ''''"
  shows "wp (contextHandler_Handle X (log_New svc) ctx r) (\<lambda>line w'. w' = w \<and>
    line = [(''ts'', STime (sl_time r) True),
      (''lvl'', if sl_level r = LevelCritical then SString ''CRITICAL'' else SLevel (sl_level r)),
      (''msg'', SString (sl_msg r)), (''svc'', SString svc)] @ map ReplaceAttr (sl_attrs r) @
      [(''trace_id'', SString (TraceIDFromContext ctx)), (''span_id'', SString (SpanIDFromContext ctx)),
       (''req_id'', SString reqID)]) w"
  using assms
  by (simp add: contextHandler_Handle_def RequestIDFromContext_def json_line_def log_New_def contextHandler_WithAttrs_def)

lemma line_fields:
  "wp (contextHandler_Handle X (log_New svc) ctx r)
     (\<lambda>line w'. {''ts'', ''lvl'', ''msg'', ''svc'', ''trace_id'', ''span_id'', ''req_id''} \<subseteq> fst ` set line) w"
  by (auto simp: contextHandler_Handle_def RequestIDFromContext_def json_line_def log_New_def
      contextHandler_WithAttrs_def randomHex_def split: option.split)

text \<open>The context middleware (theory Http) puts these values into the context of a request.\<close>

definition request_context :: "'l \<Rightarrow> string \<Rightarrow> string \<Rightarrow> string \<Rightarrow> 'l log_context" where
  "request_context logger reqID traceID spanID =
     ContextWithTrace traceID spanID (ContextWithRequestID reqID (ContextWithLogger Background logger))"

lemma contextMiddleware_ids:
  "contextMiddleware X next c rs = do {
     let sent = header_get (rq_headers (cx_request c)) ''X-Request-Id'';
     reqID \<leftarrow> (if sent = '''' then RequestIDFromContext X Background else ret sent);
     traceID \<leftarrow> NewTraceID X;
     spanID \<leftarrow> NewSpanID X;
     next (c\<lparr>cx_request_id := reqID, cx_client_ip := rq_real_ip (cx_request c)\<rparr>) (set_header ''X-Request-Id'' reqID rs) }"
  by (simp add: contextMiddleware_def RequestIDFromContext_def Background_def NewTraceID_def NewSpanID_def Let_def)

lemma request_context_simps [simp]:
  "lx_request_id (request_context logger reqID traceID spanID) = Some reqID"
  "TraceIDFromContext (request_context logger reqID traceID spanID) = traceID"
  "SpanIDFromContext (request_context logger reqID traceID spanID) = spanID"
  "FromContext d (request_context logger reqID traceID spanID) = logger"
  by (simp_all add: request_context_def ContextWithTrace_def ContextWithRequestID_def ContextWithLogger_def
      TraceIDFromContext_def SpanIDFromContext_def FromContext_def)

section \<open>Echo's logger\<close>

text \<open>Levels of \<open>gommon/log\<close>, and what a call has done: a log entry, the end of the process, a panic.\<close>

definition echo_DEBUG :: nat where "echo_DEBUG = 1"
definition echo_INFO :: nat where "echo_INFO = 2"
definition echo_WARN :: nat where "echo_WARN = 3"
definition echo_ERROR :: nat where "echo_ERROR = 4"
definition echo_OFF :: nat where "echo_OFF = 5"

datatype echo_effect = Logged int string "slog_attr list" | ExitProcess int | Panicked

text \<open>
  The adapter and the handler of its logger. \<open>SetOutput\<close> replaces the logger by one with a plain JSON
  handler: without the service's name and without the identifiers of a request.
\<close>

record EchoSlogAdapter =
  es_logger :: log_handler
  es_level :: nat
  es_prefix :: string

definition NewEchoSlogAdapter :: "log_handler \<Rightarrow> EchoSlogAdapter" where
  "NewEchoSlogAdapter logger = \<lparr>es_logger = logger, es_level = echo_INFO, es_prefix = ''''\<rparr>"

definition SetPrefix :: "string \<Rightarrow> EchoSlogAdapter \<Rightarrow> EchoSlogAdapter" where
  "SetPrefix p e = e\<lparr>es_prefix := p\<rparr>"

definition SetLevel :: "nat \<Rightarrow> EchoSlogAdapter \<Rightarrow> EchoSlogAdapter" where
  "SetLevel v e = e\<lparr>es_level := v\<rparr>"

definition echoLevelToSlog :: "nat \<Rightarrow> int" where
  "echoLevelToSlog level =
     (if level = echo_DEBUG then LevelDebug else if level = echo_INFO then LevelInfo
      else if level = echo_WARN then LevelWarn else if level = echo_ERROR then LevelError
      else if level = echo_OFF then LevelInfo else LevelInfo)"

definition SetOutput :: "EchoSlogAdapter \<Rightarrow> EchoSlogAdapter" where
  "SetOutput e = e\<lparr>es_logger := \<lparr>lh_min_level = echoLevelToSlog (es_level e), lh_attrs = []\<rparr>\<rparr>"

definition shouldLog :: "EchoSlogAdapter \<Rightarrow> nat \<Rightarrow> bool" where
  "shouldLog e level \<longleftrightarrow> es_level e \<le> level"

definition logWithPrefix :: "EchoSlogAdapter \<Rightarrow> string \<Rightarrow> string" where
  "logWithPrefix e msg = (if es_prefix e \<noteq> '''' then es_prefix e @ '' '' @ msg else msg)"

text \<open>\<open>jsonToAttrs\<close> takes the members in the order the iteration over the map gives them.\<close>

definition jsonToAttrs :: "(string \<times> log_value) list \<Rightarrow> slog_attr list" where
  "jsonToAttrs j = map (\<lambda>(k, v). (k, SAny v)) j"

text \<open>
  \<open>Info(i...)\<close>, \<open>Infof(format, args...)\<close> and \<open>Infoj(j)\<close>, and so for each level: the text is what \<open>fmt.Sprint\<close>
  or \<open>fmt.Sprintf\<close> makes of the arguments. The logger drops what its handler is not enabled for.
\<close>

definition slog_log :: "EchoSlogAdapter \<Rightarrow> int \<Rightarrow> string \<Rightarrow> slog_attr list \<Rightarrow> echo_effect list" where
  "slog_log e lv msg attrs = (if handler_enabled (es_logger e) lv then [Logged lv msg attrs] else [])"

definition echo_text :: "nat \<Rightarrow> int \<Rightarrow> EchoSlogAdapter \<Rightarrow> string \<Rightarrow> echo_effect list" where
  "echo_text level lv e msg = (if \<not> shouldLog e level then [] else slog_log e lv (logWithPrefix e msg) [])"

definition echo_json :: "nat \<Rightarrow> int \<Rightarrow> EchoSlogAdapter \<Rightarrow> (string \<times> log_value) list \<Rightarrow> echo_effect list" where
  "echo_json level lv e j = (if \<not> shouldLog e level then [] else slog_log e lv (logWithPrefix e '''') (jsonToAttrs j))"

definition echo_Print :: "EchoSlogAdapter \<Rightarrow> string \<Rightarrow> echo_effect list" where
  "echo_Print = echo_text echo_INFO LevelInfo"
definition echo_Printf :: "EchoSlogAdapter \<Rightarrow> string \<Rightarrow> echo_effect list" where
  "echo_Printf = echo_text echo_INFO LevelInfo"
definition echo_Printj :: "EchoSlogAdapter \<Rightarrow> (string \<times> log_value) list \<Rightarrow> echo_effect list" where
  "echo_Printj = echo_json echo_INFO LevelInfo"
definition echo_Debug :: "EchoSlogAdapter \<Rightarrow> string \<Rightarrow> echo_effect list" where
  "echo_Debug = echo_text echo_DEBUG LevelDebug"
definition echo_Debugf :: "EchoSlogAdapter \<Rightarrow> string \<Rightarrow> echo_effect list" where
  "echo_Debugf = echo_text echo_DEBUG LevelDebug"
definition echo_Debugj :: "EchoSlogAdapter \<Rightarrow> (string \<times> log_value) list \<Rightarrow> echo_effect list" where
  "echo_Debugj = echo_json echo_DEBUG LevelDebug"
definition echo_Info :: "EchoSlogAdapter \<Rightarrow> string \<Rightarrow> echo_effect list" where
  "echo_Info = echo_text echo_INFO LevelInfo"
definition echo_Infof :: "EchoSlogAdapter \<Rightarrow> string \<Rightarrow> echo_effect list" where
  "echo_Infof = echo_text echo_INFO LevelInfo"
definition echo_Infoj :: "EchoSlogAdapter \<Rightarrow> (string \<times> log_value) list \<Rightarrow> echo_effect list" where
  "echo_Infoj = echo_json echo_INFO LevelInfo"
definition echo_Warn :: "EchoSlogAdapter \<Rightarrow> string \<Rightarrow> echo_effect list" where
  "echo_Warn = echo_text echo_WARN LevelWarn"
definition echo_Warnf :: "EchoSlogAdapter \<Rightarrow> string \<Rightarrow> echo_effect list" where
  "echo_Warnf = echo_text echo_WARN LevelWarn"
definition echo_Warnj :: "EchoSlogAdapter \<Rightarrow> (string \<times> log_value) list \<Rightarrow> echo_effect list" where
  "echo_Warnj = echo_json echo_WARN LevelWarn"
definition echo_Error :: "EchoSlogAdapter \<Rightarrow> string \<Rightarrow> echo_effect list" where
  "echo_Error = echo_text echo_ERROR LevelError"
definition echo_Errorf :: "EchoSlogAdapter \<Rightarrow> string \<Rightarrow> echo_effect list" where
  "echo_Errorf = echo_text echo_ERROR LevelError"
definition echo_Errorj :: "EchoSlogAdapter \<Rightarrow> (string \<times> log_value) list \<Rightarrow> echo_effect list" where
  "echo_Errorj = echo_json echo_ERROR LevelError"

definition echo_Fatal :: "EchoSlogAdapter \<Rightarrow> string \<Rightarrow> echo_effect list" where
  "echo_Fatal e msg = slog_log e LevelError (logWithPrefix e msg) [] @ [ExitProcess 1]"
definition echo_Fatalj :: "EchoSlogAdapter \<Rightarrow> (string \<times> log_value) list \<Rightarrow> echo_effect list" where
  "echo_Fatalj e j = slog_log e LevelError (logWithPrefix e ''fatal'') (jsonToAttrs j) @ [ExitProcess 1]"
definition echo_Fatalf :: "EchoSlogAdapter \<Rightarrow> string \<Rightarrow> echo_effect list" where
  "echo_Fatalf e msg = slog_log e LevelError (logWithPrefix e msg) [] @ [ExitProcess 1]"
definition echo_Panic :: "EchoSlogAdapter \<Rightarrow> string \<Rightarrow> echo_effect list" where
  "echo_Panic e msg = slog_log e LevelError (logWithPrefix e msg) [] @ [Panicked]"
definition echo_Panicj :: "EchoSlogAdapter \<Rightarrow> (string \<times> log_value) list \<Rightarrow> echo_effect list" where
  "echo_Panicj e j = slog_log e LevelError (logWithPrefix e ''panic'') (jsonToAttrs j) @ [Panicked]"
definition echo_Panicf :: "EchoSlogAdapter \<Rightarrow> string \<Rightarrow> echo_effect list" where
  "echo_Panicf e msg = slog_log e LevelError (logWithPrefix e msg) [] @ [Panicked]"

lemmas echo_defs = echo_text_def echo_json_def shouldLog_def slog_log_def handler_enabled_def

lemmas echo_levels = echo_DEBUG_def echo_INFO_def echo_WARN_def echo_ERROR_def echo_OFF_def
  LevelDebug_def LevelInfo_def LevelWarn_def LevelError_def

text \<open>
  A call of a level is logged exactly when neither the adapter's level nor the handler's is above it, so
  raising the level only silences; \<open>Fatal\<close> and \<open>Panic\<close> are not silenced by the adapter's level. Lowering
  it to \<open>DEBUG\<close> brings no debug lines: the handler of the service stays at \<open>Info\<close>.
\<close>

lemma echo_text_iff: "echo_text level lv e msg \<noteq> [] \<longleftrightarrow> es_level e \<le> level \<and> lh_min_level (es_logger e) \<le> lv"
  by (simp add: echo_defs)

lemma echo_level_raised:
  assumes "es_level e \<le> v"
  shows "echo_text level lv (SetLevel v e) msg \<in> {[], echo_text level lv e msg}"
  using assms by (auto simp: echo_defs SetLevel_def logWithPrefix_def)

lemma echo_off:
  "echo_Error (SetLevel echo_OFF e) msg = []" "echo_Warn (SetLevel echo_OFF e) msg = []"
  "echo_Fatal (SetLevel echo_OFF e) msg = echo_Fatal e msg" "echo_Panic (SetLevel echo_OFF e) msg = echo_Panic e msg"
  by (simp_all add: echo_Error_def echo_Warn_def echo_Fatal_def echo_Panic_def SetLevel_def logWithPrefix_def
      echo_defs echo_levels)

lemma echo_debug_dropped:
  "echo_Debug (SetLevel v (NewEchoSlogAdapter (log_New svc))) msg = []"
  "echo_Debug (SetOutput (SetLevel echo_DEBUG e)) msg = [Logged LevelDebug (logWithPrefix e msg) []]"
  by (simp_all add: echo_Debug_def SetLevel_def SetOutput_def NewEchoSlogAdapter_def log_New_def logWithPrefix_def
      contextHandler_WithAttrs_def echoLevelToSlog_def echo_defs echo_levels)

end
