(* ===== verification/Startup.thy ===== *)
theory Startup
  imports Serving Migrations Logging
begin

text \<open>
  The programs: \<open>cmd/auth/main.go\<close> and \<open>cmd/app/main.go\<close>, the modules they are built from
  (\<open>backend/svc.go\<close>, \<open>auth/module.go\<close>, \<open>healthcheck\<close>, \<open>common/module\<close>), and the reading of the signing key.
  What the machine and the libraries answer is the record \<open>machine\<close>; a program is the sequence of what it
  does, ending with its exit code.
\<close>

section \<open>Contracts between modules\<close>

text \<open>\<open>common/module/contracts\<close>: \<open>None\<close> stands for the panic of a key registered twice.\<close>

type_synonym 'a contracts = "string \<Rightarrow> 'a option"

definition contracts_New :: "'a contracts" where "contracts_New = (\<lambda>_. None)"

definition contracts_Register :: "string \<Rightarrow> 'a \<Rightarrow> 'a contracts \<Rightarrow> 'a contracts option" where
  "contracts_Register key contract c = (if c key \<noteq> None then None else Some (c(key \<mapsto> contract)))"

definition contracts_Get :: "string \<Rightarrow> 'a contracts \<Rightarrow> 'a option" where
  "contracts_Get key c = c key"

lemma contracts_Get_Register:
  "contracts_Register key x c = Some c' \<Longrightarrow> contracts_Get k c' = (if k = key then Some x else contracts_Get k c)"
  "contracts_Register key x c = Some c' \<Longrightarrow> contracts_Register key y c' = None"
  by (auto simp: contracts_Register_def contracts_Get_def split: if_splits)

section \<open>The health check\<close>

definition HealthHandler_Handle :: "string action" where
  "HealthHandler_Handle = do {
     log ''UC-001'' Info usecase_started [(''ctx'', LStr ''healthcheck'')];
     log ''UC-001'' Info usecase_finished [(''ctx'', LStr ''healthcheck'')];
     ret ''ok'' }"

definition GetHealth :: http_handler where
  "GetHealth c rs = do {
     status \<leftarrow> HealthHandler_Handle;
     ret (None, json_response 200 [(''status'', JStr status)] rs) }"

definition RegisterRoutes :: "route list" where
  "RegisterRoutes = [((''GET'', ''/health''), \<lambda>_. GetHealth)]"

section \<open>The machine\<close>

text \<open>
  What the environment, the files, the drivers and the web server answer. \<open>mc_listens\<close> says whether \<open>e.Start\<close>
  comes to listen on the port: it does not when the port is taken, or when a signal came first and has
  shut the server down. \<open>mc_start\<close> is what it returns in the end; \<open>mc_connect\<close> are the libraries the use cases get, with the mailer and the signing key.
\<close>

datatype parsed_key = RSAKey string | OtherKey

record mail_config = sm_addr :: string  sm_from :: string

record machine =
  mc_Getenv :: "string \<Rightarrow> string"
  mc_pool :: "string \<Rightarrow> goerr option"            \<comment> \<open>\<open>pgxpool.New\<close>\<close>
  mc_pool_ping :: "goerr option"
  mc_redis_ping :: "string \<Rightarrow> goerr option"
  mc_read_file :: "string \<Rightarrow> goerr + string"
  mc_pem_decode :: "string \<Rightarrow> string option"      \<comment> \<open>the bytes of the first block\<close>
  mc_pkcs1 :: "string \<Rightarrow> goerr + string"
  mc_pkcs8 :: "string \<Rightarrow> goerr + parsed_key"
  mc_migrate :: migrate_lib
  mc_connect :: "mail_config \<Rightarrow> string \<Rightarrow> ext"
  mc_listens :: "string \<Rightarrow> bool"
  mc_start :: "string \<Rightarrow> goerr option"
  mc_server_closed :: "goerr \<Rightarrow> bool"             \<comment> \<open>\<open>errors.Is(err, http.ErrServerClosed)\<close>\<close>

datatype program_event =
    OpenedPool string | ClosedPool
  | ConnectedRedis string | ClosedRedis
  | Migrated "migrate_event list"
  | LogLine log_level string "(string \<times> log_value) list"
  | CalledStart string "route list"               \<comment> \<open>\<open>e.Start\<close> is called\<close>
  | Listening string                              \<comment> \<open>the port is open\<close>

definition getenv_or :: "machine \<Rightarrow> string \<Rightarrow> string \<Rightarrow> string" where
  "getenv_or M name dflt = (let v = mc_Getenv M name in if v = '''' then dflt else v)"

definition smtp_config :: "machine \<Rightarrow> mail_config" where
  "smtp_config M = \<lparr>sm_addr = getenv_or M ''SMTP_HOST'' ''mailpit'' @ '':'' @ getenv_or M ''SMTP_PORT'' ''1025'',
     sm_from = getenv_or M ''SMTP_FROM'' ''no-reply@example.com''\<rparr>"

definition NewPgxPool :: "machine \<Rightarrow> string \<Rightarrow> program_event list \<times> goerr option" where
  "NewPgxPool M dsn =
     (case mc_pool M dsn of
        Some err \<Rightarrow> ([], Some (Wrap ''could not create pgx pool'' err))
      | None \<Rightarrow>
      case mc_pool_ping M of
        Some err \<Rightarrow> ([OpenedPool dsn, ClosedPool], Some (Wrap ''could not ping database'' err))
      | None \<Rightarrow> ([OpenedPool dsn], None))"

definition ParseRSAPrivateKeyPEM :: "machine \<Rightarrow> string \<Rightarrow> goerr + string" where
  "ParseRSAPrivateKeyPEM M pemBytes =
     (case mc_pem_decode M pemBytes of
        None \<Rightarrow> Inl (NewError ''no PEM block found in JWT private key'')
      | Some block \<Rightarrow>
      case mc_pkcs1 M block of
        Inr key \<Rightarrow> Inr key
      | Inl _ \<Rightarrow>
      case mc_pkcs8 M block of
        Inl err \<Rightarrow> Inl (Wrap ''could not parse RSA private key (PKCS1/PKCS8)'' err)
      | Inr OtherKey \<Rightarrow> Inl (NewError ''JWT private key is not RSA'')
      | Inr (RSAKey key) \<Rightarrow> Inr key)"

definition loadJWTSigningKey :: "machine \<Rightarrow> string \<Rightarrow> goerr + string" where
  "loadJWTSigningKey M path =
     (if path = '''' then Inl (NewError ''JWT_PRIVATE_KEY_PATH is not set'')
      else case mc_read_file M path of
        Inl err \<Rightarrow> Inl (Wrap ''could not read JWT private key'' err)
      | Inr pemBytes \<Rightarrow> ParseRSAPrivateKeyPEM M pemBytes)"

section \<open>Modules\<close>

text \<open>
  \<open>module.Module\<close>: what \<open>Init\<close> does and returns, and the routes. None of the modules registers a
  contract.
\<close>

record app_module =
  md_Init :: "program_event list \<times> goerr option"
  md_RegisterHttp :: "route list"

definition healthcheck_module :: app_module where
  "healthcheck_module = \<lparr>md_Init = ([], None), md_RegisterHttp = RegisterRoutes\<rparr>"

definition auth_module :: "echo \<Rightarrow> ext \<Rightarrow> migrate_lib \<Rightarrow> deps \<Rightarrow> app_module" where
  "auth_module E X L D =
     \<lparr>md_Init = (case MigrateDatabaseUp L ''auth'' of (evs, err) \<Rightarrow> ([Migrated evs], err)),
      md_RegisterHttp = Register E X D\<rparr>"

fun build :: "app_module list \<Rightarrow> program_event list \<times> (goerr + route list)" where
  "build [] = ([], Inr [])"
| "build (m # ms) =
     (case md_Init m of
        (evs, Some err) \<Rightarrow> (evs, Inl err)
      | (evs, None) \<Rightarrow>
          (case build ms of
             (evs', Inl err) \<Rightarrow> (evs @ evs', Inl err)
           | (evs', Inr routes) \<Rightarrow> (evs @ evs', Inr (md_RegisterHttp m @ routes))))"

definition BuildApp :: "program_event list \<times> (goerr + route list)" where
  "BuildApp = build [healthcheck_module]"

definition BuildAuth :: "echo \<Rightarrow> ext \<Rightarrow> migrate_lib \<Rightarrow> deps \<Rightarrow> program_event list \<times> (goerr + route list)" where
  "BuildAuth E X L D = build [auth_module E X L D]"

section \<open>The programs\<close>

text \<open>An error that ends the program: it is logged, and \<open>os.Exit(1)\<close> skips the deferred calls.\<close>

definition give_up :: "program_event list \<Rightarrow> string \<Rightarrow> goerr option \<Rightarrow> program_event list \<times> int" where
  "give_up evs msg err =
     (evs @ [LogLine Error msg ((''ctx'', LStr ''bootstrap'') #
        (case err of None \<Rightarrow> [] | Some e \<Rightarrow> [(''error'', LErr e)]))], 1)"

text \<open>\<open>Run\<close> as \<open>main\<close> sees it; its two goroutines are the step relation below.\<close>

definition Run :: "machine \<Rightarrow> string \<Rightarrow> route list \<Rightarrow> program_event list \<times> goerr option" where
  "Run M port routes =
     (CalledStart port routes # (if mc_listens M port then [Listening port] else []),
      case mc_start M port of
        None \<Rightarrow> None
      | Some err \<Rightarrow> if mc_server_closed M err then None else Some (Wrap ''starting http server failed'' err))"

text \<open>The end of both programs; \<open>deferred\<close> are the calls \<open>main\<close> makes when it returns.\<close>

definition start_and_run ::
  "machine \<Rightarrow> program_event list \<Rightarrow> string \<Rightarrow> string \<Rightarrow> route list \<Rightarrow> program_event list \<Rightarrow> program_event list \<times> int" where
  "start_and_run M evs msg port routes deferred =
     (let evs = evs @ [LogLine Info msg [(''ctx'', LStr ''bootstrap''), (''port'', LStr port)]] in
      case Run M port routes of
        (run, Some err) \<Rightarrow> give_up (evs @ run) ''server stopped'' (Some err)
      | (run, None) \<Rightarrow> (evs @ run @ deferred, 0))"

definition MsgWeakHMAC :: string where
  "MsgWeakHMAC = ''RATELIMIT_HMAC_SECRET'' @ bytes [227, 129, 140, 229, 133, 172, 231, 159, 165, 227, 129, 174, 233, 150,
     139, 231, 153, 186, 231, 148, 168, 230, 151, 162, 229, 174, 154, 233, 141, 181, 227, 129, 167, 227, 129, 153, 239,
     188, 136, 230, 156, 170, 232, 168, 173, 229, 174, 154, 227, 129, 190, 227, 129, 159, 227, 129, 175, 230, 151, 162,
     229, 174, 154, 233, 141, 181, 227, 129, 174, 230, 152, 142, 231, 164, 186, 232, 168, 173, 229, 174, 154, 239, 188,
     137, 227, 128, 130, 230, 156, 172, 231, 149, 170, 227, 129, 167, 227, 129, 175, 229, 136, 165, 227, 129, 174, 233,
     141, 181, 227, 130, 146, 232, 168, 173, 229, 174, 154, 227, 129, 151, 227, 129, 166, 227, 129, 143, 227, 129, 160,
     227, 129, 149, 227, 129, 132]"

definition main_app :: "machine \<Rightarrow> program_event list \<times> int" where
  "main_app M =
     (case BuildApp of
        (evs, Inl err) \<Rightarrow> give_up evs ''failed to build service'' (Some err)
      | (evs, Inr routes) \<Rightarrow>
          start_and_run M evs ''app-service starting'' (getenv_or M ''APP_PORT'' ''8080'') routes [])"

definition main_auth :: "echo \<Rightarrow> machine \<Rightarrow> program_event list \<times> int" where
  "main_auth E M =
     (let dsn = mc_Getenv M ''POSTGRES_URL'' in
      if dsn = '''' then give_up [] ''POSTGRES_URL is not set'' None
      else case NewPgxPool M dsn of
        (evs, Some err) \<Rightarrow> give_up evs ''failed to connect database'' (Some err)
      | (evs, None) \<Rightarrow>
      let redisAddr = getenv_or M ''REDIS_ADDR'' ''redis:6379'' in
      case mc_redis_ping M redisAddr of
        Some err \<Rightarrow> give_up evs ''failed to connect redis'' (Some err)
      | None \<Rightarrow>
      let env = mc_Getenv M ''RATELIMIT_HMAC_SECRET'';
          evs = evs @ [ConnectedRedis redisAddr] @
            (if snd (ResolveHMACSecret env) then [LogLine Warn MsgWeakHMAC [(''ctx'', LStr ''bootstrap'')]] else [])
      in case loadJWTSigningKey M (mc_Getenv M ''JWT_PRIVATE_KEY_PATH'') of
        Inl err \<Rightarrow> give_up evs ''failed to load JWT signing key'' (Some err)
      | Inr signingKey \<Rightarrow>
      let X = mc_connect M (smtp_config M) signingKey in
      case BuildAuth E X (mc_migrate M) (main_deps X env) of
        (built, Inl err) \<Rightarrow> give_up (evs @ built) ''failed to build service'' (Some err)
      | (built, Inr routes) \<Rightarrow>
          start_and_run M (evs @ built) ''auth-service starting'' (getenv_or M ''AUTH_PORT'' ''8081'') routes
            [ClosedRedis, ClosedPool])"

lemmas start_defs = give_up_def start_and_run_def Run_def BuildAuth_def BuildApp_def auth_module_def
  healthcheck_module_def NewPgxPool_def

text \<open>
  The service starts its server only when the database and Redis have answered, the signing key has been read
  and the schema has been migrated; it offers the routes of the module. Otherwise it ends with exit code 1,
  having logged why. Whether it then listens is up to the port and to signals.
\<close>

definition ready :: "machine \<Rightarrow> bool" where
  "ready M \<longleftrightarrow> mc_Getenv M ''POSTGRES_URL'' \<noteq> '''' \<and> mc_pool M (mc_Getenv M ''POSTGRES_URL'') = None \<and>
     mc_pool_ping M = None \<and> mc_redis_ping M (getenv_or M ''REDIS_ADDR'' ''redis:6379'') = None \<and>
     (\<exists>key. loadJWTSigningKey M (mc_Getenv M ''JWT_PRIVATE_KEY_PATH'') = Inr key) \<and>
     snd (MigrateDatabaseUp (mc_migrate M) ''auth'') = None"

lemma main_auth_ready:
  assumes "ready M"
  obtains key where "loadJWTSigningKey M (mc_Getenv M ''JWT_PRIVATE_KEY_PATH'') = Inr key"
    and "main_auth E M =
      (let env = mc_Getenv M ''RATELIMIT_HMAC_SECRET''; X = mc_connect M (smtp_config M) key in
       start_and_run M ([OpenedPool (mc_Getenv M ''POSTGRES_URL''), ConnectedRedis (getenv_or M ''REDIS_ADDR'' ''redis:6379'')] @
           (if snd (ResolveHMACSecret env) then [LogLine Warn MsgWeakHMAC [(''ctx'', LStr ''bootstrap'')]] else []) @
           [Migrated (fst (MigrateDatabaseUp (mc_migrate M) ''auth''))])
         ''auth-service starting'' (getenv_or M ''AUTH_PORT'' ''8081'') (Register E X (main_deps X env)) [ClosedRedis, ClosedPool])"
  using assms that
  by (fastforce simp: ready_def main_auth_def Let_def NewPgxPool_def BuildAuth_def auth_module_def
      split: prod.splits)

lemma main_auth_not_ready:
  assumes "\<not> ready M"
  shows "\<exists>evs msg attrs. main_auth E M = (evs @ [LogLine Error msg attrs], 1) \<and>
    (\<forall>port routes. CalledStart port routes \<notin> set evs \<and> Listening port \<notin> set evs)"
  using assms
  by (auto simp: ready_def main_auth_def Let_def start_defs split: option.splits sum.splits prod.splits)

lemma main_auth_calls:
  "CalledStart port routes \<in> set (fst (main_auth E M)) \<longleftrightarrow> ready M \<and> port = getenv_or M ''AUTH_PORT'' ''8081'' \<and>
     (\<exists>key. loadJWTSigningKey M (mc_Getenv M ''JWT_PRIVATE_KEY_PATH'') = Inr key \<and>
       (let X = mc_connect M (smtp_config M) key in routes = Register E X (main_deps X (mc_Getenv M ''RATELIMIT_HMAC_SECRET''))))"
proof (cases "ready M")
  case True
  obtain key where key: "loadJWTSigningKey M (mc_Getenv M ''JWT_PRIVATE_KEY_PATH'') = Inr key"
    and main: "main_auth E M =
      (let env = mc_Getenv M ''RATELIMIT_HMAC_SECRET''; X = mc_connect M (smtp_config M) key in
       start_and_run M ([OpenedPool (mc_Getenv M ''POSTGRES_URL''), ConnectedRedis (getenv_or M ''REDIS_ADDR'' ''redis:6379'')] @
           (if snd (ResolveHMACSecret env) then [LogLine Warn MsgWeakHMAC [(''ctx'', LStr ''bootstrap'')]] else []) @
           [Migrated (fst (MigrateDatabaseUp (mc_migrate M) ''auth''))])
         ''auth-service starting'' (getenv_or M ''AUTH_PORT'' ''8081'') (Register E X (main_deps X env)) [ClosedRedis, ClosedPool])"
    using main_auth_ready [OF True, of E] by blast
  show ?thesis
    using True key unfolding main
    by (auto simp: Let_def start_and_run_def Run_def give_up_def split: option.split)
next
  case False
  then obtain evs msg attrs where "main_auth E M = (evs @ [LogLine Error msg attrs], 1)"
    "\<forall>port routes. CalledStart port routes \<notin> set evs \<and> Listening port \<notin> set evs"
    using main_auth_not_ready by blast
  then show ?thesis using False by simp
qed

lemma main_auth_listens:
  "Listening port \<in> set (fst (main_auth E M)) \<longleftrightarrow> ready M \<and> port = getenv_or M ''AUTH_PORT'' ''8081'' \<and> mc_listens M port"
proof (cases "ready M")
  case True
  show ?thesis
    by (rule main_auth_ready [OF True, of E])
      (use True in \<open>auto simp: Let_def start_and_run_def Run_def give_up_def split: option.split\<close>)
next
  case False
  then show ?thesis using main_auth_not_ready [OF False, of E] by force
qed

text \<open>The exit code is 0 exactly when the server was closed in order; then what was opened is closed.\<close>

lemma main_auth_exit:
  "snd (main_auth E M) = 0 \<longleftrightarrow> ready M \<and> snd (Run M (getenv_or M ''AUTH_PORT'' ''8081'') []) = None"
  "snd (main_auth E M) \<noteq> 0 \<longleftrightarrow> snd (main_auth E M) = 1 \<and> (\<exists>msg attrs. last (fst (main_auth E M)) = LogLine Error msg attrs)"
  "snd (main_auth E M) = 0 \<Longrightarrow> \<exists>evs. fst (main_auth E M) = evs @ [ClosedRedis, ClosedPool]"
  using main_auth_not_ready [of M E]
  by (atomize (full), cases "ready M")
    (rule main_auth_ready [of M E], simp, auto simp: Let_def start_and_run_def Run_def give_up_def split: option.split)

text \<open>What has happened before the server is started: in particular, nothing listens yet.\<close>

lemma start_and_run_calls:
  "\<exists>b. fst (start_and_run M evs msg port routes deferred) =
     (evs @ [LogLine Info msg [(''ctx'', LStr ''bootstrap''), (''port'', LStr port)]]) @ CalledStart port routes # b"
  by (simp add: start_and_run_def Run_def give_up_def split: option.split)

lemma main_auth_order:
  assumes "CalledStart port routes \<in> set (fst (main_auth E M))"
  shows "\<exists>a b. fst (main_auth E M) = a @ CalledStart port routes # b \<and>
    (\<forall>p. Listening p \<notin> set a) \<and>
    OpenedPool (mc_Getenv M ''POSTGRES_URL'') \<in> set a \<and> ClosedPool \<notin> set a \<and>
    ConnectedRedis (getenv_or M ''REDIS_ADDR'' ''redis:6379'') \<in> set a \<and>
    (\<exists>evs. Migrated evs \<in> set a \<and> {CreatedSchema ''auth'', RanUp} \<subseteq> set evs)"
proof -
  let ?up = "MigrateDatabaseUp (mc_migrate M) ''auth''" and ?env = "mc_Getenv M ''RATELIMIT_HMAC_SECRET''"
  let ?evs = "[OpenedPool (mc_Getenv M ''POSTGRES_URL''), ConnectedRedis (getenv_or M ''REDIS_ADDR'' ''redis:6379'')] @
      (if snd (ResolveHMACSecret ?env) then [LogLine Warn MsgWeakHMAC [(''ctx'', LStr ''bootstrap'')]] else []) @
      [Migrated (fst ?up)]"
  have ready: "ready M" using assms by (simp add: main_auth_calls)
  then obtain key where key: "loadJWTSigningKey M (mc_Getenv M ''JWT_PRIVATE_KEY_PATH'') = Inr key"
    and main: "main_auth E M =
      (let X = mc_connect M (smtp_config M) key in
       start_and_run M ?evs ''auth-service starting'' (getenv_or M ''AUTH_PORT'' ''8081'')
         (Register E X (main_deps X ?env)) [ClosedRedis, ClosedPool])"
    using main_auth_ready [OF ready, of E] unfolding Let_def by blast
  have routes: "Register E (mc_connect M (smtp_config M) key) (main_deps (mc_connect M (smtp_config M) key) ?env) = routes"
    "getenv_or M ''AUTH_PORT'' ''8081'' = port"
    using assms key by (auto simp: main_auth_calls Let_def)
  obtain b where "fst (main_auth E M) =
      (?evs @ [LogLine Info ''auth-service starting'' [(''ctx'', LStr ''bootstrap''), (''port'', LStr port)]])
      @ CalledStart port routes # b"
    using start_and_run_calls [of M ?evs] unfolding main Let_def routes by blast
  moreover have "{CreatedSchema ''auth'', RanUp} \<subseteq> set (fst ?up)"
    using migrate_done [of "mc_migrate M" "''auth''"] ready by (simp add: ready_def)
  ultimately show ?thesis by (intro exI conjI) (assumption | simp)+
qed

text \<open>The server is started as configured, after everything it needs, and before anything listens.\<close>

definition started :: "echo \<Rightarrow> machine \<Rightarrow> program_event list \<Rightarrow> string \<Rightarrow> route list \<Rightarrow> bool" where
  "started E M evs port routes \<longleftrightarrow> port = getenv_or M ''AUTH_PORT'' ''8081'' \<and>
     (\<exists>key. loadJWTSigningKey M (mc_Getenv M ''JWT_PRIVATE_KEY_PATH'') = Inr key \<and>
       (let X = mc_connect M (smtp_config M) key in routes = Register E X (main_deps X (mc_Getenv M ''RATELIMIT_HMAC_SECRET'')))) \<and>
     (\<exists>a b. evs = a @ CalledStart port routes # b \<and> (\<forall>p. Listening p \<notin> set a) \<and>
       OpenedPool (mc_Getenv M ''POSTGRES_URL'') \<in> set a \<and> ClosedPool \<notin> set a \<and>
       ConnectedRedis (getenv_or M ''REDIS_ADDR'' ''redis:6379'') \<in> set a \<and>
       (\<exists>ups. Migrated ups \<in> set a \<and> {CreatedSchema ''auth'', RanUp} \<subseteq> set ups))"

lemma main_auth_started:
  assumes "main_auth E M = (evs, code)"
  shows "((\<exists>port routes. CalledStart port routes \<in> set evs) \<longleftrightarrow> ready M) \<and>
    (\<forall>port routes. CalledStart port routes \<in> set evs \<longrightarrow> started E M evs port routes) \<and>
    (\<forall>port. Listening port \<in> set evs \<longleftrightarrow> ready M \<and> port = getenv_or M ''AUTH_PORT'' ''8081'' \<and> mc_listens M port) \<and>
    (code = 0 \<longleftrightarrow> ready M \<and> snd (Run M (getenv_or M ''AUTH_PORT'' ''8081'') []) = None) \<and>
    (code = 0 \<longrightarrow> (\<exists>a. evs = a @ [ClosedRedis, ClosedPool])) \<and>
    (code \<noteq> 0 \<longrightarrow> code = 1 \<and> (\<exists>msg attrs. last evs = LogLine Error msg attrs))"
proof -
  have eq: "fst (main_auth E M) = evs" "snd (main_auth E M) = code" using assms by simp_all
  have "(\<exists>port routes. CalledStart port routes \<in> set evs) \<longleftrightarrow> ready M"
    using main_auth_calls [where E = E and M = M, unfolded eq Let_def] by (auto simp: ready_def)
  moreover have "started E M evs port routes" if "CalledStart port routes \<in> set evs" for port routes
    using main_auth_calls [of port routes E M, unfolded eq] main_auth_order [of port routes E M, unfolded eq] that
    unfolding started_def by blast
  ultimately show ?thesis using main_auth_exit [of E M, unfolded eq] main_auth_listens [of _ E M, unfolded eq] by blast
qed

section \<open>The application service\<close>

text \<open>A request to a service with the given routes; for the routes of \<open>auth\<close> it is \<open>serve\<close>.\<close>

definition dispatch_to :: "echo \<Rightarrow> route list \<Rightarrow> http_handler" where
  "dispatch_to E routes c rs =
     (case eo_route E (map fst routes) (cx_request c) of
        Inl err \<Rightarrow> ret (Some err, rs)
      | Inr (key, params) \<Rightarrow>
          (case map_of routes key of
             Some h \<Rightarrow> h params c rs
           | None \<Rightarrow> ret (Some (HTTPError 404 (Some ''Not Found'') ''code=404, message=Not Found''), rs)))"

definition serve_routes :: "echo \<Rightarrow> codec \<Rightarrow> bool \<Rightarrow> ext \<Rightarrow> route list \<Rightarrow> request \<Rightarrow> response action" where
  "serve_routes E C debug X routes rq = do {
     let c = \<lparr>cx_request = rq, cx_claims = None, cx_client_ip = '''', cx_request_id = ''''\<rparr>;
     let rs = \<lparr>rs_committed = False, rs_status = 200, rs_headers = [], rs_body = None\<rparr>;
     (err, rs') \<leftarrow> eo_apply E (NewEcho E C debug X) (dispatch_to E routes) c rs;
     (case err of None \<Rightarrow> ret rs' | Some e \<Rightarrow> ProblemErrorHandler e c rs') }"

lemma serve_routes_Register: "serve_routes E C debug X (Register E X D) = serve E C debug X D"
proof -
  have "dispatch_to E (Register E X D) = dispatch E X D"
    by (intro ext) (simp add: dispatch_to_def dispatch_def)
  then show ?thesis by (intro ext) (simp add: serve_routes_def serve_def)
qed

lemma wp_GetHealth:
  "wp (GetHealth c rs) (\<lambda>r w'. r = (None, json_response 200 [(''status'', JStr ''ok'')] rs) \<and> log_only w w') w"
  by (auto simp: GetHealth_def HealthHandler_Handle_def log_only_def)

lemma health_answers:
  assumes "echo_ok E" "BuildApp = (evs, Inr routes)"
    and "eo_route E (map fst routes) rq = Inr ((''GET'', ''/health''), params)"
  shows "wp (serve_routes E C debug X routes rq) (\<lambda>rs w'. rs_committed rs \<and> rs_status rs = 200 \<and>
    rs_body rs = Some (JObj [(''status'', JStr ''ok'')]) \<and> untouched w w') w"
proof -
  have routes: "routes = RegisterRoutes" using assms(2) by (simp add: BuildApp_def healthcheck_module_def)
  have recover: "eo_recover E h = h" for h using assms(1) by (simp add: echo_ok_def)
  obtain f where f: "\<And>h c rs. eo_timeout E h c rs = do { (err, rs') \<leftarrow> h c rs; ret (map_option f err, rs') }"
    using assms(1) unfolding echo_ok_def by blast
  have health: "dispatch_to E routes c rs = GetHealth c rs" if "cx_request c = rq" for c rs
    using assms(3) that by (simp add: dispatch_to_def routes RegisterRoutes_def)
  have log: "wp (requestLogMiddleware C debug (dispatch_to E routes) c rs)
      (\<lambda>r w'. r = (None, json_response 200 [(''status'', JStr ''ok'')] rs) \<and> untouched w w') w1"
    if "cx_request c = rq" "untouched w w1" for c rs w1
    unfolding requestLogMiddleware_def wp_bind health [OF that(1)]
    by (rule wp_mono [OF wp_GetHealth]) (auto simp: Let_def untouched_log_only that(2))
  have ctx: "wp (contextMiddleware X (requestLogMiddleware C debug (dispatch_to E routes)) c rs)
      (\<lambda>r w'. (\<exists>rs0. r = (None, json_response 200 [(''status'', JStr ''ok'')] rs0)) \<and> untouched w w') w"
    if "cx_request c = rq" for c rs
    unfolding contextMiddleware_def Let_def
    using that by (auto simp: wp_randomHex intro!: wp_mono [OF log])
  show ?thesis
    unfolding serve_routes_def Let_def NewEcho_def
    using assms(1)
    by (simp add: echo_ok_def recover f split_beta)
      (rule wp_mono [OF ctx], auto simp: json_response_def write_json_def)
qed

section \<open>Serving and shutting down\<close>

text \<open>
  The goroutines of \<open>Run\<close>: \<open>main\<close>, in \<open>e.Start\<close>, and the one that waits for the signal and calls
  \<open>e.Shutdown\<close>. \<open>mc_listens\<close> and \<open>mc_start\<close> of the machine are what comes of them: whether \<open>Listens\<close>
  happens, and what the last state of \<open>main\<close> is. As \<open>net/http\<close> documents, \<open>Shutdown\<close> closes the listeners, makes \<open>Serve\<close> return
  \<open>ErrServerClosed\<close> at once, and then waits for the requests being served.
\<close>

datatype main_pc = Starting | Accepting | Returned "goerr option"

datatype watch_pc = Waiting | ShuttingDown | ShutDone

record server_run =
  sv_main :: main_pc
  sv_watch :: watch_pc
  sv_listening :: bool
  sv_inflight :: nat        \<comment> \<open>requests accepted and not yet answered\<close>
  sv_cancelled :: bool      \<comment> \<open>SIGINT or SIGTERM has come\<close>

definition run_start :: server_run where
  "run_start = \<lparr>sv_main = Starting, sv_watch = Waiting, sv_listening = False, sv_inflight = 0, sv_cancelled = False\<rparr>"

definition start_failed :: "goerr \<Rightarrow> main_pc" where
  "start_failed err = Returned (Some (Wrap ''starting http server failed'' err))"

inductive run_step :: "server_run \<Rightarrow> server_run \<Rightarrow> bool" where
  Listens: "sv_main s = Starting \<Longrightarrow> sv_watch s = Waiting \<Longrightarrow> run_step s (s\<lparr>sv_main := Accepting, sv_listening := True\<rparr>)"
| ListenFails: "sv_main s = Starting \<Longrightarrow> run_step s (s\<lparr>sv_main := start_failed err\<rparr>)"
| ClosedBefore: "sv_main s = Starting \<Longrightarrow> sv_watch s \<noteq> Waiting \<Longrightarrow> run_step s (s\<lparr>sv_main := Returned None\<rparr>)"
| Accepts: "sv_main s = Accepting \<Longrightarrow> sv_listening s \<Longrightarrow> run_step s (s\<lparr>sv_inflight := sv_inflight s + 1\<rparr>)"
| Finishes: "sv_inflight s = Suc n \<Longrightarrow> run_step s (s\<lparr>sv_inflight := n\<rparr>)"
| Signal: "run_step s (s\<lparr>sv_cancelled := True\<rparr>)"
| Shutdown: "sv_cancelled s \<Longrightarrow> sv_watch s = Waiting \<Longrightarrow> run_step s (s\<lparr>sv_watch := ShuttingDown, sv_listening := False\<rparr>)"
| ShutdownEnds: "sv_watch s = ShuttingDown \<Longrightarrow> sv_inflight s = 0 \<Longrightarrow> run_step s (s\<lparr>sv_watch := ShutDone\<rparr>)"
| StartReturns: "sv_main s = Accepting \<Longrightarrow> sv_watch s \<noteq> Waiting \<Longrightarrow> run_step s (s\<lparr>sv_main := Returned None\<rparr>)"
| ServeFails: "sv_main s = Accepting \<Longrightarrow> run_step s (s\<lparr>sv_main := start_failed err, sv_listening := False\<rparr>)"

definition run_inv :: "server_run \<Rightarrow> bool" where
  "run_inv s \<longleftrightarrow> (sv_watch s \<noteq> Waiting \<longrightarrow> sv_cancelled s \<and> \<not> sv_listening s) \<and>
     (sv_main s = Returned None \<longrightarrow> sv_watch s \<noteq> Waiting) \<and> (sv_listening s \<longrightarrow> sv_main s = Accepting)"

lemma run_inv_step: "run_step s s' \<Longrightarrow> run_inv s \<Longrightarrow> run_inv s'"
  by (induction rule: run_step.induct) (auto simp: run_inv_def start_failed_def)

lemma run_inv_reachable: "run_step\<^sup>*\<^sup>* run_start s \<Longrightarrow> run_inv s"
  by (induction rule: rtranclp_induct) (auto simp: run_inv_def run_start_def dest: run_inv_step [unfolded run_inv_def])

lemma accepts_many:
  assumes "sv_main s = Accepting" "sv_listening s"
  shows "run_step\<^sup>*\<^sup>* s (s\<lparr>sv_inflight := sv_inflight s + n\<rparr>)"
proof (induction n)
  case (Suc n)
  have "run_step (s\<lparr>sv_inflight := sv_inflight s + n\<rparr>) (s\<lparr>sv_inflight := sv_inflight s + Suc n\<rparr>)"
    using Accepts [of "s\<lparr>sv_inflight := sv_inflight s + n\<rparr>"] assms by simp
  with Suc show ?case by (rule rtranclp.rtrancl_into_rtrancl)
qed simp

text \<open>Once \<open>Shutdown\<close> has begun, no request is accepted any more.\<close>

lemma draining_step:
  "run_step s s' \<Longrightarrow> run_inv s \<Longrightarrow> sv_watch s \<noteq> Waiting \<Longrightarrow> sv_inflight s' \<le> sv_inflight s \<and> sv_watch s' \<noteq> Waiting"
  by (induction rule: run_step.induct) (auto simp: run_inv_def)

lemma draining:
  assumes "run_step\<^sup>*\<^sup>* s s'" "run_inv s" "sv_watch s \<noteq> Waiting"
  shows "sv_inflight s' \<le> sv_inflight s"
proof -
  have "run_inv s' \<and> sv_watch s' \<noteq> Waiting \<and> sv_inflight s' \<le> sv_inflight s"
    using assms
  proof (induction rule: rtranclp_induct)
    case (step t u)
    then show ?case using run_inv_step [OF step(2)] draining_step [OF step(2)] by fastforce
  qed simp
  then show ?thesis by simp
qed

text \<open>\<open>Shutdown\<close> is not awaited: \<open>main\<close> may return while any number of requests is being served.\<close>

lemma shutdown_not_awaited:
  "run_step\<^sup>*\<^sup>* run_start \<lparr>sv_main = Returned None, sv_watch = ShuttingDown, sv_listening = False, sv_inflight = n,
     sv_cancelled = True\<rparr>"
proof -
  let ?s = "\<lambda>m w l k c. \<lparr>sv_main = m, sv_watch = w, sv_listening = l, sv_inflight = k, sv_cancelled = c\<rparr>"
  have s1: "run_step run_start (?s Accepting Waiting True 0 False)"
    using Listens [of run_start] by (simp add: run_start_def)
  have s2: "run_step\<^sup>*\<^sup>* (?s Accepting Waiting True 0 False) (?s Accepting Waiting True n False)"
    using accepts_many [of "?s Accepting Waiting True 0 False" n] by simp
  have s3: "run_step (?s Accepting Waiting True n False) (?s Accepting Waiting True n True)"
    using Signal [of "?s Accepting Waiting True n False"] by simp
  have s4: "run_step (?s Accepting Waiting True n True) (?s Accepting ShuttingDown False n True)"
    using Shutdown [of "?s Accepting Waiting True n True"] by simp
  have s5: "run_step (?s Accepting ShuttingDown False n True) (?s (Returned None) ShuttingDown False n True)"
    using StartReturns [of "?s Accepting ShuttingDown False n True"] by simp
  show ?thesis
    by (rule rtranclp_trans [OF converse_rtranclp_into_rtranclp [OF s1 s2] converse_rtranclp_into_rtranclp [OF s3
      converse_rtranclp_into_rtranclp [OF s4 r_into_rtranclp [of run_step, OF s5]]]])
qed

end
