(* ===== verification/Runs.thy ===== *)
theory Runs
  imports Serving
begin

text \<open>
  The server over time: a run is a sequence of requests, each served under a schedule of its own
  (what other instances do meanwhile, which calls fail). What holds of the database after every
  run follows by rule induction from what serving one request does.
\<close>

definition next_world :: "time \<Rightarrow> redis \<Rightarrow> env_step list \<Rightarrow> world \<Rightarrow> world" where
  "next_world t r env w = w\<lparr>w_now := t, w_redis := r, w_env := env\<rparr>"

text \<open>
  Between two requests time passes and Redis may change in any way. The identifiers a request draws
  are new (\<open>uuid.New\<close>): they open no token family that exists or that another request opens.
\<close>

inductive server_run ::
  "echo \<Rightarrow> codec \<Rightarrow> bool \<Rightarrow> ext \<Rightarrow> deps \<Rightarrow> world \<Rightarrow> world \<Rightarrow> bool"
  for E C debug X D where
  no_request: "server_run E C debug X D w w"
| request: "server_run E C debug X D w w1 \<Longrightarrow> w_now w1 \<le> t \<Longrightarrow> fresh_ids X (next_world t r env w1) \<Longrightarrow>
    run_state (serve E C debug X D rq) (next_world t r env w1) = (rs, w2) \<Longrightarrow> server_run E C debug X D w w2"

inductive_cases server_runE: "server_run E C debug X D w w'"

lemma server_run_trans:
  "server_run E C debug X D w w1 \<Longrightarrow> server_run E C debug X D w0 w \<Longrightarrow> server_run E C debug X D w0 w1"
  by (induction rule: server_run.induct) (auto intro: server_run.intros)

lemma next_world_simps [simp]:
  "w_db (next_world t r env w) = w_db w" "w_tx (next_world t r env w) = w_tx w"
  by (simp_all add: next_world_def)

context service
begin

lemma run_evolves:
  assumes "server_run E C debug X D w w'" "echo_ok E" "schema_ok (w_db w)" "w_tx w = None"
  shows "evolves (w_db w) (w_db w') \<and> w_tx w' = None"
  using assms
proof (induction rule: server_run.induct)
  case (no_request w)
  then show ?case by (simp add: evolves.stay)
next
  case (request w w1 t r env rq rs w2)
  let ?w = "next_world t r env w1"
  have IH: "evolves (w_db w) (w_db w1)" "w_tx w1 = None" using request by simp_all
  then have "start_ok X ?w" "good ?w ?w"
    using request(3,7) evolves_schema [OF IH(1)] good_start [of ?w] by (simp_all add: start_ok_def)
  then have "response_ok rq ?w rs w2" using wpD [OF serve_ok] request by blast
  then show ?case using IH evolves_trans by (auto simp: response_ok_def ended_def)
qed

text \<open>An invariant of the database that evolution keeps holds after every run.\<close>

lemma run_invariant:
  assumes "server_run E C debug X D w w'" "echo_ok E" "schema_ok (w_db w)" "w_tx w = None"
    and "\<And>d. evolves (w_db w) d \<Longrightarrow> I d"
  shows "I (w_db w')"
  using run_evolves [OF assms(1-4)] assms(5) by blast

end

end
