(* ===== verification/AccessTokens.thy ===== *)
theory AccessTokens
  imports Serving
begin

text \<open>
  The access tokens of the service, from \<open>GenerateAccessToken\<close> (\<open>auth/domain/token.go\<close>) to
  \<open>JWTAuth\<close> (\<open>common/http/jwtauth.go\<close>): a token is accepted with the user and the roles it was
  issued for until the second it expires in, and refused from then on.
\<close>

text \<open>
  golang-jwt: the compact form of a signed token is printable and not empty; parsing it yields its
  claims before \<open>exp\<close>, and \<open>ErrTokenExpired\<close> from \<open>exp\<close> on. A nil slice of roles is \<open>null\<close>.
\<close>

definition raw_of :: "claims \<Rightarrow> raw_claims \<Rightarrow> bool" where
  "raw_of cl raw \<longleftrightarrow> rc_sub raw = Some (CStr (c_sub cl)) \<and>
     (case rc_roles raw of None \<Rightarrow> c_roles cl = [] | Some vs \<Rightarrow> vs = map CStr (c_roles cl))"

definition jwt_ok :: "ext \<Rightarrow> bool" where
  "jwt_ok X \<longleftrightarrow> (\<forall>cl tok. jwt_sign X cl = Inr tok \<longrightarrow>
     tok \<noteq> '''' \<and> (\<forall>ch \<in> set tok. 33 \<le> byte ch \<and> byte ch \<le> 126) \<and>
     (\<forall>t. (t < c_exp cl * Second \<longrightarrow> (\<exists>raw. jwt_parse X t tok = Inr raw \<and> raw_of cl raw)) \<and>
          (c_exp cl * Second \<le> t \<longrightarrow> jwt_parse X t tok = Inl JwtExpired)))"

lemma claim_strings_CStr [simp]: "claim_strings (map CStr xs) = xs"
  by (induction xs) (simp_all add: claim_strings_def)

lemma access_token_verified:
  assumes "jwt_ok X" "GenerateAccessToken X t uid roles ttl = Inr tok" "uid \<noteq> ''''"
  shows "t' < unix (t + ttl) * Second \<Longrightarrow> VerifyAccessToken X t' tok = Inr \<lparr>UserID = uid, Roles = roles\<rparr>"
    "unix (t + ttl) * Second \<le> t' \<Longrightarrow> VerifyAccessToken X t' tok = Inl JwtExpired"
proof -
  let ?cl = "\<lparr>c_sub = uid, c_roles = roles, c_iat = unix t, c_exp = unix (t + ttl)\<rparr>"
  have s: "jwt_sign X ?cl = Inr tok" using assms(2) by (simp add: GenerateAccessToken_def split: sum.splits)
  show "VerifyAccessToken X t' tok = Inr \<lparr>UserID = uid, Roles = roles\<rparr>" if "t' < unix (t + ttl) * Second"
  proof -
    have "t' < c_exp ?cl * Second" using that by simp
    then have "\<exists>raw. jwt_parse X t' tok = Inr raw \<and> raw_of ?cl raw"
      using assms(1) s unfolding jwt_ok_def by blast
    then show ?thesis using assms(3) by (auto simp: VerifyAccessToken_def raw_of_def claim_strings_CStr [of "[]", simplified] split: option.splits)
  qed
  show "VerifyAccessToken X t' tok = Inl JwtExpired" if "unix (t + ttl) * Second \<le> t'"
    using assms(1) [unfolded jwt_ok_def, rule_format, OF s] that by (simp add: VerifyAccessToken_def)
qed

text \<open>The header \<open>Bearer token\<close>, whatever the case of its first word.\<close>

definition graphic :: "char \<Rightarrow> bool" where
  "graphic ch \<longleftrightarrow> 33 \<le> byte ch \<and> byte ch \<le> 126"

lemma space_runes_not_graphic:
  "list_all (\<lambda>r. r \<noteq> [] \<and> \<not> graphic (hd r) \<and> \<not> graphic (last r)) space_runes"
  by code_simp

lemma leading_space_none:
  assumes "list_all (\<lambda>r. r \<noteq> [] \<and> \<not> graphic (hd r)) runes" "graphic ch"
  shows "leading_space runes (ch # s) = 0"
proof -
  have "find (\<lambda>r. prefix r (ch # s)) runes = None"
    using assms by (auto simp: find_None_iff list_all_iff prefix_Cons)
  then show ?thesis by (simp add: leading_space_def)
qed

lemma trim_left_graphic:
  assumes "list_all (\<lambda>r. r \<noteq> [] \<and> \<not> graphic (hd r)) runes" "s \<noteq> []" "graphic (hd s)"
  shows "trim_left runes s = s"
  using leading_space_none [OF assms(1,3), of "tl s"] assms(2)
  by (subst trim_left.simps) simp

lemma TrimSpace_graphic:
  assumes "s \<noteq> ''''" "\<forall>ch \<in> set s. graphic ch"
  shows "TrimSpace s = s"
proof -
  have runes: "list_all (\<lambda>r. r \<noteq> [] \<and> \<not> graphic (hd r)) space_runes"
    "list_all (\<lambda>r. r \<noteq> [] \<and> \<not> graphic (hd r)) (map rev space_runes)"
    using space_runes_not_graphic by (auto simp: list_all_iff hd_rev)
  have "trim_left space_runes s = s" using assms by (intro trim_left_graphic [OF runes(1)]) simp_all
  moreover have "trim_left (map rev space_runes) (rev s) = rev s"
    using assms by (intro trim_left_graphic [OF runes(2)]) (simp_all add: hd_rev)
  ultimately show ?thesis by (simp add: TrimSpace_def)
qed

lemma bearer_token_graphic:
  assumes "tok \<noteq> ''''" "\<forall>ch \<in> set tok. graphic ch" "length pre = 7" "EqualFold pre ''Bearer ''"
  shows "bearer_token (pre @ tok) = tok"
  using assms TrimSpace_graphic [OF assms(1,2)] by (simp add: bearer_token_def bearer_prefix_def)

lemma access_token_presented:
  assumes "jwt_ok X" "GenerateAccessToken X t uid roles ttl = Inr tok" "uid \<noteq> ''''"
    and "header_get (rq_headers rq) ''Authorization'' = pre @ tok" "length pre = 7" "EqualFold pre ''Bearer ''"
  shows "presented X t' rq =
    (if t' < unix (t + ttl) * Second then Some \<lparr>UserID = uid, Roles = roles\<rparr> else None)"
proof -
  let ?cl = "\<lparr>c_sub = uid, c_roles = roles, c_iat = unix t, c_exp = unix (t + ttl)\<rparr>"
  have "jwt_sign X ?cl = Inr tok" using assms(2) by (simp add: GenerateAccessToken_def split: sum.splits)
  then have "tok \<noteq> ''''" "\<forall>ch \<in> set tok. graphic ch"
    using assms(1) by (auto simp: jwt_ok_def graphic_def)
  then have "bearer_token (header_get (rq_headers rq) ''Authorization'') = tok" "tok \<noteq> ''''"
    using bearer_token_graphic assms(4-6) by simp_all
  then show ?thesis using access_token_verified [OF assms(1-3), of t'] by (simp add: presented_def)
qed

end
