(* ===== verification/MailText.thy ===== *)
theory MailText
  imports Services HttpMessages
begin

text \<open>
  The text of a mail (\<open>auth/adapters/mail/smtp.go\<close>): the world records a mail by its kind, recipient
  and token, and this theory gives the message \<open>smtp.SendMail\<close> is called with. The recipient is a
  validated address, so it cannot end the header it stands in.
\<close>

section \<open>The message\<close>

text \<open>\<open>base64.StdEncoding\<close>: the other two digits, and padding.\<close>

definition std_digit :: "char \<Rightarrow> char" where
  "std_digit c = (if c = CHR ''-'' then CHR ''+'' else if c = CHR ''_'' then CHR ''/'' else c)"

definition std_encode :: "string \<Rightarrow> string" where
  "std_encode s = (let e = map std_digit (b64_encode s) in
     e @ replicate ((4 - length e mod 4) mod 4) (CHR ''=''))"

text \<open>
  \<open>mime.BEncoding.Encode("UTF-8", text)\<close> of a text that is not plain ASCII and whose encoding has at
  most 63 characters: a single encoded word. The subjects are such texts.
\<close>

definition BEncoding :: "string \<Rightarrow> string" where
  "BEncoding txt = ''=?UTF-8?b?'' @ std_encode txt @ ''?=''"

definition crlf :: string where "crlf = bytes [13, 10]"

fun mail_subject :: "mail_kind \<Rightarrow> string" where
  "mail_subject ConfirmationMail = SubjectConfirm"
| "mail_subject PasswordResetMail = SubjectReset"
| "mail_subject InvitationMail = SubjectInvite"

fun mail_body :: "mail_kind \<Rightarrow> string \<Rightarrow> string" where
  "mail_body ConfirmationMail plainToken = MailConfirmIntro @ plainToken @ crlf"
| "mail_body PasswordResetMail plainToken = MailResetIntro @ plainToken @ crlf"
| "mail_body InvitationMail plainToken = MailInviteIntro @ plainToken @ crlf"

definition mail_message :: "string \<Rightarrow> string \<Rightarrow> string \<Rightarrow> string \<Rightarrow> string" where
  "mail_message sender recipient subjectText body =
     (let subject = BEncoding subjectText in
      ''From: '' @ sender @ crlf @ ''To: '' @ recipient @ crlf @ ''Subject: '' @ subject @ crlf @
      ''MIME-Version: 1.0'' @ crlf @ ''Content-Type: text/plain; charset=UTF-8'' @ crlf @
      ''Content-Transfer-Encoding: 8bit'' @ crlf @ crlf @ body)"

definition message_of :: "string \<Rightarrow> sent_mail \<Rightarrow> string" where
  "message_of sender m =
     mail_message sender (m_to m) (mail_subject (m_kind m)) (mail_body (m_kind m) (m_token m))"

lemma subjects_short: "length (std_encode (mail_subject k)) \<le> 63"
  by (cases k; simp only: mail_subject.simps; code_simp)

section \<open>What a receiver reads\<close>

text \<open>The next line, up to its CR LF; the header lines up to the empty one, and the body.\<close>

fun take_line :: "string \<Rightarrow> (string \<times> string) option" where
  "take_line (a # b # s) =
     (if byte a = 13 \<and> byte b = 10 then Some ([], s)
      else map_option (\<lambda>(l, r). (a # l, r)) (take_line (b # s)))"
| "take_line _ = None"

lemma take_line_shorter: "take_line s = Some (l, r) \<Longrightarrow> length r < length s"
  by (induction s arbitrary: l r rule: take_line.induct) (auto split: if_splits)

function header_lines :: "string \<Rightarrow> (string list \<times> string) option" where
  "header_lines s = (case take_line s of
     None \<Rightarrow> None
   | Some (l, r) \<Rightarrow> if l = [] then Some ([], r)
       else map_option (\<lambda>(ls, body). (l # ls, body)) (header_lines r))"
  by auto

termination
  by (relation "measure length") (auto dest: take_line_shorter)

declare header_lines.simps [simp del]

definition no_cr :: "string \<Rightarrow> bool" where
  "no_cr s \<longleftrightarrow> list_all (\<lambda>c. byte c \<noteq> 13) s"

lemma crlf_bytes: "crlf = [char_of (13::nat), char_of (10::nat)]"
  by (simp add: crlf_def bytes_def)

lemma take_line_append: "no_cr l \<Longrightarrow> take_line (l @ crlf @ s) = Some (l, s)"
proof (induction l)
  case Nil
  then show ?case by (simp add: crlf_bytes)
next
  case (Cons a l)
  then show ?case by (cases l) (auto simp: no_cr_def crlf_bytes)
qed

lemma header_lines_read:
  assumes "list_all (\<lambda>l. l \<noteq> [] \<and> no_cr l) ls"
  shows "header_lines (concat (map (\<lambda>l. l @ crlf) ls) @ crlf @ body) = Some (ls, body)"
  using assms
proof (induction ls)
  case Nil
  then show ?case using take_line_append [of "[]" body] by (subst header_lines.simps) (simp add: no_cr_def)
next
  case (Cons l ls)
  then show ?case
    using take_line_append [of l "concat (map (\<lambda>l. l @ crlf) ls) @ crlf @ body"]
    by (subst header_lines.simps) simp
qed

lemma no_cr_append [simp]: "no_cr (a @ b) \<longleftrightarrow> no_cr a \<and> no_cr b"
  by (simp add: no_cr_def)

lemma no_cr_Cons [simp]: "no_cr []" "no_cr (c # s) \<longleftrightarrow> byte c \<noteq> 13 \<and> no_cr s"
  by (simp_all add: no_cr_def)

lemma subject_no_cr: "no_cr (BEncoding (mail_subject k))"
  by (cases k; simp only: mail_subject.simps; code_simp)

lemma valid_email_no_cr: "ValidateEmail e = None \<Longrightarrow> no_cr e"
  using ValidateEmail_shape [of e] by (auto simp: no_cr_def list_all_iff printable_def)

lemma message_read:
  assumes "no_cr sender" "ValidateEmail (m_to m) = None"
  shows "header_lines (message_of sender m) = Some
    ([''From: '' @ sender, ''To: '' @ m_to m, ''Subject: '' @ BEncoding (mail_subject (m_kind m)),
      ''MIME-Version: 1.0'', ''Content-Type: text/plain; charset=UTF-8'', ''Content-Transfer-Encoding: 8bit''],
     mail_body (m_kind m) (m_token m))"
proof -
  show ?thesis
    using header_lines_read [of "[''From: '' @ sender, ''To: '' @ m_to m, ''Subject: '' @ BEncoding (mail_subject (m_kind m)),
      ''MIME-Version: 1.0'', ''Content-Type: text/plain; charset=UTF-8'', ''Content-Transfer-Encoding: 8bit'']"
      "mail_body (m_kind m) (m_token m)"]
    by (simp add: message_of_def mail_message_def Let_def assms subject_no_cr valid_email_no_cr)
qed

end
