(* ===== verification/Demo.thy ===== *)
theory Demo
  imports Histories LoginAttempts ServerResponses Startup Runs AccessTokens MailText "HOL-Library.Countable"
begin

text \<open>
  One small instance of everything the theorems quantify over, on which they are applied: a library
  with transparent primitives, a database with an account in every state and a token of every kind,
  and a quiet world.
\<close>

definition demo_claims :: "string \<Rightarrow> string list \<Rightarrow> raw_claims" where
  "demo_claims sub roles = \<lparr>rc_sub = Some (CStr sub), rc_roles = Some (map CStr roles)\<rparr>"

definition demo_ext :: ext where
  "demo_ext =
     \<lparr>sha256 = (\<lambda>s. ''#'' @ s), hmac_sha256 = (\<lambda>k m. k @ m),
      rand_read = (\<lambda>i n. Some (replicate n (char_of (i mod 64)))),
      bcrypt_compare = (\<lambda>h p. h = ''$'' @ p), bcrypt_generate = (\<lambda>i p c. Inr (''$'' @ p)),
      bcrypt_cost = (\<lambda>h. Some 12), jwt_sign = (\<lambda>cl. Inr ''token''),
      jwt_parse = (\<lambda>t s. if s = ''root'' then Inr (demo_claims ''root'' [RoleSuperAdmin])
        else if s = ''user'' then Inr (demo_claims ''user'' [RoleUser]) else Inl JwtMalformed),
      uuid_new = (\<lambda>n. 100 + of_nat (n mod 64)),
      uuid_parse = (\<lambda>s. if s = ''user'' then Some 1 else if s = ''root'' then Some 2
        else if s = ''operator'' then Some 4 else if s = ''disabled'' then Some 5 else None),
      uuid_str = (\<lambda>u. if u = 1 then ''user'' else if u = 2 then ''root'' else ''other'')\<rparr>"

definition demo_password :: string where "demo_password = ''correct horse battery''"

definition demo_user :: "uuid \<Rightarrow> string \<Rightarrow> string \<Rightarrow> AuthUser" where
  "demo_user uid email st = \<lparr>u_UserUuid = uid, u_Email = email, u_PasswordHash = ''$'' @ demo_password,
     u_Status = st, u_CreatedAt = 0, u_UpdatedAt = 0, u_DeletedAt = None\<rparr>"

definition demo_hash :: "string \<Rightarrow> string" where
  "demo_hash plain = hex_encode (''#'' @ plain)"

definition demo_db :: db where
  "demo_db =
     \<lparr>users = [demo_user 1 ''user@example.com'' StatusInactive, demo_user 2 ''root@example.com'' StatusInactive,
        demo_user 3 ''new@example.com'' StatusMailUnverified, demo_user 4 ''operator@example.com'' StatusInactive,
        demo_user 5 ''disabled@example.com'' StatusDisabled],
      user_roles = [\<lparr>ur_UserUuid = 1, ur_Role = RoleUser, ur_GrantedAt = 0\<rparr>,
        \<lparr>ur_UserUuid = 2, ur_Role = RoleSuperAdmin, ur_GrantedAt = 0\<rparr>,
        \<lparr>ur_UserUuid = 3, ur_Role = RoleUser, ur_GrantedAt = 0\<rparr>,
        \<lparr>ur_UserUuid = 4, ur_Role = RoleOperator, ur_GrantedAt = 0\<rparr>,
        \<lparr>ur_UserUuid = 5, ur_Role = RoleOperator, ur_GrantedAt = 0\<rparr>],
      email_tokens = [\<lparr>et_TokenUuid = 11, et_UserUuid = 3, et_TokenHash = demo_hash ''c'',
        et_ExpiresAt = 10, et_UsedAt = None, et_CreatedAt = 0\<rparr>],
      reset_tokens = [\<lparr>pt_TokenUuid = 12, pt_UserUuid = 1, pt_TokenHash = demo_hash ''p'',
        pt_ExpiresAt = 10, pt_UsedAt = None, pt_CreatedAt = 0\<rparr>],
      invitation_tokens = [\<lparr>it_TokenUuid = 13, it_Email = ''invited@example.com'', it_Role = RoleOperator,
        it_TokenHash = demo_hash ''i'', it_ExpiresAt = 10, it_UsedAt = None, it_CreatedAt = 0\<rparr>],
      refresh_tokens = [\<lparr>rt_TokenID = 14, rt_UserUuid = 1, rt_FamilyID = 15, rt_ParentTokenID = None,
        rt_TokenHash = demo_hash ''r'', rt_ExpiresAt = 10, rt_UsedAt = None, rt_RevokedAt = None,
        rt_RevocationReason = None, rt_CreatedAt = 0\<rparr>]\<rparr>"

definition demo_world :: world where
  "demo_world = \<lparr>w_db = demo_db, w_tx = None, w_redis = (\<lambda>_. None), w_now = 1, w_draws = 0, w_mail = [],
     w_log = [], w_env = []\<rparr>"

definition demo_echo :: echo where
  "demo_echo =
     \<lparr>eo_route = (\<lambda>keys rq. Inr ((rq_method rq, rq_uri rq), \<lambda>_. ''user'')),
      eo_bind = (\<lambda>rq names. Inr (\<lambda>_. rq_body rq)), eo_bind_param = Inr,
      eo_apply = (\<lambda>ms h. foldr (\<lambda>m. m) ms h),
      eo_timeout = (\<lambda>h c rs. do { (err, rs') \<leftarrow> h c rs;
        ret (map_option (\<lambda>e. if timeout_error e then HTTPError 503 (Some ''Service Unavailable'') '''' else e) err, rs') }),
      eo_recover = (\<lambda>h. h)\<rparr>"

definition demo_request :: "string \<Rightarrow> string \<Rightarrow> string \<Rightarrow> request" where
  "demo_request verb path auth = \<lparr>rq_method = verb, rq_uri = path, rq_headers = [(''Authorization'', auth)],
     rq_body = ''x'', rq_real_ip = ''''\<rparr>"

text \<open>A codec that numbers the JSON values; it ignores what is not a digit.\<close>

instance json :: countable
  by countable_datatype

definition demo_codec :: codec where
  "demo_codec = \<lparr>json_unmarshal = (\<lambda>s. Some (from_nat (nat_value 0 (filter (\<lambda>c. 48 \<le> byte c \<and> byte c \<le> 57) s)))),
     json_marshal = (\<lambda>v. Some (nat_text (to_nat v)))\<rparr>"

lemma demo_digits: "filter (\<lambda>c. 48 \<le> byte c \<and> byte c \<le> 57) (nat_text n @ s) =
    nat_text n @ filter (\<lambda>c. 48 \<le> byte c \<and> byte c \<le> 57) s"
  using nat_text_digits [of n] by (simp add: filter_id_conv list_all_iff)

lemma demo_read: "json_unmarshal demo_codec (nat_text (to_nat v)) = Some v"
  using demo_digits [of "to_nat v" "[]"] by (simp add: demo_codec_def nat_text_roundtrip)

lemma demo_codec_ok: "codec_ok demo_codec"
  using demo_read by (auto simp: codec_ok_def demo_codec_def)

lemma demo_codec_reads: "codec_reads demo_codec"
  using demo_read by (auto simp: codec_reads_def demo_codec_def newline_def demo_digits)

lemma demo_echo_ok: "echo_ok demo_echo"
  unfolding echo_ok_def demo_echo_def
  by (intro conjI exI [of _ "\<lambda>e. if timeout_error e then HTTPError 503 (Some ''Service Unavailable'') '''' else e"]) auto

lemma demo_times_out: "times_out demo_echo"
  unfolding times_out_def demo_echo_def by (intro exI [of _ "\<lambda>_. ''''"]) simp

lemma demo_quiet: "quiet demo_world"
  by (simp add: quiet_def demo_world_def)

lemma demo_world_simps [simp]:
  "w_db demo_world = demo_db" "w_tx demo_world = None" "w_redis demo_world = (\<lambda>_. None)"
  "w_now demo_world = 1" "w_draws demo_world = 0" "w_env demo_world = []" "w_mail demo_world = []"
  by (simp_all add: demo_world_def)

lemma demo_hash_inj [simp]: "demo_hash p = demo_hash q \<longleftrightarrow> p = q"
  using hex_encode_inj by (auto simp: demo_hash_def)

lemma demo_hashes:
  "HashRefreshToken demo_ext p = demo_hash p" "HashEmailConfirmationToken demo_ext p = demo_hash p"
  "HashPasswordResetToken demo_ext p = demo_hash p" "HashInvitationToken demo_ext p = demo_hash p"
  "hex_encode (sha256 demo_ext p) = demo_hash p"
  by (simp_all add: HashRefreshToken_def HashEmailConfirmationToken_def HashPasswordResetToken_def
      HashInvitationToken_def demo_ext_def demo_hash_def)

lemma demo_schema: "schema_ok demo_db"
  by (simp add: schema_simps demo_db_def demo_user_def status_check_def status_defs role_defs live_def)

lemma demo_uuid: "uuid_new demo_ext n = 100 + of_nat (n mod 64)"
  by (simp add: demo_ext_def)

lemma demo_uuid_large: "100 \<le> unat (uuid_new demo_ext n)"
proof -
  have "uuid_new demo_ext n = of_nat (100 + n mod 64)" by (simp add: demo_uuid)
  then have "unat (uuid_new demo_ext n) = (100 + n mod 64) mod 2 ^ 128"
    by (simp only: unat_of_nat) (simp add: take_bit_nat_def)
  moreover have "100 + n mod 64 < 2 ^ 128" by (rule less_trans [of _ 200]) simp_all
  ultimately show ?thesis by simp
qed

lemma demo_uuid_new: "unat u < 100 \<Longrightarrow> uuid_new demo_ext n \<noteq> u"
  using demo_uuid_large [of n] by auto

lemma demo_fresh_ids: "fresh_ids demo_ext demo_world"
  by (auto simp: fresh_ids_def families_def env_families_def demo_db_def demo_uuid_new)

lemma b64_length: "length (b64_encode s) \<noteq> 1"
  by (induction s rule: b64_encode.induct) auto

lemma demo_fresh_draws: "fresh_draws demo_ext demo_world"
proof -
  have one: "[c] \<noteq> b64_encode b" for b c using b64_length [of b] by (metis length_Cons list.size(3) One_nat_def)
  have "\<exists>b. rand_read demo_ext n len = Some b" for n len by (simp add: demo_ext_def)
  then show ?thesis
    by (auto simp: fresh_draws_def user_ids_def demo_db_def demo_user_def demo_uuid_new demo_hashes one)
qed

lemma demo_fresh_resets: "fresh_resets demo_ext demo_world"
proof -
  have one: "[c] \<noteq> b64_encode b" for b c using b64_length [of b] by (metis length_Cons list.size(3) One_nat_def)
  have "\<exists>b. rand_read demo_ext n len = Some b" for n len by (simp add: demo_ext_def)
  then show ?thesis by (auto simp: fresh_resets_def demo_db_def demo_uuid_new demo_hashes one)
qed

lemma demo_start: "start_ok demo_ext demo_world"
  by (simp add: start_ok_def demo_schema demo_fresh_ids)

text \<open>The database invariants hold initially, and a run of one request.\<close>

lemma demo_family: "family_inv demo_db"
  using demo_schema
  by (simp add: family_inv_def one_active_family_def one_active_def active_rows_def count_where_def family_owner_def demo_db_def)

lemma demo_one_active: "one_active_tokens demo_db"
  by (simp add: one_active_tokens_def one_active_def active_rows_def count_where_def demo_db_def)

lemma demo_typed: "rows_typed demo_db"
  by (simp add: rows_typed_def account_typed_def roles_of_def demo_db_def demo_user_def status_defs IsAdminRole_def role_defs)

lemma demo_supers: "supers demo_db \<noteq> {}"
proof -
  have "is_active_super demo_db (demo_user 2 ''root@example.com'' StatusInactive)"
    by (simp add: is_active_super_def demo_db_def demo_user_def live_def)
  moreover have "demo_user 2 ''root@example.com'' StatusInactive \<in> set (users demo_db)" by (simp add: demo_db_def)
  ultimately show ?thesis using supersI by blast
qed

abbreviation demo_main :: deps where "demo_main \<equiv> main_deps demo_ext ''''"

definition demo_login :: request where "demo_login = demo_request ''POST'' ''/auth/login'' ''''"

definition demo_after :: world where
  "demo_after = snd (run_state (serve demo_echo demo_codec False demo_ext demo_main demo_login) demo_world)"

text \<open>Two logins that fail: the first has no valid address, of the second Redis does not answer in time.\<close>

definition demo_login_user :: request where
  "demo_login_user = demo_login\<lparr>rq_body := ''user@example.com''\<rparr>"

definition demo_late :: world where
  "demo_late = demo_world\<lparr>w_env := [\<lparr>es_dt = 0, es_fault = Some (Refused Timeout), es_others = [], es_redis = []\<rparr>]\<rparr>"

abbreviation late_error :: goerr where
  "late_error \<equiv> Wrap ''could not check lockout'' (Wrap ''could not check lockout state'' DeadlineExceeded)"

lemma demo_errs_ok: "err_ok (Sentinel ErrInvalidEmail)" "err_ok late_error"
  by (simp_all add: err_ok_def)

lemma demo_dispatch_login:
  assumes "cx_request c = rq" "\<not> rs_committed rs" "rq_method rq = ''POST''" "rq_uri rq = ''/auth/login''"
    and "wp (Login demo_ext (loginLockout_Check demo_ext) (loginLockout_RecordFailure demo_ext) (loginLockout_Reset demo_ext)
      (rq_body rq) (rq_body rq)) (\<lambda>r w'. r = Inl err) w"
  shows "wp (dispatch demo_echo demo_ext demo_main c rs)
    (\<lambda>r w'. fst r = Some (error_of Op_Login err) \<and> \<not> rs_committed (snd r)) w"
proof -
  have route: "eo_route demo_echo (map fst (Register demo_echo demo_ext demo_main)) (cx_request c) =
      Inr ((''POST'', ''/auth/login''), \<lambda>_. ''user'')"
    by (simp add: demo_echo_def assms(1,3,4))
  have bind: "eo_bind demo_echo rq names = Inr (\<lambda>_. rq_body rq)" for names by (simp add: demo_echo_def)
  show ?thesis
    unfolding dispatch_route [OF route login_route] echo_apply [OF demo_echo_ok]
    by (simp add: sh_Login_def with_body_def assms(1) bind strict_result_def api_Login_def main_deps_def)
      (rule wp_mono [OF assms(5)], simp add: assms(2))
qed

lemma demo_login_invalid:
  assumes "cx_request c = demo_login" "\<not> rs_committed rs" "w_draws demo_world \<le> n"
  shows "wp (dispatch demo_echo demo_ext demo_main c rs)
    (\<lambda>r w'. fst r = Some (error_of Op_Login (Sentinel ErrInvalidEmail)) \<and> \<not> rs_committed (snd r)) (demo_world\<lparr>w_draws := n\<rparr>)"
proof (rule demo_dispatch_login [OF assms(1,2)])
  have "ValidateEmail ''x'' = Some (Sentinel ErrInvalidEmail)" by code_simp
  then show "wp (Login demo_ext (loginLockout_Check demo_ext) (loginLockout_RecordFailure demo_ext) (loginLockout_Reset demo_ext)
      (rq_body demo_login) (rq_body demo_login)) (\<lambda>r w'. r = Inl (Sentinel ErrInvalidEmail)) (demo_world\<lparr>w_draws := n\<rparr>)"
    by (simp add: Login_def demo_login_def demo_request_def)
qed (simp_all add: demo_login_def demo_request_def)

lemma demo_login_late:
  assumes "cx_request c = demo_login_user" "\<not> rs_committed rs" "w_draws demo_late \<le> n"
  shows "wp (dispatch demo_echo demo_ext demo_main c rs)
    (\<lambda>r w'. fst r = Some (error_of Op_Login late_error) \<and> \<not> rs_committed (snd r)) (demo_late\<lparr>w_draws := n\<rparr>)"
proof (rule demo_dispatch_login [OF assms(1,2)])
  have "ValidateEmail ''user@example.com'' = None" by code_simp
  then show "wp (Login demo_ext (loginLockout_Check demo_ext) (loginLockout_RecordFailure demo_ext) (loginLockout_Reset demo_ext)
      (rq_body demo_login_user) (rq_body demo_login_user)) (\<lambda>r w'. r = Inl late_error) (demo_late\<lparr>w_draws := n\<rparr>)"
    by (simp add: Login_def demo_login_user_def demo_late_def loginLockout_Check_def Lockout_Check_def redis_do_def poll_def
        wp_State env_advance_def Let_def)
qed (simp_all add: demo_login_user_def demo_login_def demo_request_def)

lemma demo_next: "next_world 1 (\<lambda>_. None) [] demo_world = demo_world"
  by (simp add: next_world_def demo_world_def)

lemma demo_run: "server_run demo_echo demo_codec False demo_ext demo_main demo_world demo_after"
proof (rule server_run.request [where t = 1 and r = "\<lambda>_. None" and env = "[]" and rq = demo_login])
  show "run_state (serve demo_echo demo_codec False demo_ext demo_main demo_login) (next_world 1 (\<lambda>_. None) [] demo_world) =
    (fst (run_state (serve demo_echo demo_codec False demo_ext demo_main demo_login) demo_world), demo_after)"
    by (simp add: demo_next demo_after_def)
qed (simp_all add: server_run.no_request demo_next demo_fresh_ids)

lemma demo_signs: "signs demo_ext"
  by (simp add: signs_def demo_ext_def)

lemma demo_bcrypt: "bcrypt_total demo_ext"
  by (simp add: bcrypt_total_def demo_ext_def)

text \<open>The same world with the refresh token revoked.\<close>

definition demo_stale :: world where
  "demo_stale = demo_world\<lparr>w_db := demo_db\<lparr>refresh_tokens := map (rt_RevokedAt_update (\<lambda>_. Some 0)) (refresh_tokens demo_db)\<rparr>\<rparr>"

text \<open>Looking up what is stored.\<close>

lemma demo_lookup:
  "GetUserByEmail ''user@example.com'' demo_db = Inr (demo_user 1 ''user@example.com'' StatusInactive)"
  "GetUserByEmail ''disabled@example.com'' demo_db = Inr (demo_user 5 ''disabled@example.com'' StatusDisabled)"
  "GetUserByUuid 1 demo_db = Inr (demo_user 1 ''user@example.com'' StatusInactive)"
  "email_taken ''disabled@example.com'' demo_db" "\<not> email_taken ''fresh@example.com'' demo_db"
  by (simp_all add: demo_db_def demo_user_def GetUserByEmail_def GetUserByUuid_def live_def email_taken_def)

lemma demo_verify: "VerifyPassword demo_ext (u_PasswordHash (demo_user uid email st)) p \<longleftrightarrow> p = demo_password"
  by (auto simp: VerifyPassword_def demo_ext_def demo_user_def)

lemma demo_user_simps [simp]:
  "u_UserUuid (demo_user uid email st) = uid" "u_Status (demo_user uid email st) = st"
  by (simp_all add: demo_user_def)

lemma demo_session: "live_session demo_ext ''r'' 1 1 demo_db"
  by (simp add: live_session_def GetRefreshTokenByHash_def demo_hashes demo_db_def)

text \<open>A library that signs tokens by writing their claims down.\<close>

definition demo_signer :: ext where
  "demo_signer = demo_ext
     \<lparr>jwt_sign := (\<lambda>cl. Inr (nat_text (to_nat (c_sub cl, c_roles cl, c_exp cl)))),
      jwt_parse := (\<lambda>t s. case from_nat (nat_value 0 s) of (sub, roles, e) \<Rightarrow>
        if t < e * Second then Inr (demo_claims sub roles) else Inl JwtExpired)\<rparr>"

lemma demo_valid: "ValidateEmail ''user@example.com'' = None"
  by code_simp

lemma demo_jwt_ok: "jwt_ok demo_signer"
  using nat_text_nonempty nat_text_digits [unfolded list_all_iff]
  by (fastforce simp: jwt_ok_def demo_signer_def nat_text_roundtrip raw_of_def demo_claims_def)

section \<open>A client\<close>

text \<open>An echo that binds JSON, and a client of the service at its address.\<close>

definition wire_echo :: echo where
  "wire_echo = demo_echo\<lparr>eo_bind := (\<lambda>rq names. case json_unmarshal demo_codec (rq_body rq) of
     Some (JObj ms) \<Rightarrow> Inr (\<lambda>n. case map_of ms n of Some (JStr s) \<Rightarrow> s | _ \<Rightarrow> '''')
   | _ \<Rightarrow> Inl (HTTPError 400 None ''''))\<rparr>"

definition demo_lib :: client_lib where
  "demo_lib = \<lparr>url_parse = (\<lambda>s. Inr \<lparr>ur_server = ''http://auth'', ur_path = drop 11 s\<rparr>), url_ref = Inr,
     url_string = (\<lambda>u. ur_server u @ ur_path u), style_param = Inr, email_json = (\<lambda>e. Inr (JStr e)),
     json_failed = NewError ''json'', default_client = (\<lambda>_. fail (NewError ''no network''))\<rparr>"

definition demo_client :: Client where
  "demo_client = \<lparr>cl_Server = ''http://auth/'',
     cl_Client = Some (over_wire wire_echo demo_codec False demo_ext demo_main ''192.0.2.1''), cl_RequestEditors = []\<rparr>"

lemma wire_echo_ok: "echo_ok wire_echo" "finds_routes wire_echo" "binds_json demo_lib wire_echo demo_codec"
proof -
  show "echo_ok wire_echo" using demo_echo_ok by (simp add: echo_ok_def wire_echo_def)
  show "finds_routes wire_echo" by (simp add: finds_routes_def wire_echo_def demo_echo_def)
  have "map_of (map (\<lambda>n. (n, JStr (f n))) names) n = Some (JStr (f n))" if "n \<in> set names" for f and names :: "string list" and n
    using that by (simp add: map_of_map_restrict)
  then show "binds_json demo_lib wire_echo demo_codec" by (auto simp: binds_json_def wire_echo_def)
qed

lemma demo_new_client: "NewClient demo_lib ''http://auth''
    [WithHTTPClient (over_wire wire_echo demo_codec False demo_ext demo_main ''192.0.2.1'')] = Inr demo_client"
proof -
  have "\<not> suffix ''/'' ''http://auth''" by (simp add: suffix_def)
  then show ?thesis by (simp add: NewClient_def WithHTTPClient_def demo_client_def)
qed

lemma demo_serves: "serves_at demo_lib (cl_Server demo_client) ''http://auth''"
  by (simp add: serves_at_def demo_lib_def demo_client_def)

lemma demo_signs_text: "signs_text demo_ext"
  using demo_signs by (auto simp: signs_text_def demo_ext_def valid_utf8_ascii_Cons)

section \<open>A machine\<close>

text \<open>A machine on which everything answers, and on which the server is closed in order.\<close>

definition demo_machine :: machine where
  "demo_machine =
     \<lparr>mc_Getenv = (\<lambda>name. if name = ''POSTGRES_URL'' then ''postgres://db'' else if name = ''JWT_PRIVATE_KEY_PATH'' then ''key.pem'' else ''''),
      mc_pool = (\<lambda>_. None), mc_pool_ping = None, mc_redis_ping = (\<lambda>_. None), mc_read_file = Inr,
      mc_pem_decode = Some, mc_pkcs1 = (\<lambda>_. Inl (NewError ''not PKCS1'')), mc_pkcs8 = (\<lambda>b. Inr (RSAKey b)),
      mc_migrate = \<lparr>ml_source = None, ml_schema = None, ml_driver = None, ml_migrate = None, ml_interrupted = False,
        ml_up = UpNoChange, ml_close = (None, None), ml_close_db = None\<rparr>,
      mc_connect = (\<lambda>_ _. demo_ext), mc_listens = (\<lambda>_. True), mc_start = (\<lambda>_. Some (NewError ''closed'')), mc_server_closed = (\<lambda>_. True)\<rparr>"

lemma demo_ready: "ready demo_machine"
  by (simp add: ready_def demo_machine_def getenv_or_def loadJWTSigningKey_def ParseRSAPrivateKeyPEM_def migrate_succeeds_iff)

lemma demo_port: "getenv_or demo_machine ''AUTH_PORT'' ''8081'' = ''8081''" "mc_listens demo_machine port"
  by (simp_all add: getenv_or_def demo_machine_def)

lemma demo_runs: "snd (Run demo_machine port routes) = None"
  by (simp add: Run_def demo_machine_def)

section \<open>Concurrent transactions\<close>

text \<open>Two reset tokens for an account that has none, and the database with the first of them.\<close>

definition demo_token :: "uuid \<Rightarrow> string \<Rightarrow> one_time_token" where
  "demo_token u h = \<lparr>TokenUUID = u, Hash = h, ExpiresAt = 10\<rparr>"

definition demo_issued :: db where
  "demo_issued = demo_db\<lparr>reset_tokens := reset_tokens demo_db @
     [\<lparr>pt_TokenUuid = 21, pt_UserUuid = 2, pt_TokenHash = ''a'', pt_ExpiresAt = 10, pt_UsedAt = None, pt_CreatedAt = 1\<rparr>]\<rparr>"

lemma demo_token_new: "''a'' \<noteq> demo_hash ''p''" "''b'' \<noteq> demo_hash ''p''"
  by code_simp+

lemma demo_issue: "tx_op 1 (OpIssueResetToken 2 (demo_token 21 ''a'')) demo_db = Inr ((), demo_issued)"
proof -
  have "InvalidateActivePasswordResetTokensByUser 1 2 demo_db = Inr (0, demo_db)"
    by (simp add: InvalidateActivePasswordResetTokensByUser_def Let_def demo_db_def upd_where_def count_where_def)
  moreover have "InsertPasswordResetToken 1 21 2 ''a'' 10 demo_db = Inr ((), demo_issued)"
    using demo_token_new by (simp add: InsertPasswordResetToken_def demo_issued_def demo_db_def demo_user_def)
  ultimately show ?thesis by (simp add: wbind_def demo_token_def)
qed

lemma demo_issued_ok: "schema_ok demo_issued"
  using wkeepsD [OF schema_tx_op demo_issue] demo_schema by (simp add: keeps_schema_def)

lemma demo_later: "later demo_db demo_issued"
  using demo_schema demo_issued_ok wkeepsD [OF keeps_tx_op demo_issue] by (simp add: later_def)

lemma demo_second_new:
  "TokenUUID (demo_token 22 ''b'') \<notin> pt_TokenUuid ` set (reset_tokens demo_issued)"
  "Hash (demo_token 22 ''b'') \<notin> pt_TokenHash ` set (reset_tokens demo_issued)"
  using demo_token_new by (simp_all add: demo_issued_def demo_token_def demo_db_def)

lemma demo_two: "\<exists>d2. history demo_db [demo_db, demo_issued, d2]"
proof -
  have "active_rows pt_UserUuid pt_UsedAt 2 (reset_tokens demo_db) = 0"
    by (simp add: active_rows_def count_where_def demo_db_def)
  then show ?thesis using history_two_tokens [OF demo_schema demo_issue demo_second_new, of 2] by auto
qed

lemma demo_change: "\<exists>t'. snapshot_commit 2 (OpChangePassword 1 ''h'') demo_db demo_issued = Some t'"
proof -
  let ?U = "upd_where (\<lambda>u. u_UserUuid u = 1 \<and> live u) (\<lambda>u. u\<lparr>u_PasswordHash := ''h'', u_UpdatedAt := 2\<rparr>) (users demo_db)"
    and ?R = "upd_where (\<lambda>t. rt_UserUuid t = 1 \<and> rt_RevokedAt t = None)
      (\<lambda>t. t\<lparr>rt_RevokedAt := Some 2, rt_RevocationReason := Some RevocationReasonPasswordChanged\<rparr>) (refresh_tokens demo_db)"
  have same: "users demo_issued = users demo_db" "refresh_tokens demo_issued = refresh_tokens demo_db"
    by (simp_all add: demo_issued_def)
  have "\<exists>u \<in> set (users demo_db). u_UserUuid u = 1 \<and> live u" by (simp add: demo_db_def demo_user_def live_def)
  then have op: "tx_op 2 (OpChangePassword 1 ''h'') d = Inr ((), d\<lparr>users := ?U, refresh_tokens := ?R\<rparr>)"
    if "users d = users demo_db" "refresh_tokens d = refresh_tokens demo_db" for d
    using that by (auto simp: tx_simps UpdateUserPassword_def RevokeRefreshTokensByUser_def Let_def)
  let ?m = "demo_db\<lparr>users := ?U, refresh_tokens := ?R\<rparr>" and ?t = "demo_issued\<lparr>users := ?U, refresh_tokens := ?R\<rparr>"
  have "combined_db demo_db ?m demo_issued = ?t"
    by (simp add: combined_db_def same combined_serial) (simp add: demo_issued_def)
  moreover have "schema_ok ?t"
    using wkeepsD [OF schema_tx_op op [OF same]] demo_issued_ok by (simp add: keeps_schema_def)
  moreover have "\<not> conflict (OpChangePassword 1 ''h'') demo_db ?m demo_issued"
    by (auto simp: conflict_def overwritten_def same)
  ultimately show ?thesis by (simp add: snapshot_commit_def op [OF refl refl] del: tx_op.simps)
qed

text \<open>A token is issued, and a change of password overlaps with that; neither misses anything.\<close>

lemma demo_complete: "\<exists>t. complete_history demo_db [demo_db, demo_issued, t]"
proof -
  have "complete_history demo_db ([demo_db] @ [demo_issued])"
    by (rule complete_history.transaction [where b = demo_db and act = "OpIssueResetToken 2 (demo_token 21 ''a'')" and ts = 1])
      (auto simp: complete_history.start missed_nothing_new serial_commit [OF demo_schema demo_issue] simp del: missed.simps)
  then have "complete_history demo_db [demo_db, demo_issued]" by simp
  moreover obtain t where "snapshot_commit 2 (OpChangePassword 1 ''h'') demo_db demo_issued = Some t"
    using demo_change by blast
  moreover have "\<not> missed (OpChangePassword 1 ''h'') demo_db demo_issued" by (simp add: demo_issued_def)
  ultimately have "complete_history demo_db ([demo_db, demo_issued] @ [t])"
    by (intro complete_history.transaction [where b = demo_db and act = "OpChangePassword 1 ''h''" and ts = 2]) auto
  then show ?thesis by auto
qed

end
