(* ===== verification/Spec2Isabelle.thy ===== *)
theory Spec2Isabelle
  imports Demo
begin

text \<open>
  A verification development of the authentication service of this repository (Go, \<open>src/backend\<close>; paths
  below are relative to it): \<open>cmd/auth\<close> runs one HTTP server with PostgreSQL, Redis and an SMTP server
  behind it; \<open>cmd/app\<close> runs a second server that so far only answers a health check.

  The parts and how they interact. A request enters echo's router (\<open>common/http/echo.go\<close>), passes the
  middleware (request identifiers, recovery, request log, time-out), the generated wrapper of its route
  (\<open>auth/api/http/openapi.gen.go\<close>: path parameters, body binding), for protected routes the
  verification of the access token (\<open>common/http/jwtauth.go\<close>) and of the role (\<open>roleauth.go\<close>), and
  reaches the handler of its operation (\<open>auth/api/http/handler.go\<close>). That checks the input and calls one
  use case (\<open>auth/app/command\<close>), which asks a rate limiter or the login lockout
  (\<open>auth/adapters/ratelimit\<close> over \<open>common/ratelimit\<close>, scripts that Redis executes), reads and writes through
  the repository (\<open>auth/adapters/db\<close> over sqlc's queries) in transactions (\<open>common/db.go\<close>) and sends mail
  from within a transaction (\<open>auth/adapters/mail\<close>). Errors travel back as Go errors, become problem
  documents (\<open>common/http/problem.go\<close>) and, as everything else, log entries with redacted bodies
  (\<open>common/http/requestlog.go\<close>, \<open>truncate.go\<close>).

  The theories, from below:
  \<^item> Base: the state monad, its weakest-precondition rules \<open>wp\<close>, SQL's list operations. GoErrors: error
    values, wrapping, \<open>errors.Is\<close>. GoStrings, GoMail: the functions of Go's library the logic depends on
    (UTF-8, base64, hexadecimal, decimal, \<open>net/mail\<close> addresses, RFC 2047). Externals: what is outside the
    repository (hashes, bcrypt, JWT, random bytes, UUIDs), as one record of functions, the argument \<open>X\<close>.
  \<^item> AuthDomain: \<open>auth/domain\<close> (roles, account states, validation, tokens).
  \<^item> Tables: the tables of \<open>adapters/db/migrations\<close> and each query of \<open>adapters/db/dbmodels\<close>, constraint
    violations included. Transactions: the abstract specification of the database, a datatype \<open>db_op\<close> with
    one atomic operation per write of the repository and the relation \<open>evolves\<close>, any number of them.
    Invariants and AccountTypes: what every such evolution preserves. Isolation and Histories: the same
    operations as concurrent transactions on snapshots.
  \<^item> Redis, RateLimit, RateLimitFacts: the commands and Lua scripts on a key space with expiry, the
    limiters and the lockout over them, and how a key evolves under a history of commands of all clients.
  \<^item> World: the state a handler runs in (database, open transaction, Redis, clock, mails, log, number of
    random draws) and the schedule of its environment. TxManager: \<open>UpdateInTx\<close>. UserRepo, TokenRepo: the
    repository. Services and the theories \<open>\<dots>Commands\<close>: the use cases, one definition per handler.
  \<^item> Json, Http, HttpMessages, LogMessages: \<open>common/http\<close> and the texts of the program. Api: the handlers of
    the API. Server: binding, wrappers, routes, middleware, \<open>serve\<close>. Serving: what serving one request
    does. AccessTokens: issue and verification. Runs: sequences of requests.
  \<^item> Answers: which answers are given when nothing fails. LoginAttempts: sequences of failed logins and what
    becomes of the counter and the lock of an account. MailText: the text of a mail and how it is read.
  \<^item> ClientJson, Client, ClientResponses: the generated client (\<open>auth/api/http/client/client.gen.go\<close>), its
    documents, requests and typed responses. ClientServer: the client and the server together.
    ServerResponses: the responses for errors that the generated server declares.
  \<^item> Logging: the request context and the lines of the log (\<open>common/log\<close>), echo's logger
    (\<open>common/echoadapter.go\<close>). Migrations: \<open>common/migrations.go\<close>. Startup: the programs \<open>cmd/auth\<close> and
    \<open>cmd/app\<close>, the modules (\<open>svc.go\<close>, \<open>auth/module.go\<close>, \<open>healthcheck\<close>, \<open>common/module\<close>), the configuration, and
    the two goroutines of \<open>Run\<close> as a step relation. A program is the sequence of what it does and its exit
    code, a function of the record \<open>machine\<close> of what environment, files and drivers answer; whether the port
    can be opened is one of these answers (\<open>mc_listens\<close>), so that to start the server (\<open>CalledStart\<close>) and to
    listen (\<open>Listening\<close>) are two things.
  \<^item> Demo: the instance on which the theorems are applied.

  How the state corresponds. The database is a record of lists of rows in insertion order with the columns
  of the schema; a statement is a function that returns an error or a result and the new database. A
  statement of the code inside a transaction works on a copy that \<open>Commit\<close> installs. Times are \<open>int\<close>
  nanoseconds, as in \<open>time.Time\<close> and \<open>time.Duration\<close>; all durations of the program are far inside 64 bits.
  Go strings are byte strings, a pair \<open>(T, error)\<close> is a sum, \<open>(T, bool, error)\<close> a sum of an option. An
  \<open>echo\<close> handler is a function of the context and the response so far.

  The environment. Before every call to PostgreSQL, Redis or SMTP the schedule \<open>w_env\<close> may let time pass,
  let other requests commit transactions and run Redis commands, and make the call fail, with or without
  having taken effect. The schedule is a finite list, which loses nothing: every handler makes finitely
  many calls (\<open>UpdateInTx\<close> makes at most \<open>maxTries\<close> = 10 attempts, the only loop over the environment, so
  no other fuel is needed), and when the list is used up nothing more happens. Theorems over worlds \<open>w\<close> are
  theorems over all schedules; where a world is \<open>quiet\<close>, the schedule is empty.

  What happened during a request. The schedule says what others do and when: \<open>clock\<close> and \<open>commits\<close> (World)
  are the time and the database after its first steps, \<open>weaves\<close> is \<open>commits\<close> where some of the steps may fall into
  an open transaction of the request, during which nobody else commits. \<open>meanwhile P w w'\<close>: the database
  that the first steps of the schedule of \<open>w\<close> have made, at a time not later than that of \<open>w'\<close>, satisfied \<open>P\<close>;
  \<open>seen q w w' x\<close> (Services): a query had the answer \<open>x\<close> on such a database. \<open>applied\<close>, \<open>refused\<close> and \<open>unaffected\<close>
  say of a write that from \<open>w\<close> to \<open>w'\<close> it was done exactly once, at one moment after the transactions of
  others up to then, that it was attempted and refused, or that only those transactions happened. \<open>evolves\<close>, any
  sequence of operations at all, is used where that is the strongest assumption: for what no operation of
  anybody breaks (the invariants).

  What the lemmas show. \<open>X_runs\<close> and \<open>X_writes\<close> (UserRepo, TokenRepo): each function of the repository does to
  the database the operation of theory Transactions it stands for, and \<open>wp_UpdateInTx\<close> that on success it has
  happened exactly once, atomically (\<open>tx_result\<close>), and on an error not at all unless the reply to the commit
  was lost. \<open>X_spec\<close>: the outcome of each use case under every schedule. \<open>serve_X\<close>: the same
  through the server. \<open>evolves_X\<close>: the invariants. The theorems of this theory are the properties of the
  program that follow, each with an application to the instance of theory Demo.

  Interfaces are locales: \<open>row_versions\<close> (a table whose rows keep their key, interpreted on the five tables
  with updates), \<open>fallible_limiter\<close> and \<open>rate_limiter\<close> (the contract of a limiter, interpreted on
  the five limiters), \<open>login_lockout\<close>, \<open>mark_once\<close> (tokens of one owner of which one is unused), \<open>service\<close>
  (the dependencies of the API, interpreted on those of \<open>cmd/auth\<close>).

  Hypotheses about code outside the repository. \<open>echo_ok\<close>: echo applies middlewares in their
  order, its time-out middleware replaces the error of a deadline and nothing else, and its recovery does
  nothing when nothing panics. \<open>times_out\<close>: what it is replaced by is echo's error for status 503. \<open>reply_lost\<close>: an
  error that carries PostgreSQL's message about serialization comes from PostgreSQL, which has rolled
  back then; only other failures of a commit may follow a commit that took effect. (This is part of
  the model of the environment, in \<open>db_write\<close> and \<open>db_commit\<close>; if it were not so, the retries of \<open>UpdateInTx\<close>
  could apply an operation twice.) \<open>codec_ok\<close>: \<open>encoding/json\<close> reads back what it writes. \<open>jwt_ok\<close>: the JWT
  library accepts what it signed until the second of expiry. \<open>codec_reads\<close>, \<open>finds_routes\<close>, \<open>binds_json\<close>,
  \<open>serves_at\<close>: JSON documents, paths and bodies arrive as they were sent. \<open>signs\<close>, \<open>bcrypt_total\<close>,
  \<open>fresh_ids\<close>, \<open>fresh_draws\<close>, \<open>fresh_resets\<close>: signing and hashing succeed, and random identifiers and tokens do not repeat.
  Each is satisfied by the instance in theory Demo.

  Concurrency of transactions. In a world the transactions of the environment commit between those of a
  handler, never while one is open; what the properties of runs (C3 to C7 and what follows) say of worlds
  they say of serial transactions. \<open>UpdateInTx\<close> asks for \<open>REPEATABLE READ\<close>, which promises less. Theory Isolation models a commit
  from a snapshot (a row that was written or locked and has changed since makes it fail; the bulk updates
  reach only the rows that were seen; constraints are checked against all rows) and proves of each operation
  that it then has the effect of the serial one, up to those rows. Theory Histories has the sequences of states
  that such commits can produce (\<open>history\<close>, serial evolutions among them) and proves the invariants C4 to C7
  for all of them. C3 is the exception: it is proved of the histories in which no transaction misses a row
  (\<open>complete_history\<close>), and how far it fails in others is a theorem (C19).

  Simplifications. The time a request took and the trace identifiers are left out of log entries (what a line
  adds to an entry is theory Logging). \<open>Seconds()\<close> and \<open>math.Ceil\<close> are taken as exact. Panics of the handlers
  are not modelled (there is none in the modelled code; \<open>Recover\<close> would turn one into a 500).

  Not modelled: what has no logic of its own (interfaces, type aliases, constructors that store their
  arguments), the isolation levels of \<open>common/db.go\<close> that have no caller, the
  SQL files of the migrations as programs (the schema they give is theory Tables), and the text \<open>fmt\<close> makes of
  the arguments of echo's logger.
\<close>

section \<open>Serving requests\<close>

text \<open>
  C1. Every request the server of \<open>cmd/auth\<close> receives is answered, whatever other instances do
  meanwhile and whichever calls fail: a response is written, with status 200 or 201 or as a problem
  document for the requested path (status, body and \<open>Retry-After\<close> header agreeing); the database has
  changed by operations of the use cases only, and no transaction is left open; and a line
  ``Request done'' with that status is in the log. The one exception to the last: where the time-out
  middleware turns a deadline into status 503 the line says 500.
\<close>

theorem request_answered:
  assumes "start_ok X w" "w_tx w = None" "echo_ok E"
  shows "wp (serve E C debug X (main_deps X env) rq) (response_ok rq w) w"
  by (rule main.serve_ok [OF assms(1,3) good_start [OF assms(2)]])

theorem request_answered_witness:
  "wp (serve demo_echo demo_codec False demo_ext (main_deps demo_ext '''') demo_login)
     (response_ok demo_login demo_world) demo_world"
  by (rule request_answered) (simp_all add: demo_start demo_echo_ok)

text \<open>
  C2. Access control. A request to a protected path that presents no valid access token is refused with
  status 401 and the challenge \<open>WWW-Authenticate: Bearer\<close>; the administration paths (invitations, disabling
  and reactivating accounts) are closed to a valid access token that does not carry the role \<open>super_admin\<close>:
  status 403. Neither touches the database, Redis or the mailbox.
\<close>

theorem access_refused:
  assumes "echo_ok E" "eo_route E (map fst (Register E X D)) rq = Inr (key, params)"
    and "key \<in> set protected_keys \<and> presented X (w_now w) rq = None \<and> st = 401 \<or>
      key \<in> set admin_keys \<and> (\<exists>cl. presented X (w_now w) rq = Some cl \<and> RoleSuperAdmin \<notin> set (Roles cl)) \<and> st = 403"
  shows "wp (serve E C debug X D rq) (\<lambda>rs w'. rs_committed rs \<and> rs_status rs = st \<and> untouched w w' \<and>
    (st = 401 \<longrightarrow> header_get (rs_headers rs) ''WWW-Authenticate'' = ''Bearer'')) w"
  using assms(3)
proof (elim disjE conjE exE)
  assume "key \<in> set protected_keys" "presented X (w_now w) rq = None" "st = 401"
  then show ?thesis by (intro wp_mono [OF serve_unauthorized [OF assms(1,2)]]) auto
next
  fix cl assume "key \<in> set admin_keys" "presented X (w_now w) rq = Some cl" "RoleSuperAdmin \<notin> set (Roles cl)" "st = 403"
  then show ?thesis by (intro wp_mono [OF serve_forbidden [OF assms(1,2)]]) auto
qed

theorem access_refused_witness:
  "wp (serve demo_echo demo_codec False demo_ext demo_main (demo_request ''POST'' ''/auth/logout'' ''Bearer forged''))
     (\<lambda>rs w'. rs_committed rs \<and> rs_status rs = 401 \<and>
        header_get (rs_headers rs) ''WWW-Authenticate'' = ''Bearer'' \<and> untouched demo_world w') demo_world \<and>
   wp (serve demo_echo demo_codec False demo_ext demo_main (demo_request ''POST'' ''/admin/invitations'' ''Bearer user''))
     (\<lambda>rs w'. rs_committed rs \<and> rs_status rs = 403 \<and> untouched demo_world w') demo_world"
proof -
  have forged: "presented demo_ext (w_now demo_world) (demo_request ''POST'' ''/auth/logout'' ''Bearer forged'') = None"
    unfolding demo_world_simps by code_simp
  have user: "presented demo_ext (w_now demo_world) (demo_request ''POST'' ''/admin/invitations'' ''Bearer user'') =
      Some \<lparr>UserID = ''user'', Roles = [RoleUser]\<rparr>"
    unfolding demo_world_simps by code_simp
  have route: "eo_route demo_echo keys (demo_request verb path auth) = Inr ((verb, path), \<lambda>_. ''user'')" for keys verb path auth
    by (simp add: demo_echo_def demo_request_def)
  show ?thesis
    by (intro conjI; rule wp_mono [OF access_refused [OF demo_echo_ok route]])
      (use forged user in \<open>auto simp: protected_keys_def admin_keys_def role_defs\<close>)
qed

section \<open>Every run of the server\<close>

text \<open>
  C3. As long as no transaction misses a row, a user has at most one unused e-mail confirmation token and at
  most one unused password reset token, and an address at most one unused invitation. That is so after any
  number of requests, under any schedule of failures and of other instances, when transactions run one after
  the other; and in every state of a history in which transactions overlap, if what each invalidates was
  committed before its snapshot was taken. Without that proviso it is false of the code:
  \<open>concurrent_reset_requests\<close> (C19).
\<close>

theorem run_one_active_token:
  assumes "server_run E C debug X (main_deps X env) w w'" "echo_ok E" "schema_ok (w_db w)" "w_tx w = None"
    and "one_active_tokens (w_db w)"
  shows "one_active_tokens (w_db w') \<and>
    (\<forall>hs. complete_history (w_db w) hs \<longrightarrow> (\<forall>d \<in> set hs. one_active_tokens d))"
  using main.run_invariant [OF assms(1-4)] complete_history_evolves evolves_one_active_tokens assms(3,5) by blast

theorem run_one_active_token_witness:
  "one_active_tokens (w_db demo_after) \<and>
   (\<exists>t. complete_history demo_db [demo_db, demo_issued, t] \<and> one_active_tokens t)"
proof -
  obtain t where "complete_history demo_db [demo_db, demo_issued, t]" using demo_complete by blast
  then show ?thesis
    using run_one_active_token [OF demo_run demo_echo_ok] demo_schema demo_one_active by fastforce
qed

text \<open>
  C4. After any run, every family of refresh tokens belongs to one user and has at most one token
  that was not used: a session has one current refresh token. The rows also satisfy the constraints
  of the schema (unique keys, references to existing users).
\<close>

theorem run_session_family:
  assumes "server_run E C debug X (main_deps X env) w w'" "echo_ok E" "w_tx w = None" "family_inv (w_db w)"
  shows "family_inv (w_db w')"
proof -
  have "schema_ok (w_db w)" using assms(4) by (simp add: family_inv_def)
  then show ?thesis using main.run_invariant [OF assms(1,2) _ assms(3)] evolves_family assms(4) by blast
qed

theorem run_session_family_witness: "family_inv (w_db demo_after)"
  by (rule run_session_family [OF demo_run demo_echo_ok]) (simp_all add: demo_family)

text \<open>
  C5. The rows are well typed after any run: every account has exactly one role, \<open>user\<close> or one of the
  administrative roles; an account that waits for the confirmation of its address is a user, a disabled
  one an administrator; every invitation is for an administrative role; and the constraints of the schema
  hold (unique keys, references to existing accounts, known states).
\<close>

theorem run_rows_typed:
  assumes "server_run E C debug X (main_deps X env) w w'" "echo_ok E" "w_tx w = None" "schema_ok (w_db w)" "rows_typed (w_db w)"
  shows "schema_ok (w_db w') \<and> rows_typed (w_db w')"
  using main.run_invariant [OF assms(1,2,4,3)] evolves_types assms(4,5) by blast

theorem run_rows_typed_witness: "rows_typed (w_db demo_after)"
  using run_rows_typed [OF demo_run demo_echo_ok] by (simp add: demo_schema demo_typed)

text \<open>
  C6. An active super administrator remains: if there is one when the server starts, there is one
  after any run, also when administrators are disabled concurrently.
\<close>

theorem run_super_admin_remains:
  assumes "server_run E C debug X (main_deps X env) w w'" "echo_ok E" "schema_ok (w_db w)" "w_tx w = None"
    and "supers (w_db w) \<noteq> {}"
  shows "supers (w_db w') \<noteq> {}"
  using main.run_invariant [OF assms(1-4)] evolves_super assms(3,5) by blast

theorem run_super_admin_remains_witness: "supers (w_db demo_after) \<noteq> {}"
  by (rule run_super_admin_remains [OF demo_run demo_echo_ok]) (simp_all add: demo_schema demo_supers)

text \<open>
  C7. History is kept by every run: no row is deleted, no token's hash, owner or expiry is changed,
  a token that was used or revoked stays so with the time and reason it got, addresses and
  identifiers of accounts do not change, an account's status moves only along the edges of its
  state machine (unverified to active, active to disabled and back), and the roles of an account that
  exists do not change: they are given when it is created (\<open>user\<close> by registration, the invited role by
  an invitation) and at no other time.
\<close>

theorem run_keeps_history:
  assumes "server_run E C debug X (main_deps X env) w w'" "echo_ok E" "schema_ok (w_db w)" "w_tx w = None"
  shows "keeps (w_db w) (w_db w') \<and> (\<forall>uid \<in> user_ids (w_db w). roles_of uid (w_db w') = roles_of uid (w_db w))"
proof (rule main.run_invariant [OF assms], rule conjI)
  fix d assume "evolves (w_db w) d"
  then show "keeps (w_db w) d" "\<forall>uid \<in> user_ids (w_db w). roles_of uid d = roles_of uid (w_db w)"
    using evolves_keeps evolves_roles unfolding same_roles_def by blast+
qed

theorem run_keeps_history_witness: "keeps demo_db (w_db demo_after) \<and> roles_of 1 (w_db demo_after) = [RoleUser]"
proof -
  have "1 \<in> user_ids demo_db" "roles_of 1 demo_db = [RoleUser]"
    by (simp_all add: user_ids_def demo_db_def demo_user_def roles_of_def)
  then show ?thesis using run_keeps_history [OF demo_run demo_echo_ok] by (simp add: demo_schema)
qed

section \<open>The use cases\<close>

text \<open>
  Each handler with the limiter or lockout of \<open>cmd/auth\<close>, started in any state and under any schedule.
\<close>

text \<open>
  C8. A login that succeeds was made with the password that the account had, being active, at some moment
  during the request; the access token names that account and the roles it had during the request, and
  one new session is opened, by one insertion: the first refresh token of a new
  family, stored by its hash and valid for the full \<open>RefreshTokenTTL\<close>. Only who presents the password
  the account had during the request learns that an account is disabled or unconfirmed. (The moments of a
  request are the states of the database after the transactions that its schedule has up to then.)
  No mail is sent, and a refused login leaves the database as it is (in a quiet world).
\<close>

theorem login_outcome:
  assumes "w_tx w = None" "fresh_ids X w"
  shows "wp (Login X (loginLockout_Check X) (loginLockout_RecordFailure X) (loginLockout_Reset X) email password)
    (\<lambda>r w'. ended w w' \<and> mail_needs False w w' \<and> no_effect_on_error w r w' \<and>
       (r = Inl (Sentinel ErrAccountDisabled) \<or> r = Inl (Sentinel ErrEmailNotVerified) \<longrightarrow>
          password_known X email password w w') \<and>
       (\<forall>res. r = Inr res \<longrightarrow> logged_in X email password res w w')) w"
  by (rule login_lock.Login_spec [OF good_start [OF assms(1)] assms(2)])

theorem login_outcome_witness:
  "wp (Login demo_ext (loginLockout_Check demo_ext) (loginLockout_RecordFailure demo_ext) (loginLockout_Reset demo_ext) ''user@example.com'' demo_password)
    (\<lambda>r w'. ended demo_world w' \<and> mail_needs False demo_world w' \<and> no_effect_on_error demo_world r w' \<and>
       (r = Inl (Sentinel ErrAccountDisabled) \<or> r = Inl (Sentinel ErrEmailNotVerified) \<longrightarrow>
          password_known demo_ext ''user@example.com'' demo_password demo_world w') \<and>
       (\<forall>res. r = Inr res \<longrightarrow> logged_in demo_ext ''user@example.com'' demo_password res demo_world w')) demo_world"
  by (rule login_outcome) (simp_all add: demo_schema demo_fresh_ids)

text \<open>
  C9. A refresh that succeeds exchanged a token that was unused, unrevoked and not expired, of an
  account that exists and is not disabled; the token was marked used in the same transaction that
  stored its successor in the same family, and the new access token names the account. When the
  caller is told that a token was used again the whole family is revoked; when told that the account
  is disabled or deleted, or the token expired, that token is revoked; an unknown token changes
  nothing.
\<close>

theorem refresh_outcome:
  assumes "w_tx w = None"
  shows "wp (RefreshToken X plain)
    (\<lambda>r w'. ended w w' \<and> mail_needs False w w' \<and>
       (case r of Inl e \<Rightarrow> refresh_refused X plain e w w' | Inr res \<Rightarrow> refreshed X plain res w w')) w"
  by (rule RefreshToken_spec [OF good_start [OF assms(1)]])

theorem refresh_outcome_witness:
  "wp (RefreshToken demo_ext ''r'')
    (\<lambda>r w'. ended demo_world w' \<and> mail_needs False demo_world w' \<and>
       (case r of Inl e \<Rightarrow> refresh_refused demo_ext ''r'' e demo_world w' | Inr res \<Rightarrow> refreshed demo_ext ''r'' res demo_world w')) demo_world"
  by (rule refresh_outcome) (simp_all add: demo_schema demo_fresh_ids)



text \<open>
  C11. A password is changed only for an account that existed and was not disabled, on presentation of
  the password it had, at some moment during the request, to one that satisfies the rules; the change is made
  exactly once, afterwards the stored hash is one of the
  new password at the required cost, and every refresh token of the account is revoked. An error
  leaves everything as it was (in a quiet world).
\<close>

theorem change_password_outcome:
  assumes "w_tx w = None"
  shows "wp (ChangePasswordHandler X auth old new)
    (\<lambda>r w'. ended w w' \<and> mail_needs False w w' \<and> no_effect_on_error w r w' \<and>
       (r = Inr () \<longrightarrow> password_changed X auth old new w w')) w"
  by (rule ChangePasswordHandler_spec [OF good_start [OF assms(1)]])

theorem change_password_outcome_witness:
  "wp (ChangePasswordHandler demo_ext ''user'' demo_password ''another long password'')
    (\<lambda>r w'. ended demo_world w' \<and> mail_needs False demo_world w' \<and> no_effect_on_error demo_world r w' \<and>
       (r = Inr () \<longrightarrow> password_changed demo_ext ''user'' demo_password ''another long password'' demo_world w')) demo_world"
  by (rule change_password_outcome) (simp_all add: demo_schema demo_fresh_ids)

lemma confirm_reset_outcome:
  assumes "w_tx w = None" "schema_ok (w_db w)"
  shows "wp (ConfirmPasswordResetHandler X plain new)
    (\<lambda>r w'. ended w w' \<and> mail_needs False w w' \<and> no_effect_on_error w r w' \<and>
       (r = Inr () \<longrightarrow> password_reset X plain new w w')) w"
  by (rule ConfirmPasswordResetHandler_spec [OF good_start [OF assms(1)] assms(2)])

lemma verify_email_outcome:
  assumes "w_tx w = None" "schema_ok (w_db w)"
  shows "wp (VerifyEmail X (EmailVerifyLimiter X secret) plain clientIP)
    (\<lambda>r w'. ended w w' \<and> mail_needs False w w' \<and> no_effect_on_error w r w' \<and>
       (r = Inr () \<longrightarrow> address_confirmed (HashEmailConfirmationToken X plain) w w')) w"
  by (rule verify_limiter.VerifyEmail_spec [OF good_start [OF assms(1)] assms(2)])

lemma accept_invitation_outcome:
  assumes "w_tx w = None" "schema_ok (w_db w)"
  shows "wp (AcceptInvitationHandler X plain password)
    (\<lambda>r w'. ended w w' \<and> mail_needs False w w' \<and> no_effect_on_error w r w' \<and>
       (r = Inr () \<longrightarrow> invitation_accepted X plain password w w')) w"
  by (rule AcceptInvitationHandler_spec [OF good_start [OF assms(1)] assms(2)])

text \<open>
  C12. A one-time token counts only once and only in time: a password reset is confirmed, an address is
  verified and an invitation is accepted only with a token that was unused and not expired, which is
  consumed in the transaction that does what it is for: store the hash of the new password and revoke
  every refresh token of the account; activate the account; create the account with the address and the
  role of the invitation and the hash of the password. No mail is sent, and an error changes nothing
  (in a quiet world).
\<close>

theorem one_time_tokens_outcome:
  assumes "w_tx w = None" "schema_ok (w_db w)"
  shows "wp (ConfirmPasswordResetHandler X plain new)
      (\<lambda>r w'. ended w w' \<and> mail_needs False w w' \<and> no_effect_on_error w r w' \<and>
         (r = Inr () \<longrightarrow> password_reset X plain new w w')) w \<and>
    wp (VerifyEmail X (EmailVerifyLimiter X secret) plain clientIP)
      (\<lambda>r w'. ended w w' \<and> mail_needs False w w' \<and> no_effect_on_error w r w' \<and>
         (r = Inr () \<longrightarrow> address_confirmed (HashEmailConfirmationToken X plain) w w')) w \<and>
    wp (AcceptInvitationHandler X plain new)
      (\<lambda>r w'. ended w w' \<and> mail_needs False w w' \<and> no_effect_on_error w r w' \<and>
         (r = Inr () \<longrightarrow> invitation_accepted X plain new w w')) w"
  using confirm_reset_outcome [OF assms] verify_email_outcome [OF assms] accept_invitation_outcome [OF assms] by blast

theorem one_time_tokens_outcome_witness:
  "wp (ConfirmPasswordResetHandler demo_ext ''p'' ''another long password'')
      (\<lambda>r w'. r = Inr () \<longrightarrow> password_reset demo_ext ''p'' ''another long password'' demo_world w') demo_world \<and>
   wp (VerifyEmail demo_ext (EmailVerifyLimiter demo_ext ''s'') ''c'' ''192.0.2.1'')
      (\<lambda>r w'. r = Inr () \<longrightarrow> address_confirmed (HashEmailConfirmationToken demo_ext ''c'') demo_world w') demo_world \<and>
   wp (AcceptInvitationHandler demo_ext ''i'' demo_password)
      (\<lambda>r w'. r = Inr () \<longrightarrow> invitation_accepted demo_ext ''i'' demo_password demo_world w') demo_world"
  using one_time_tokens_outcome [of demo_world demo_ext "''p''" "''another long password''" "''s''" "''192.0.2.1''"]
    one_time_tokens_outcome [of demo_world demo_ext "''c''" "''another long password''" "''s''" "''192.0.2.1''"]
    one_time_tokens_outcome [of demo_world demo_ext "''i''" demo_password "''s''" "''192.0.2.1''"]
  by (auto simp: demo_schema elim: wp_mono)

lemma request_reset_outcome:
  assumes "w_tx w = None"
  shows "wp (RequestPasswordReset X (PasswordResetLimiter X) email)
    (\<lambda>r w'. ended w w' \<and> mails_only PasswordResetMail email w w' \<and> no_effect_on_error w r w' \<and>
       mail_needs (\<exists>u. seen (GetUserByEmail email) w w' u \<and> u_Status u = StatusInactive) w w') w"
  by (rule reset_limiter.RequestPasswordReset_spec [OF good_start [OF assms(1)]])

lemma resend_outcome:
  assumes "w_tx w = None"
  shows "wp (ResendEmailVerification X (ResendEmailLimiter X) email)
    (\<lambda>r w'. ended w w' \<and> mails_only ConfirmationMail email w w' \<and> no_effect_on_error w r w' \<and>
       mail_needs (\<exists>u. seen (GetUserByEmail email) w w' u \<and> u_Status u = StatusMailUnverified) w w') w"
  by (rule resend_limiter.ResendEmailVerification_spec [OF good_start [OF assms(1)]])

lemma register_outcome:
  assumes "w_tx w = None"
  shows "wp (RegisterAccount X (RegistrationLimiter X) email password)
    (\<lambda>r w'. ended w w' \<and> mails_only ConfirmationMail email w w' \<and> no_effect_on_error w r w' \<and>
       (r = Inr () \<longrightarrow> email_taken email (w_db w') \<and> ValidateEmail email = None \<and> ValidatePassword password = None)) w"
  by (rule registration_limiter.RegisterAccount_spec [OF good_start [OF assms(1)]])

text \<open>
  C13. Mails on request. Asking for a password reset sends reset mails to the given address only, and only
  if an active account had it at some moment during the request. A re-sent confirmation goes to the given
  address only, and only if an unconfirmed account had it during the request. A registration sends confirmation mails to the given address only, and
  after one that is answered with success the address has an account, and address and password satisfy
  the rules. In all three an error leaves database and mailbox as they were (in a quiet world).
\<close>

theorem requested_mails_outcome:
  assumes "w_tx w = None"
  shows "wp (RequestPasswordReset X (PasswordResetLimiter X) email)
      (\<lambda>r w'. ended w w' \<and> mails_only PasswordResetMail email w w' \<and> no_effect_on_error w r w' \<and>
         mail_needs (\<exists>u. seen (GetUserByEmail email) w w' u \<and> u_Status u = StatusInactive) w w') w \<and>
    wp (ResendEmailVerification X (ResendEmailLimiter X) email)
      (\<lambda>r w'. ended w w' \<and> mails_only ConfirmationMail email w w' \<and> no_effect_on_error w r w' \<and>
         mail_needs (\<exists>u. seen (GetUserByEmail email) w w' u \<and> u_Status u = StatusMailUnverified) w w') w \<and>
    wp (RegisterAccount X (RegistrationLimiter X) email password)
      (\<lambda>r w'. ended w w' \<and> mails_only ConfirmationMail email w w' \<and> no_effect_on_error w r w' \<and>
         (r = Inr () \<longrightarrow> email_taken email (w_db w') \<and> ValidateEmail email = None \<and> ValidatePassword password = None)) w"
  using request_reset_outcome [OF assms] resend_outcome [OF assms] register_outcome [OF assms] by blast

theorem requested_mails_outcome_witness:
  "wp (RequestPasswordReset demo_ext (PasswordResetLimiter demo_ext) ''user@example.com'')
      (\<lambda>r w'. mails_only PasswordResetMail ''user@example.com'' demo_world w') demo_world \<and>
   wp (ResendEmailVerification demo_ext (ResendEmailLimiter demo_ext) ''new@example.com'')
      (\<lambda>r w'. mails_only ConfirmationMail ''new@example.com'' demo_world w') demo_world \<and>
   wp (RegisterAccount demo_ext (RegistrationLimiter demo_ext) ''fresh@example.com'' demo_password)
      (\<lambda>r w'. r = Inr () \<longrightarrow> email_taken ''fresh@example.com'' (w_db w')) demo_world"
  using requested_mails_outcome [of demo_world demo_ext "''user@example.com''" demo_password]
    requested_mails_outcome [of demo_world demo_ext "''new@example.com''" demo_password]
    requested_mails_outcome [of demo_world demo_ext "''fresh@example.com''" demo_password]
  by (auto elim: wp_mono)

text \<open>
  C14. An invitation is mailed to the given address only, only for an administrative role, and only
  when the address had no account at some time during the request; an error leaves database and
  mailbox as they were.
\<close>

theorem invite_outcome:
  assumes "w_tx w = None"
  shows "wp (InviteAdmin X (InvitationLimiter X) email role)
    (\<lambda>r w'. ended w w' \<and> mails_only InvitationMail email w w' \<and> no_effect_on_error w r w' \<and>
       mail_needs (IsAdminRole role) w w' \<and>
       mail_needs (meanwhile (\<lambda>d. \<not> email_taken email d) w w') w w') w"
  by (rule invitation_limiter.InviteAdmin_spec [OF good_start [OF assms(1)]])

theorem invite_outcome_witness:
  "wp (InviteAdmin demo_ext (InvitationLimiter demo_ext) ''invited@example.com'' RoleOperator)
    (\<lambda>r w'. ended demo_world w' \<and> mails_only InvitationMail ''invited@example.com'' demo_world w' \<and> no_effect_on_error demo_world r w' \<and>
       mail_needs (IsAdminRole RoleOperator) demo_world w' \<and>
       mail_needs (meanwhile (\<lambda>d. \<not> email_taken ''invited@example.com'' d) demo_world w') demo_world w') demo_world"
  by (rule invite_outcome) (simp_all add: demo_schema demo_fresh_ids)

lemma disable_outcome:
  assumes "w_tx w = None"
  shows "wp (DisableAccountHandler X op target)
    (\<lambda>r w'. ended w w' \<and> mail_needs False w w' \<and> no_effect_on_error w r w' \<and>
       (r = Inr () \<longrightarrow> account_disabled X op target w w')) w"
  by (rule DisableAccountHandler_spec [OF good_start [OF assms(1)]])

lemma reactivate_outcome:
  assumes "w_tx w = None"
  shows "wp (ReactivateAccountHandler X op target)
    (\<lambda>r w'. ended w w' \<and> mail_needs False w w' \<and> no_effect_on_error w r w' \<and>
       (r = Inr () \<longrightarrow> account_reactivated X op target w w')) w"
  by (rule ReactivateAccountHandler_spec [OF good_start [OF assms(1)]])

text \<open>
  C15. Only an account with an administrative role is disabled; when the caller is told so its status is
  disabled, all its refresh tokens are revoked and an audit line names the operator and the target.
  Only a disabled account with an administrative role is reactivated; when the caller is told so its
  status is active and an audit line names the operator and the target.
\<close>

theorem administration_outcome:
  assumes "w_tx w = None"
  shows "wp (DisableAccountHandler X op target)
      (\<lambda>r w'. ended w w' \<and> mail_needs False w w' \<and> no_effect_on_error w r w' \<and>
         (r = Inr () \<longrightarrow> account_disabled X op target w w')) w \<and>
    wp (ReactivateAccountHandler X op target)
      (\<lambda>r w'. ended w w' \<and> mail_needs False w w' \<and> no_effect_on_error w r w' \<and>
         (r = Inr () \<longrightarrow> account_reactivated X op target w w')) w"
  using disable_outcome [OF assms] reactivate_outcome [OF assms] by blast

theorem administration_outcome_witness:
  "wp (DisableAccountHandler demo_ext ''root'' ''operator'')
      (\<lambda>r w'. r = Inr () \<longrightarrow> account_disabled demo_ext ''root'' ''operator'' demo_world w') demo_world \<and>
   wp (ReactivateAccountHandler demo_ext ''root'' ''disabled'')
      (\<lambda>r w'. r = Inr () \<longrightarrow> account_reactivated demo_ext ''root'' ''disabled'' demo_world w') demo_world"
  using administration_outcome [of demo_world demo_ext "''root''" "''operator''"]
    administration_outcome [of demo_world demo_ext "''root''" "''disabled''"]
  by (auto elim: wp_mono)

section \<open>Transactions\<close>

text \<open>
  C16. \<open>UpdateInTx\<close> refines one atomic operation: whatever fails and however often it retries, a function
  that runs the statements of an operation either succeeds, and then has applied that operation exactly
  once, at one moment, to what the transactions of others had made of the database by then, with nothing
  else done to the database, and has sent its mails last; or it returns an error, and then has not
  applied it, unless the reply to the commit was lost, in which case it was applied once. No transaction
  stays open, and when nothing fails and nobody interferes the outcome is that of the operation itself.
  (That a retry never repeats a transaction that took effect rests on PostgreSQL reporting the
  serialization failure only for transactions it has rolled back, and on \<open>UpdateInTx\<close> retrying nothing else.)
\<close>

theorem transaction_refines_operation:
  assumes "w_tx w = None" "tx_runs ml B fn (\<lambda>ts. tx_op ts act)"
    and "\<And>d. evolves (w_db w) d \<Longrightarrow> admissible act d"
  shows "wp (UpdateInTx fn) (tx_result act ml B w) w"
  using assms by (rule wp_UpdateInTx)

theorem transaction_refines_operation_witness:
  "wp (ChangePassword 1 ''hash'') (tx_result (OpChangePassword 1 ''hash'') [] {} demo_world) demo_world"
  unfolding ChangePassword_def by (rule transaction_refines_operation [OF _ ChangePassword_runs]) simp_all

text \<open>
  C17. Under \<open>REPEATABLE READ\<close>, the level \<open>UpdateInTx\<close> asks for, a transaction works on a snapshot \<open>b\<close> while
  others commit and the database becomes \<open>t\<close>. If it commits, it has had the effect of its operation on \<open>t\<close>, up
  to the marks ``used'' and ``revoked'' on rows it could not see; if no such row was missed, exactly that
  effect.
\<close>

theorem concurrent_transaction_refines:
  assumes "later b t" "in_transaction act" "admissible act t" "snapshot_commit ts act b t = Some t'"
  shows "\<exists>d. tx_op ts act t = Inr ((), d) \<and> up_to_marks d t' \<and> (\<not> missed act b t \<longrightarrow> t' = d)"
  using snapshot_commit_op [OF assms] seeing_serial nothing_missed by fastforce

theorem concurrent_transaction_refines_witness:
  "\<exists>t' d. snapshot_commit 2 (OpChangePassword 1 ''h'') demo_db demo_issued = Some t' \<and>
     tx_op 2 (OpChangePassword 1 ''h'') demo_issued = Inr ((), d) \<and> t' = d"
proof -
  obtain t' where t': "snapshot_commit 2 (OpChangePassword 1 ''h'') demo_db demo_issued = Some t'"
    using demo_change by blast
  have "\<not> missed (OpChangePassword 1 ''h'') demo_db demo_issued" by (simp add: demo_issued_def)
  then show ?thesis using concurrent_transaction_refines [OF demo_later _ _ t'] t' by auto
qed

text \<open>
  C18. The invariants that hold of serial transactions hold in every history of concurrent ones: each
  family of refresh tokens has one owner and at most one unused token, the constraints of the schema hold
  and the rows are well typed, an active super administrator remains (the transaction that disables one
  locks them all), roles do not change, and nothing that was recorded is deleted or taken back.
\<close>

theorem histories_keep_invariants:
  assumes "history d hs" "family_inv d" "rows_typed d" "supers d \<noteq> {}" "e \<in> set hs"
  shows "family_inv e \<and> rows_typed e \<and> supers e \<noteq> {} \<and> same_roles d e \<and> keeps e (last hs)"
proof -
  have ok: "schema_ok d" using assms(2) by (simp add: family_inv_def)
  show ?thesis
    using history_family [OF assms(1,2)] history_types [OF assms(1) ok assms(3)] history_supers [OF assms(1) ok assms(4)]
      history_roles [OF assms(1) ok] history_grows [OF assms(1) ok] assms(5) by blast
qed

theorem histories_keep_invariants_witness:
  "\<exists>d2. history demo_db [demo_db, demo_issued, d2] \<and> family_inv d2 \<and> rows_typed d2 \<and> supers d2 \<noteq> {} \<and> keeps demo_issued d2"
proof -
  obtain d2 where d2: "history demo_db [demo_db, demo_issued, d2]" using demo_two by blast
  show ?thesis
    using histories_keep_invariants [OF d2 demo_family demo_typed demo_supers, of d2]
      histories_keep_invariants [OF d2 demo_family demo_typed demo_supers, of demo_issued] d2 by auto
qed

text \<open>
  C19. The one invariant that serial transactions keep and concurrent ones do not is that of C3. Two
  transactions that issue a password reset token for an account on the same snapshot conflict when the
  account has an unused token, and the second one starts again; when it has none there is no row for
  them to conflict on, both commit, and the account has two unused tokens (for confirmation tokens and
  invitations likewise). The next request that sees them invalidates both.
\<close>

theorem concurrent_reset_requests:
  assumes "schema_ok d" "tx_op ts (OpIssueResetToken uid a) d = Inr ((), d1)"
    and "TokenUUID c \<notin> pt_TokenUuid ` set (reset_tokens d1)" "Hash c \<notin> pt_TokenHash ` set (reset_tokens d1)"
  shows "if active_rows pt_UserUuid pt_UsedAt uid (reset_tokens d) = 0
    then \<exists>d2. history d [d, d1, d2] \<and> active_rows pt_UserUuid pt_UsedAt uid (reset_tokens d2) = 2 \<and>
      (\<forall>ts'' tok d3. tx_op ts'' (OpIssueResetToken uid tok) d2 = Inr ((), d3) \<longrightarrow>
         active_rows pt_UserUuid pt_UsedAt uid (reset_tokens d3) = 1)
    else snapshot_commit ts' (OpIssueResetToken uid c) d d1 = None"
  using history_two_tokens [OF assms, of ts'] issue_leaves_one by meson

theorem concurrent_reset_requests_witness:
  "\<exists>d2. history demo_db [demo_db, demo_issued, d2] \<and> one_active_tokens demo_db \<and> \<not> one_active_tokens d2"
proof -
  have none: "active_rows pt_UserUuid pt_UsedAt 2 (reset_tokens demo_db) = 0"
    by (simp add: active_rows_def count_where_def demo_db_def)
  obtain d2 where d2: "history demo_db [demo_db, demo_issued, d2]" "active_rows pt_UserUuid pt_UsedAt 2 (reset_tokens d2) = 2"
    using concurrent_reset_requests [OF demo_schema demo_issue demo_second_new, of 2] none by auto
  then have "\<not> one_active_tokens d2" unfolding one_active_tokens_def one_active_def by (metis numeral_le_one_iff semiring_norm(69))
  then show ?thesis using d2(1) demo_one_active by blast
qed

text \<open>
  C20. A function that keeps failing is run at most ten times, whatever happens meanwhile; when nothing
  else happens it is run exactly ten times if its error says that access could not be serialized, and
  once otherwise, and its error is returned. (The function draws a random number each time it runs, so
  the draws count its runs.)
\<close>

theorem transaction_tries:
  assumes "\<And>w. wp fn (\<lambda>r w'. r = Inl e \<and> w_draws w' = w_draws w + 1 \<and> w_env w' = w_env w) w"
  shows "wp (UpdateInTx fn) (\<lambda>r w'. w_draws w' \<le> w_draws w + 10 \<and>
    (w_env w = [] \<longrightarrow> r = Inl e \<and> w_draws w' = w_draws w + (if retryable e then 10 else 1))) w"
  using assms by (rule UpdateInTx_tries)

theorem transaction_tries_witness:
  "wp (UpdateInTx (do { n \<leftarrow> draw; fail (infra_err SerializationFailure) }))
     (\<lambda>r w'. r = Inl (infra_err SerializationFailure) \<and> w_draws w' = 10) demo_world"
proof -
  have "retryable (infra_err SerializationFailure)" by code_simp
  then show ?thesis
    by (intro wp_mono [OF transaction_tries [where e = "infra_err SerializationFailure"]]) simp_all
qed

section \<open>Answers in a quiet world\<close>

text \<open>
  C21. Who does not know the password, or meets a locked account, is refused with an error that depends
  on the form of the address and on the lock only: it is the same whether the address has no account,
  an active, a disabled or an unconfirmed one. Database and mailbox stay as they are.
\<close>

theorem login_refused_alike:
  assumes "quiet w" "password_matches X email password (w_db w) \<Longrightarrow> login_locked X email (w_now w) (w_redis w)"
  shows "wp (Login X (loginLockout_Check X) (loginLockout_RecordFailure X) (loginLockout_Reset X) email password)
    (\<lambda>r w'. r = Inl (login_refusal X email (w_now w) (w_redis w)) \<and> w_db w' = w_db w \<and> w_mail w' = w_mail w) w"
  using assms by (rule login_refused)

theorem login_refused_alike_witness:
  "wp (Login demo_ext (loginLockout_Check demo_ext) (loginLockout_RecordFailure demo_ext) (loginLockout_Reset demo_ext)
      ''disabled@example.com'' ''guess'')
    (\<lambda>r w'. r = Inl (Sentinel ErrAuthenticationFailed) \<and> w_db w' = demo_db) demo_world"
proof -
  have "\<not> password_matches demo_ext ''disabled@example.com'' ''guess'' demo_db"
    by (simp add: password_matches_def demo_lookup demo_verify, simp add: demo_password_def)
  moreover have "login_refusal demo_ext ''disabled@example.com'' 1 (\<lambda>_. None) = Sentinel ErrAuthenticationFailed"
    by code_simp
  ultimately show ?thesis
    by (intro wp_mono [OF login_refused_alike]) (simp_all add: demo_quiet)
qed

text \<open>
  C22. Guessing is limited. Of up to \<open>LoginLockoutThreshold\<close> logins with wrong passwords for one address, the
  last within \<open>LoginFailureCountWindow\<close> of the first, all are refused alike. Fewer do not lock the address.
  That many lock it: until \<open>LoginLockoutTTL\<close> has passed every login, with the right password too, is refused
  with the time that is left, and refused logins do not prolong it; then it is not locked any more.
\<close>

theorem guessing_locks_account:
  assumes "quiet w" "ValidateEmail email = None" "wrong_guesses X email (w_db w) as"
    and "r_get (ms_of (w_now w)) (countKey X LoginLockout email) (w_redis w) = None" "no_lock X email (w_now w) (w_redis w)"
    and "sum_list (map fst (tl as)) \<le> LoginFailureCountWindow" "int (length as) \<le> LoginLockoutThreshold"
    and "login_attempts X email as w = (rs, w')"
  shows "rs = replicate (length as) (Inl (Sentinel ErrAuthenticationFailed)) \<and>
    (int (length as) < LoginLockoutThreshold \<longrightarrow> \<not> login_locked X email (w_now w') (w_redis w')) \<and>
    (int (length as) = LoginLockoutThreshold \<longrightarrow> (\<forall>t password.
      if ms_of t < ms_of (w_now w') + Milliseconds LoginLockoutTTL
      then wp (login X email password) (\<lambda>r w''. r = Inl (LockedError ((ms_of (w_now w') + Milliseconds LoginLockoutTTL - ms_of t) * Millisecond)) \<and>
        w_db w'' = w_db w \<and> w_redis w'' = w_redis w') (w'\<lparr>w_now := t\<rparr>)
      else \<not> login_locked X email t (w_redis w')))"
proof (intro conjI impI allI)
  show "rs = replicate (length as) (Inl (Sentinel ErrAuthenticationFailed))" by (rule guessing_locks(1) [OF assms])
  show "\<not> login_locked X email (w_now w') (w_redis w')" if "int (length as) < LoginLockoutThreshold"
    using that by (rule guessing_locks(2) [OF assms])
  fix t password assume "int (length as) = LoginLockoutThreshold"
  note g = guessing_locks(3,4) [OF assms this, of t]
  show "if ms_of t < ms_of (w_now w') + Milliseconds LoginLockoutTTL
      then wp (login X email password) (\<lambda>r w''. r = Inl (LockedError ((ms_of (w_now w') + Milliseconds LoginLockoutTTL - ms_of t) * Millisecond)) \<and>
        w_db w'' = w_db w \<and> w_redis w'' = w_redis w') (w'\<lparr>w_now := t\<rparr>)
      else \<not> login_locked X email t (w_redis w')"
    using g by simp
qed

theorem guessing_locks_account_witness:
  "\<exists>rs w'. login_attempts demo_ext ''user@example.com'' (replicate 10 (Second, ''guess'')) demo_world = (rs, w') \<and>
     wp (login demo_ext ''user@example.com'' demo_password) (\<lambda>r w''. \<exists>d. r = Inl (LockedError d)) w'"
proof -
  let ?as = "replicate 10 (Second, ''guess'')"
  obtain rs w' where run: "login_attempts demo_ext ''user@example.com'' ?as demo_world = (rs, w')" by fastforce
  have "\<not> password_matches demo_ext ''user@example.com'' ''guess'' demo_db"
    by (simp add: password_matches_def demo_lookup demo_verify, simp add: demo_password_def)
  then have wrong: "wrong_guesses demo_ext ''user@example.com'' (w_db demo_world) ?as"
    by (simp add: wrong_guesses_def Second_def)
  have time: "sum_list (map fst (tl ?as)) \<le> LoginFailureCountWindow"
    by (simp add: sum_list_replicate LoginFailureCountWindow_def Minute_def Second_def)
  have start: "r_get k key (w_redis demo_world) = None" "no_lock demo_ext email k (w_redis demo_world)" for k key email
    by (simp_all add: r_get_def no_lock_def)
  have len: "int (length ?as) = LoginLockoutThreshold" by (simp add: LoginLockoutThreshold_def)
  then have le: "int (length ?as) \<le> LoginLockoutThreshold" by simp
  have "wp (login demo_ext ''user@example.com'' demo_password)
      (\<lambda>r w''. r = Inl (LockedError ((ms_of (w_now w') + Milliseconds LoginLockoutTTL - ms_of (w_now w')) * Millisecond)) \<and>
        w_db w'' = w_db demo_world \<and> w_redis w'' = w_redis w') (w'\<lparr>w_now := w_now w'\<rparr>)"
    using guessing_locks_account [OF demo_quiet demo_valid wrong start time le run, THEN conjunct2, THEN conjunct2,
        THEN mp, OF len, THEN spec, THEN spec, of "w_now w'" demo_password] durations(1)
    by (simp only: less_add_same_cancel1 if_True simp_thms)
  then show ?thesis using run by (auto elim!: wp_mono)
qed

text \<open>
  C23. The right password of an active account that is not locked opens a session: the returned refresh
  token can be exchanged for thirty days.
\<close>

theorem login_succeeds:
  assumes "quiet w" "fresh_draws X w" "signs X" "ValidateEmail email = None"
    and "r_pttl (ms_of (w_now w)) (lockKey X LoginLockout email) (w_redis w) = -2"
    and "GetUserByEmail email (w_db w) = Inr u" "VerifyPassword X (u_PasswordHash u) password"
    and "u_Status u = StatusInactive"
  shows "wp (Login X (loginLockout_Check X) (loginLockout_RecordFailure X) (loginLockout_Reset X) email password)
    (\<lambda>r w'. \<exists>access plain. r = Inr (access, plain) \<and>
       live_session X plain (u_UserUuid u) (w_now w + RefreshTokenTTL) (w_db w')) w"
  using assms by (rule login_works)

theorem login_succeeds_witness:
  "wp (Login demo_ext (loginLockout_Check demo_ext) (loginLockout_RecordFailure demo_ext) (loginLockout_Reset demo_ext)
      ''user@example.com'' demo_password)
    (\<lambda>r w'. \<exists>access plain. r = Inr (access, plain) \<and> live_session demo_ext plain 1 (1 + RefreshTokenTTL) (w_db w')) demo_world"
proof -
  have "ValidateEmail ''user@example.com'' = None" by code_simp
  then show ?thesis
    by (intro wp_mono [OF login_succeeds [where u = "demo_user 1 ''user@example.com'' StatusInactive"]])
      (simp_all add: demo_quiet demo_fresh_draws demo_signs r_pttl_def r_get_def demo_lookup demo_verify)
qed

text \<open>
  C24. A live refresh token of an account that exists and is not disabled can be exchanged, and the new
  one is live for another thirty days.
\<close>

theorem refresh_succeeds:
  assumes "quiet w" "fresh_draws X w" "signs X" "plain \<noteq> ''''"
    and "live_session X plain uid (w_now w) (w_db w)"
    and "GetUserByUuid uid (w_db w) = Inr u" "u_Status u \<noteq> StatusDisabled"
  shows "wp (RefreshToken X plain)
    (\<lambda>r w'. \<exists>access new. r = Inr (access, new) \<and> live_session X new uid (w_now w + RefreshTokenTTL) (w_db w')) w"
  using assms by (rule refresh_works)

theorem refresh_succeeds_witness:
  "wp (RefreshToken demo_ext ''r'')
    (\<lambda>r w'. \<exists>access new. r = Inr (access, new) \<and> live_session demo_ext new 1 (1 + RefreshTokenTTL) (w_db w')) demo_world"
  by (rule wp_mono [OF refresh_succeeds [where u = "demo_user 1 ''user@example.com'' StatusInactive"]])
    (simp_all add: demo_quiet demo_fresh_draws demo_signs demo_session demo_lookup status_defs)

text \<open>
  C25. A refresh token that was exchanged or revoked before, presented again before it expires, ends the
  session: every token of its family is revoked, the caller is told so, and the event is logged as
  critical.
\<close>

theorem refresh_reuse_ends_session:
  assumes "quiet w" "plain \<noteq> ''''" "GetRefreshTokenByHash (HashRefreshToken X plain) (w_db w) = Inr t"
    and "w_now w \<le> rt_ExpiresAt t" "rt_UsedAt t \<noteq> None \<or> rt_RevokedAt t \<noteq> None"
  shows "wp (RefreshToken X plain) (\<lambda>r w'. r = Inl (SessionRevokedError RevocationReasonTokenReuseDetected) \<and>
    family_revoked (rt_FamilyID t) (w_db w') \<and>
    (\<exists>entry \<in> set (w_log w'). l_level entry = Critical \<and> l_msg entry = MsgReuseDetected)) w"
  using assms by (rule refresh_reused)

theorem refresh_reuse_ends_session_witness:
  "wp (RefreshToken demo_ext ''r'') (\<lambda>r w'. r = Inl (SessionRevokedError RevocationReasonTokenReuseDetected) \<and>
    family_revoked 15 (w_db w')) demo_stale"
  by (rule wp_mono [OF refresh_reuse_ends_session [where t = "hd (refresh_tokens (w_db demo_stale))"]])
    (simp_all add: demo_stale_def demo_quiet GetRefreshTokenByHash_def demo_hashes demo_db_def)

text \<open>
  C26. A new address with a valid password gets an account and one confirmation mail.
\<close>

theorem registration_succeeds:
  assumes "quiet w" "schema_ok (w_db w)" "fresh_draws X w" "bcrypt_total X" "\<not> email_taken email (w_db w)"
    and "ValidateEmail email = None" "ValidatePassword password = None"
    and "window_open ''registration:ratelimit:'' email (w_now w) (w_redis w)"
  shows "wp (RegisterAccount X (RegistrationLimiter X) email password)
    (\<lambda>r w'. r = Inr () \<and> email_taken email (w_db w') \<and>
       (\<exists>tok. w_mail w' = w_mail w @ [\<lparr>m_kind = ConfirmationMail, m_to = email, m_token = tok\<rparr>])) w"
  using assms by (rule register_new)

theorem registration_succeeds_witness:
  "wp (RegisterAccount demo_ext (RegistrationLimiter demo_ext) ''fresh@example.com'' demo_password)
    (\<lambda>r w'. r = Inr () \<and> email_taken ''fresh@example.com'' (w_db w') \<and> length (w_mail w') = 1) demo_world"
proof -
  have "ValidateEmail ''fresh@example.com'' = None" "ValidatePassword demo_password = None" by code_simp+
  then show ?thesis
    by (intro wp_mono [OF registration_succeeds])
      (auto simp: demo_quiet demo_schema demo_fresh_draws demo_bcrypt window_open_def r_get_def demo_lookup)
qed

text \<open>
  C27. Asking about an address does not reveal whether it has an account. Registering it, asking for a reset
  and asking for another confirmation mail each have one answer, fixed before the database is known: success
  when the window of the limiter is open, a refusal for the rate when not. It is given for every database:
  whether the address is free or taken, and whether its account is active, unconfirmed, disabled or not there.
  What differs is not in the answer: where an account or a token is due it is stored and mailed to that
  address, and where none is due, or the rate is exceeded, nothing is stored and nothing is sent. (Outside
  the claim are the time the answer takes, and a failure to deliver the mail, which can occur only
  where one is due and is answered with 503.)
\<close>

theorem address_not_revealed:
  assumes "quiet w" "ValidateEmail email = None" "ValidatePassword password = None" "bcrypt_total X"
  shows "answered_alike X ''registration:ratelimit:'' email w (RegisterAccount X (RegistrationLimiter X) email password)
      (\<lambda>d. \<not> email_taken email d) \<and>
    answered_alike X ''password_reset:'' email w (RequestPasswordReset X (PasswordResetLimiter X) email)
      (\<lambda>d. \<exists>u. GetUserByEmail email d = Inr u \<and> u_Status u = StatusInactive) \<and>
    answered_alike X ''resend:ratelimit:'' email w (ResendEmailVerification X (ResendEmailLimiter X) email)
      (\<lambda>d. \<exists>u. GetUserByEmail email d = Inr u \<and> u_Status u = StatusMailUnverified)"
  using register_alike reset_alike resend_alike assms by blast

theorem address_not_revealed_witness:
  "\<exists>answer. wp (RequestPasswordReset demo_ext (PasswordResetLimiter demo_ext) ''user@example.com'')
      (\<lambda>r w'. r = answer \<and> (\<exists>ml. w_mail w' = [ml] \<and> m_to ml = ''user@example.com'')) demo_world \<and>
    wp (RequestPasswordReset demo_ext (PasswordResetLimiter demo_ext) ''user@example.com'')
      (\<lambda>r w'. r = answer \<and> w_db w' = empty_db \<and> w_mail w' = []) (demo_world\<lparr>w_db := empty_db\<rparr>)"
proof -
  have ok: "ValidateEmail ''user@example.com'' = None" "ValidatePassword demo_password = None" by code_simp+
  have opened: "window_open ''password_reset:'' ''user@example.com'' (w_now demo_world) (w_redis demo_world)"
    by (simp add: window_open_def r_get_def)
  have none: "\<And>u. GetUserByEmail ''user@example.com'' empty_db \<noteq> Inr u"
    by (simp add: GetUserByEmail_def empty_db_def)
  have same: "demo_world\<lparr>w_db := demo_db\<rparr> = demo_world" by (simp add: demo_world_def)
  note open_answer = answered_open [OF conjunct1 [OF conjunct2 [OF address_not_revealed [OF demo_quiet ok demo_bcrypt]]] opened]
  have "wp (RequestPasswordReset demo_ext (PasswordResetLimiter demo_ext) ''user@example.com'')
      (\<lambda>r w'. r = Inr () \<and> (\<exists>ml. w_mail w' = [ml] \<and> m_to ml = ''user@example.com'')) demo_world"
    by (rule wp_mono [OF open_answer [of demo_db, unfolded same]])
      (simp_all add: demo_lookup demo_schema demo_fresh_draws demo_fresh_resets)
  moreover have "wp (RequestPasswordReset demo_ext (PasswordResetLimiter demo_ext) ''user@example.com'')
      (\<lambda>r w'. r = Inr () \<and> w_db w' = empty_db \<and> w_mail w' = []) (demo_world\<lparr>w_db := empty_db\<rparr>)"
    by (rule wp_mono [OF open_answer [of empty_db]]) (simp_all add: none)
  ultimately show ?thesis by blast
qed

text \<open>
  C28. A limited or locked out request is answered with status 429, and its \<open>Retry-After\<close> header is the
  waiting time in seconds, rounded up: a client that waits that long does not come too early.
\<close>

theorem retry_after_rounded_up:
  assumes "err \<in> {register_error (RateLimitedError d), verify_error (RateLimitedError d), resend_error (RateLimitedError d),
      request_reset_error (RateLimitedError d), invite_error (RateLimitedError d), login_error (LockedError d)}"
    and "\<not> rs_committed rs"
  shows "wp (ProblemErrorHandler err c rs) (\<lambda>rs' w'. rs_status rs' = 429 \<and>
    (\<exists>n. header_get (rs_headers rs') ''Retry-After'' = int_text n \<and> d \<le> n * Second \<and> n * Second < d + Second)) w"
  using assms by (rule retry_after_answer)

theorem retry_after_rounded_up_witness:
  "wp (ProblemErrorHandler (login_error (LockedError (90 * Second + 1)))
      \<lparr>cx_request = demo_login, cx_claims = None, cx_client_ip = '''', cx_request_id = ''''\<rparr>
      \<lparr>rs_committed = False, rs_status = 200, rs_headers = [], rs_body = None\<rparr>)
    (\<lambda>rs' w'. rs_status rs' = 429 \<and> header_get (rs_headers rs') ''Retry-After'' = int_text 91) demo_world"
proof -
  have "n = 91" if "90 * Second + 1 \<le> n * Second" "n * Second < 90 * Second + 1 + Second" for n
    using that unfolding Second_def by linarith
  then show ?thesis
    by (intro wp_mono [OF retry_after_rounded_up [where d = "90 * Second + 1"]]) auto
qed

text \<open>
  C29. When Redis does not answer, the rate limiters let requests pass and log an error, but a login is
  refused: the lockout is never skipped.
\<close>

theorem redis_failure_modes:
  assumes "redis_down w" "allow \<in> {RegistrationLimiter X, ResendEmailLimiter X, PasswordResetLimiter X,
      InvitationLimiter X, EmailVerifyLimiter X secret}"
  shows "wp (allow key) (\<lambda>r w'. (\<exists>res. r = Inr res \<and> Allowed res) \<and>
      (\<exists>entry \<in> set (w_log w'). l_level entry = Error \<and> l_msg entry = MsgFailOpen)) w \<and>
    wp (Login X (loginLockout_Check X) (loginLockout_RecordFailure X) (loginLockout_Reset X) email password)
      (\<lambda>r w'. \<exists>e. r = Inl e) w"
  using limiters_fail_open [OF assms] login_fails_closed [OF assms(1)] by blast

theorem redis_failure_modes_witness:
  "wp (Login demo_ext (loginLockout_Check demo_ext) (loginLockout_RecordFailure demo_ext) (loginLockout_Reset demo_ext)
      ''user@example.com'' demo_password) (\<lambda>r w'. \<exists>e. r = Inl e)
     (demo_world\<lparr>w_env := [\<lparr>es_dt = 0, es_fault = Some (Refused Timeout), es_others = [], es_redis = []\<rparr>]\<rparr>)"
  using redis_failure_modes [where allow = "RegistrationLimiter demo_ext" and X = demo_ext and email = "''user@example.com''"
      and w = "demo_world\<lparr>w_env := [\<lparr>es_dt = 0, es_fault = Some (Refused Timeout), es_others = [], es_redis = []\<rparr>]\<rparr>"]
  by (simp add: redis_down_def)

section \<open>Tokens, limits, logs and mails\<close>

text \<open>
  C30. An access token the service issued is accepted, in the header \<open>Authorization: Bearer\<close> (the scheme
  in any case), as that user with those roles until the second it expires in, and refused from then
  on.
\<close>

theorem access_token_valid_until_expiry:
  assumes "jwt_ok X" "GenerateAccessToken X t uid roles ttl = Inr tok" "uid \<noteq> ''''"
    and "header_get (rq_headers rq) ''Authorization'' = pre @ tok" "length pre = 7" "EqualFold pre ''Bearer ''"
  shows "presented X t' rq =
    (if t' < unix (t + ttl) * Second then Some \<lparr>UserID = uid, Roles = roles\<rparr> else None)"
  using assms by (rule access_token_presented)

theorem access_token_valid_until_expiry_witness:
  "\<exists>tok. GenerateAccessToken demo_signer 1 ''user'' [RoleUser] AccessTokenTTL = Inr tok \<and>
     presented demo_signer 2 (demo_request ''POST'' ''/auth/logout'' (''bearer '' @ tok)) =
       Some \<lparr>UserID = ''user'', Roles = [RoleUser]\<rparr> \<and>
     presented demo_signer (AccessTokenTTL + Second) (demo_request ''POST'' ''/auth/logout'' (''bearer '' @ tok)) = None"
proof -
  obtain tok where tok: "GenerateAccessToken demo_signer 1 ''user'' [RoleUser] AccessTokenTTL = Inr tok"
    by (simp add: GenerateAccessToken_def demo_signer_def)
  have "EqualFold ''bearer '' ''Bearer ''" "unix (1 + AccessTokenTTL) = 900" by code_simp+
  then show ?thesis
    using access_token_valid_until_expiry [OF demo_jwt_ok tok, where pre = "''bearer ''"] tok
    by (auto simp: demo_request_def AccessTokenTTL_def Minute_def Second_def)
qed

text \<open>
  C31. One request per window: after a request was allowed, whatever other clients do with other keys,
  every further request under the same key is refused until the window ends, is told the time
  that is left, and does not prolong it.
\<close>

theorem fixed_window_admits_one:
  assumes "0 < window" "fixedWindowScript t1 k window r = (Inr [1, p], r1)"
    and "only_writer k (FixedWindowScript k window) t1 (t1 + window) h" "t1 \<le> t2" "t2 \<le> t1 + window"
  shows "fixedWindowScript t2 k window (snd (run_cmds h r1)) =
    (Inr [0, t1 + window - t2], snd (run_cmds h r1))"
  using assms by (rule fixed_window_one)

theorem fixed_window_admits_one_witness:
  "fixedWindowScript 20 ''k'' 100 (snd (run_cmds [(10, FixedWindowScript ''k'' 100), (15, DEL ''other'')]
     (snd (fixedWindowScript 5 ''k'' 100 (\<lambda>_. None))))) =
   (Inr [0, 85], snd (run_cmds [(10, FixedWindowScript ''k'' 100), (15, DEL ''other'')]
     (snd (fixedWindowScript 5 ''k'' 100 (\<lambda>_. None)))))"
proof -
  have "fixedWindowScript 5 ''k'' 100 (\<lambda>_. None) = (Inr [1, 100], snd (fixedWindowScript 5 ''k'' 100 (\<lambda>_. None)))"
    by (simp add: fixedWindowScript_def r_defs)
  from fixed_window_admits_one [OF _ this, where h = "[(10, FixedWindowScript ''k'' 100), (15, DEL ''other'')]" and ?t2.0 = 20]
  show ?thesis by (simp add: only_writer_def)
qed

text \<open>
  C32. A limit of \<open>lim\<close> requests per window: the request after \<open>n\<close> others in the same window is counted
  as allowed exactly when \<open>n < lim\<close>, and the time reported is what is left of the window the
  first request opened.
\<close>

theorem counting_window_limit:
  assumes "r_get t0 k r = None" "0 < window" "0 < lim" "t0 \<le> t" "t \<le> t0 + window"
    and "only_writer k (CountingWindowScript k window lim) t0 (t0 + window) h"
  shows "\<exists>c. fst (countingWindowScript t k window lim
      (snd (run_cmds h (snd (countingWindowScript t0 k window lim r))))) = Inr [c, t0 + window - t] \<and>
    (c \<le> lim \<longleftrightarrow> 1 + int (count_calls k h) < lim)"
proof -
  let ?r0 = "snd (countingWindowScript t0 k window lim r)"
  have r0: "?r0 k = Some \<lparr>re_val = min 1 lim, re_exp = Some (t0 + window)\<rparr>"
    using counting_first [OF assms(1-3)] assms(3) by simp
  have "snd (run_cmds h ?r0) k = Some \<lparr>re_val = min (1 + int (count_calls k h)) lim, re_exp = Some (t0 + window)\<rparr>"
    by (rule counting_window_kept [where r = ?r0, OF r0 _ assms(3,6)]) simp
  then show ?thesis
    using counting_step [of "snd (run_cmds h ?r0)" k "1 + int (count_calls k h)" lim "t0 + window" t window] assms(3,5)
    by auto
qed

theorem counting_window_limit_witness:
  "\<exists>c. fst (countingWindowScript 9 ''k'' 100 2 (snd (run_cmds [(7, CountingWindowScript ''k'' 100 2)]
      (snd (countingWindowScript 5 ''k'' 100 2 (\<lambda>_. None)))))) = Inr [c, 96] \<and> \<not> c \<le> 2"
proof -
  have "only_writer ''k'' (CountingWindowScript ''k'' 100 2) 5 (5 + 100) [(7, CountingWindowScript ''k'' 100 2)]"
    by (simp add: only_writer_def)
  from counting_window_limit [OF _ _ _ _ _ this, where r = "\<lambda>_. None" and t = 9] show ?thesis
    by (simp add: r_get_def count_calls_def)
qed

text \<open>
  C33. The lockout: failures after the first one in a window are counted, and the lock is not touched
  before the threshold; the failure that reaches the threshold locks the account for the lock time,
  and failures after it neither prolong nor lift the lock.
\<close>

theorem lockout_at_threshold:
  assumes "r_get t0 ck r = None" "0 < window" "1 < threshold" "0 < lock_ttl" "ck \<noteq> lk" "t \<le> t0 + window"
    and "lockout_history ck lk (LockoutFailureScript ck lk window threshold lock_ttl) t0 (t0 + window) h"
    and "lockout_history ck lk (LockoutFailureScript ck lk window threshold lock_ttl) t0 (t0 + window) h'"
    and "2 + int (count_calls ck h) = threshold"
    and "r1 = snd (run_cmds h (snd (lockoutFailureScript t0 ck lk window threshold lock_ttl r)))"
    and "r2 = snd (lockoutFailureScript t ck lk window threshold lock_ttl r1)"
  shows "r1 lk = r lk \<and> r2 lk = Some \<lparr>re_val = 1, re_exp = Some (t + lock_ttl)\<rparr> \<and> snd (run_cmds h' r2) lk = r2 lk"
proof -
  let ?r0 = "snd (lockoutFailureScript t0 ck lk window threshold lock_ttl r)"
  have r0: "?r0 ck = Some \<lparr>re_val = 1, re_exp = Some (t0 + window)\<rparr>" "?r0 lk = r lk"
    using lockout_first [OF assms(1-3)] assms(5) by simp_all
  have "1 + int (count_calls ck h) < threshold" using assms(9) by simp
  from lockout_counts [where r = ?r0, OF r0(1) _ assms(4,5,7) this]
  have r1: "r1 ck = Some \<lparr>re_val = 1 + int (count_calls ck h), re_exp = Some (t0 + window)\<rparr>" "r1 lk = r lk"
    using r0(2) assms(10) by simp_all
  then have r2: "r2 ck = Some \<lparr>re_val = threshold, re_exp = Some (t0 + window)\<rparr>"
    "r2 lk = Some \<lparr>re_val = 1, re_exp = Some (t + lock_ttl)\<rparr>"
    using lockout_step [where r = r1, OF r1(1) assms(6) _ assms(4), of lk window threshold] assms(5,9,11) by auto
  show ?thesis
    using r1(2) r2(2) lockout_not_prolonged [where r = r2, OF r2(1) _ _ assms(4,5,8)] assms(3) by simp
qed

theorem lockout_at_threshold_witness:
  "snd (run_cmds [(50, LockoutFailureScript ''c'' ''l'' 100 3 900)]
     (snd (lockoutFailureScript 20 ''c'' ''l'' 100 3 900
       (snd (run_cmds [(10, LockoutFailureScript ''c'' ''l'' 100 3 900)]
         (snd (lockoutFailureScript 5 ''c'' ''l'' 100 3 900 (\<lambda>_. None)))))))) ''l'' =
   Some \<lparr>re_val = 1, re_exp = Some 920\<rparr>"
proof -
  have h: "lockout_history ''c'' ''l'' (LockoutFailureScript ''c'' ''l'' 100 3 900) 5 (5 + 100)
      [(s, LockoutFailureScript ''c'' ''l'' 100 3 900)]" if "5 \<le> s" "s \<le> 105" for s
    using that by (simp add: lockout_history_def only_writer_def)
  show ?thesis
    using lockout_at_threshold [OF _ _ _ _ _ _ h [of 10] h [of 50] _ refl refl, of "\<lambda>_. None" 20]
    by (simp add: r_get_def count_calls_def)
qed

text \<open>
  C34. The request log does not reveal secrets: whatever the body, what is logged of it is empty, or
  the marker of a body that is not JSON, or a JSON text in which every value under a key that names
  a password, token, secret or e-mail address is replaced, at any depth, also after shortening.
\<close>

theorem logged_body_redacted:
  assumes "codec_ok C" "length body < 2 ^ 63"
  shows "safe_text C (truncateBodyForLog C (redactBodyForLog C body))"
  using log_body_safe [OF assms] by (simp add: log_body_def)

theorem logged_body_redacted_witness:
  "safe_text demo_codec (truncateBodyForLog demo_codec (redactBodyForLog demo_codec ''12''))"
  by (rule logged_body_redacted) (simp_all add: demo_codec_ok)

text \<open>
  C35. A mail to a validated address reads as it was meant: a receiver that splits the message into its
  header lines and its body finds the sender, exactly that recipient, the subject, and the body with
  the token. No address can add a header.
\<close>

theorem mail_reads_back:
  assumes "no_cr sender" "ValidateEmail (m_to m) = None"
  shows "header_lines (message_of sender m) = Some
    ([''From: '' @ sender, ''To: '' @ m_to m, ''Subject: '' @ BEncoding (mail_subject (m_kind m)),
      ''MIME-Version: 1.0'', ''Content-Type: text/plain; charset=UTF-8'', ''Content-Transfer-Encoding: 8bit''],
     mail_body (m_kind m) (m_token m))"
  using assms by (rule message_read)

theorem mail_reads_back_witness:
  "snd (the (header_lines (message_of ''no-reply@example.com''
     \<lparr>m_kind = ConfirmationMail, m_to = ''user@example.com'', m_token = ''c''\<rparr>))) = mail_body ConfirmationMail ''c''"
proof -
  have "ValidateEmail ''user@example.com'' = None" "no_cr ''no-reply@example.com''" by code_simp+
  then show ?thesis by (subst mail_reads_back) simp_all
qed

section \<open>The client and the server\<close>

text \<open>
  C36. A login through the generated client, over a network that delivers, reaches the handler and comes
  back: the typed response has status 200 and the tokens of the session that was opened.
\<close>

theorem client_login_opens_session:
  assumes "echo_ok E" "finds_routes E" "binds_json L E C" "codec_reads C" "signs_text X"
    and "NewClient L server [WithHTTPClient (over_wire E C debug X (main_deps X env) ip)] = Inr c" "serves_at L (cl_Server c) s"
    and "quiet w" "fresh_draws X w" "ValidateEmail email = None" "email_json L email = Inr (JStr email)"
    and "valid_utf8 email" "valid_utf8 password"
    and "r_pttl (ms_of (w_now w)) (lockKey X LoginLockout email) (w_redis w) = -2"
    and "GetUserByEmail email (w_db w) = Inr u" "VerifyPassword X (u_PasswordHash u) password"
    and "u_Status u = StatusInactive"
  shows "wp (LoginWithResponse L C c \<lparr>lr_Email = email, lr_Password = password\<rparr> [])
    (\<lambda>r w'. \<exists>tr tokens. r = Inr tr \<and> LoginResponse_StatusCode tr = 200 \<and> tr_JSON200 tr = Some tokens \<and>
       live_session X (lt_RefreshToken tokens) (u_UserUuid u) (w_now w + RefreshTokenTTL) (w_db w')) w"
  using assms by (rule client_login)

theorem client_login_opens_session_witness:
  "wp (LoginWithResponse demo_lib demo_codec demo_client \<lparr>lr_Email = ''user@example.com'', lr_Password = demo_password\<rparr> [])
    (\<lambda>r w'. \<exists>tr tokens. r = Inr tr \<and> LoginResponse_StatusCode tr = 200 \<and> tr_JSON200 tr = Some tokens \<and>
       live_session demo_ext (lt_RefreshToken tokens) 1 (1 + RefreshTokenTTL) (w_db w')) demo_world"
proof -
  have "ValidateEmail ''user@example.com'' = None" by code_simp
  moreover have "valid_utf8 ''user@example.com''" "valid_utf8 demo_password"
    by (simp_all add: valid_utf8_ascii_Cons demo_password_def)
  moreover have "email_json demo_lib ''user@example.com'' = Inr (JStr ''user@example.com'')" by (simp add: demo_lib_def)
  ultimately show ?thesis
    by (intro wp_mono [OF client_login_opens_session [OF wire_echo_ok demo_codec_reads demo_signs_text demo_new_client demo_serves,
            where u = "demo_user 1 ''user@example.com'' StatusInactive"]])
      (simp_all add: demo_quiet demo_fresh_draws r_pttl_def r_get_def demo_lookup demo_verify)
qed

text \<open>
  C37. Every error of a use case reaches the client. A request is served as a whole, through all the
  middlewares; if its route ends with the error that the handler of the operation makes of an error of its use
  case, the server answers with the status of that error. The status is one that the API declares for the
  operation, and the typed response the client gets has exactly that problem, with detail, error code, waiting
  time and reason, in the field of its status. There are two exceptions, of which the client sees the status
  only, unless the API declares it: internal errors are answered with 500, and an error that says that
  the deadline of the request is exceeded is turned into 503 by the middleware for time-outs.
\<close>

theorem errors_reach_the_client:
  assumes "echo_ok E" "times_out E" "codec_reads C" "err_ok err" "valid_utf8 (rq_uri rq)"
    and "\<And>c rs n. cx_request c = rq \<Longrightarrow> \<not> rs_committed rs \<Longrightarrow> w_draws w \<le> n \<Longrightarrow>
      wp (dispatch E X D c rs) (\<lambda>r w'. fst r = Some (error_of op err) \<and> \<not> rs_committed (snd r)) (w\<lparr>w_draws := n\<rparr>)"
  shows "wp (serve E C debug X D rq) (\<lambda>rs w'.
    (if timeout_error (error_of op err) then rs_status rs = 503
     else rs_status rs = StatusFromError (Some (error_of op err)) \<and> (rs_status rs = 500 \<or> rs_status rs \<in> set (declared op))) \<and>
    problems_of op L C (delivered C rs) = Inr (if rs_status rs \<in> set (declared op)
      then only (rs_status rs) (client_problem ((problem_of (answered_error (error_of op err)))\<lparr>p_Instance := rq_uri rq\<rparr>))
      else (\<lambda>_. None))) w"
proof (rule wp_mono)
  show "wp (serve E C debug X D rq) (\<lambda>rs w'. \<exists>rs0.
      rs = problem_response ((problem_of (answered_error (error_of op err)))\<lparr>p_Instance := rq_uri rq\<rparr>) rs0) w"
    by (rule serve_failure [OF assms(1,2)]) (rule assms(6))
qed (elim exE, rule client_reads_error [OF assms(3-5) refl])

theorem errors_reach_the_client_witness:
  "wp (serve demo_echo demo_codec False demo_ext demo_main demo_login)
    (\<lambda>rs w'. rs_status rs = 400 \<and> (\<exists>p. problems_of Op_Login demo_lib demo_codec (delivered demo_codec rs) = Inr (only 400 p) \<and>
       cpr_Detail p = Some DetailEmailFormat \<and> cpr_Instance p = Some ''/auth/login'')) demo_world \<and>
   wp (serve demo_echo demo_codec False demo_ext demo_main demo_login_user)
    (\<lambda>rs w'. rs_status rs = 503 \<and> problems_of Op_Login demo_lib demo_codec (delivered demo_codec rs) = Inr (\<lambda>_. None)) demo_late"
proof -
  have uri: "valid_utf8 (rq_uri demo_login)" "valid_utf8 (rq_uri demo_login_user)" "rq_uri demo_login = ''/auth/login''"
    by (simp_all add: demo_login_user_def demo_login_def demo_request_def valid_utf8_ascii_Cons)
  note fails = errors_reach_the_client [where op = Op_Login and L = demo_lib, OF demo_echo_ok demo_times_out demo_codec_reads]
  have "wp (serve demo_echo demo_codec False demo_ext demo_main demo_login)
      (\<lambda>rs w'. rs_status rs = 400 \<and> (\<exists>p. problems_of Op_Login demo_lib demo_codec (delivered demo_codec rs) = Inr (only 400 p) \<and>
         cpr_Detail p = Some DetailEmailFormat \<and> cpr_Instance p = Some ''/auth/login'')) demo_world"
    by (rule wp_mono [OF fails [OF demo_errs_ok(1) uri(1) demo_login_invalid]])
      (auto simp: login_error_def NewProblemError_def problem_of_def client_problem_def present_def timeout_error_def
        answered_error_def uri(3) DetailEmailFormat_def bytes_def split: if_splits)
  moreover have "wp (serve demo_echo demo_codec False demo_ext demo_main demo_login_user)
      (\<lambda>rs w'. rs_status rs = 503 \<and> problems_of Op_Login demo_lib demo_codec (delivered demo_codec rs) = Inr (\<lambda>_. None)) demo_late"
    by (rule wp_mono [OF fails [OF demo_errs_ok(2) uri(2) demo_login_late]]) (auto simp: login_error_def timeout_error_def)
  ultimately show ?thesis ..
qed

text \<open>
  C38. What the server answers to an error is what its API declares: an error of a use case that has a
  problem of its own is answered with the status, the headers and the members of the response type that
  \<open>openapi.yaml\<close> gives the operation for that status (and there is one); \<open>Retry-After\<close> is set for status 429
  and for no other. Only the challenge of a 401 is not set here, it comes from the check of the token.
\<close>

theorem errors_as_declared:
  assumes "error_of op err = ProblemError p" "\<not> rs_committed rs"
  shows "\<exists>visit.
    declared_response op (p_Status p) (api_problem (p\<lparr>p_Instance := rq_uri (cx_request c)\<rparr>)) challenge
      (case p_RetryAfter p of None \<Rightarrow> 0 | Some n \<Rightarrow> n) = Some visit \<and>
    wp (ProblemErrorHandler (error_of op err) c rs) (\<lambda>rs' w'. rs_status rs' = rs_status (visit rs) \<and>
      rs_committed rs' = rs_committed (visit rs) \<and>
      same_members (the (rs_body (visit rs))) (the (rs_body rs')) \<and>
      (\<forall>h. h \<noteq> ''WWW-Authenticate'' \<longrightarrow> header_get (rs_headers rs') h = header_get (rs_headers (visit rs)) h)) w"
  by (rule error_as_declared [OF assms, of c challenge]) blast

theorem errors_as_declared_witness:
  "wp (ProblemErrorHandler (login_error (LockedError (90 * Second + 1)))
      \<lparr>cx_request = demo_login, cx_claims = None, cx_client_ip = '''', cx_request_id = ''''\<rparr>
      \<lparr>rs_committed = False, rs_status = 200, rs_headers = [], rs_body = None\<rparr>)
    (\<lambda>rs' w'. rs_status rs' = 429 \<and> header_get (rs_headers rs') ''Retry-After'' = ''91'') demo_world"
proof -
  let ?p = "\<lparr>p_Type = ProblemTypeBase @ ''account-locked'', p_Title = StatusText 429, p_Status = 429, p_Detail = DetailLocked,
    p_Instance = '''', p_RetryAfter = Some 91, p_ErrorCode = ''account_locked'', p_RevocationReason = ''''\<rparr>"
  have "ceil_seconds (90 * Second + 1) = 91" "int_text 91 = ''91''" by code_simp+
  then have p: "error_of Op_Login (LockedError (90 * Second + 1)) = ProblemError ?p" "int_text 91 = ''91''"
    by (simp_all add: login_error_def NewProblemError_def)
  show ?thesis
    using errors_as_declared [OF p(1), of "\<lparr>rs_committed = False, rs_status = 200, rs_headers = [], rs_body = None\<rparr>"
        "\<lparr>cx_request = demo_login, cx_claims = None, cx_client_ip = '''', cx_request_id = ''''\<rparr>" "''''" demo_world]
    by (auto simp: visit_problem_headers p(2) elim!: wp_mono)
qed

section \<open>Starting and stopping\<close>

text \<open>
  C39. The program starts its server exactly when it is ready: the database and Redis have answered, the
  signing key has been read and the schema migrated, all before; on the configured port, with the routes
  of the API on that key, and nothing listens before. It listens exactly when it has started the server and
  that could open the port (it was free, and no signal had shut the server down). Every start
  ends with exit code 0 or 1: with 0 when the server was closed in order,
  after which the connections are closed, with 1 otherwise, and then the last thing done was to log why.
\<close>

theorem service_starts_when_ready:
  assumes "main_auth E M = (evs, code)"
  shows "((\<exists>port routes. CalledStart port routes \<in> set evs) \<longleftrightarrow> ready M) \<and>
    (\<forall>port routes. CalledStart port routes \<in> set evs \<longrightarrow> started E M evs port routes) \<and>
    (\<forall>port. Listening port \<in> set evs \<longleftrightarrow> ready M \<and> port = getenv_or M ''AUTH_PORT'' ''8081'' \<and> mc_listens M port) \<and>
    (code = 0 \<longleftrightarrow> ready M \<and> snd (Run M (getenv_or M ''AUTH_PORT'' ''8081'') []) = None) \<and>
    (code = 0 \<longrightarrow> (\<exists>a. evs = a @ [ClosedRedis, ClosedPool])) \<and>
    (code \<noteq> 0 \<longrightarrow> code = 1 \<and> (\<exists>msg attrs. last evs = LogLine Error msg attrs))"
  using assms by (rule main_auth_started)

theorem service_starts_when_ready_witness:
  "ready demo_machine \<and> snd (main_auth demo_echo demo_machine) = 0 \<and>
     Listening ''8081'' \<in> set (fst (main_auth demo_echo demo_machine)) \<and>
     (\<forall>port. Listening port \<notin> set (fst (main_auth demo_echo (demo_machine\<lparr>mc_listens := (\<lambda>_. False)\<rparr>))))"
  using service_starts_when_ready [of demo_echo demo_machine]
    service_starts_when_ready [of demo_echo "demo_machine\<lparr>mc_listens := (\<lambda>_. False)\<rparr>"] demo_ready demo_runs demo_port
  by (cases "main_auth demo_echo demo_machine"; cases "main_auth demo_echo (demo_machine\<lparr>mc_listens := (\<lambda>_. False)\<rparr>)") auto

text \<open>
  C40. The service stops only when it is told to: \<open>Run\<close> returns without error only after a signal, when the
  port is closed, and from the moment the shutdown has begun no further request is accepted. But the
  requests being served are not waited for: \<open>Run\<close>, and with it \<open>main\<close>, may return while any number of them
  is unanswered.
\<close>

theorem run_stops_on_signal:
  assumes "run_step\<^sup>*\<^sup>* run_start s"
  shows "(sv_main s = Returned None \<longrightarrow> sv_cancelled s \<and> \<not> sv_listening s) \<and>
    (\<forall>s'. sv_watch s \<noteq> Waiting \<and> run_step\<^sup>*\<^sup>* s s' \<longrightarrow> sv_inflight s' \<le> sv_inflight s) \<and>
    (\<exists>s'. run_step\<^sup>*\<^sup>* run_start s' \<and> sv_main s' = Returned None \<and> sv_inflight s' = n)"
proof (intro conjI)
  show "\<exists>s'. run_step\<^sup>*\<^sup>* run_start s' \<and> sv_main s' = Returned None \<and> sv_inflight s' = n"
    using shutdown_not_awaited [of n] by force
qed (use run_inv_reachable [OF assms] draining in \<open>auto simp: run_inv_def\<close>)

theorem run_stops_on_signal_witness:
  "\<not> sv_listening \<lparr>sv_main = Returned None, sv_watch = ShuttingDown, sv_listening = False, sv_inflight = 3, sv_cancelled = True\<rparr> \<and>
   (\<exists>s'. run_step\<^sup>*\<^sup>* run_start s' \<and> sv_main s' = Returned None \<and> sv_inflight s' = 5)"
  using run_stops_on_signal [OF shutdown_not_awaited [of 3], of 5] by simp

end
